(* ===== verification/Prelude.thy ===== *)
theory Prelude
  imports Main "HOL-Library.Char_ord" "HOL-Library.List_Lexorder" "HOL-Library.Sublist"
begin

text \<open>
  Shared ground of the development: the parts of the JavaScript standard library that the
  console's source uses on strings and arrays, with the lemmas the components share.

  A JavaScript string is modelled by the list of the bytes of its UTF-8 encoding (a HOL
  \<open>string\<close>; HOL characters are bytes).  All string operations of the source look for ASCII
  text or for whole code points, so they commute with the encoding; lone surrogates, which
  have no encoding, are outside the model.  An optional property \<open>p?: T\<close> is a \<open>T option\<close>
  where \<open>None\<close> stands for \<open>undefined\<close> (and for \<open>null\<close>, which the source never tells apart
  from it: it only uses \<open>??\<close>, \<open>||\<close>, \<open>?.\<close> and \<open>== null\<close>).
\<close>

named_theorems js_simps \<open>defining equations of the string and array operations\<close>

type_synonym key = string

section \<open>Truthiness and defaulting\<close>

text \<open>\<open>a || b\<close> on strings: the empty string is falsy.\<close>

definition or_str :: "string \<Rightarrow> string \<Rightarrow> string" where
  "or_str a b = (if a = [] then b else a)"

text \<open>\<open>a ?? b\<close>: the default replaces \<open>undefined\<close> and \<open>null\<close> only.\<close>

fun nullish :: "'a option \<Rightarrow> 'a \<Rightarrow> 'a" where
  "nullish None b = b"
| "nullish (Some a) b = a"

text \<open>\<open>a || b\<close> where \<open>a\<close> may be \<open>undefined\<close>.\<close>

definition or_opt :: "string option \<Rightarrow> string \<Rightarrow> string" where
  "or_opt a b = or_str (nullish a []) b"

text \<open>The truthiness of an optional string (\<open>p._backend ? ... : ...\<close>).\<close>

definition truthy :: "string option \<Rightarrow> bool" where
  "truthy a \<longleftrightarrow> nullish a [] \<noteq> []"

lemma truthy_iff: "truthy a \<longleftrightarrow> (\<exists>s. a = Some s \<and> s \<noteq> [])"
  by (cases a) (auto simp: truthy_def)

lemma or_str_simps [simp]: "or_str [] b = b" "a \<noteq> [] \<Longrightarrow> or_str a b = a"
  by (auto simp: or_str_def)

lemma or_opt_truthy: "truthy a \<Longrightarrow> or_opt a b = nullish a []"
  by (simp add: or_opt_def truthy_def)

text \<open>\<open>toLowerCase\<close> and \<open>toUpperCase\<close> on the ASCII texts the source applies them to.\<close>

definition lower :: "string \<Rightarrow> string" where
  "lower s = map (\<lambda>c. if 65 \<le> (of_char c :: nat) \<and> (of_char c :: nat) \<le> 90
                      then char_of ((of_char c :: nat) + 32) else c) s"

definition upper :: "string \<Rightarrow> string" where
  "upper s = map (\<lambda>c. if 97 \<le> (of_char c :: nat) \<and> (of_char c :: nat) \<le> 122
                      then char_of ((of_char c :: nat) - 32) else c) s"

section \<open>Searching and splitting strings\<close>

text \<open>\<open>s.startsWith(p)\<close> is the library's \<^const>\<open>prefix\<close>; \<open>s.includes(p)\<close>:\<close>

fun str_includes :: "string \<Rightarrow> string \<Rightarrow> bool" where
  "str_includes [] p = (p = [])"
| "str_includes (c # s) p = (prefix p (c # s) \<or> str_includes s p)"

lemma str_includes_iff: "str_includes s p \<longleftrightarrow> (\<exists>u v. s = u @ p @ v)"
proof (induction s)
  case Nil
  show ?case by auto
next
  case (Cons c s)
  show ?case
  proof
    assume "str_includes (c # s) p"
    then consider "prefix p (c # s)" | "str_includes s p" by auto
    then show "\<exists>u v. c # s = u @ p @ v"
    proof cases
      case 1
      then show ?thesis by (metis append_Nil prefixE)
    next
      case 2
      with Cons.IH obtain u v where "s = u @ p @ v" by blast
      then have "c # s = (c # u) @ p @ v" by simp
      then show ?thesis by blast
    qed
  next
    assume "\<exists>u v. c # s = u @ p @ v"
    then obtain u v where uv: "c # s = u @ p @ v" by blast
    show "str_includes (c # s) p"
    proof (cases u)
      case Nil
      with uv have "prefix p (c # s)" by simp
      then show ?thesis by simp
    next
      case (Cons d u')
      with uv have "s = u' @ p @ v" by simp
      with Cons.IH show ?thesis by auto
    qed
  qed
qed

lemma str_includes_char [simp]: "str_includes s [c] \<longleftrightarrow> c \<in> set s"
  by (auto simp: str_includes_iff in_set_conv_decomp)

text \<open>\<open>s.split(c)\<close> for a one-character separator: never the empty list.\<close>

fun split_on :: "char \<Rightarrow> string \<Rightarrow> string list" where
  "split_on c [] = [[]]"
| "split_on c (d # s) =
     (if d = c then [] # split_on c s
      else case split_on c s of [] \<Rightarrow> [[d]] | w # ws \<Rightarrow> (d # w) # ws)"

text \<open>\<open>xs.join(sep)\<close>.\<close>

fun join :: "string \<Rightarrow> string list \<Rightarrow> string" where
  "join sep [] = []"
| "join sep [x] = x"
| "join sep (x # y # xs) = x @ sep @ join sep (y # xs)"

lemma split_on_nonempty [simp]: "split_on c s \<noteq> []"
  by (induction s) (auto split: list.splits)

lemma split_on_Cons_other:
  "d \<noteq> c \<Longrightarrow> split_on c (d # s) = (d # hd (split_on c s)) # tl (split_on c s)"
  by (cases "split_on c s") auto

lemma split_on_no_sep: "c \<notin> set s \<Longrightarrow> split_on c s = [s]"
  by (induction s) auto

lemma split_on_append:
  "c \<notin> set u \<Longrightarrow> split_on c (u @ c # s) = u # split_on c s"
  by (induction u) auto

lemma split_on_join: "split_on c (u @ c # s) = split_on c u @ split_on c s"
  by (induction u) (auto split: list.splits)

lemma split_on_free: "w \<in> set (split_on c s) \<Longrightarrow> c \<notin> set w"
  by (induction s arbitrary: w) (auto split: list.splits if_splits)

lemma join_split_on: "join [c] (split_on c s) = s"
proof (induction s)
  case (Cons d s)
  show ?case
  proof (cases "d = c")
    case True
    with Cons.IH show ?thesis by (cases "split_on c s") auto
  next
    case False
    obtain w ws where "split_on c s = w # ws" by (cases "split_on c s") auto
    with False Cons.IH show ?thesis by (cases ws) auto
  qed
qed simp

lemma set_join: "set (join sep xs) \<subseteq> set sep \<union> \<Union> (set ` set xs)"
  by (induction xs rule: induct_list012) auto

text \<open>Splitting a comma-and-blank separated list gives the parts, blanks still attached.\<close>

lemma split_on_join_blank:
  assumes "xs \<noteq> []" "\<forall>x \<in> set xs. c \<notin> set x" "c \<notin> set b"
  shows "split_on c (join (c # b) xs) = hd xs # map (\<lambda>x. b @ x) (tl xs)"
  using assms
proof (induction xs rule: induct_list012)
  case (2 x)
  then show ?case by (simp add: split_on_no_sep)
next
  case (3 x y zs)
  have yzs: "split_on c (b @ join (c # b) (y # zs)) = (b @ y) # map (\<lambda>x. b @ x) zs"
  proof -
    have "split_on c (b @ s) = (b @ hd (split_on c s)) # tl (split_on c s)" if "c \<notin> set b" for s
      using that
    proof (induction b)
      case (Cons d b)
      then show ?case by (auto simp: split_on_Cons_other)
    qed simp
    with "3.prems" "3.IH" show ?thesis by simp
  qed
  with "3.prems" show ?case by (simp add: split_on_append)
qed simp

section \<open>Replacing\<close>

text \<open>The first occurrence of a text: what is before it and what is after it.\<close>

fun find_sub :: "string \<Rightarrow> string \<Rightarrow> (string \<times> string) option" where
  "find_sub pat [] = (if pat = [] then Some ([], []) else None)"
| "find_sub pat (c # s) =
     (if prefix pat (c # s) then Some ([], drop (length pat) (c # s))
      else map_option (\<lambda>(b, a). (c # b, a)) (find_sub pat s))"

text \<open>
  The replacement text of \<open>replace\<close> is a template: \<open>$$\<close>, \<open>$&\<close>, \<open>$`\<close> and \<open>$'\<close> stand for a dollar
  sign, the match, the text before it and the text after it.
\<close>

fun expand :: "string \<Rightarrow> string \<Rightarrow> string \<Rightarrow> string \<Rightarrow> string" where
  "expand m b a (c # d # r) =
     (if c \<noteq> CHR ''$'' then c # expand m b a (d # r)
      else if d = CHR ''$'' then CHR ''$'' # expand m b a r
      else if d = CHR ''&'' then m @ expand m b a r
      else if d = CHR 0x60 then b @ expand m b a r
      else if d = CHR 0x27 then a @ expand m b a r
      else c # expand m b a (d # r))"
| "expand m b a r = r"

text \<open>\<open>s.replace(pat, r)\<close> for a string \<open>pat\<close>: the first occurrence.\<close>

definition replace_first :: "string \<Rightarrow> string \<Rightarrow> string \<Rightarrow> string" where
  "replace_first pat r s = (case find_sub pat s of None \<Rightarrow> s
     | Some (b, a) \<Rightarrow> b @ expand pat b a r @ a)"

text \<open>\<open>s.replace(re, r)\<close> for a global expression that matches the text \<open>pat\<close>; \<open>done\<close> is what
  has been passed already.\<close>

lemma find_sub_Some: "find_sub pat s = Some (b, a) \<Longrightarrow> s = b @ pat @ a"
proof (induction s arbitrary: b)
  case (Cons c s)
  then show ?case by (auto split: if_splits simp: prefix_def)
qed (auto split: if_splits)

function replace_from :: "string \<Rightarrow> string \<Rightarrow> string \<Rightarrow> string \<Rightarrow> string" where
  "replace_from pat r passed s = (if pat = [] then s else case find_sub pat s of None \<Rightarrow> s
     | Some (b, a) \<Rightarrow> b @ expand pat (passed @ b) a r @ replace_from pat r (passed @ b @ pat) a)"
  by pat_completeness auto
termination
  by (relation "measure (\<lambda>(pat, r, passed, s). length s)") (auto dest!: find_sub_Some)

declare replace_from.simps [simp del]

definition replace_all :: "string \<Rightarrow> string \<Rightarrow> string \<Rightarrow> string" where
  "replace_all pat r s = replace_from pat r [] s"

lemma expand_plain: "CHR ''$'' \<notin> set r \<Longrightarrow> expand m b a r = r"
  by (induction r rule: induct_list012) auto

lemma find_sub_None: "find_sub pat s = None \<Longrightarrow> \<not> str_includes s pat"
  by (induction s) (auto split: if_splits)

lemma find_sub_first:
  "pat \<noteq> [] \<Longrightarrow> hd pat \<notin> set b \<Longrightarrow> find_sub pat (b @ pat @ a) = Some (b, a)"
proof (induction b)
  case Nil
  then show ?case by (cases pat) auto
next
  case (Cons c b)
  then have "\<not> prefix pat (c # b @ pat @ a)" by (cases pat) auto
  with Cons show ?case by simp
qed

lemma replace_all_absent: "find_sub pat s = None \<Longrightarrow> replace_all pat r s = s"
  by (simp add: replace_all_def replace_from.simps [of pat r "[]"])

section \<open>Trimming\<close>

text \<open>
  The white space and line terminators that \<open>trim\<close> strips, in UTF-8: the ASCII blanks,
  U+00A0, U+1680, U+2000 to U+200A, U+2028, U+2029, U+202F, U+205F, U+3000 and U+FEFF.
\<close>

definition white_space :: "string list" where
  "white_space =
     [[CHR 0x09], [CHR 0x0A], [CHR 0x0B], [CHR 0x0C], [CHR 0x0D], [CHR 0x20],
      [CHR 0xC2, CHR 0xA0], [CHR 0xE1, CHR 0x9A, CHR 0x80],
      [CHR 0xE2, CHR 0x80, CHR 0x80], [CHR 0xE2, CHR 0x80, CHR 0x81],
      [CHR 0xE2, CHR 0x80, CHR 0x82], [CHR 0xE2, CHR 0x80, CHR 0x83],
      [CHR 0xE2, CHR 0x80, CHR 0x84], [CHR 0xE2, CHR 0x80, CHR 0x85],
      [CHR 0xE2, CHR 0x80, CHR 0x86], [CHR 0xE2, CHR 0x80, CHR 0x87],
      [CHR 0xE2, CHR 0x80, CHR 0x88], [CHR 0xE2, CHR 0x80, CHR 0x89],
      [CHR 0xE2, CHR 0x80, CHR 0x8A], [CHR 0xE2, CHR 0x80, CHR 0xA8],
      [CHR 0xE2, CHR 0x80, CHR 0xA9], [CHR 0xE2, CHR 0x80, CHR 0xAF],
      [CHR 0xE2, CHR 0x81, CHR 0x9F], [CHR 0xE3, CHR 0x80, CHR 0x80],
      [CHR 0xEF, CHR 0xBB, CHR 0xBF]]"

text \<open>Drop one of the given byte sequences from the front, while there is one.\<close>

function strip :: "string list \<Rightarrow> string \<Rightarrow> string" where
  "strip ws s = (case find (\<lambda>w. w \<noteq> [] \<and> prefix w s) ws of
     None \<Rightarrow> s | Some w \<Rightarrow> strip ws (drop (length w) s))"
  by pat_completeness auto
termination
  by (relation "measure (\<lambda>(ws, s). length s)")
     (auto simp: find_Some_iff prefix_def)

declare strip.simps [simp del]

definition trim :: "string \<Rightarrow> string" where
  "trim s = rev (strip (map rev white_space) (rev (strip white_space s)))"

lemma strip_clean: "find (\<lambda>w. w \<noteq> [] \<and> prefix w s) ws = None \<Longrightarrow> strip ws s = s"
  by (simp add: strip.simps [of ws s])

lemma strip_none: "find (\<lambda>w. w \<noteq> [] \<and> prefix w (strip ws s)) ws = None"
proof (induction ws s rule: strip.induct)
  case (1 ws s)
  show ?case
  proof (cases "find (\<lambda>w. w \<noteq> [] \<and> prefix w s) ws")
    case None
    then show ?thesis by (simp add: strip_clean)
  next
    case (Some w)
    with "1.IH" [OF Some] show ?thesis by (simp add: strip.simps [of ws s])
  qed
qed

lemma strip_suffix: "suffix (strip ws s) s"
proof (induction ws s rule: strip.induct)
  case (1 ws s)
  show ?case
  proof (cases "find (\<lambda>w. w \<noteq> [] \<and> prefix w s) ws")
    case None
    then show ?thesis by (simp add: strip_clean)
  next
    case (Some w)
    with "1.IH" [OF Some] show ?thesis
      by (simp add: strip.simps [of ws s]) (meson suffix_drop suffix_order.trans)
  qed
qed

lemma trim_Nil [simp]: "trim [] = []"
  by (simp add: trim_def strip_clean find_None_iff)

lemma trim_subset: "set (trim w) \<subseteq> set w"
proof -
  have strip: "set (strip ws x) \<subseteq> set x" for ws and x :: string
    using strip_suffix set_mono_suffix by blast
  have "set (trim w) \<subseteq> set (rev (strip white_space w))"
    unfolding trim_def set_rev [of "strip (map rev white_space) (rev (strip white_space w))"] by (rule strip)
  then show ?thesis using strip [of white_space w] by auto
qed

text \<open>A string that neither starts nor ends with a white-space sequence is left alone.\<close>

definition trimmed :: "string \<Rightarrow> bool" where
  "trimmed s \<longleftrightarrow> (\<forall>w \<in> set white_space. \<not> prefix w s \<and> \<not> suffix w s)"

lemma trim_trimmed: "trimmed s \<Longrightarrow> trim s = s"
  by (auto simp: trim_def trimmed_def strip_clean find_None_iff suffix_to_prefix)

lemma white_space_nonempty: "w \<in> set white_space \<Longrightarrow> w \<noteq> []"
  by (auto simp: white_space_def)

lemma trimmed_trim: "trimmed (trim s)"
proof -
  let ?l = "strip white_space s"
  have pre: "prefix (trim s) ?l"
    by (metis trim_def strip_suffix rev_rev_ident suffix_to_prefix)
  have no_pre: "\<not> prefix w ?l" if "w \<in> set white_space" for w
    using strip_none [of white_space s] that white_space_nonempty
    by (auto simp: find_None_iff)
  have no_suf: "\<not> suffix w (trim s)" if "w \<in> set white_space" for w
    using strip_none [of "map rev white_space" "rev ?l"] that white_space_nonempty
    by (auto simp: find_None_iff trim_def suffix_to_prefix)
  show ?thesis
    using no_pre no_suf pre by (meson trimmed_def prefix_order.trans)
qed

lemma trim_idem [simp]: "trim (trim s) = trim s"
  by (rule trim_trimmed [OF trimmed_trim])

text \<open>The visible ASCII characters neither start nor end a white-space sequence.\<close>

definition graphic :: "char \<Rightarrow> bool" where
  "graphic c \<longleftrightarrow> 0x21 \<le> (of_char c :: nat) \<and> (of_char c :: nat) \<le> 0x7E"

lemma white_space_ends: "w \<in> set white_space \<Longrightarrow> \<not> graphic (hd w) \<and> \<not> graphic (last w)"
  by (auto simp: white_space_def graphic_def)

lemma trimmed_graphic:
  assumes "s \<noteq> []" "graphic (hd s)" "graphic (last s)"
  shows "trimmed s"
proof -
  have "hd w = hd s" if "prefix w s" "w \<noteq> []" for w
    using that by (auto simp: prefix_def)
  moreover have "last w = last s" if "suffix w s" "w \<noteq> []" for w
    using that by (auto simp: suffix_def)
  ultimately show ?thesis
    unfolding trimmed_def by (metis assms(2,3) white_space_ends white_space_nonempty)
qed

lemma trim_blank: "trimmed s \<Longrightarrow> s \<noteq> [] \<Longrightarrow> trim (CHR 0x20 # s) = s"
proof -
  assume s: "trimmed s" "s \<noteq> []"
  have "find (\<lambda>w. w \<noteq> [] \<and> prefix w (CHR 0x20 # s)) white_space = Some [CHR 0x20]"
    by (simp add: white_space_def)
  then have "strip white_space (CHR 0x20 # s) = strip white_space s"
    by (simp add: strip.simps [of white_space "CHR 0x20 # s"])
  then show ?thesis using trim_trimmed [OF s(1)] by (simp add: trim_def)
qed

section \<open>Arrays\<close>

text \<open>\<open>[...new Set(xs)]\<close>: the first of equal elements stays, in order.\<close>

fun nub :: "'a list \<Rightarrow> 'a list" where
  "nub [] = []"
| "nub (x # xs) = x # filter (\<lambda>y. y \<noteq> x) (nub xs)"

lemma set_nub [simp]: "set (nub xs) = set xs"
  by (induction xs) auto

lemma distinct_nub [simp]: "distinct (nub xs)"
  by (induction xs) auto

text \<open>\<open>xs.slice(-n)\<close> for \<open>n > 0\<close>: the last \<open>n\<close> elements.\<close>

definition slice_last :: "nat \<Rightarrow> 'a list \<Rightarrow> 'a list" where
  "slice_last n xs = drop (length xs - n) xs"

lemma length_slice_last [simp]: "length (slice_last n xs) = min n (length xs)"
  by (simp add: slice_last_def)

lemma slice_last_all: "length xs \<le> n \<Longrightarrow> slice_last n xs = xs"
  by (simp add: slice_last_def)

lemma slice_last_snoc: "0 < n \<Longrightarrow> slice_last n (xs @ [x]) = slice_last (n - 1) xs @ [x]"
  by (cases n) (auto simp: slice_last_def Suc_diff_le not_less)

lemma slice_last_suffix: "suffix (slice_last n xs) xs"
  by (simp add: slice_last_def suffix_drop)

text \<open>\<open>xs.slice(lo, hi)\<close>: a negative bound counts from the end.\<close>

definition slice_bound :: "int \<Rightarrow> nat \<Rightarrow> nat" where
  "slice_bound i n = (if i < 0 then nat (i + int n) else min (nat i) n)"

definition js_slice :: "int \<Rightarrow> int \<Rightarrow> 'a list \<Rightarrow> 'a list" where
  "js_slice lo hi xs = (let a = slice_bound lo (length xs); b = slice_bound hi (length xs)
     in take (b - a) (drop a xs))"

lemma js_slice_nonneg:
  "0 \<le> lo \<Longrightarrow> lo \<le> hi \<Longrightarrow> js_slice lo hi xs = take (nat (hi - lo)) (drop (nat lo) xs)"
  by (auto simp: js_slice_def slice_bound_def Let_def min_def nat_diff_distrib)

text \<open>\<open>xs.filter((_, i) => i !== index)\<close>.\<close>

definition remove_at :: "nat \<Rightarrow> 'a list \<Rightarrow> 'a list" where
  "remove_at i xs = take i xs @ drop (Suc i) xs"

lemma length_remove_at: "i < length xs \<Longrightarrow> length (remove_at i xs) = length xs - 1"
  by (simp add: remove_at_def)

lemma remove_at_ge: "length xs \<le> i \<Longrightarrow> remove_at i xs = xs"
  by (simp add: remove_at_def)

lemma set_remove_at: "set (remove_at i xs) \<subseteq> set xs"
  by (auto simp: remove_at_def dest: in_set_takeD in_set_dropD)

lemma remove_at_map: "remove_at i (map f xs) = map f (remove_at i xs)"
  by (simp add: remove_at_def take_map drop_map)

text \<open>\<open>xs.map((x, i) => i === index ? f(x) : x)\<close>.\<close>

definition update_at :: "nat \<Rightarrow> ('a \<Rightarrow> 'a) \<Rightarrow> 'a list \<Rightarrow> 'a list" where
  "update_at i f xs = (if i < length xs then xs[i := f (xs ! i)] else xs)"

lemma length_update_at [simp]: "length (update_at i f xs) = length xs"
  by (simp add: update_at_def)

lemma update_at_nth:
  "j < length xs \<Longrightarrow> update_at i f xs ! j = (if j = i then f (xs ! i) else xs ! j)"
  by (auto simp: update_at_def)

lemma list_ex_image: "list_ex (\<lambda>x. f x = y) xs \<longleftrightarrow> y \<in> f ` set xs"
  by (induction xs) auto

text \<open>\<open>xs.findIndex(p)\<close>, with \<open>None\<close> for -1.\<close>

fun find_index :: "('a \<Rightarrow> bool) \<Rightarrow> 'a list \<Rightarrow> nat option" where
  "find_index P [] = None"
| "find_index P (x # xs) = (if P x then Some 0 else map_option Suc (find_index P xs))"

lemma find_index_None: "find_index P xs = None \<longleftrightarrow> (\<forall>x \<in> set xs. \<not> P x)"
  by (induction xs) auto

lemma find_index_Some:
  "find_index P xs = Some i \<longleftrightarrow> i < length xs \<and> P (xs ! i) \<and> (\<forall>j < i. \<not> P (xs ! j))"
proof (induction xs arbitrary: i)
  case (Cons x xs)
  show ?case
  proof (cases i)
    case 0
    then show ?thesis by auto
  next
    case (Suc k)
    with Cons.IH [of k] show ?thesis by (auto simp: less_Suc_eq_0_disj)
  qed
qed simp

text \<open>An object used as a dictionary: an association list in insertion order.\<close>

type_synonym 'v obj = "(string \<times> 'v) list"

fun obj_set :: "string \<Rightarrow> 'v \<Rightarrow> 'v obj \<Rightarrow> 'v obj" where
  "obj_set k v [] = [(k, v)]"
| "obj_set k v ((k', v') # o') = (if k = k' then (k, v) # o' else (k', v') # obj_set k v o')"

lemma map_of_obj_set [simp]: "map_of (obj_set k v o') = (map_of o')(k \<mapsto> v)"
  by (induction o') auto

lemma keys_obj_set: "fst ` set (obj_set k v o') = insert k (fst ` set o')"
  by (induction k v o' rule: obj_set.induct) auto

lemma distinct_obj_set: "distinct (map fst o') \<Longrightarrow> distinct (map fst (obj_set k v o'))"
proof (induction o')
  case (Cons p o')
  then show ?case
    by (cases p) (simp add: keys_obj_set)
qed simp

lemmas [js_simps] = or_str_def or_opt_def truthy_def slice_last_def remove_at_def update_at_def

end
