(* ===== verification/Uri.thy ===== *)
theory Uri
  imports Prelude
begin

text \<open>
  \<open>encodeURIComponent\<close> on UTF-8 bytes, and the reader of a query string that serves as the
  specification of the functions that append a parameter to a path (\<open>clusterQ\<close>, \<open>backendQ\<close>
  and \<open>appendSourceBackend\<close>).  The locale \<open>query_appender\<close> is their contract: what the
  server reads back under the parameter's name is the value that was appended, and every
  other parameter is unchanged.
\<close>

section \<open>Percent encoding\<close>

definition unreserved :: "char \<Rightarrow> bool" where
  "unreserved c \<longleftrightarrow> (let v = (of_char c :: nat) in
     48 \<le> v \<and> v \<le> 57 \<or> 65 \<le> v \<and> v \<le> 90 \<or> 97 \<le> v \<and> v \<le> 122
     \<or> v \<in> {45, 95, 46, 33, 126, 42, 39, 40, 41})"

definition hex_char :: "nat \<Rightarrow> char" where
  "hex_char d = (if d < 10 then char_of (48 + d) else char_of (55 + d))"

definition hex_val :: "char \<Rightarrow> nat" where
  "hex_val c = (let v = (of_char c :: nat) in
     if v \<le> 57 then v - 48 else if v \<le> 70 then v - 55 else v - 87)"

definition encode_char :: "char \<Rightarrow> string" where
  "encode_char c = (if unreserved c then [c]
     else [CHR ''%'', hex_char (of_char c div 16), hex_char (of_char c mod 16)])"

definition encodeURIComponent :: "string \<Rightarrow> string" where
  "encodeURIComponent s = concat (map encode_char s)"

fun decode :: "string \<Rightarrow> string" where
  "decode (c # h # l # s) =
     (if c = CHR ''%'' then char_of (16 * hex_val h + hex_val l) # decode s
      else c # decode (h # l # s))"
| "decode s = s"

lemma high_nibble [simp]: "(of_char c :: nat) div 16 < 16"
  by (rule less_mult_imp_div_less) simp

lemma hex_val_hex_char [simp]: "d < 16 \<Longrightarrow> hex_val (hex_char d) = d"
  by (auto simp: hex_val_def hex_char_def Let_def)

lemma hex_char_unreserved [simp]: "d < 16 \<Longrightarrow> unreserved (hex_char d)"
  by (auto simp: hex_char_def unreserved_def Let_def)

lemma percent_reserved [simp]:
  "\<not> unreserved (CHR ''%'')" "\<not> unreserved (CHR ''&'')" "\<not> unreserved (CHR ''?'')"
  "\<not> unreserved (CHR ''='')" "\<not> unreserved (CHR ''/'')" "\<not> unreserved (CHR ''#'')"
  by (simp_all add: unreserved_def Let_def)

lemma encode_Nil [simp]: "encodeURIComponent [] = []"
  by (simp add: encodeURIComponent_def)

lemma encode_Cons: "encodeURIComponent (c # s) = encode_char c @ encodeURIComponent s"
  by (simp add: encodeURIComponent_def)

lemma decode_encode_char: "decode (encode_char c @ t) = c # decode t"
proof (cases "unreserved c")
  case True
  then have "c \<noteq> CHR ''%''" by auto
  then have "decode (c # t) = c # decode t" by (cases t rule: decode.cases) auto
  with True show ?thesis by (simp add: encode_char_def)
next
  case False
  with False show ?thesis by (simp add: encode_char_def)
qed

lemma decode_encode [simp]: "decode (encodeURIComponent s) = s"
  by (induction s) (auto simp: encode_Cons decode_encode_char)

lemma encode_inject: "encodeURIComponent s = encodeURIComponent t \<longleftrightarrow> s = t"
  by (metis decode_encode)

lemma encode_chars: "c \<in> set (encodeURIComponent s) \<Longrightarrow> unreserved c \<or> c = CHR ''%''"
proof (induction s)
  case (Cons d s)
  then show ?case by (auto simp: encode_Cons encode_char_def split: if_splits)
qed simp

lemma encode_no_delimiter:
  "CHR ''&'' \<notin> set (encodeURIComponent s)" "CHR ''?'' \<notin> set (encodeURIComponent s)"
  "CHR ''='' \<notin> set (encodeURIComponent s)" "CHR ''/'' \<notin> set (encodeURIComponent s)"
  "CHR ''#'' \<notin> set (encodeURIComponent s)"
  using encode_chars [of _ s] by fastforce+

section \<open>Reading a query string\<close>

definition query_of :: "string \<Rightarrow> string" where
  "query_of url = tl (dropWhile (\<lambda>c. c \<noteq> CHR ''?'') url)"

definition param_of :: "string \<Rightarrow> string \<times> string" where
  "param_of kv = (takeWhile (\<lambda>c. c \<noteq> CHR ''='') kv,
                  decode (tl (dropWhile (\<lambda>c. c \<noteq> CHR ''='') kv)))"

definition params :: "string \<Rightarrow> (string \<times> string) list" where
  "params url = map param_of (filter (\<lambda>kv. kv \<noteq> []) (split_on (CHR ''&'') (query_of url)))"

definition query_get :: "string \<Rightarrow> string \<Rightarrow> string option" where
  "query_get url name = map_of (params url) name"

text \<open>The path part, before the query.\<close>

definition path_of :: "string \<Rightarrow> string" where
  "path_of url = takeWhile (\<lambda>c. c \<noteq> CHR ''?'') url"

text \<open>\<open>const sep = path.includes("?") ? "&" : "?"; return `${path}${sep}name=${...}`\<close>\<close>

definition add_param :: "string \<Rightarrow> string \<Rightarrow> string \<Rightarrow> string" where
  "add_param url name v =
     (let sep = (if str_includes url ''?'' then ''&'' else ''?'')
      in url @ sep @ name @ ''='' @ encodeURIComponent v)"

lemma param_of_pair:
  "CHR ''='' \<notin> set name \<Longrightarrow> param_of (name @ CHR ''='' # encodeURIComponent v) = (name, v)"
proof -
  assume "CHR ''='' \<notin> set name"
  then have *: "\<And>c. c \<in> set name \<Longrightarrow> c \<noteq> CHR ''=''" by blast
  show ?thesis
    by (simp add: param_of_def takeWhile_append2 [OF *] dropWhile_append2 [OF *])
qed

lemma query_of_append:
  "CHR ''?'' \<in> set url \<Longrightarrow> query_of (url @ s) = query_of url @ s"
  "CHR ''?'' \<notin> set url \<Longrightarrow> query_of (url @ CHR ''?'' # s) = s"
  "CHR ''?'' \<notin> set url \<Longrightarrow> query_of url = []"
  by (induction url) (auto simp: query_of_def)

lemma path_of_append:
  "CHR ''?'' \<in> set url \<Longrightarrow> path_of (url @ s) = path_of url"
  "CHR ''?'' \<notin> set url \<Longrightarrow> path_of (url @ CHR ''?'' # s) = path_of url"
  by (induction url) (auto simp: path_of_def)

lemma no_query: "CHR ''?'' \<notin> set url \<Longrightarrow> query_get url k = None"
  by (simp add: query_get_def params_def query_of_append)

text \<open>A parameter name that is written as it stands.\<close>

definition plain_name :: "string \<Rightarrow> bool" where
  "plain_name name \<longleftrightarrow> name \<noteq> [] \<and> list_all unreserved name"

lemma plain_name_no_delimiter:
  "plain_name name \<Longrightarrow> CHR ''='' \<notin> set name \<and> CHR ''&'' \<notin> set name"
  by (auto simp: plain_name_def list_all_iff)

lemma params_add_param:
  assumes "plain_name name"
  shows "params (add_param url name v) = params url @ [(name, v)]"
proof -
  let ?kv = "name @ CHR ''='' # encodeURIComponent v"
  have kv: "CHR ''&'' \<notin> set ?kv"
    using plain_name_no_delimiter [OF assms] encode_no_delimiter by auto
  then have s: "split_on (CHR ''&'') ?kv = [?kv]" by (rule split_on_no_sep)
  show ?thesis
  proof (cases "CHR ''?'' \<in> set url")
    case True
    then have "query_of (add_param url name v) = query_of url @ CHR ''&'' # ?kv"
      by (simp add: add_param_def query_of_append)
    with s assms plain_name_no_delimiter [OF assms] show ?thesis
      by (simp add: params_def split_on_join param_of_pair)
  next
    case False
    then have "query_of (add_param url name v) = ?kv"
      by (simp add: add_param_def query_of_append)
    with False s assms plain_name_no_delimiter [OF assms] show ?thesis
      by (simp add: params_def query_of_append param_of_pair)
  qed
qed

lemma path_of_add_param: "path_of (add_param url name v) = path_of url"
  by (cases "CHR ''?'' \<in> set url") (simp_all add: add_param_def path_of_append)

section \<open>The contract of a parameter appender\<close>

text \<open>
  \<open>app\<close> appends the parameter \<open>name\<close>, unless the value is not \<open>live\<close> (an empty backend, the
  cluster selection \<open>all\<close>), when it leaves the path alone.
\<close>

locale query_appender =
  fixes app :: "string \<Rightarrow> string \<Rightarrow> string"
    and name :: "string"
    and live :: "string \<Rightarrow> bool"
  assumes plain: "plain_name name"
    and app_live: "live v \<Longrightarrow> app url v = add_param url name v"
    and app_dead: "\<not> live v \<Longrightarrow> app url v = url"
begin

lemma params_app: "params (app url v) = params url @ (if live v then [(name, v)] else [])"
  using plain by (simp add: app_live app_dead params_add_param)

lemma path_app: "path_of (app url v) = path_of url"
  by (cases "live v") (simp_all add: app_live app_dead path_of_add_param)

lemma get_app:
  "query_get url name = None \<Longrightarrow> query_get (app url v) name = (if live v then Some v else None)"
  by (auto simp: query_get_def params_app map_add_def split: option.splits)

lemma get_other: "k \<noteq> name \<Longrightarrow> query_get (app url v) k = query_get url k"
  by (auto simp: query_get_def params_app map_add_def split: option.splits)

lemma app_inject:
  "query_get url name = None \<Longrightarrow> live v \<Longrightarrow> live w \<Longrightarrow> app url v = app url w \<longleftrightarrow> v = w"
  by (metis get_app option.inject)

end

end
