(* ===== verification/Proxy.thy ===== *)
theory Proxy
  imports Uri
begin

text \<open>
  The same-origin proxy of the console, \<open>web/app/api/kvi/[...path]/route.ts\<close>: the target
  URL, the headers passed on in both directions and the relayed response.

  A \<open>Headers\<close> object is represented by what its iterator shows: the pairs of lower-case name
  and value sorted by name, names distinct except for \<open>set-cookie\<close>.  A copy
  (\<open>new Headers(h)\<close>) has the same pairs.  The iterator of \<open>headers.keys()\<close> is live, as the
  Fetch and Web IDL standards define it: it holds an index, and each step reads the pair at
  that index of the current list.  A \<open>delete\<close> inside the loop therefore moves the next pair
  to the index just visited, and the loop does not look at it.
\<close>

type_synonym headers = "(string \<times> string) list"

section \<open>Which headers are dropped\<close>

definition HOP_BY_HOP_HEADERS :: "string list" where
  "HOP_BY_HOP_HEADERS =
     [''connection'', ''keep-alive'', ''proxy-authenticate'', ''proxy-authorization'', ''te'',
      ''trailer'', ''transfer-encoding'', ''upgrade'']"

definition RESPONSE_DROP_HEADERS :: "string list" where
  "RESPONSE_DROP_HEADERS = HOP_BY_HOP_HEADERS @ [''content-length'', ''content-encoding'']"

definition drop_request :: "string \<Rightarrow> bool" where
  "drop_request key \<longleftrightarrow> lower key \<in> set HOP_BY_HOP_HEADERS \<or> lower key = ''host''"

definition drop_response :: "string \<Rightarrow> bool" where
  "drop_response key \<longleftrightarrow> lower key \<in> set RESPONSE_DROP_HEADERS"

section \<open>The loops over the headers\<close>

definition delete_header :: "string \<Rightarrow> headers \<Rightarrow> headers" where
  "delete_header key h = filter (\<lambda>p. fst p \<noteq> key) h"

definition put_header :: "string \<Rightarrow> string \<Rightarrow> headers \<Rightarrow> headers" where
  "put_header key v h = insort_key fst (key, v) (delete_header key h)"

text \<open>\<open>for (const key of headers.keys()) if (dropped(key)) headers.delete(key)\<close>\<close>

function sweep :: "(string \<Rightarrow> bool) \<Rightarrow> nat \<Rightarrow> headers \<Rightarrow> headers" where
  "sweep dropped i h =
     (if i < length h then
        let key = fst (h ! i) in
        sweep dropped (Suc i) (if dropped key then delete_header key h else h)
      else h)"
  by pat_completeness auto
termination
  by (relation "measure (\<lambda>(d, i, h). length h - i)")
     (auto simp: delete_header_def less_Suc_eq_le intro!: diff_less_mono2 le_less_trans
       [OF diff_le_mono [OF length_filter_le]])

declare sweep.simps [simp del]

definition forwardHeaders :: "headers \<Rightarrow> headers" where
  "forwardHeaders h = sweep drop_request 0 h"

definition responseHeaders :: "headers \<Rightarrow> headers" where
  "responseHeaders h =
     put_header ''x-accel-buffering'' ''no''
       (put_header ''cache-control'' ''no-store'' (sweep drop_response 0 h))"

section \<open>The target URL\<close>

text \<open>\<open>(process.env.KVI_API_BASE || "http://127.0.0.1:8095").replace(/\/$/, "")\<close>\<close>

definition gatewayBase :: "string option \<Rightarrow> string" where
  "gatewayBase env =
     (let base = or_opt env ''http://127.0.0.1:8095'' in
      if base \<noteq> [] \<and> last base = CHR ''/'' then butlast base else base)"

text \<open>\<open>new URL(u).search\<close> of a serialized URL: the query with its mark, empty if there is none.\<close>

definition search_of :: "string \<Rightarrow> string" where
  "search_of u = (let q = takeWhile (\<lambda>c. c \<noteq> CHR ''#'') (dropWhile (\<lambda>c. c \<noteq> CHR ''?'') 
                            (takeWhile (\<lambda>c. c \<noteq> CHR ''#'') u))
                  in if length q \<le> 1 then [] else q)"

definition targetURL :: "string option \<Rightarrow> string \<Rightarrow> string list option \<Rightarrow> string" where
  "targetURL env req_url path =
     gatewayBase env @ ''/'' @ join ''/'' (map encodeURIComponent (nullish path [])) @ search_of req_url"

section \<open>The proxied exchange\<close>

record proxy_request =
  pr_url :: string
  pr_method :: string
  pr_headers :: headers
  pr_body :: string

record upstream_call =
  uc_url :: string
  uc_method :: string
  uc_headers :: headers
  uc_body :: "string option"
  uc_cache :: string
  uc_redirect :: string

record relayed =
  rl_status :: int
  rl_status_text :: string
  rl_headers :: headers
  rl_body :: string

definition proxy_call :: "string option \<Rightarrow> proxy_request \<Rightarrow> string list option \<Rightarrow> upstream_call" where
  "proxy_call env req path =
     (let meth = upper (pr_method req) in
      \<lparr>uc_url = targetURL env (pr_url req) path, uc_method = meth,
       uc_headers = forwardHeaders (pr_headers req),
       uc_body = (if meth \<noteq> ''GET'' \<and> meth \<noteq> ''HEAD'' then Some (pr_body req) else None),
       uc_cache = ''no-store'', uc_redirect = ''manual''\<rparr>)"

definition proxy_reply :: "relayed \<Rightarrow> relayed" where
  "proxy_reply upstream =
     \<lparr>rl_status = rl_status upstream, rl_status_text = rl_status_text upstream,
      rl_headers = responseHeaders (rl_headers upstream), rl_body = rl_body upstream\<rparr>"

text \<open>The whole handler, over the outcome of the upstream \<open>fetch\<close>.\<close>

definition proxy ::
  "(upstream_call \<Rightarrow> string + relayed) \<Rightarrow> string option \<Rightarrow> proxy_request \<Rightarrow> string list option
   \<Rightarrow> string + relayed" where
  "proxy fetch env req path = map_sum id proxy_reply (fetch (proxy_call env req path))"

section \<open>What the live iteration leaves\<close>

text \<open>
  Specification of the loop as a pass over the list: the pair after a deleted one is kept
  without being looked at.
\<close>

fun skip_pass :: "(string \<Rightarrow> bool) \<Rightarrow> headers \<Rightarrow> headers" where
  "skip_pass d [] = []"
| "skip_pass d [p] = (if d (fst p) then [] else [p])"
| "skip_pass d (p # q # h) =
     (if d (fst p) then q # skip_pass d h else p # skip_pass d (q # h))"

definition dropped_once :: "(string \<Rightarrow> bool) \<Rightarrow> headers \<Rightarrow> bool" where
  "dropped_once d h \<longleftrightarrow> distinct (filter d (map fst h))"

lemma delete_at:
  assumes "dropped_once d (u @ p # h)" "d (fst p)"
  shows "delete_header (fst p) (u @ p # h) = u @ h"
proof -
  have "\<forall>x \<in> set u. fst x \<noteq> fst p" "\<forall>x \<in> set h. fst x \<noteq> fst p"
    using assms by (auto simp: dropped_once_def image_iff)
  then show ?thesis by (simp add: delete_header_def filter_True)
qed

lemma dropped_once_remove: "dropped_once d (u @ p # h) \<Longrightarrow> dropped_once d (u @ h)"
  by (auto simp: dropped_once_def split: if_splits)

lemma sweep_from:
  assumes "dropped_once d (u @ h)"
  shows "sweep d (length u) (u @ h) = u @ skip_pass d h"
  using assms
proof (induction d h arbitrary: u rule: skip_pass.induct)
  case (1 d)
  then show ?case by (simp add: sweep.simps)
next
  case (2 d p)
  have "sweep d (Suc (length u)) (u @ [p]) = u @ [p]" "sweep d (Suc (length u)) u = u"
    by (simp_all add: sweep.simps)
  then show ?case
    using delete_at [OF "2.prems"] by (simp add: sweep.simps [of d "length u"])
next
  case (3 d p q h)
  show ?case
  proof (cases "d (fst p)")
    case True
    have "dropped_once d ((u @ [q]) @ h)"
      using dropped_once_remove [OF "3.prems"] by simp
    then have "sweep d (length (u @ [q])) ((u @ [q]) @ h) = (u @ [q]) @ skip_pass d h"
      using "3.IH"(1) True by blast
    then show ?thesis
      using True delete_at [OF "3.prems" True] by (simp add: sweep.simps [of d "length u"])
  next
    case False
    have "sweep d (length (u @ [p])) ((u @ [p]) @ q # h) = (u @ [p]) @ skip_pass d (q # h)"
      using "3.IH"(2) [of "u @ [p]"] False "3.prems" by simp
    then show ?thesis using False by (simp add: sweep.simps [of d "length u"])
  qed
qed

lemma sweep_skip_pass: "dropped_once d h \<Longrightarrow> sweep d 0 h = skip_pass d h"
  using sweep_from [of d "[]" h] by simp

lemma skip_pass_keeps: "filter (\<lambda>p. \<not> d (fst p)) (skip_pass d h) = filter (\<lambda>p. \<not> d (fst p)) h"
  by (induction d h rule: skip_pass.induct) auto

fun no_adjacent :: "(string \<Rightarrow> bool) \<Rightarrow> headers \<Rightarrow> bool" where
  "no_adjacent d (p # q # h) \<longleftrightarrow> \<not> (d (fst p) \<and> d (fst q)) \<and> no_adjacent d (q # h)"
| "no_adjacent d h \<longleftrightarrow> True"

lemma no_adjacent_tl: "no_adjacent d (p # h) \<Longrightarrow> no_adjacent d h"
  by (cases h) auto

lemma skip_pass_clean:
  "no_adjacent d h \<Longrightarrow> skip_pass d h = filter (\<lambda>p. \<not> d (fst p)) h"
  by (induction d h rule: skip_pass.induct) (auto dest: no_adjacent_tl)

lemma sweep_keeps: "filter (\<lambda>p. \<not> d (fst p)) (sweep d i h) = filter (\<lambda>p. \<not> d (fst p)) h"
proof (induction d i h rule: sweep.induct)
  case (1 d i h)
  have "filter (\<lambda>p. \<not> d (fst p)) (delete_header k h) = filter (\<lambda>p. \<not> d (fst p)) h" if "d k" for k
    using that by (auto simp: delete_header_def intro: filter_cong)
  with 1 show ?case by (simp add: sweep.simps [of d i h] Let_def)
qed

lemma sweep_subset: "set (sweep d i h) \<subseteq> set h"
proof (induction d i h rule: sweep.induct)
  case (1 d i h)
  let ?h' = "if d (fst (h ! i)) then delete_header (fst (h ! i)) h else h"
  have "set ?h' \<subseteq> set h" by (simp add: delete_header_def)
  moreover have "i < length h \<Longrightarrow> set (sweep d (Suc i) ?h') \<subseteq> set ?h'"
    using 1 by blast
  ultimately have "i < length h \<longrightarrow> set (sweep d (Suc i) ?h') \<subseteq> set h" by blast
  then show ?case unfolding sweep.simps [of d i h] Let_def by simp
qed

lemma set_put_header:
  "set (put_header k v h) = insert (k, v) {p \<in> set h. fst p \<noteq> k}"
  by (auto simp: put_header_def delete_header_def set_insort_key)

lemma set_responseHeaders:
  "set (responseHeaders h) =
     {p \<in> set (sweep drop_response 0 h). fst p \<notin> {''cache-control'', ''x-accel-buffering''}}
     \<union> {(''cache-control'', ''no-store''), (''x-accel-buffering'', ''no'')}"
proof -
  have "insert b {p \<in> insert a {p \<in> S. fst p \<noteq> fst a}. fst p \<noteq> fst b}
      = {p \<in> S. fst p \<notin> {fst a, fst b}} \<union> {a, b}" if "fst a \<noteq> fst b"
    for a b :: "string \<times> string" and S using that by auto
  from this [of "(''cache-control'', ''no-store'')" "(''x-accel-buffering'', ''no'')"]
  show ?thesis by (simp add: responseHeaders_def set_put_header)
qed

section \<open>Properties of the proxy\<close>


text \<open>
  The exact effect of the request loop.  When no two hop-by-hop headers are neighbours in
  the sorted list, precisely they are removed.
\<close>

theorem forward_removes_isolated:
  assumes "dropped_once drop_request h" "no_adjacent drop_request h"
  shows "forwardHeaders h = filter (\<lambda>p. \<not> drop_request (fst p)) h"
  using assms by (simp add: forwardHeaders_def sweep_skip_pass skip_pass_clean)

theorem forward_removes_isolated_witness:
  "forwardHeaders [(''accept'', ''*/*''), (''connection'', ''keep-alive''),
     (''content-type'', ''application/json''), (''host'', ''console:3000''), (''user-agent'', ''x'')]
   = [(''accept'', ''*/*''), (''content-type'', ''application/json''), (''user-agent'', ''x'')]"
proof -
  let ?h = "[(''accept'', ''*/*''), (''connection'', ''keep-alive''),
     (''content-type'', ''application/json''), (''host'', ''console:3000''), (''user-agent'', ''x'')]"
  have "dropped_once drop_request ?h \<and> no_adjacent drop_request ?h" by code_simp
  then have "forwardHeaders ?h = filter (\<lambda>p. \<not> drop_request (fst p)) ?h"
    by (intro forward_removes_isolated) auto
  moreover have "filter (\<lambda>p. \<not> drop_request (fst p)) ?h
    = [(''accept'', ''*/*''), (''content-type'', ''application/json''), (''user-agent'', ''x'')]"
    by code_simp
  ultimately show ?thesis by simp
qed

text \<open>
  What the deletion inside the live iteration misses.  A response whose
  \<open>content-encoding\<close> and \<open>content-length\<close> are neighbours (no \<open>content-language\<close> between them)
  and follow no other dropped header loses the first and keeps the second: the length of
  the encoded body is relayed with the decoded one.
\<close>

theorem response_keeps_stale_length:
  assumes "h = u @ (''content-encoding'', enc) # (''content-length'', n) # r"
    and "dropped_once drop_response h" "\<forall>p \<in> set u. \<not> drop_response (fst p)"
  shows "(''content-length'', n) \<in> set (responseHeaders h)
         \<and> (\<forall>p \<in> set (responseHeaders h). fst p \<noteq> ''content-encoding'')"
proof -
  let ?cl = "(''content-length'', n)"
  have ce: "drop_response ''content-encoding''" by code_simp
  have "skip_pass drop_response (u @ (''content-encoding'', enc) # ?cl # r)
      = u @ ?cl # skip_pass drop_response r" if "\<forall>p \<in> set u. \<not> drop_response (fst p)" for u
    using that ce
  proof (induction u)
    case (Cons p u)
    then show ?case by (cases u) auto
  qed simp
  then have sw: "sweep drop_response 0 h = u @ ?cl # skip_pass drop_response r"
    using assms sweep_skip_pass by metis
  have sub: "set (skip_pass d g) \<subseteq> set g" for d g
    by (induction d g rule: skip_pass.induct) auto
  have "\<forall>p \<in> set r. fst p \<noteq> ''content-encoding''" "\<forall>p \<in> set u. fst p \<noteq> ''content-encoding''"
    using assms ce by (auto simp: dropped_once_def image_iff split: if_splits)
  then have "\<forall>p \<in> set (sweep drop_response 0 h). fst p \<noteq> ''content-encoding''"
    using sub [of drop_response r] by (auto simp: sw)
  moreover have "?cl \<in> set (sweep drop_response 0 h)" by (simp add: sw)
  ultimately show ?thesis by (simp add: set_responseHeaders ball_Un)
qed

theorem response_keeps_stale_length_witness:
  "(''content-length'', ''512'') \<in> set (responseHeaders
     [(''content-encoding'', ''gzip''), (''content-length'', ''512''), (''date'', ''d'')])"
proof -
  let ?h = "[(''content-encoding'', ''gzip''), (''content-length'', ''512''), (''date'', ''d'')]"
  have "dropped_once drop_response ?h" by code_simp
  then show ?thesis
    using response_keeps_stale_length [of ?h "[]" "''gzip''" "''512''" "[(''date'', ''d'')]"] by simp
qed



text \<open>
  The exchange as a whole.  The gateway is called once, with the method in upper case and
  a body unless the method is GET or HEAD; its status, status text and body are relayed as
  they are, never cached; and a failed \<open>fetch\<close> fails the request.
\<close>

theorem proxy_relays:
  "(case fetch (proxy_call env req path) of
      Inl e \<Rightarrow> proxy fetch env req path = Inl e
    | Inr up \<Rightarrow> \<exists>out. proxy fetch env req path = Inr out \<and> rl_status out = rl_status up
        \<and> rl_status_text out = rl_status_text up \<and> rl_body out = rl_body up
        \<and> {p \<in> set (rl_headers out). fst p = ''cache-control''} = {(''cache-control'', ''no-store'')})
   \<and> uc_method (proxy_call env req path) = upper (pr_method req)
   \<and> (uc_body (proxy_call env req path) = None \<longleftrightarrow> upper (pr_method req) \<in> {''GET'', ''HEAD''})"
proof -
  have "{p \<in> set (responseHeaders h). fst p = ''cache-control''} = {(''cache-control'', ''no-store'')}"
    for h by (auto simp: responseHeaders_def set_put_header)
  then show ?thesis
    by (simp add: proxy_def proxy_reply_def split: sum.split) (simp add: proxy_call_def Let_def)
qed

end
