(* ===== verification/Js_Number.thy ===== *)
theory Js_Number
  imports Prelude
begin

text \<open>
  JavaScript numbers as the console uses them: read from an input field with \<open>Number(s)\<close>
  and from JSON, printed with \<open>String(x)\<close> and into JSON.  A finite number is represented by
  the decimal that \<open>Number::toString\<close> prints for it: \<open>Dec m e\<close> is \<open>m * 10 ^ e\<close> with \<open>m\<close> not
  divisible by ten (or \<open>Dec 0 0\<close>), so that the digits of \<open>m\<close> are the specification's \<open>s\<close>, their
  number its \<open>k\<close> and \<open>k + e\<close> its \<open>n\<close>.  A literal of more digits than a double can hold
  (more than fifteen significant ones) is kept exactly here, while JavaScript rounds it;
  negative zero is identified with zero, which prints the same.
\<close>

datatype num = Dec int int | NaN | Infinity bool

section \<open>Decimal digits\<close>

definition digit_char :: "nat \<Rightarrow> char" where
  "digit_char d = char_of (48 + d)"

definition is_digit :: "char \<Rightarrow> bool" where
  "is_digit c \<longleftrightarrow> 48 \<le> (of_char c :: nat) \<and> (of_char c :: nat) \<le> 57"

definition digit_val :: "char \<Rightarrow> nat" where
  "digit_val c = of_char c - 48"

fun digits :: "nat \<Rightarrow> string" where
  "digits n = (if n < 10 then [digit_char n] else digits (n div 10) @ [digit_char (n mod 10)])"

declare digits.simps [simp del]

definition nat_of :: "string \<Rightarrow> nat" where
  "nat_of s = foldl (\<lambda>a c. 10 * a + digit_val c) 0 s"

lemma is_digit_digit_char [simp]: "d < 10 \<Longrightarrow> is_digit (digit_char d)"
  by (simp add: is_digit_def digit_char_def)

lemma digit_val_digit_char [simp]: "d < 10 \<Longrightarrow> digit_val (digit_char d) = d"
  by (simp add: digit_val_def digit_char_def)

lemma digit_val_less: "is_digit c \<Longrightarrow> digit_val c < 10"
  by (auto simp: is_digit_def digit_val_def)

lemma digits_nonempty [simp]: "digits n \<noteq> []"
  by (subst digits.simps) simp

lemma digits_all_digit: "list_all is_digit (digits n)"
proof (induction n rule: digits.induct)
  case (1 n)
  then show ?case by (simp add: digits.simps [of n])
qed

lemma digits_digit: "c \<in> set (digits n) \<Longrightarrow> is_digit c"
  using digits_all_digit [of n] by (simp add: list_all_iff)

lemma nat_of_Nil [simp]: "nat_of [] = 0"
  by (simp add: nat_of_def)

lemma nat_of_snoc [simp]: "nat_of (s @ [c]) = 10 * nat_of s + digit_val c"
  by (simp add: nat_of_def)

lemma nat_of_digits [simp]: "nat_of (digits n) = n"
proof (induction n rule: digits.induct)
  case (1 n)
  show ?case
  proof (cases "n < 10")
    case True
    then show ?thesis by (simp add: digits.simps [of n] nat_of_def)
  next
    case False
    with "1.IH" show ?thesis by (simp add: digits.simps [of n])
  qed
qed

lemma nat_of_append: "nat_of (s @ t) = nat_of s * 10 ^ length t + nat_of t"
proof (induction t rule: rev_induct)
  case (snoc c t)
  then have "nat_of (s @ t @ [c]) = 10 * (nat_of s * 10 ^ length t + nat_of t) + digit_val c"
    by (metis append_assoc nat_of_snoc)
  then show ?case by (simp add: algebra_simps)
qed simp

lemma digit_val_0 [simp]: "digit_val (CHR ''0'') = 0"
  by (simp add: digit_val_def)

lemma nat_of_zeros [simp]: "nat_of (replicate z (CHR ''0'')) = 0"
proof (induction z)
  case (Suc z)
  have "replicate (Suc z) (CHR ''0'') = replicate z (CHR ''0'') @ [CHR ''0'']"
    by (simp add: replicate_append_same)
  with Suc show ?case by (metis nat_of_snoc digit_val_0 mult_0_right add_0)
qed simp

lemma is_digit_0 [simp]: "is_digit (CHR ''0'')"
  by (simp add: is_digit_def)

lemma zeros_all_digit [simp]: "list_all is_digit (replicate z (CHR ''0''))"
  by (simp add: list_all_iff)

section \<open>Canonical decimals\<close>

function mk_dec :: "int \<Rightarrow> int \<Rightarrow> num" where
  "mk_dec m e = (if m = 0 then Dec 0 0
     else if m mod 10 = 0 then mk_dec (m div 10) (e + 1) else Dec m e)"
  by pat_completeness auto
termination
  by (relation "measure (\<lambda>(m, e). nat \<bar>m\<bar>)") (auto simp: dvd_def mod_eq_0_iff_dvd)

declare mk_dec.simps [simp del]

fun canonical :: "num \<Rightarrow> bool" where
  "canonical (Dec m e) \<longleftrightarrow> (if m = 0 then e = 0 else m mod 10 \<noteq> 0)"
| "canonical NaN = True"
| "canonical (Infinity b) = True"

lemma mk_dec_canonical: "canonical (mk_dec m e)"
proof (induction m e rule: mk_dec.induct)
  case (1 m e)
  then show ?case by (simp add: mk_dec.simps [of m e])
qed

lemma mk_dec_id: "canonical (Dec m e) \<Longrightarrow> mk_dec m e = Dec m e"
  by (auto simp: mk_dec.simps [of m e] split: if_splits)

lemma mk_dec_shift: "mk_dec (m * 10 ^ z) e = mk_dec m (e + int z)"
proof (induction z arbitrary: e)
  case (Suc z)
  have "mk_dec (m * 10 ^ Suc z) e = mk_dec (m * 10 ^ z) (e + 1)"
    by (cases "m = 0")
      (simp_all add: mk_dec.simps [of "m * (10 * 10 ^ z)"] mk_dec.simps [of 0] mult.left_commute)
  with Suc.IH show ?case by (simp add: algebra_simps)
qed simp

definition of_int_num :: "int \<Rightarrow> num" where
  "of_int_num i = mk_dec i 0"

section \<open>\<open>Number::toString\<close>\<close>

text \<open>The layout of the digits \<open>s\<close> of a positive number, for the specification's \<open>n\<close>.\<close>

definition exp_suffix :: "int \<Rightarrow> string" where
  "exp_suffix x = (if x < 0 then ''-'' else ''+'') @ digits (nat \<bar>x\<bar>)"

definition layout :: "string \<Rightarrow> int \<Rightarrow> string" where
  "layout s n = (let k = int (length s) in
     if k \<le> n \<and> n \<le> 21 then s @ replicate (nat (n - k)) (CHR ''0'')
     else if 0 < n \<and> n \<le> 21 then take (nat n) s @ ''.'' @ drop (nat n) s
     else if - 6 < n \<and> n \<le> 0 then ''0.'' @ replicate (nat (- n)) (CHR ''0'') @ s
     else if k = 1 then s @ ''e'' @ exp_suffix (n - 1)
     else take 1 s @ ''.'' @ drop 1 s @ ''e'' @ exp_suffix (n - 1))"

fun num_to_string :: "num \<Rightarrow> string" where
  "num_to_string NaN = ''NaN''"
| "num_to_string (Infinity neg) = (if neg then ''-'' else []) @ ''Infinity''"
| "num_to_string (Dec m e) =
     (if m = 0 then ''0''
      else let s = digits (nat \<bar>m\<bar>) in
        (if m < 0 then ''-'' else []) @ layout s (int (length s) + e))"

section \<open>\<open>Number(string)\<close>\<close>

text \<open>An optional exponent part, which must end the text.\<close>

definition parse_exp :: "string \<Rightarrow> int option" where
  "parse_exp r = (case r of [] \<Rightarrow> Some 0 | c # t \<Rightarrow>
     if c = CHR ''e'' \<or> c = CHR ''E'' then
       (let (neg, u) = (case t of d # u \<Rightarrow>
            if d = CHR ''-'' then (True, u) else if d = CHR ''+'' then (False, u) else (False, t)
          | [] \<Rightarrow> (False, []))
        in if u \<noteq> [] \<and> list_all is_digit u
           then Some (if neg then - int (nat_of u) else int (nat_of u)) else None)
     else None)"

text \<open>An unsigned decimal literal: digits with an optional fraction and exponent.\<close>

definition parse_udec :: "string \<Rightarrow> (nat \<times> int) option" where
  "parse_udec s =
     (let ip = takeWhile is_digit s; r = dropWhile is_digit s;
          (fp, r') = (case r of c # t \<Rightarrow>
             if c = CHR ''.'' then (takeWhile is_digit t, dropWhile is_digit t) else ([], r)
           | [] \<Rightarrow> ([], []))
      in if ip = [] \<and> fp = [] then None
         else map_option (\<lambda>x. (nat_of (ip @ fp), x - int (length fp))) (parse_exp r'))"

definition radix_digit :: "nat \<Rightarrow> char \<Rightarrow> nat option" where
  "radix_digit b c =
     (let v = (of_char c :: nat);
          d = (if 48 \<le> v \<and> v \<le> 57 then v - 48 else if 97 \<le> v \<and> v \<le> 102 then v - 87
               else if 65 \<le> v \<and> v \<le> 70 then v - 55 else b)
      in if d < b then Some d else None)"

fun radix_nat :: "nat \<Rightarrow> nat \<Rightarrow> string \<Rightarrow> nat option" where
  "radix_nat b a [] = Some a"
| "radix_nat b a (c # s) =
     (case radix_digit b c of None \<Rightarrow> None | Some d \<Rightarrow> radix_nat b (b * a + d) s)"

definition radix_prefix :: "string \<Rightarrow> nat option" where
  "radix_prefix s = (if take 2 s \<in> {''0x'', ''0X''} then Some 16
     else if take 2 s \<in> {''0o'', ''0O''} then Some 8
     else if take 2 s \<in> {''0b'', ''0B''} then Some 2 else None)"

definition signed_dec :: "bool \<Rightarrow> string \<Rightarrow> num" where
  "signed_dec neg u = (if u = ''Infinity'' then Infinity neg else
     case parse_udec u of None \<Rightarrow> NaN
     | Some (m, e) \<Rightarrow> mk_dec (if neg then - int m else int m) e)"

definition to_number :: "string \<Rightarrow> num" where
  "to_number raw = (let s = trim raw in
     if s = [] then Dec 0 0 else
     case radix_prefix s of
       Some b \<Rightarrow> if drop 2 s = [] then NaN else
         (case radix_nat b 0 (drop 2 s) of None \<Rightarrow> NaN | Some v \<Rightarrow> mk_dec (int v) 0)
     | None \<Rightarrow>
         if hd s = CHR ''-'' then signed_dec True (tl s)
         else if hd s = CHR ''+'' then signed_dec False (tl s)
         else signed_dec False s)"

lemma to_number_Nil [simp]: "to_number [] = Dec 0 0"
  by (simp add: to_number_def)

section \<open>Reading back what was printed\<close>

lemma takeWhile_digits:
  "list_all is_digit a \<Longrightarrow> takeWhile is_digit (a @ r) = a @ takeWhile is_digit r"
  "list_all is_digit a \<Longrightarrow> dropWhile is_digit (a @ r) = dropWhile is_digit r"
  by (induction a) auto

lemma stop_at_nondigit:
  "r = [] \<or> \<not> is_digit (hd r) \<Longrightarrow> takeWhile is_digit r = [] \<and> dropWhile is_digit r = r"
  by (cases r) auto

lemma not_is_digit [simp]:
  "\<not> is_digit (CHR ''.'')" "\<not> is_digit (CHR ''e'')" "\<not> is_digit (CHR ''-'')"
  "\<not> is_digit (CHR ''+'')" "\<not> is_digit (CHR ''I'')" "\<not> is_digit (CHR ''x'')"
  by (simp_all add: is_digit_def)

lemma parse_udec_plain:
  assumes "list_all is_digit a" "a \<noteq> []" "r = [] \<or> hd r = CHR ''e''" "parse_exp r = Some x"
  shows "parse_udec (a @ r) = Some (nat_of a, x)"
proof -
  have "takeWhile is_digit r = [] \<and> dropWhile is_digit r = r"
    using assms(3) by (intro stop_at_nondigit) auto
  with assms show ?thesis
    by (auto simp: parse_udec_def Let_def takeWhile_digits split: list.splits)
qed

lemma parse_udec_point:
  assumes "list_all is_digit a" "a \<noteq> []" "list_all is_digit b"
    "r = [] \<or> hd r = CHR ''e''" "parse_exp r = Some x"
  shows "parse_udec (a @ ''.'' @ b @ r) = Some (nat_of (a @ b), x - int (length b))"
proof -
  have "takeWhile is_digit r = [] \<and> dropWhile is_digit r = r"
    using assms(4) by (intro stop_at_nondigit) auto
  with assms show ?thesis
    by (simp add: parse_udec_def Let_def takeWhile_digits)
qed

lemma parse_exp_suffix: "parse_exp (CHR ''e'' # exp_suffix x) = Some x"
  by (auto simp: parse_exp_def exp_suffix_def digits_all_digit)

lemma parse_exp_Nil [simp]: "parse_exp [] = Some 0"
  by (simp add: parse_exp_def)

lemma list_all_take_drop:
  "list_all P s \<Longrightarrow> list_all P (take n s)" "list_all P s \<Longrightarrow> list_all P (drop n s)"
  by (auto simp: list_all_iff dest: in_set_takeD in_set_dropD)

lemma parse_layout:
  assumes "list_all is_digit s" "s \<noteq> []"
  obtains m e where "parse_udec (layout s n) = Some (m, e)"
    "\<And>g. mk_dec (g * int m) e = mk_dec (g * int (nat_of s)) (n - int (length s))"
proof -
  let ?k = "int (length s)"
  consider (zeros) "?k \<le> n \<and> n \<le> 21" | (point) "\<not> (?k \<le> n \<and> n \<le> 21)" "0 < n \<and> n \<le> 21"
    | (small) "- 6 < n \<and> n \<le> 0" | (one) "n \<le> - 6 \<or> 21 < n" "?k = 1"
    | (exp) "n \<le> - 6 \<or> 21 < n" "?k \<noteq> 1" by linarith
  then show thesis
  proof cases
    case zeros
    define z where "z = nat (n - ?k)"
    have "parse_udec (layout s n) = Some (nat_of (s @ replicate z (CHR ''0'')), 0)"
      using zeros assms parse_udec_plain [of "s @ replicate z (CHR ''0'')" "[]" 0]
      by (simp add: layout_def Let_def z_def)
    moreover have "mk_dec (g * int (nat_of s * 10 ^ z)) 0 = mk_dec (g * int (nat_of s)) (n - ?k)" for g
      using zeros mk_dec_shift [of "g * int (nat_of s)" z 0] by (simp add: z_def mult.assoc)
    ultimately show thesis using that by (simp add: nat_of_append)
  next
    case point
    then have nk: "nat n < length s" by linarith
    have "parse_udec (layout s n) = Some (nat_of s, 0 - int (length (drop (nat n) s)))"
      using point assms nk parse_udec_point [of "take (nat n) s" "drop (nat n) s" "[]" 0]
      by (simp add: layout_def Let_def list_all_take_drop)
    with point nk show thesis by (intro that) auto
  next
    case small
    define z where "z = nat (- n)"
    have "layout s n = ''0'' @ ''.'' @ (replicate z (CHR ''0'') @ s) @ []"
      using small assms by (cases s) (auto simp: layout_def Let_def z_def)
    then have "parse_udec (layout s n)
        = Some (nat_of (''0'' @ replicate z (CHR ''0'') @ s), 0 - int (z + length s))"
      using assms parse_udec_point [of "''0''" "replicate z (CHR ''0'') @ s" "[]" 0]
      by simp
    moreover have "nat_of (''0'' @ replicate z (CHR ''0'') @ s) = nat_of s"
      using nat_of_append [of "''0'' @ replicate z (CHR ''0'')" s] nat_of_zeros [of "Suc z"] by simp
    ultimately show thesis using small that by (simp add: z_def)
  next
    case one
    have "layout s n = s @ CHR ''e'' # exp_suffix (n - 1)"
      using one assms by (auto simp: layout_def Let_def)
    then have "parse_udec (layout s n) = Some (nat_of s, n - 1)"
      using assms parse_udec_plain [of s "CHR ''e'' # exp_suffix (n - 1)" "n - 1"]
      by (simp add: parse_exp_suffix)
    with one show thesis by (intro that) auto
  next
    case exp
    have "layout s n = take 1 s @ ''.'' @ drop 1 s @ CHR ''e'' # exp_suffix (n - 1)"
      using exp assms by (auto simp: layout_def Let_def)
    then have "parse_udec (layout s n) = Some (nat_of s, n - 1 - int (length (drop 1 s)))"
      using assms parse_udec_point [of "take 1 s" "drop 1 s" "CHR ''e'' # exp_suffix (n - 1)" "n - 1"]
      by (simp add: parse_exp_suffix list_all_take_drop)
    moreover have "int (length (drop 1 s)) = ?k - 1" using assms by (cases s) auto
    ultimately show thesis using that by simp
  qed
qed

lemma layout_hd: "list_all is_digit s \<Longrightarrow> s \<noteq> [] \<Longrightarrow> is_digit (hd (layout s n))"
  by (cases s) (auto simp: layout_def Let_def take_Cons' hd_append)

lemma layout_last:
  assumes "list_all is_digit s" "s \<noteq> []"
  shows "is_digit (last (layout s n))"
proof -
  have "last t = last s" if "t \<noteq> []" "suffix t s" for t
    using that by (auto simp: suffix_def)
  then have "is_digit (last (drop k s))" if "k < length s" for k
    using that assms by (metis drop_eq_Nil last_in_set list_all_iff not_le suffix_drop)
  moreover have "is_digit (last (digits x))" for x
    by (simp add: digits_digit [OF last_in_set])
  moreover have "is_digit (last s)" using assms by (simp add: list_all_iff)
  ultimately show ?thesis
    using assms(2) by (auto simp: layout_def Let_def last_append exp_suffix_def)
qed

lemma layout_chars:
  assumes "list_all is_digit s"
  shows "set (layout s n) \<subseteq> Collect is_digit \<union> set ''.e+-''"
proof -
  have "set (exp_suffix x) \<subseteq> Collect is_digit \<union> set ''.e+-''" for x
    using digits_digit by (auto simp: exp_suffix_def)
  moreover have "set s \<subseteq> Collect is_digit" using assms by (auto simp: list_all_iff)
  ultimately show ?thesis
    by (auto simp: layout_def Let_def dest!: in_set_takeD in_set_dropD split: if_splits)
qed

lemma layout_nonempty: "s \<noteq> [] \<Longrightarrow> layout s n \<noteq> []"
  by (auto simp: layout_def Let_def)

lemma digit_graphic: "is_digit c \<Longrightarrow> graphic c"
  by (auto simp: is_digit_def graphic_def)

text \<open>A printed finite number: an optional sign before a digit, and a digit at the end.\<close>

lemma to_number_signed:
  assumes "u \<noteq> []" "is_digit (hd u)" "is_digit (last u)"
    "set u \<subseteq> Collect is_digit \<union> set ''.e+-''"
  shows "to_number ((if neg then ''-'' else []) @ u) = signed_dec neg u"
proof -
  let ?s = "(if neg then ''-'' else []) @ u"
  have "graphic (CHR ''-'')" by (simp add: graphic_def)
  with assms have "trimmed ?s"
    by (intro trimmed_graphic) (auto intro: digit_graphic)
  then have t: "trim ?s = ?s" by (rule trim_trimmed)
  have no: "set ?s \<inter> set ''xXoObB'' = {}"
    using assms(4) by (fastforce simp: is_digit_def split: if_splits)
  have "radix_prefix s = None" if "set s \<inter> set ''xXoObB'' = {}" for s
  proof -
    have "d \<in> set s" if "take 2 s = [c, d]" for c d
      by (rule in_set_takeD [of d 2], unfold that) simp
    with that show ?thesis by (fastforce simp: radix_prefix_def)
  qed
  with no have r: "radix_prefix ?s = None" by blast
  have "hd u \<noteq> CHR ''-''" "hd u \<noteq> CHR ''+''" using assms(2) by auto
  with t r assms(1) show ?thesis by (simp add: to_number_def)
qed

theorem number_print_parse:
  assumes "canonical x"
  shows "to_number (num_to_string x) = x"
proof (cases x)
  case (Dec m e)
  show ?thesis
  proof (cases "m = 0")
    case True
    with Dec assms show ?thesis
      using to_number_signed [of "''0''" False]
      by (simp add: signed_dec_def parse_udec_def nat_of_def mk_dec.simps)
  next
    case False
    let ?s = "digits (nat \<bar>m\<bar>)"
    let ?u = "layout ?s (int (length ?s) + e)"
    have u: "?u \<noteq> []" "is_digit (hd ?u)" "is_digit (last ?u)"
      "set ?u \<subseteq> Collect is_digit \<union> set ''.e+-''"
      using digits_all_digit layout_nonempty layout_hd layout_last layout_chars by auto
    obtain a b where p: "parse_udec ?u = Some (a, b)"
      and v: "\<And>g. mk_dec (g * int a) b = mk_dec (g * int (nat_of ?s)) e"
      using parse_layout [OF digits_all_digit digits_nonempty, of "nat \<bar>m\<bar>" "int (length ?s) + e"]
      by (metis add_diff_cancel_left')
    have "?u \<noteq> ''Infinity''" using u(2) by auto
    then have "signed_dec (m < 0) ?u = mk_dec (if m < 0 then - int a else int a) b"
      using p by (simp add: signed_dec_def)
    also have "\<dots> = mk_dec m e" using v [of 1] v [of "-1"] by auto
    finally show ?thesis
      using to_number_signed [OF u, of "m < 0"] False Dec assms mk_dec_id [of m e]
      by (simp add: Let_def)
  qed
next
  case NaN
  have "to_number ''NaN'' = NaN" by code_simp
  with NaN show ?thesis by simp
next
  case (Infinity b)
  have "to_number ''Infinity'' = Infinity False" "to_number ''-Infinity'' = Infinity True"
    by code_simp+
  with Infinity show ?thesis by (cases b) simp_all
qed

text \<open>\<open>String(i)\<close> of an integer, and what a number literal or a length shows as.\<close>

definition int_text :: "int \<Rightarrow> string" where
  "int_text i = num_to_string (of_int_num i)"

end
