(* ===== verification/Js_Json.thy ===== *)
theory Js_Json
  imports Js_Number
begin

text \<open>
  JSON values, \<open>JSON.stringify\<close> and \<open>JSON.parse\<close>, which the API client puts around every
  request and response.  An object is the list of its properties in insertion order; a
  property whose value is \<open>undefined\<close> is left out of the list, as \<open>stringify\<close> leaves it out.
  The parser is a recursive descent with fuel; the length of the text is always enough.
\<close>

datatype json = JNull | JBool bool | JNum num | JStr string | JArr "json list"
  | JObj "(string \<times> json) list"

section \<open>\<open>JSON.stringify\<close>\<close>

abbreviation "dquote \<equiv> CHR 0x22"
abbreviation "backslash \<equiv> CHR 0x5C"

definition lower_hex :: "nat \<Rightarrow> char" where
  "lower_hex d = (if d < 10 then char_of (48 + d) else char_of (87 + d))"

definition escape_char :: "char \<Rightarrow> string" where
  "escape_char c =
     (if c = dquote then [backslash, dquote]
      else if c = backslash then [backslash, backslash]
      else if c = CHR 0x08 then [backslash, CHR ''b'']
      else if c = CHR 0x0C then [backslash, CHR ''f'']
      else if c = CHR 0x0A then [backslash, CHR ''n'']
      else if c = CHR 0x0D then [backslash, CHR ''r'']
      else if c = CHR 0x09 then [backslash, CHR ''t'']
      else if (of_char c :: nat) < 32 then
        [backslash, CHR ''u'', CHR ''0'', CHR ''0'',
         lower_hex (of_char c div 16), lower_hex (of_char c mod 16)]
      else [c])"

definition quote_string :: "string \<Rightarrow> string" where
  "quote_string s = dquote # concat (map escape_char s) @ [dquote]"

definition num_json :: "num \<Rightarrow> string" where
  "num_json x = (case x of Dec m e \<Rightarrow> num_to_string x | _ \<Rightarrow> ''null'')"

fun stringify :: "json \<Rightarrow> string" where
  "stringify JNull = ''null''"
| "stringify (JBool b) = (if b then ''true'' else ''false'')"
| "stringify (JNum x) = num_json x"
| "stringify (JStr s) = quote_string s"
| "stringify (JArr vs) = ''['' @ join '','' (map stringify vs) @ '']''"
| "stringify (JObj ps) =
     ''{'' @ join '','' (map (\<lambda>(k, v). quote_string k @ '':'' @ stringify v) ps) @ ''}''"

section \<open>\<open>JSON.parse\<close>\<close>

fun skip_ws :: "string \<Rightarrow> string" where
  "skip_ws [] = []"
| "skip_ws (c # s) =
     (if c \<in> {CHR 0x20, CHR 0x09, CHR 0x0A, CHR 0x0D} then skip_ws s else c # s)"

text \<open>A code point in UTF-8 (a lone surrogate as its three bytes).\<close>

definition utf8 :: "nat \<Rightarrow> string" where
  "utf8 u =
     (if u < 0x80 then [char_of u]
      else if u < 0x800 then [char_of (0xC0 + u div 64), char_of (0x80 + u mod 64)]
      else if u < 0x10000 then
        [char_of (0xE0 + u div 4096), char_of (0x80 + u div 64 mod 64), char_of (0x80 + u mod 64)]
      else [char_of (0xF0 + u div 262144), char_of (0x80 + u div 4096 mod 64),
            char_of (0x80 + u div 64 mod 64), char_of (0x80 + u mod 64)])"

definition hex4 :: "string \<Rightarrow> (nat \<times> string) option" where
  "hex4 s = (if length s < 4 then None
     else map_option (\<lambda>u. (u, drop 4 s)) (radix_nat 16 0 (take 4 s)))"

text \<open>The rest of an escape after its backslash; two halves of a surrogate pair are one.\<close>

definition unescape_u :: "string \<Rightarrow> (string \<times> string) option" where
  "unescape_u s = (case hex4 s of None \<Rightarrow> None | Some (u, r) \<Rightarrow>
     if 0xD800 \<le> u \<and> u < 0xDC00 \<and> take 2 r = [backslash, CHR ''u''] then
       (case hex4 (drop 2 r) of
          Some (v, r') \<Rightarrow> if 0xDC00 \<le> v \<and> v < 0xE000
            then Some (utf8 (0x10000 + (u - 0xD800) * 1024 + (v - 0xDC00)), r')
            else Some (utf8 u, r)
        | None \<Rightarrow> Some (utf8 u, r))
     else Some (utf8 u, r))"

definition unescape :: "string \<Rightarrow> (string \<times> string) option" where
  "unescape s = (case s of [] \<Rightarrow> None | c # r \<Rightarrow>
     if c = dquote \<or> c = backslash \<or> c = CHR ''/'' then Some ([c], r)
     else if c = CHR ''b'' then Some ([CHR 0x08], r)
     else if c = CHR ''f'' then Some ([CHR 0x0C], r)
     else if c = CHR ''n'' then Some ([CHR 0x0A], r)
     else if c = CHR ''r'' then Some ([CHR 0x0D], r)
     else if c = CHR ''t'' then Some ([CHR 0x09], r)
     else if c = CHR ''u'' then unescape_u r
     else None)"

lemma hex4_length: "hex4 s = Some (u, r) \<Longrightarrow> length r < length s"
  by (auto simp: hex4_def split: if_splits)

lemma unescape_length: "unescape s = Some (t, r) \<Longrightarrow> length r < length s"
  by (auto simp: unescape_def unescape_u_def dest!: hex4_length
      split: list.splits option.splits if_splits prod.splits)

text \<open>A string literal after its opening quote, and the rest of the text.\<close>

function parse_str :: "string \<Rightarrow> (string \<times> string) option" where
  "parse_str [] = None"
| "parse_str (c # s) =
     (if c = dquote then Some ([], s)
      else if c = backslash then
        (case unescape s of None \<Rightarrow> None
         | Some (t, r) \<Rightarrow> map_option (\<lambda>(u, r'). (t @ u, r')) (parse_str r))
      else if (of_char c :: nat) < 32 then None
      else map_option (\<lambda>(u, r'). (c # u, r')) (parse_str s))"
  by pat_completeness auto
termination
  by (relation "measure length") (auto dest: unescape_length)

text \<open>
  A number: the longest text of number characters, which must have the shape JSON asks for
  (no leading zero, no leading or trailing point).
\<close>

definition num_char :: "char \<Rightarrow> bool" where
  "num_char c \<longleftrightarrow> is_digit c \<or> c \<in> set ''.eE+-''"

definition json_num_shape :: "string \<Rightarrow> bool" where
  "json_num_shape s =
     (let u = (if s \<noteq> [] \<and> hd s = CHR ''-'' then tl s else s);
          ip = takeWhile is_digit u; r = dropWhile is_digit u;
          r' = (if r \<noteq> [] \<and> hd r = CHR ''.'' then dropWhile is_digit (tl r) else r)
      in ip \<noteq> [] \<and> (hd ip = CHR ''0'' \<longrightarrow> ip = ''0'')
         \<and> (r \<noteq> [] \<and> hd r = CHR ''.'' \<longrightarrow> takeWhile is_digit (tl r) \<noteq> [])
         \<and> parse_exp r' \<noteq> None)"

definition parse_num :: "string \<Rightarrow> (json \<times> string) option" where
  "parse_num s = (let t = takeWhile num_char s in
     if json_num_shape t then Some (JNum (to_number t), dropWhile num_char s) else None)"

definition literal :: "string \<Rightarrow> json \<Rightarrow> string \<Rightarrow> (json \<times> string) option" where
  "literal w v s = (if prefix w s then Some (v, drop (length w) s) else None)"

text \<open>The elements of an array and the members of an object, after the first one's start.\<close>

fun parse_val :: "nat \<Rightarrow> string \<Rightarrow> (json \<times> string) option"
  and parse_elems :: "nat \<Rightarrow> string \<Rightarrow> (json list \<times> string) option"
  and parse_members :: "nat \<Rightarrow> string \<Rightarrow> ((string \<times> json) list \<times> string) option" where
  "parse_val 0 s = None"
| "parse_val (Suc n) s = (case skip_ws s of [] \<Rightarrow> None | c # r \<Rightarrow>
     if c = dquote then map_option (\<lambda>(t, r'). (JStr t, r')) (parse_str r)
     else if c = CHR ''['' then
       (case skip_ws r of d # r' \<Rightarrow>
          if d = CHR '']'' then Some (JArr [], r')
          else map_option (\<lambda>(vs, q). (JArr vs, q)) (parse_elems n r)
        | [] \<Rightarrow> None)
     else if c = CHR ''{'' then
       (case skip_ws r of d # r' \<Rightarrow>
          if d = CHR ''}'' then Some (JObj [], r')
          else map_option (\<lambda>(ps, q). (JObj ps, q)) (parse_members n r)
        | [] \<Rightarrow> None)
     else if c = CHR ''t'' then literal ''true'' (JBool True) (c # r)
     else if c = CHR ''f'' then literal ''false'' (JBool False) (c # r)
     else if c = CHR ''n'' then literal ''null'' JNull (c # r)
     else parse_num (c # r))"
| "parse_elems 0 s = None"
| "parse_elems (Suc n) s = (case parse_val n s of None \<Rightarrow> None | Some (v, r) \<Rightarrow>
     (case skip_ws r of [] \<Rightarrow> None | c # r' \<Rightarrow>
        if c = CHR '']'' then Some ([v], r')
        else if c = CHR '','' then map_option (\<lambda>(vs, q). (v # vs, q)) (parse_elems n r')
        else None))"
| "parse_members 0 s = None"
| "parse_members (Suc n) s = (case skip_ws s of [] \<Rightarrow> None | c # r \<Rightarrow>
     if c \<noteq> dquote then None else
     (case parse_str r of None \<Rightarrow> None | Some (k, r1) \<Rightarrow>
     (case skip_ws r1 of [] \<Rightarrow> None | d # r2 \<Rightarrow>
        if d \<noteq> CHR '':'' then None else
     (case parse_val n r2 of None \<Rightarrow> None | Some (v, r3) \<Rightarrow>
     (case skip_ws r3 of [] \<Rightarrow> None | e # r4 \<Rightarrow>
        if e = CHR ''}'' then Some ([(k, v)], r4)
        else if e = CHR '','' then map_option (\<lambda>(ps, q). ((k, v) # ps, q)) (parse_members n r4)
        else None)))))"

text \<open>A repeated member overwrites the earlier one in its place.\<close>

fun dedup :: "json \<Rightarrow> json" where
  "dedup (JArr vs) = JArr (map dedup vs)"
| "dedup (JObj ps) = JObj (fold (\<lambda>(k, v). obj_set k v) (map (\<lambda>(k, v). (k, dedup v)) ps) [])"
| "dedup v = v"

definition json_parse :: "string \<Rightarrow> json option" where
  "json_parse s = (case parse_val (Suc (2 * length s)) s of
     Some (v, r) \<Rightarrow> if skip_ws r = [] then Some (dedup v) else None
   | None \<Rightarrow> None)"

text \<open>Reading a property: \<open>None\<close> is \<open>undefined\<close>.\<close>

fun get_prop :: "json \<Rightarrow> string \<Rightarrow> json option" where
  "get_prop (JObj ps) k = map_of ps k"
| "get_prop _ k = None"


section \<open>Parsing what was printed\<close>

text \<open>The values \<open>stringify\<close> prints faithfully: finite numbers and no repeated member.\<close>

fun json_ok :: "json \<Rightarrow> bool" where
  "json_ok (JNum x) = (canonical x \<and> (\<exists>m e. x = Dec m e))"
| "json_ok (JArr vs) = (\<forall>v \<in> set vs. json_ok v)"
| "json_ok (JObj ps) = (distinct (map fst ps) \<and> (\<forall>(k, v) \<in> set ps. json_ok v))"
| "json_ok _ = True"

lemma radix_lower_hex [simp]: "d < 16 \<Longrightarrow> radix_digit 16 (lower_hex d) = Some d"
  by (auto simp: radix_digit_def lower_hex_def Let_def)

lemma unescape_control:
  assumes "(of_char c :: nat) < 32"
  shows "unescape (CHR ''u'' # CHR ''0'' # CHR ''0'' # lower_hex (of_char c div 16)
           # lower_hex (of_char c mod 16) # t) = Some ([c], t)"
proof -
  have "radix_digit 16 (CHR ''0'') = Some 0" by (simp add: radix_digit_def)
  moreover have "16 * (of_char c div 16) + of_char c mod 16 = (of_char c :: nat)" by simp
  ultimately show ?thesis
    using assms by (simp add: unescape_def unescape_u_def hex4_def utf8_def)
qed

lemma parse_str_escape:
  "parse_str (escape_char c @ t) = map_option (\<lambda>(u, r). (c # u, r)) (parse_str t)"
proof (cases "escape_char c = [c]")
  case True
  then have "c \<noteq> dquote" "c \<noteq> backslash" "\<not> (of_char c :: nat) < 32"
    by (auto simp: escape_char_def split: if_splits)
  with True show ?thesis by simp
next
  case False
  then consider "c = dquote" | "c = backslash" | "c = CHR 0x08" | "c = CHR 0x0C" | "c = CHR 0x0A"
    | "c = CHR 0x0D" | "c = CHR 0x09"
    | (ctl) "(of_char c :: nat) < 32" "escape_char c = [backslash, CHR ''u'', CHR ''0'', CHR ''0'',
         lower_hex (of_char c div 16), lower_hex (of_char c mod 16)]"
    unfolding escape_char_def by (auto split: if_splits)
  then show ?thesis
  proof cases
    case ctl
    then show ?thesis by (simp add: unescape_control)
  qed (simp_all add: escape_char_def unescape_def)
qed

lemma parse_str_escaped: "parse_str (concat (map escape_char s) @ dquote # r) = Some (s, r)"
  by (induction s) (simp_all add: parse_str_escape)

lemma parse_val_string:
  "parse_val (Suc n) (quote_string s @ r) = Some (JStr s, r)"
  by (simp add: quote_string_def parse_str_escaped)

text \<open>The first character of a text decides how it is read, and it is never a blank.\<close>

definition stops :: "string \<Rightarrow> bool" where
  "stops r \<longleftrightarrow> r = [] \<or> hd r \<in> set '',]}''"

lemma digits_hd: "0 < n \<Longrightarrow> hd (digits n) \<noteq> CHR ''0''"
proof (induction n rule: digits.induct)
  case (1 n)
  show ?case
  proof (cases "n < 10")
    case True
    with "1.prems" have "digit_val (hd (digits n)) = n" by (simp add: digits.simps [of n])
    with "1.prems" show ?thesis by (metis digit_val_0 not_gr_zero)
  next
    case False
    with "1.IH" have "hd (digits (n div 10)) \<noteq> CHR ''0''" by simp
    with False show ?thesis by (simp add: digits.simps [of n] hd_append)
  qed
qed

lemma shape_plain:
  assumes "list_all is_digit a" "a \<noteq> []" "hd a \<noteq> CHR ''0'' \<or> a = ''0''"
    "r = [] \<or> hd r = CHR ''e''" "parse_exp r \<noteq> None"
  shows "json_num_shape (a @ r)"
proof -
  have "takeWhile is_digit r = [] \<and> dropWhile is_digit r = r"
    using assms(4) by (intro stop_at_nondigit) auto
  then have "takeWhile is_digit (a @ r) = a" "dropWhile is_digit (a @ r) = r"
    using assms(1) by (simp_all add: takeWhile_digits)
  moreover have "hd (a @ r) \<noteq> CHR ''-''" using assms(1,2) by (cases a) auto
  moreover have "r = [] \<or> hd r \<noteq> CHR ''.''" using assms(4) by auto
  ultimately show ?thesis using assms by (auto simp: json_num_shape_def Let_def)
qed

lemma shape_point:
  assumes "list_all is_digit a" "a \<noteq> []" "hd a \<noteq> CHR ''0'' \<or> a = ''0''"
    "list_all is_digit b" "b \<noteq> []" "r = [] \<or> hd r = CHR ''e''" "parse_exp r \<noteq> None"
  shows "json_num_shape (a @ ''.'' @ b @ r)"
proof -
  have "takeWhile is_digit r = [] \<and> dropWhile is_digit r = r"
    using assms(6) by (intro stop_at_nondigit) auto
  moreover have "hd a \<noteq> CHR ''-''" using assms(1,2) by (cases a) auto
  ultimately show ?thesis
    using assms by (auto simp: json_num_shape_def Let_def takeWhile_digits)
qed

lemma shape_layout:
  assumes "list_all is_digit s" "s \<noteq> []" "hd s \<noteq> CHR ''0''"
  shows "json_num_shape (layout s n)"
proof -
  have hd_take: "hd (take k s) = hd s" if "0 < k" for k using that by (cases s; cases k) auto
  have e: "parse_exp (CHR ''e'' # exp_suffix x) \<noteq> None" for x by (simp add: parse_exp_suffix)
  consider "layout s n = (s @ replicate (nat (n - int (length s))) (CHR ''0'')) @ []"
    | (pt) "layout s n = take (nat n) s @ ''.'' @ drop (nat n) s @ []" "0 < n" "nat n < length s"
    | (sm) "layout s n = ''0'' @ ''.'' @ (replicate (nat (- n)) (CHR ''0'') @ s) @ []"
    | "layout s n = s @ CHR ''e'' # exp_suffix (n - 1)"
    | (ex) "layout s n = take 1 s @ ''.'' @ drop 1 s @ CHR ''e'' # exp_suffix (n - 1)" "length s \<noteq> 1"
    by (fastforce simp: layout_def Let_def split: if_splits)
  then show ?thesis
  proof cases
    case 1
    show ?thesis unfolding 1 using assms by (intro shape_plain) auto
  next
    case pt
    show ?thesis unfolding pt(1) using assms pt(2,3) hd_take
      by (intro shape_point) (auto simp: list_all_take_drop)
  next
    case sm
    show ?thesis unfolding sm using assms by (intro shape_point) auto
  next
    case 4
    show ?thesis unfolding 4 using assms e by (intro shape_plain) auto
  next
    case ex
    have "drop 1 s \<noteq> []" using ex(2) assms(2) by (cases s) auto
    then show ?thesis unfolding ex(1) using assms e hd_take
      by (intro shape_point) (auto simp: list_all_take_drop)
  qed
qed

text \<open>A printed number is read back whole, whatever follows it.\<close>

lemma num_json_chars: "set (num_json (Dec m e)) \<subseteq> Collect num_char"
proof -
  have "set (layout (digits k) n) \<subseteq> Collect num_char" for k n
    using layout_chars [OF digits_all_digit, of k n] by (auto simp: num_char_def)
  then show ?thesis by (auto simp: num_json_def num_char_def Let_def)
qed

lemma takeWhile_num_char:
  assumes "set t \<subseteq> Collect num_char" "stops r"
  shows "takeWhile num_char (t @ r) = t" "dropWhile num_char (t @ r) = r"
proof -
  have "r = [] \<or> \<not> num_char (hd r)"
    using assms(2) by (auto simp: stops_def num_char_def is_digit_def)
  then have "takeWhile num_char r = []" "dropWhile num_char r = r" by (cases r; auto)+
  moreover have "\<And>c. c \<in> set t \<Longrightarrow> num_char c" using assms(1) by blast
  ultimately show "takeWhile num_char (t @ r) = t" "dropWhile num_char (t @ r) = r"
    by simp_all
qed

lemma num_json_shape: "json_num_shape (num_json (Dec m e))"
proof (cases "m = 0")
  case True
  then show ?thesis by (simp add: num_json_def json_num_shape_def is_digit_def)
next
  case False
  let ?u = "layout (digits (nat \<bar>m\<bar>)) (int (length (digits (nat \<bar>m\<bar>))) + e)"
  have sh: "json_num_shape ?u"
    using False by (intro shape_layout) (auto simp: digits_all_digit digits_hd)
  have "?u \<noteq> []" "is_digit (hd ?u)"
    by (auto simp: layout_nonempty intro: layout_hd [OF digits_all_digit])
  then have "json_num_shape (CHR ''-'' # ?u) = json_num_shape ?u"
    by (cases ?u) (auto simp: json_num_shape_def)
  with sh False show ?thesis by (cases "m < 0") (simp_all add: num_json_def Let_def)
qed

lemma parse_num_printed:
  assumes "json_ok (JNum x)" "stops r"
  shows "parse_num (num_json x @ r) = Some (JNum x, r)"
proof -
  obtain m e where x: "x = Dec m e" "canonical x" using assms(1) by auto
  have "takeWhile num_char (num_json x @ r) = num_json x \<and> dropWhile num_char (num_json x @ r) = r"
    using takeWhile_num_char [OF num_json_chars assms(2)] by (simp add: x(1))
  moreover have "to_number (num_json x) = x"
    using number_print_parse [OF x(2)] by (simp add: num_json_def x(1))
  ultimately show ?thesis by (simp add: parse_num_def num_json_shape x(1))
qed

lemma num_json_hd: "num_json (Dec m e) \<noteq> [] \<and> num_char (hd (num_json (Dec m e)))"
proof -
  have "num_json (Dec m e) \<noteq> []" by (auto simp: num_json_def Let_def layout_nonempty)
  then show ?thesis using num_json_chars hd_in_set by blast
qed

lemma num_char_start:
  assumes "num_char c"
  shows "skip_ws (c # s) = c # s" "c \<noteq> dquote" "c \<notin> set ''[{tfn''"
  using assms by (auto simp: num_char_def is_digit_def)

lemma parse_val_number:
  assumes "json_ok (JNum x)" "stops r"
  shows "parse_val (Suc n) (num_json x @ r) = Some (JNum x, r)"
proof -
  obtain m e where x: "x = Dec m e" using assms(1) by auto
  obtain c t where ct: "num_json x = c # t" "num_char c"
    using num_json_hd [of m e] x by (cases "num_json x") auto
  then show ?thesis
    using parse_num_printed [OF assms] num_char_start [OF ct(2)] by auto
qed

section \<open>The round trip\<close>

definition reads :: "json \<Rightarrow> bool" where
  "reads v \<longleftrightarrow> (\<forall>n r. 2 * length (stringify v) < n \<longrightarrow> stops r \<longrightarrow>
     parse_val n (stringify v @ r) = Some (v, r))"

lemma readsD:
  "reads v \<Longrightarrow> 2 * length (stringify v) < n \<Longrightarrow> stops r \<Longrightarrow>
     parse_val n (stringify v @ r) = Some (v, r)"
  by (simp add: reads_def)

lemma reads_SucI:
  "(\<And>k r. stops r \<Longrightarrow> parse_val (Suc k) (stringify v @ r) = Some (v, r)) \<Longrightarrow> reads v"
  unfolding reads_def by (metis Suc_pred gr_implies_not0 not_gr_zero)

lemma stops_simps [simp]:
  "stops (CHR '','' # r)" "stops (CHR '']'' # r)" "stops (CHR ''}'' # r)" "stops []"
  by (simp_all add: stops_def)

lemma parse_elems_printed:
  assumes "vs \<noteq> []" "\<forall>v \<in> set vs. reads v" "2 * length (join '','' (map stringify vs)) + 1 < n"
  shows "parse_elems n (join '','' (map stringify vs) @ CHR '']'' # r) = Some (vs, r)"
  using assms
proof (induction vs arbitrary: n rule: induct_list012)
  case (2 v)
  then obtain k where n: "n = Suc k" by (cases n) auto
  with 2 have "parse_val k (stringify v @ CHR '']'' # r) = Some (v, CHR '']'' # r)"
    by (intro readsD) auto
  with n show ?case by simp
next
  case (3 v w vs)
  then obtain k where n: "n = Suc k" by (cases n) auto
  let ?rest = "join '','' (map stringify (w # vs)) @ CHR '']'' # r"
  have "parse_val k (stringify v @ CHR '','' # ?rest) = Some (v, CHR '','' # ?rest)"
    using 3 n by (intro readsD) auto
  moreover have "parse_elems k ?rest = Some (w # vs, r)"
    using "3.prems" n by (intro "3.IH") auto
  ultimately show ?case using n by simp
qed simp

abbreviation print_member :: "string \<times> json \<Rightarrow> string" where
  "print_member \<equiv> (\<lambda>(k, v). quote_string k @ '':'' @ stringify v)"

lemma parse_str_quoted: "quote_string k @ t = dquote # (concat (map escape_char k) @ dquote # t)"
  by (simp add: quote_string_def)

lemma parse_members_printed:
  assumes "ps \<noteq> []" "\<forall>(k, v) \<in> set ps. reads v"
    "2 * length (join '','' (map print_member ps)) + 1 < n"
  shows "parse_members n (join '','' (map print_member ps) @ CHR ''}'' # r) = Some (ps, r)"
  using assms
proof (induction ps arbitrary: n rule: induct_list012)
  case (2 p)
  obtain k v where p: "p = (k, v)" by (cases p)
  from 2 obtain j where n: "n = Suc j" by (cases n) auto
  with 2 p have "parse_val j (stringify v @ CHR ''}'' # r) = Some (v, CHR ''}'' # r)"
    by (intro readsD) (auto simp: quote_string_def)
  with n p show ?case by (simp add: parse_str_quoted parse_str_escaped)
next
  case (3 p q ps)
  obtain k v where p: "p = (k, v)" by (cases p)
  from 3 obtain j where n: "n = Suc j" by (cases n) auto
  let ?rest = "join '','' (map print_member (q # ps)) @ CHR ''}'' # r"
  have "parse_val j (stringify v @ CHR '','' # ?rest) = Some (v, CHR '','' # ?rest)"
    using 3 n p by (intro readsD) (auto simp: quote_string_def)
  moreover have "parse_members j ?rest = Some (q # ps, r)"
    using "3.prems" n by (intro "3.IH") (auto simp: p)
  ultimately show ?case using n p by (simp add: parse_str_quoted parse_str_escaped)
qed simp

lemma stringify_hd:
  assumes "json_ok v"
  obtains c t where "stringify v = c # t" "\<And>s. skip_ws (c # s) = c # s" "c \<noteq> CHR '']''"
proof (cases v)
  case (JNum x)
  then obtain m e where x: "x = Dec m e" using assms by auto
  obtain c t where ct: "num_json x = c # t" "num_char c"
    using num_json_hd [of m e] x by (cases "num_json x") auto
  then have "c \<noteq> CHR '']''" by (auto simp: num_char_def is_digit_def)
  then show thesis using that ct num_char_start [OF ct(2)] JNum by simp
next
  case (JBool b)
  then show thesis by (cases b) (auto intro: that)
qed (auto simp: quote_string_def intro: that)

lemma join_hd: "x \<noteq> [] \<Longrightarrow> join sep (x # xs) = hd x # tl x @ (if xs = [] then [] else sep @ join sep xs)"
  by (cases xs) auto

lemma reads_array:
  assumes "\<forall>v \<in> set vs. json_ok v" "\<forall>v \<in> set vs. reads v"
  shows "reads (JArr vs)"
  unfolding reads_def
proof (intro allI impI)
  fix n r
  assume n: "2 * length (stringify (JArr vs)) < n" and "stops r"
  then obtain k where k: "n = Suc k" by (cases n) auto
  show "parse_val n (stringify (JArr vs) @ r) = Some (JArr vs, r)"
  proof (cases vs)
    case Nil
    with k show ?thesis by simp
  next
    case (Cons v ws)
    let ?body = "join '','' (map stringify vs) @ CHR '']'' # r"
    obtain c t where ct: "stringify v = c # t" "\<And>s. skip_ws (c # s) = c # s" "c \<noteq> CHR '']''"
      using assms(1) Cons stringify_hd [of v] by auto
    then obtain u where u: "?body = c # u" using Cons by (simp add: join_hd)
    have "parse_elems k ?body = Some (vs, r)"
      using assms(2) n k Cons by (intro parse_elems_printed) auto
    with k ct u show ?thesis by simp
  qed
qed

lemma reads_object:
  assumes "\<forall>(k, v) \<in> set ps. reads v"
  shows "reads (JObj ps)"
  unfolding reads_def
proof (intro allI impI)
  fix n r
  assume n: "2 * length (stringify (JObj ps)) < n" and "stops r"
  then obtain k where k: "n = Suc k" by (cases n) auto
  show "parse_val n (stringify (JObj ps) @ r) = Some (JObj ps, r)"
  proof (cases ps)
    case Nil
    with k show ?thesis by simp
  next
    case (Cons p qs)
    let ?body = "join '','' (map print_member ps) @ CHR ''}'' # r"
    obtain u where u: "?body = dquote # u"
      using Cons by (cases p) (simp add: join_hd quote_string_def)
    have "parse_members k ?body = Some (ps, r)"
      using assms n k Cons by (intro parse_members_printed) auto
    with k u show ?thesis by simp
  qed
qed

lemma reads_literal: "reads JNull" "reads (JBool b)"
  by (rule reads_SucI; simp add: literal_def)+

lemma json_ok_reads: "json_ok v \<Longrightarrow> reads v"
proof (induction v)
  case (JNum x)
  then show ?case by (intro reads_SucI) (simp add: parse_val_number del: parse_val.simps)
next
  case (JStr s)
  show ?case by (rule reads_SucI) (simp add: parse_val_string del: parse_val.simps)
next
  case (JArr vs)
  then show ?case by (intro reads_array) auto
next
  case (JObj ps)
  then show ?case by (intro reads_object) fastforce
qed (simp_all add: reads_literal)

lemma fold_obj_set:
  assumes "distinct (map fst ps)" "fst ` set qs \<inter> fst ` set ps = {}"
  shows "fold (\<lambda>(k, v). obj_set k v) ps qs = qs @ ps"
  using assms
proof (induction ps arbitrary: qs)
  case (Cons p ps)
  obtain k v where p: "p = (k, v)" by (cases p)
  have "obj_set k v qs = qs @ [(k, v)]" if "k \<notin> fst ` set qs"
    using that by (induction qs) auto
  with Cons p show ?case by auto
qed simp

lemma dedup_json_ok: "json_ok v \<Longrightarrow> dedup v = v"
proof (induction v)
  case (JArr vs)
  then show ?case by (simp add: map_idI)
next
  case (JObj ps)
  have "map (\<lambda>(k, v). (k, dedup v)) ps = ps"
    using JObj by (intro map_idI) fastforce
  with JObj.prems show ?case by (simp add: fold_obj_set)
qed auto

theorem json_roundtrip:
  assumes "json_ok v"
  shows "json_parse (stringify v) = Some v"
  using readsD [OF json_ok_reads [OF assms], of "Suc (2 * length (stringify v))" "[]"]
  by (simp add: json_parse_def dedup_json_ok [OF assms])

end
