(* ===== verification/Api_Types.thy ===== *)
theory Api_Types
  imports Js_Json
begin

text \<open>
  The data types of \<open>web/lib/api.ts\<close>: what the gateway and the indexers exchange with the
  console.  Every interface is a record whose field names carry a two-letter prefix (HOL
  records share one name space of fields).  A field the console computes from user input is
  a \<^typ>\<open>num\<close>, since \<open>Number(...)\<close> can give \<open>NaN\<close>, and so are the ratios; the counters and
  versions it only displays are \<^typ>\<open>int\<close>.  The tags \<open>_cluster\<close>, \<open>_backend\<close> and \<open>_virtual\<close> that the
  gateway adds to a row lose their underscore.
\<close>

section \<open>Federation types\<close>

record backend_health =
  bh_id :: string
  bh_url :: string
  bh_healthy :: bool
  bh_error :: "string option"
  bh_virtual :: "bool option"

record cluster_info =
  ci_cluster :: string
  ci_backends :: "backend_health list"

datatype indexer_kind = Backend | Virtual

record indexer_connection =
  ic_id :: string
  ic_kind :: "indexer_kind option"
  ic_cluster :: string
  ic_display_name :: "string option"
  ic_region :: "string option"
  ic_environment :: "string option"
  ic_labels :: "string obj option"
  ic_url :: string
  ic_has_token :: bool
  ic_enabled :: bool

section \<open>Types mirroring the Go API\<close>

record cluster =
  cl_cluster_id :: string
  cl_display_name :: string
  cl_region :: "string option"
  cl_environment :: "string option"
  cl_enabled :: bool
  cl_maintenance_mode :: bool
  cl_labels :: "string obj option"
  cl_cluster :: "string option"
  cl_backend :: "string option"
  cl_virtual :: "bool option"

record engine =
  en_engine_id :: string
  en_cluster_id :: string
  en_framework :: string
  en_api_endpoint :: string
  en_tokenizer_endpoint :: string
  en_kv_event_endpoint :: string
  en_replay_endpoint :: "string option"
  en_topic :: string
  en_served_models :: "string list"
  en_dp_ranks :: int
  en_max_num_seqs :: int
  en_max_model_len :: int
  en_queue_depth :: int
  en_healthy :: bool
  en_draining :: bool
  en_enabled :: bool
  en_labels :: "string obj option"
  en_cluster :: "string option"
  en_backend :: "string option"
  en_virtual :: "bool option"

record model_profile =
  mp_model_id :: string
  mp_aliases :: "string list option"
  mp_framework :: string
  mp_version :: int
  mp_tokenizer_endpoint :: "string option"
  mp_tokenizer_mode :: "string option"
  mp_chat_template_sha256 :: "string option"
  mp_chat_template :: "string option"
  mp_hash_profile :: string
  mp_block_size :: num
  mp_hash_seed :: string
  mp_supports_lora :: bool
  mp_supports_multimodal :: bool
  mp_supports_cache_salt :: bool
  mp_cluster :: "string option"
  mp_backend :: "string option"
  mp_virtual :: "bool option"

datatype scalar = SStr string | SNum num | SBool bool

datatype cond_value = One scalar | Many "scalar list"

record rule_condition =
  rc_field :: string
  rc_op :: string
  rc_value :: "cond_value option"

record rule_action =
  ra_type :: string
  ra_min_hit_ratio :: "num option"
  ra_on_low_hit :: "string option"
  ra_on_uncertain :: "string option"
  ra_reject_status :: "num option"

record policy =
  po_rule_id :: string
  po_name :: "string option"
  po_priority :: num
  po_conditions :: "rule_condition list option"
  po_action :: rule_action
  po_enabled :: "bool option"
  po_cluster :: "string option"
  po_backend :: "string option"

record admission_result =
  ar_decision :: string
  ar_reason :: string
  ar_http_status :: int
  ar_fallback :: bool
  ar_min_required_hit_ratio :: num
  ar_matched_rule_id :: "string option"
  ar_matched_rule_name :: "string option"
  ar_matched_rule_priority :: "num option"
  ar_evaluated_rule_ids :: "string list option"

record policy_preview =
  pp_rules :: "policy list"
  pp_result :: admission_result

record stream_health =
  sh_engine_id :: string
  sh_endpoint :: string
  sh_replay_endpoint :: "string option"
  sh_topic :: string
  sh_connected :: bool
  sh_last_seq :: int
  sh_last_event_unix :: int
  sh_events_total :: int
  sh_gaps_total :: int
  sh_decode_errors :: int
  sh_skipped_total :: "int option"
  sh_queue_depth :: "int option"
  sh_queue_cap :: "int option"
  sh_last_error :: "string option"
  sh_cluster :: "string option"
  sh_backend :: "string option"

record kv_event =
  kv_observed_at :: string
  kv_engine_id :: string
  kv_model :: string
  kv_namespace :: "string option"
  kv_seq :: string
  kv_batch_ts :: "num option"
  kv_dp_rank :: int
  kv_kind :: string
  kv_block_hashes :: "string list option"
  kv_parent_hash :: "string option"
  kv_token_ids :: "int list option"
  kv_nested_token_ids :: "bool option"
  kv_block_size :: "int option"
  kv_medium :: "string option"
  kv_tier :: "string option"
  kv_lora_id :: "int option"
  kv_lora_name :: "string option"
  kv_extra_keys :: "string list option"
  kv_extra_key_count :: "int option"
  kv_group_idx :: "int option"
  kv_spec_kind :: "string option"
  kv_sliding_window :: "int option"
  kv_request_keys :: "string list option"
  kv_indexed :: bool
  kv_skip_reason :: "string option"
  kv_cluster :: "string option"
  kv_backend :: "string option"

record instance_hit =
  ih_longest_matched :: int
  ih_gpu :: int
  ih_cpu :: int
  ih_disk :: int
  ih_dp :: "int obj"

record query_prefix_response =
  qp_model_name :: string
  qp_block_size :: int
  qp_namespace :: string
  qp_hash_profile :: string
  qp_fresh :: bool
  qp_instances :: "instance_hit obj"

record route_record =
  rr_timestamp :: string
  rr_protocol :: string
  rr_model :: string
  rr_tenant_id :: string
  rr_decision :: string
  rr_reason :: string
  rr_http_status :: int
  rr_input_tokens :: int
  rr_hit_ratio :: num
  rr_best_hit_tokens :: int
  rr_target_engine :: "string option"
  rr_fallback :: bool
  rr_config_version :: int
  rr_namespace :: string
  rr_cluster :: "string option"
  rr_backend :: "string option"

record audit_entry =
  ae_version :: int
  ae_timestamp :: string
  ae_action :: string
  ae_entity :: string
  ae_entity_id :: string
  ae_version_bump :: bool
  ae_detail :: "string option"
  ae_cluster :: "string option"
  ae_backend :: "string option"

record index_stat =
  is_namespace :: string
  is_request_keys :: int
  is_bridges :: int
  is_engines :: int
  is_last_event_unix :: int
  is_cluster :: "string option"
  is_backend :: "string option"

record tokenize_preview =
  tp_model :: string
  tp_namespace :: string
  tp_block_size :: int
  tp_count :: int
  tp_tokens :: "int list"
  tp_request_keys :: "num list"

record route_target =
  rt_cluster_id :: "string option"
  rt_engine_id :: string
  rt_endpoint :: "string option"
  rt_dp_rank :: int

record route_config =
  rg_model_profile_version :: int
  rg_namespace :: string
  rg_evaluated_rule_ids :: "string list option"
  rg_matched_rule_id :: "string option"
  rg_matched_rule_name :: "string option"
  rg_matched_rule_priority :: "num option"
  rg_config_version :: int

record route_cache =
  rh_instance_id :: "string option"
  rh_input_tokens :: int
  rh_best_hit_tokens :: int
  rh_hit_ratio :: num
  rh_gpu_tokens :: int
  rh_cpu_tokens :: int
  rh_disk_tokens :: int
  rh_effective_cached_tokens :: int

record route_error =
  re_type :: string
  re_input_tokens :: int
  re_best_hit_tokens :: int
  re_hit_ratio :: num
  re_min_required_hit_ratio :: num

record route_response =
  rs_decision :: string
  rs_reason :: string
  rs_http_status :: int
  rs_target :: "route_target option"
  rs_config :: route_config
  rs_cache :: route_cache
  rs_fallback :: bool
  rs_protocol :: string
  rs_error :: "route_error option"

end
