(* ===== verification/Api.thy ===== *)
theory Api
  imports Api_Types
begin

text \<open>
  The API client of \<open>web/lib/api.ts\<close>: the request wrapper \<open>req\<close> with its error reporting, the
  five methods of \<open>api\<close>, and the derived status of an event stream.  \<open>fetch\<close> is the
  environment: a call is a \<open>fetch_call\<close>, its outcome a rejection (the message of the error
  it rejects with) or a response; a thrown \<open>Error\<close> is an \<open>Inl\<close> with its message.
\<close>

section \<open>Requests\<close>

datatype body = Text string | Form "string obj"

record request_init =
  ri_method :: "string option"
  ri_body :: "body option"
  ri_headers :: "string obj option"

record fetch_call =
  fc_url :: string
  fc_method :: "string option"
  fc_body :: "body option"
  fc_headers :: "string obj"
  fc_cache :: string

record response =
  res_status :: int
  res_text :: string

text \<open>\<open>res.ok\<close>: the status is in the range 200 to 299.\<close>

definition res_ok :: "response \<Rightarrow> bool" where
  "res_ok r \<longleftrightarrow> 200 \<le> res_status r \<and> res_status r \<le> 299"

text \<open>\<open>new Headers(init)\<close>, \<open>headers.has\<close> and \<open>headers.set\<close>: names are compared in lower case.\<close>

definition new_headers :: "string obj \<Rightarrow> string obj" where
  "new_headers hs = fold (\<lambda>(k, v). obj_set (lower k) v) hs []"

definition has_header :: "string obj \<Rightarrow> string \<Rightarrow> bool" where
  "has_header hs k \<longleftrightarrow> map_of hs (lower k) \<noteq> None"

definition set_header :: "string \<Rightarrow> string \<Rightarrow> string obj \<Rightarrow> string obj" where
  "set_header k v hs = obj_set (lower k) v hs"

definition req_headers :: "request_init option \<Rightarrow> string obj" where
  "req_headers init =
     (let headers = new_headers (nullish (Option.bind init ri_headers) []);
          is_form = (case Option.bind init ri_body of Some (Form _) \<Rightarrow> True | _ \<Rightarrow> False)
      in if \<not> is_form \<and> \<not> has_header headers ''Content-Type''
         then set_header ''Content-Type'' ''application/json'' headers else headers)"

text \<open>The \<open>fetch\<close> that \<open>req(path, init)\<close> makes; the fields of \<open>init\<close> are spread into it.\<close>

definition req_call :: "string \<Rightarrow> string \<Rightarrow> request_init option \<Rightarrow> fetch_call" where
  "req_call api_base path init =
     \<lparr>fc_url = api_base @ path, fc_method = Option.bind init ri_method,
      fc_body = Option.bind init ri_body, fc_headers = req_headers init,
      fc_cache = ''no-store''\<rparr>"

text \<open>\<open>parseJSON\<close>: the empty text is \<open>null\<close>, malformed text is \<open>undefined\<close> (\<open>None\<close>).\<close>

definition parseJSON :: "string \<Rightarrow> json option" where
  "parseJSON text = (if text = [] then Some JNull else json_parse text)"

text \<open>The truthiness of a property's value, and \<open>String(v)\<close> of a truthy one.\<close>

fun json_truthy :: "json option \<Rightarrow> bool" where
  "json_truthy None = False"
| "json_truthy (Some JNull) = False"
| "json_truthy (Some (JBool b)) = b"
| "json_truthy (Some (JNum x)) = (x \<noteq> Dec 0 0 \<and> x \<noteq> NaN)"
| "json_truthy (Some (JStr s)) = (s \<noteq> [])"
| "json_truthy (Some _) = True"

fun json_string :: "json \<Rightarrow> string" where
  "json_string JNull = ''null''"
| "json_string (JBool b) = (if b then ''true'' else ''false'')"
| "json_string (JNum x) = num_to_string x"
| "json_string (JStr s) = s"
| "json_string (JArr vs) =
     join '','' (map (\<lambda>v. if v = JNull then [] else json_string v) vs)"
| "json_string (JObj ps) = ''[object Object]''"

text \<open>
  \<open>responseError\<close>: the value of \<open>error?.message || error?.type || ""\<close>, \<open>None\<close> when it is
  falsy.  Only an object can have the property \<open>error\<close> (an array of the API has none).
\<close>

definition responseError :: "json option \<Rightarrow> json option" where
  "responseError data = (case Option.bind data (\<lambda>d. get_prop d ''error'') of
     None \<Rightarrow> None
   | Some e \<Rightarrow>
       if json_truthy (get_prop e ''message'') then get_prop e ''message''
       else if json_truthy (get_prop e ''type'') then get_prop e ''type'' else None)"

definition status_string :: "response \<Rightarrow> string" where
  "status_string r = num_to_string (of_int_num (res_status r))"

text \<open>What \<open>req\<close> returns or throws once \<open>fetch\<close> has settled.\<close>

definition req_result :: "string + response \<Rightarrow> string + json" where
  "req_result outcome = (case outcome of Inl e \<Rightarrow> Inl e | Inr res \<Rightarrow>
     let text = res_text res; data = parseJSON text in
     if \<not> res_ok res then
       Inl (case responseError data of
              Some msg \<Rightarrow> json_string msg
            | None \<Rightarrow> if text \<noteq> [] then ''HTTP '' @ status_string res @ '': '' @ text
                      else ''HTTP '' @ status_string res)
     else case data of
       None \<Rightarrow> Inl (''Invalid JSON response: '' @ text)
     | Some v \<Rightarrow> Inr v)"

section \<open>The methods of \<open>api\<close>\<close>

definition api_get :: "string \<Rightarrow> string \<Rightarrow> fetch_call" where
  "api_get base p = req_call base p None"

definition api_post :: "string \<Rightarrow> string \<Rightarrow> json \<Rightarrow> fetch_call" where
  "api_post base p body = req_call base p (Some
     \<lparr>ri_method = Some ''POST'', ri_body = Some (Text (stringify body)), ri_headers = None\<rparr>)"

definition api_postForm :: "string \<Rightarrow> string \<Rightarrow> string obj \<Rightarrow> fetch_call" where
  "api_postForm base p body = req_call base p (Some
     \<lparr>ri_method = Some ''POST'', ri_body = Some (Form body), ri_headers = Some []\<rparr>)"

definition api_patch :: "string \<Rightarrow> string \<Rightarrow> json \<Rightarrow> fetch_call" where
  "api_patch base p body = req_call base p (Some
     \<lparr>ri_method = Some ''PATCH'', ri_body = Some (Text (stringify body)), ri_headers = None\<rparr>)"

definition api_del :: "string \<Rightarrow> string \<Rightarrow> fetch_call" where
  "api_del base p = req_call base p (Some
     \<lparr>ri_method = Some ''DELETE'', ri_body = None, ri_headers = None\<rparr>)"

section \<open>Properties of the request wrapper\<close>

lemma lower_content_type: "lower ''Content-Type'' = ''content-type''"
  by code_simp

lemma has_header_set [simp]: "has_header (set_header k v hs) k"
  by (simp add: has_header_def set_header_def)

lemma parseJSON_stringify: "json_ok v \<Longrightarrow> parseJSON (stringify v) = Some v"
proof -
  assume ok: "json_ok v"
  obtain c t where "stringify v = c # t" using stringify_hd [OF ok] by blast
  with json_roundtrip [OF ok] show ?thesis by (simp add: parseJSON_def)
qed

text \<open>
  C24: \<open>req\<close> resolves exactly when \<open>fetch\<close> did, with a status in 200 to 299 and a text that
  is empty (read as \<open>null\<close>) or well-formed JSON, and then with the parsed value; in every
  other case it throws.
\<close>

theorem req_resolves_iff:
  "req_result outcome = Inr v \<longleftrightarrow>
     (\<exists>res. outcome = Inr res \<and> 200 \<le> res_status res \<and> res_status res < 300 \<and>
            (res_text res = [] \<and> v = JNull \<or>
             res_text res \<noteq> [] \<and> json_parse (res_text res) = Some v))"
proof (cases outcome)
  case (Inr res)
  then show ?thesis
    by (auto simp: req_result_def res_ok_def parseJSON_def Let_def split: option.splits)
qed (simp add: req_result_def)

text \<open>
  When the server refuses a request with a JSON body that carries \<open>error.message\<close>, the
  error that reaches the caller has exactly that message, whatever else the body holds.
\<close>

theorem req_reports_server_message:
  assumes "json_ok (JObj ps)" "map_of ps ''error'' = Some (JObj es)"
    and "map_of es ''message'' = Some (JStr msg)" "msg \<noteq> []"
    and "res_status res < 200 \<or> 300 \<le> res_status res" "res_text res = stringify (JObj ps)"
  shows "req_result (Inr res) = Inl msg"
  using assms parseJSON_stringify [OF assms(1)]
  by (auto simp: req_result_def res_ok_def responseError_def Let_def)

theorem req_reports_server_message_witness:
  "req_result (Inr \<lparr>res_status = 429,
     res_text = stringify (JObj [(''error'', JObj [(''message'', JStr ''cold prefix''),
                                                   (''type'', JStr ''rejected'')])])\<rparr>)
   = Inl ''cold prefix''"
  by (rule req_reports_server_message
        [where ps = "[(''error'', JObj [(''message'', JStr ''cold prefix''),
                                        (''type'', JStr ''rejected'')])]"
           and es = "[(''message'', JStr ''cold prefix''), (''type'', JStr ''rejected'')]"])
     simp_all

text \<open>A refusal whose body is not JSON (the test of \<open>api.test.ts\<close>).\<close>

lemma req_plain_text_error:
  "req_result (Inr \<lparr>res_status = 404, res_text = ''404 page not found''\<rparr>)
     = Inl ''HTTP 404: 404 page not found''"
  by code_simp

text \<open>
  The text \<open>api.post\<close> sends parses back to the value it was given, labelled as JSON; and
  a server that answers 200 with the text of a value delivers that value to the caller.
\<close>

theorem api_post_transports:
  assumes "json_ok v"
  shows "\<exists>t. fc_body (api_post base p v) = Some (Text t) \<and> json_parse t = Some v
           \<and> map_of (fc_headers (api_post base p v)) ''content-type'' = Some ''application/json''
           \<and> req_result (Inr \<lparr>res_status = 200, res_text = t\<rparr>) = Inr v"
proof -
  have "req_headers (Some \<lparr>ri_method = Some ''POST'', ri_body = Some (Text t), ri_headers = None\<rparr>)
      = [(''content-type'', ''application/json'')]" for t
    by (simp add: req_headers_def new_headers_def has_header_def set_header_def Let_def
        lower_content_type)
  then show ?thesis
    using assms json_roundtrip [OF assms] parseJSON_stringify [OF assms]
    by (simp add: api_post_def req_call_def req_result_def res_ok_def Let_def)
qed

theorem api_post_transports_witness:
  "\<exists>t. fc_body (api_post ''/api/kvi'' ''/policies'' (JArr [JNum (Dec 5 (-1)), JNull])) = Some (Text t)
     \<and> json_parse t = Some (JArr [JNum (Dec 5 (-1)), JNull])"
  using api_post_transports [of "JArr [JNum (Dec 5 (-1)), JNull]" "''/api/kvi''" "''/policies''"]
  by auto

text \<open>A multipart body keeps the header free for the boundary that \<open>fetch\<close> adds.\<close>

lemma api_postForm_no_content_type:
  "\<not> has_header (fc_headers (api_postForm base p form)) ''Content-Type''"
  by (simp add: api_postForm_def req_call_def req_headers_def new_headers_def has_header_def Let_def)

section \<open>The derived status of an event stream\<close>

datatype stream_status = Down | Stale | Idle | Healthy | Degraded

definition streamStatus :: "stream_health \<Rightarrow> int \<Rightarrow> int \<Rightarrow> stream_status" where
  "streamStatus s nowMs staleAfterMs =
     (if \<not> sh_connected s then Down
      else if sh_decode_errors s > 0 \<or> sh_gaps_total s > 0 then Degraded
      else if sh_last_event_unix s = 0 \<or> sh_events_total s = 0 then Idle
      else let ageMs = nowMs - sh_last_event_unix s * 1000 in
        if ageMs > staleAfterMs then Stale else Healthy)"

lemma streamStatus_iff:
  "streamStatus s t w = Healthy \<longleftrightarrow>
     sh_connected s \<and> sh_decode_errors s \<le> 0 \<and> sh_gaps_total s \<le> 0 \<and>
     sh_last_event_unix s \<noteq> 0 \<and> sh_events_total s \<noteq> 0 \<and>
     t - sh_last_event_unix s * 1000 \<le> w"
  by (auto simp: streamStatus_def Let_def)

text \<open>
  While no event arrives, a stream's status is constant but for one change: a healthy
  stream turns stale, at the first instant more than the window after its last event, and
  stays stale.
\<close>

theorem stream_status_ages:
  assumes "t \<le> t'"
  shows "streamStatus s t' w = streamStatus s t w \<or>
    streamStatus s t w = Healthy \<and> streamStatus s t' w = Stale \<and>
    t \<le> sh_last_event_unix s * 1000 + w \<and> sh_last_event_unix s * 1000 + w < t'"
  using assms by (auto simp: streamStatus_def Let_def)

definition quiet_stream :: stream_health where
  "quiet_stream = \<lparr>sh_engine_id = ''vllm-1'', sh_endpoint = ''tcp://127.0.0.1:5559'',
     sh_replay_endpoint = None, sh_topic = ''kv-events'', sh_connected = True, sh_last_seq = 7,
     sh_last_event_unix = 100, sh_events_total = 8, sh_gaps_total = 0, sh_decode_errors = 0,
     sh_skipped_total = None, sh_queue_depth = None, sh_queue_cap = None, sh_last_error = None,
     sh_cluster = None, sh_backend = None\<rparr>"

theorem stream_status_ages_witness:
  "(160000::int) \<le> 160001 \<and> streamStatus quiet_stream 160000 60000 = Healthy
   \<and> streamStatus quiet_stream 160001 60000 = Stale"
  using stream_status_ages [of 160000 160001 quiet_stream 60000]
  by (simp add: streamStatus_def quiet_stream_def)

end
