(* ===== verification/React.thy ===== *)
theory React
  imports Prelude "HOL-Library.While_Combinator"
begin

text \<open>
  What the components use of React.  A component's \<open>useState\<close> cells are a record; a handler is
  a function on it; the effects of a render are a function on it that runs after every
  render, and again for as long as it changes the state (\<open>settle\<close>).  The locale \<open>settling\<close>
  is the contract of a component's effects: a bounded number of rounds reaches a state they
  leave alone, so the component does not render for ever.  What a component renders is a
  tree of elements with their attributes and handlers; \<open>offers\<close> is the set of events a user
  can cause on it, which leaves out the disabled elements.  Styling (class names, icons) is
  not modelled.
\<close>

section \<open>Effects\<close>

definition settle :: "('s \<Rightarrow> 's) \<Rightarrow> 's \<Rightarrow> 's option" where
  "settle eff s = while_option (\<lambda>s. eff s \<noteq> s) eff s"

lemma settle_fixpoint: "settle eff s = Some t \<Longrightarrow> eff t = t"
  by (auto simp: settle_def dest: while_option_stop)

locale settling =
  fixes eff :: "'s \<Rightarrow> 's"
    and rounds :: nat
  assumes settles: "eff ((eff ^^ rounds) s) = (eff ^^ rounds) s"
begin

lemma beyond: "(eff ^^ (rounds + k)) s = (eff ^^ rounds) s"
  by (induction k) (simp_all add: settles)

lemma settle_eq: "settle eff s = Some ((eff ^^ rounds) s)"
proof -
  let ?stop = "\<lambda>k. eff ((eff ^^ k) s) = (eff ^^ k) s"
  have "\<exists>k. ?stop k" using settles by blast
  then obtain k where k: "?stop k" "\<And>j. j < k \<Longrightarrow> \<not> ?stop j"
    using exists_least_iff [of ?stop] by blast
  have after_k: "(eff ^^ (k + j)) s = (eff ^^ k) s" for j
    by (induction j) (simp_all add: k(1))
  have "k \<le> rounds" using k(2) settles by (metis not_le)
  then have "(eff ^^ rounds) s = (eff ^^ k) s" using after_k by (metis le_add_diff_inverse)
  moreover have "settle eff s = Some ((eff ^^ k) s)"
  proof -
    have "(LEAST k. ?stop k) = k"
      using k by (intro Least_equality) (auto simp: not_less [symmetric])
    then show ?thesis using k(1) by (auto simp: settle_def while_option_def)
  qed
  ultimately show ?thesis by simp
qed

lemma settle_total: "\<exists>t. settle eff s = Some t \<and> eff t = t"
  by (simp add: settle_eq settles)

end

section \<open>Queries\<close>

text \<open>
  The result of \<open>useQuery\<close> (a third-party library): the values the components read.  They are
  inputs of the model, and change by events of the environment.
\<close>

record 'a query =
  q_data :: "'a option"
  q_isLoading :: bool
  q_isError :: bool
  q_error :: "string option"

text \<open>\<open>q.data ?? []\<close>\<close>

definition q_list :: "'a list query \<Rightarrow> 'a list" where
  "q_list q = nullish (q_data q) []"

section \<open>Rendered trees\<close>

datatype 'e attr =
    Prop string string
  | Flag string bool
  | OnClick 'e
  | OnInput "string \<Rightarrow> 'e"
  | OnToggle "bool \<Rightarrow> 'e"

datatype 'e node = Txt string | Elem string "'e attr list" "'e node list"

fun disabled_attr :: "'e attr \<Rightarrow> bool" where
  "disabled_attr (Flag n b) = (n = ''disabled'' \<and> b)"
| "disabled_attr _ = False"

fun prop_of :: "string \<Rightarrow> 'e attr list \<Rightarrow> string option" where
  "prop_of n [] = None"
| "prop_of n (Prop m v # as) = (if n = m then Some v else prop_of n as)"
| "prop_of n (a # as) = prop_of n as"

text \<open>The values of the items of a \<open>Select\<close>, a \<open>ToggleGroup\<close> or a similar choice.\<close>

fun choices :: "'e node \<Rightarrow> string list" where
  "choices (Txt s) = []"
| "choices (Elem tag as ks) =
     (if tag = ''SelectItem'' \<or> tag = ''ToggleGroupItem''
      then (case prop_of ''value'' as of Some v \<Rightarrow> [v] | None \<Rightarrow> []) else [])
     @ concat (map choices ks)"

text \<open>
  What an attribute lets the user cause: a text field can take any text, a choice only its
  items; a toggle group also gives the empty text, when its chosen item is taken off.
\<close>

definition attr_offers :: "string \<Rightarrow> 'e node list \<Rightarrow> 'e attr \<Rightarrow> 'e set" where
  "attr_offers tag ks a = (case a of
     OnClick e \<Rightarrow> {e}
   | OnInput f \<Rightarrow> if tag = ''Select'' then f ` set (concat (map choices ks))
                  else if tag = ''ToggleGroup'' then f ` insert [] (set (concat (map choices ks)))
                  else range f
   | OnToggle f \<Rightarrow> range f
   | _ \<Rightarrow> {})"

fun offers :: "'e node \<Rightarrow> 'e set" where
  "offers (Txt s) = {}"
| "offers (Elem tag as ks) =
     (if list_ex disabled_attr as then {} else \<Union> (attr_offers tag ks ` set as))
     \<union> \<Union> (offers ` set ks)"

fun texts :: "'e node \<Rightarrow> string list" where
  "texts (Txt s) = [s]"
| "texts (Elem tag as ks) = concat (map texts ks)"

text \<open>The elements with a given tag, outermost first; a table's rows and their cells.\<close>

fun elems :: "string \<Rightarrow> 'e node \<Rightarrow> 'e node list" where
  "elems t (Txt s) = []"
| "elems t (Elem tag as ks) = (if tag = t then [Elem tag as ks] else concat (map (elems t) ks))"

fun kids :: "'e node \<Rightarrow> 'e node list" where
  "kids (Txt s) = []"
| "kids (Elem tag as ks) = ks"

text \<open>\<open>{cond && <X/>}\<close>\<close>

definition shown :: "bool \<Rightarrow> 'e node list \<Rightarrow> 'e node list" where
  "shown b ks = (if b then ks else [])"

lemma shown_simps [simp]: "shown True ks = ks" "shown False ks = []"
  by (simp_all add: shown_def)

abbreviation el :: "string \<Rightarrow> 'e node list \<Rightarrow> 'e node" where
  "el tag ks \<equiv> Elem tag [] ks"

abbreviation tx :: "string \<Rightarrow> string \<Rightarrow> 'e node" where
  "tx tag s \<equiv> Elem tag [] [Txt s]"

definition badge :: "string \<Rightarrow> string \<Rightarrow> 'e node" where
  "badge variant s = Elem ''Badge'' [Prop ''variant'' variant] [Txt s]"

definition button :: "bool \<Rightarrow> 'e \<Rightarrow> string \<Rightarrow> 'e node" where
  "button dis e label = Elem ''Button'' [Flag ''disabled'' dis, OnClick e] [Txt label]"

definition input_el :: "bool \<Rightarrow> string \<Rightarrow> (string \<Rightarrow> 'e) \<Rightarrow> 'e node" where
  "input_el dis v f = Elem ''Input'' [Flag ''disabled'' dis, Prop ''value'' v, OnInput f] []"

definition item :: "string \<times> string \<Rightarrow> 'e node" where
  "item p = Elem ''SelectItem'' [Prop ''value'' (fst p)] [Txt (snd p)]"

definition select :: "bool \<Rightarrow> string \<Rightarrow> (string \<Rightarrow> 'e) \<Rightarrow> (string \<times> string) list \<Rightarrow> 'e node" where
  "select dis v f items =
     Elem ''Select'' [Flag ''disabled'' dis, Prop ''value'' v, OnInput f] (map item items)"

definition switch :: "bool \<Rightarrow> bool \<Rightarrow> (bool \<Rightarrow> 'e) \<Rightarrow> 'e node" where
  "switch dis v f = Elem ''Switch'' [Flag ''disabled'' dis, Flag ''checked'' v, OnToggle f] []"

lemma offers_badge [simp]: "offers (badge v s) = {}"
  by (simp add: badge_def attr_offers_def)

lemma offers_button [simp]: "offers (button dis e s) = (if dis then {} else {e})"
  by (simp add: button_def attr_offers_def)

lemma offers_input [simp]: "offers (input_el dis v f) = (if dis then {} else range f)"
  by (simp add: input_el_def attr_offers_def)

lemma item_simps [simp]: "choices (item p) = [fst p]" "offers (item p) = {}"
  by (simp_all add: item_def attr_offers_def)

lemma offers_select [simp]:
  "offers (select dis v f items) = (if dis then {} else f ` set (map fst items))"
  by (auto simp: select_def attr_offers_def)

lemma offers_switch [simp]: "offers (switch dis v f) = (if dis then {} else range f)"
  by (simp add: switch_def attr_offers_def)

lemma offers_text [simp]: "offers (tx tag s) = {}"
  by (simp add: attr_offers_def)

lemma shown_Nil [simp]: "shown b ks = [] \<longleftrightarrow> \<not> b \<or> ks = []"
  by (simp add: shown_def)

lemma in_shown [simp]: "x \<in> set (shown b ks) \<longleftrightarrow> b \<and> x \<in> set ks"
  by (simp add: shown_def)

text \<open>
  A component inside another: its events are wrapped by the parent's handler, which changes
  neither what is shown nor what is offered.
\<close>

lemma attr_map [simp]: "disabled_attr (map_attr f a) = disabled_attr a"
  by (cases a) auto

lemma prop_of_map [simp]: "prop_of n (map (map_attr f) as) = prop_of n as"
  by (induction n as rule: prop_of.induct) auto

lemma choices_map [simp]: "choices (map_node f n) = choices n"
  by (induction n) (auto simp: comp_def cong: map_cong)

lemma texts_map [simp]: "texts (map_node f n) = texts n"
  by (induction n) (auto simp: comp_def cong: map_cong)

lemma attr_offers_map: "attr_offers tag (map (map_node f) ks) (map_attr f a) = f ` attr_offers tag ks a"
  by (cases a) (auto simp: attr_offers_def comp_def image_image)

lemma offers_map: "offers (map_node f n) = f ` offers n"
proof (induction n)
  case (Elem tag as ks)
  have "list_ex disabled_attr (map (map_attr f) as) = list_ex disabled_attr as"
    by (induction as) auto
  with Elem show ?case by (auto simp: attr_offers_map image_iff)
qed simp

definition input_ph :: "bool \<Rightarrow> string \<Rightarrow> string \<Rightarrow> (string \<Rightarrow> 'e) \<Rightarrow> 'e node" where
  "input_ph dis v ph f =
     Elem ''Input'' [Flag ''disabled'' dis, Prop ''value'' v, Prop ''placeholder'' ph, OnInput f] []"

lemma offers_input_ph [simp]: "offers (input_ph dis v ph f) = (if dis then {} else range f)"
  by (simp add: input_ph_def attr_offers_def)

definition icon_button :: "string \<Rightarrow> bool \<Rightarrow> 'e \<Rightarrow> 'e node" where
  "icon_button label dis e =
     Elem ''Button'' [Prop ''aria-label'' label, Flag ''disabled'' dis, OnClick e] []"

lemma offers_icon_button [simp]: "offers (icon_button label dis e) = (if dis then {} else {e})"
  by (simp add: icon_button_def attr_offers_def)

text \<open>Tables: the cells of the header and of the rows.\<close>

definition cell :: "string \<Rightarrow> 'e node" where
  "cell s = tx ''TableCell'' s"

definition table_of :: "'e node list \<Rightarrow> 'e node list \<Rightarrow> 'e node" where
  "table_of heads rows =
     el ''Table'' [el ''TableHeader'' [el ''TableRow'' heads], el ''TableBody'' rows]"

definition head :: "string \<Rightarrow> 'e node" where
  "head s = tx ''TableHead'' s"

lemma table_quiet [simp]: "offers (cell s) = {}" "offers (head s) = {}"
  by (simp_all add: cell_def head_def)

lemma offers_table: "offers (table_of heads rows) = \<Union> (offers ` set heads) \<union> \<Union> (offers ` set rows)"
  by (simp add: table_of_def)

section \<open>Shared texts\<close>

text \<open>The em dash the tables show for an absent value, and the middle dot, in UTF-8.\<close>

definition dash_text :: string where
  "dash_text = [CHR 0xE2, CHR 0x80, CHR 0x94]"

definition dot_text :: string where
  "dot_text = [CHR 0xC2, CHR 0xB7]"

end
