(* ===== verification/Chrome.thy ===== *)
theory Chrome
  imports React
begin

text \<open>
  The frame of the console: the building blocks of \<open>web/components/page.tsx\<close> (headers, cards,
  the three states of a query), the navigation of \<open>web/components/app-sidebar.tsx\<close> with its
  user menu, the title of \<open>web/components/site-header.tsx\<close>, the theme menu and the breakpoint
  of \<open>web/hooks/use-mobile.ts\<close>.
\<close>

section \<open>Building blocks\<close>

definition PageHeader :: "string \<Rightarrow> string option \<Rightarrow> 'e node option \<Rightarrow> 'e node" where
  "PageHeader title subtitle actions =
     el ''div''
       ([el ''div'' (tx ''h1'' title # shown (truthy subtitle) [tx ''p'' (nullish subtitle [])])]
        @ (case actions of None \<Rightarrow> [] | Some a \<Rightarrow> [el ''div'' [a]]))"

datatype tone = ToneDefault | ToneSuccess | ToneWarning | ToneDestructive | ToneMuted

definition tone_class :: "tone option \<Rightarrow> string" where
  "tone_class tn = (case tn of
     Some ToneSuccess \<Rightarrow> ''text-success'' | Some ToneWarning \<Rightarrow> ''text-warning''
   | Some ToneDestructive \<Rightarrow> ''text-destructive'' | Some ToneMuted \<Rightarrow> ''text-muted-foreground''
   | _ \<Rightarrow> [])"

definition StatCard :: "string \<Rightarrow> 'e node \<Rightarrow> string option \<Rightarrow> tone option \<Rightarrow> 'e node" where
  "StatCard label v hint tn =
     el ''Card'' [el ''CardContent''
       ([tx ''div'' label, Elem ''div'' [Prop ''className'' (tone_class tn)] [v]]
        @ shown (truthy hint) [tx ''div'' (nullish hint [])])]"

definition EmptyState :: "'e node list \<Rightarrow> 'e node" where
  "EmptyState ks = el ''div'' ks"

text \<open>
  The states of a query.  \<open>error\<close> is the message of an \<open>Error\<close>, \<open>None\<close> when what was thrown is
  no \<open>Error\<close>; a retry is offered when the caller handles it.
\<close>

definition QueryState ::
  "(string \<Rightarrow> string) \<Rightarrow> bool \<Rightarrow> bool \<Rightarrow> string option \<Rightarrow> 'e option \<Rightarrow> nat \<Rightarrow> 'e node list \<Rightarrow> 'e node list" where
  "QueryState t isLoading isError error onRetry rows children =
     (if isError then
        let msg = nullish error (t ''common.error'') in
        [el ''div''
           (tx ''span'' (t ''common.error''
              @ (if msg \<noteq> [] then '' '' @ dash_text @ '' '' @ msg else []))
            # (case onRetry of None \<Rightarrow> [] | Some e \<Rightarrow> [button False e (t ''common.retry'')]))]
      else if isLoading then [el ''div'' (replicate rows (el ''Skeleton'' []))]
      else children)"

definition query_state ::
  "(string \<Rightarrow> string) \<Rightarrow> 'a query \<Rightarrow> 'e \<Rightarrow> nat \<Rightarrow> 'e node list \<Rightarrow> 'e node list" where
  "query_state t q retry rows children =
     QueryState t (q_isLoading q) (q_isError q) (q_error q) (Some retry) rows children"

text \<open>
  A page shows its data only for a query that has neither failed nor is loading, so an
  empty table always means that the gateway listed nothing; a failed query offers a retry
  and nothing of the page that needs the data, and a loading one offers nothing.
\<close>

theorem query_state_disambiguates:
  "(\<not> q_isError q \<and> \<not> q_isLoading q \<longrightarrow> query_state t q retry n ks = ks)
   \<and> (q_isError q \<longrightarrow> \<Union> (offers ` set (query_state t q retry n ks)) = {retry})
   \<and> (\<not> q_isError q \<and> q_isLoading q \<longrightarrow> \<Union> (offers ` set (query_state t q retry n ks)) = {}
        \<and> concat (map texts (query_state t q retry n ks)) = [])"
  by (auto simp: query_state_def QueryState_def Let_def attr_offers_def)

theorem query_state_disambiguates_witness:
  "offers (hd (query_state (\<lambda>k. k) \<lparr>q_data = None, q_isLoading = False, q_isError = True,
     q_error = Some ''HTTP 502''\<rparr> True 3 [button False False ''x''])) = {True}"
  using query_state_disambiguates [of "\<lparr>q_data = None, q_isLoading = False, q_isError = True,
     q_error = Some ''HTTP 502''\<rparr>" "\<lambda>k. k" True 3 "[button False False ''x'']"]
  by (simp add: query_state_def QueryState_def Let_def)

lemma query_state_offers:
  "x \<in> set (query_state t q retry n ks) \<Longrightarrow> e \<in> offers x \<Longrightarrow> e = retry \<or> (\<exists>k \<in> set ks. e \<in> offers k)"
  by (auto simp: query_state_def QueryState_def Let_def attr_offers_def split: if_splits)

lemma header_quiet [simp]: "offers (PageHeader title subtitle None) = {}"
  by (auto simp: PageHeader_def)

lemma empty_offers [simp]: "offers (EmptyState ks) = \<Union> (offers ` set ks)"
  by (simp add: EmptyState_def)

section \<open>Navigation\<close>

definition nav_platform :: "(string \<times> string) list" where
  "nav_platform =
     [(''/'', ''nav.overview''), (''/engines'', ''nav.engines''),
      (''/profiles'', ''nav.profiles''), (''/policies'', ''nav.policies'')]"

definition nav_observability :: "(string \<times> string) list" where
  "nav_observability =
     [(''/streams'', ''nav.streams''), (''/decisions'', ''nav.decisions''),
      (''/audit'', ''nav.audit'')]"

definition nav_tools :: "(string \<times> string) list" where
  "nav_tools = [(''/simulator'', ''nav.simulator''), (''/api-docs'', ''nav.api_docs'')]"

definition isActive :: "string \<Rightarrow> string \<Rightarrow> bool" where
  "isActive path href = (if href = ''/'' then path = ''/'' else prefix href path)"

text \<open>A link of the menu causes the navigation to its target.\<close>

definition NavSection :: "(string \<Rightarrow> string) \<Rightarrow> string \<Rightarrow> (string \<times> string) list \<Rightarrow> string \<Rightarrow> string node" where
  "NavSection t label items pathname =
     el ''SidebarGroup''
       [tx ''SidebarGroupLabel'' label,
        el ''SidebarMenu'' (map (\<lambda>(href, labelKey).
          Elem ''SidebarMenuButton''
            [Prop ''tooltip'' (t labelKey), Flag ''isActive'' (isActive pathname href)]
            [Elem ''Link'' [Prop ''href'' href, OnClick href] [tx ''span'' (t labelKey)]]) items)]"

definition NavUser :: "(string \<Rightarrow> string) \<Rightarrow> bool \<Rightarrow> string \<Rightarrow> string \<Rightarrow> string \<Rightarrow> string node" where
  "NavUser t isMobile name email avatar =
     (let initials = upper (take 2 name);
          face = el ''Avatar''
            (shown (avatar \<noteq> []) [Elem ''AvatarImage'' [Prop ''src'' avatar, Prop ''alt'' name] []]
             @ [tx ''AvatarFallback'' initials]);
          who = el ''div'' [tx ''span'' name, tx ''span'' email]
      in el ''DropdownMenu''
           [el ''SidebarMenuButton'' [face, who],
            Elem ''DropdownMenuContent'' [Prop ''side'' (if isMobile then ''bottom'' else ''right'')]
              [el ''DropdownMenuLabel'' [face, who],
               tx ''DropdownMenuItem'' (t ''app.user.account''),
               tx ''DropdownMenuItem'' (t ''app.user.notifications''),
               tx ''DropdownMenuItem'' (t ''app.user.logout'')]])"

definition AppSidebar :: "(string \<Rightarrow> string) \<Rightarrow> bool \<Rightarrow> string \<Rightarrow> string node" where
  "AppSidebar t isMobile pathname =
     el ''Sidebar''
       [el ''SidebarHeader''
          [Elem ''Link'' [Prop ''href'' ''/'', OnClick ''/''] [tx ''span'' (t ''app.brand'')]],
        el ''SidebarContent''
          [NavSection t (t ''app.section.platform'') nav_platform pathname,
           NavSection t (t ''app.section.observability'') nav_observability pathname,
           NavSection t (t ''app.section.tools'') nav_tools pathname],
        el ''SidebarFooter'' [NavUser t isMobile ''operator'' ''ops@kv-indexer'' []]]"

definition nav_all :: "(string \<times> string) list" where
  "nav_all = nav_platform @ nav_observability @ nav_tools"

definition NAV_LABEL :: "(string \<times> string) list" where
  "NAV_LABEL =
     [(''/'', ''nav.overview''), (''/engines'', ''nav.engines''),
      (''/profiles'', ''nav.profiles''), (''/policies'', ''nav.policies''),
      (''/streams'', ''nav.streams''), (''/decisions'', ''nav.decisions''),
      (''/audit'', ''nav.audit''), (''/simulator'', ''nav.simulator'')]"

definition header_label :: "string \<Rightarrow> string" where
  "header_label path =
     (let matched = (if path = ''/'' then Some ''/''
        else find (\<lambda>h. h \<noteq> ''/'' \<and> prefix h path) (map fst NAV_LABEL))
      in case matched of
           Some h \<Rightarrow> (if h = [] then ''nav.overview'' else nullish (map_of NAV_LABEL h) [])
         | None \<Rightarrow> ''nav.overview'')"

lemmas nav_defs = nav_all_def nav_platform_def nav_observability_def nav_tools_def NAV_LABEL_def

text \<open>
  The header's title agrees with the menu on every page of the console except the API
  reference: \<open>/api-docs\<close> is in the menu but not in the header's table, so the header calls
  that page \<open>nav.overview\<close>, and the menu does not mark the overview as active there.
\<close>

theorem header_follows_menu:
  "(\<forall>(href, labelKey) \<in> set nav_all. href \<noteq> ''/api-docs'' \<longrightarrow> header_label href = labelKey)
   \<and> header_label ''/api-docs'' = ''nav.overview''
   \<and> map_of nav_all ''/api-docs'' = Some ''nav.api_docs''
   \<and> \<not> isActive ''/api-docs'' ''/'' \<and> isActive ''/api-docs'' ''/api-docs''"
  by (simp add: header_label_def nav_defs isActive_def)

theorem header_follows_menu_witness: "header_label ''/streams'' = ''nav.streams''"
  using header_follows_menu by (simp add: nav_defs)

text \<open>On every page of the menu just one entry of it is active.\<close>

lemma one_active_entry:
  "list_all (\<lambda>p. filter (\<lambda>q. isActive (fst p) (fst q)) nav_all = [p]) nav_all"
  by (simp add: nav_defs isActive_def)

lemma NavSection_offers: "offers (NavSection t label items path) = fst ` set items"
  by (force simp: NavSection_def attr_offers_def split: prod.splits)

section \<open>Theme and screen\<close>

definition ThemeToggle :: "(string \<Rightarrow> string) \<Rightarrow> string node" where
  "ThemeToggle t =
     el ''DropdownMenu''
       [el ''DropdownMenuTrigger'' [Elem ''Button'' [Prop ''aria-label'' (t ''app.theme.toggle'')] []],
        el ''DropdownMenuContent''
          [Elem ''DropdownMenuItem'' [OnClick ''light''] [Txt (t ''app.theme.light'')],
           Elem ''DropdownMenuItem'' [OnClick ''dark''] [Txt (t ''app.theme.dark'')],
           Elem ''DropdownMenuItem'' [OnClick ''system''] [Txt (t ''app.theme.system'')]]]"

lemma ThemeToggle_offers: "offers (ThemeToggle t) = {''light'', ''dark'', ''system''}"
  by (auto simp: ThemeToggle_def attr_offers_def)

text \<open>
  \<open>useIsMobile\<close>: \<open>undefined\<close> until the first effect has run, then whether the window is
  narrower than the breakpoint; a change is only noticed when the media query changes.
\<close>

definition MOBILE_BREAKPOINT :: int where
  "MOBILE_BREAKPOINT = 768"

definition media_matches :: "int \<Rightarrow> bool" where
  "media_matches width \<longleftrightarrow> width \<le> MOBILE_BREAKPOINT - 1"

definition mobile_onChange :: "int \<Rightarrow> bool option" where
  "mobile_onChange width = Some (width < MOBILE_BREAKPOINT)"

definition mobile_resize :: "int \<times> bool option \<Rightarrow> int \<Rightarrow> int \<times> bool option" where
  "mobile_resize s width' =
     (width', if media_matches width' \<noteq> media_matches (fst s) then mobile_onChange width' else snd s)"

definition useIsMobile :: "bool option \<Rightarrow> bool" where
  "useIsMobile s = nullish s False"

text \<open>Listening to the query alone keeps the answer right through every resize.\<close>

lemma mobile_tracks_width:
  "snd (foldl mobile_resize (w, mobile_onChange w) ws) = mobile_onChange (last (w # ws))"
proof -
  have inv: "snd s = mobile_onChange (fst s) \<Longrightarrow>
    snd (mobile_resize s w') = mobile_onChange w' \<and> fst (mobile_resize s w') = w'" for s w'
    by (auto simp: mobile_resize_def mobile_onChange_def media_matches_def)
  have "snd (foldl mobile_resize s ws) = mobile_onChange (last (fst s # ws))"
    if "snd s = mobile_onChange (fst s)" for s
    using that
  proof (induction ws arbitrary: s)
    case (Cons w' ws)
    with inv [of s w'] Cons.IH [of "mobile_resize s w'"] show ?case by simp
  qed simp
  then show ?thesis by simp
qed

end
