(* ===== verification/Stream_Status.thy ===== *)
theory Stream_Status
  imports Api Chrome
begin

text \<open>
  \<open>web/components/stream-status.tsx\<close>: the badge of a stream's derived status and the text that
  says how long ago something happened.  \<open>t\<close> is the lookup of the translations, with the
  values it fills in.
\<close>

type_synonym tr = "string \<Rightarrow> string obj \<Rightarrow> string"

abbreviation plain_t :: "tr \<Rightarrow> string \<Rightarrow> string" where
  "plain_t t k \<equiv> t k []"

definition status_name :: "stream_status \<Rightarrow> string" where
  "status_name st = (case st of Down \<Rightarrow> ''down'' | Stale \<Rightarrow> ''stale'' | Idle \<Rightarrow> ''idle''
     | Healthy \<Rightarrow> ''healthy'' | Degraded \<Rightarrow> ''degraded'')"

definition VARIANT :: "stream_status \<Rightarrow> string" where
  "VARIANT st = (case st of Healthy \<Rightarrow> ''success'' | Idle \<Rightarrow> ''outline'' | Stale \<Rightarrow> ''warning''
     | Degraded \<Rightarrow> ''warning'' | Down \<Rightarrow> ''destructive'')"

definition StreamStatusBadge :: "tr \<Rightarrow> stream_health \<Rightarrow> int \<Rightarrow> int \<Rightarrow> 'e node" where
  "StreamStatusBadge t stream staleAfterMs nowMs =
     (let status = status_name (streamStatus stream nowMs staleAfterMs) in
      el ''Tooltip''
        [el ''TooltipTrigger'' [badge (VARIANT (streamStatus stream nowMs staleAfterMs))
           (t (''stream.status.'' @ status) [])],
         tx ''TooltipContent'' (t (''stream.status.tip.'' @ status) [])])"

text \<open>
  \<open>Math.round(nowMs / 1000 - unixSec)\<close> rounds a half up; milliseconds and seconds are whole
  numbers, so this is an integer division.
\<close>

definition age_seconds :: "int \<Rightarrow> int \<Rightarrow> int" where
  "age_seconds unixSec nowMs = max 0 ((nowMs - unixSec * 1000 + 500) div 1000)"

definition span_text :: "int \<Rightarrow> string" where
  "span_text sec =
     (if sec < 60 then int_text sec @ ''s''
      else if sec < 3600 then int_text (sec div 60) @ ''m''
      else if sec < 86400 then int_text (sec div 3600) @ ''h''
      else int_text (sec div 86400) @ ''d'')"

definition useRelativeTime :: "tr \<Rightarrow> int \<Rightarrow> int \<Rightarrow> string" where
  "useRelativeTime t unixSec nowMs =
     (if unixSec = 0 then t ''common.never'' []
      else let sec = age_seconds unixSec nowMs in
        if sec < 2 then t ''common.justnow'' []
        else t ''common.ago'' [(''n'', span_text sec)])"

definition unit_seconds :: "char \<Rightarrow> int" where
  "unit_seconds u = (if u = CHR ''s'' then 1 else if u = CHR ''m'' then 60
     else if u = CHR ''h'' then 3600 else 86400)"

lemma span_unit:
  assumes "0 \<le> sec"
  shows "\<exists>n u. span_text sec = int_text n @ [u] \<and> u \<in> set ''smhd'' \<and>
           n * unit_seconds u \<le> sec \<and> sec < (n + 1) * unit_seconds u"
proof -
  let ?u = "if sec < 60 then CHR ''s'' else if sec < 3600 then CHR ''m''
            else if sec < 86400 then CHR ''h'' else CHR ''d''"
  have "span_text sec = int_text (sec div unit_seconds ?u) @ [?u]"
    by (simp add: span_text_def unit_seconds_def)
  moreover have "sec div unit_seconds ?u * unit_seconds ?u \<le> sec
      \<and> sec < (sec div unit_seconds ?u + 1) * unit_seconds ?u"
    using assms by (auto simp: unit_seconds_def)
  moreover have "?u \<in> set ''smhd''" by simp
  ultimately show ?thesis by blast
qed

text \<open>
  The age shown for an event is right to its unit: it is the translated \<open>common.ago\<close> of a
  count \<open>n\<close> of seconds, minutes, hours or days with \<open>n\<close> units no longer than the age and
  \<open>n + 1\<close> longer, where the age is within half a second of the difference of the clocks; it
  is \<open>never\<close> just for the time zero and \<open>just now\<close> for less than two seconds, which includes
  every event a clock ahead of the page's has stamped.
\<close>

theorem relative_time_right:
  assumes "unix \<noteq> 0"
  shows "(now < unix * 1000 + 1500 \<longrightarrow> useRelativeTime t unix now = t ''common.justnow'' [])
    \<and> (unix * 1000 + 1500 \<le> now \<longrightarrow>
         (\<exists>n u sec. useRelativeTime t unix now = t ''common.ago'' [(''n'', int_text n @ [u])]
            \<and> u \<in> set ''smhd'' \<and> n * unit_seconds u \<le> sec \<and> sec < (n + 1) * unit_seconds u
            \<and> \<bar>1000 * sec - (now - unix * 1000)\<bar> \<le> 500))"
proof -
  let ?s = "age_seconds unix now"
  have pos: "0 \<le> ?s" by (simp add: age_seconds_def)
  define x where "x = now - unix * 1000 + 500"
  have x: "x = 1000 * (x div 1000) + x mod 1000" "0 \<le> x mod 1000" "x mod 1000 < 1000" by simp_all
  have s: "?s = max 0 (x div 1000)" by (simp add: age_seconds_def x_def)
  have young: "?s < 2 \<longleftrightarrow> now < unix * 1000 + 1500"
    using x unfolding s by (simp add: x_def) linarith
  obtain n u where nu: "span_text ?s = int_text n @ [u]" "u \<in> set ''smhd''"
      "n * unit_seconds u \<le> ?s" "?s < (n + 1) * unit_seconds u"
    using span_unit [OF pos] by blast
  have close: "\<bar>1000 * ?s - (now - unix * 1000)\<bar> \<le> 500" if "unix * 1000 + 1500 \<le> now"
    using that x unfolding s by (simp add: x_def)
  have "now < unix * 1000 + 1500 \<Longrightarrow> useRelativeTime t unix now = t ''common.justnow'' []"
    using assms young by (simp add: useRelativeTime_def Let_def)
  moreover have "useRelativeTime t unix now = t ''common.ago'' [(''n'', int_text n @ [u])]"
    if "unix * 1000 + 1500 \<le> now"
    using assms young nu(1) that by (simp add: useRelativeTime_def Let_def)
  ultimately show ?thesis using nu close by blast
qed

theorem relative_time_right_witness:
  "useRelativeTime (\<lambda>k vs. k) 100 101499 = ''common.justnow''"
  using relative_time_right [of 100 101499 "\<lambda>k vs. k"] by simp

end
