(* ===== verification/Cluster.thy ===== *)
theory Cluster
  imports Api_Types Uri React
begin

text \<open>
  The cluster selection of \<open>web/lib/cluster.tsx\<close> and its switcher,
  \<open>web/components/cluster-switcher.tsx\<close>: the provider's state with the copy of the selection
  in the browser's local storage, the fallback when the selected cluster leaves the
  registry, the value the pages see, and the functions that scope a path to a cluster or a
  backend.  The translations the switcher shows are an argument \<open>t\<close>.
\<close>

section \<open>Scoping a path\<close>

definition clusterQ :: "string \<Rightarrow> string \<Rightarrow> string" where
  "clusterQ path cluster =
     (if cluster = [] \<or> cluster = ''all'' then path
      else let sep = (if str_includes path ''?'' then ''&'' else ''?'')
           in path @ sep @ ''cluster='' @ encodeURIComponent cluster)"

definition backendQ :: "string \<Rightarrow> string option \<Rightarrow> string" where
  "backendQ path backend =
     (if \<not> truthy backend then path
      else let sep = (if str_includes path ''?'' then ''&'' else ''?'')
           in path @ sep @ ''backend='' @ encodeURIComponent (nullish backend []))"

abbreviation backendQ1 :: "string \<Rightarrow> string \<Rightarrow> string" where
  "backendQ1 path b \<equiv> backendQ path (Some b)"

lemma plain_names: "plain_name ''cluster''" "plain_name ''backend''" "plain_name ''source_backend''"
  by code_simp+

interpretation cq: query_appender clusterQ "''cluster''" "\<lambda>c. c \<noteq> [] \<and> c \<noteq> ''all''"
  by unfold_locales (auto simp: clusterQ_def add_param_def plain_names)

interpretation bq: query_appender backendQ1 "''backend''" "\<lambda>b. b \<noteq> []"
  by unfold_locales (auto simp: backendQ_def truthy_def add_param_def plain_names)

lemma backendQ_None [simp]: "backendQ path None = path"
  by (simp add: backendQ_def truthy_def)

lemma backendQ_empty [simp]: "backendQ path (Some []) = path"
  by (simp add: backendQ_def truthy_def)

lemma path_of_backendQ: "path_of (backendQ path b) = path_of path"
  using bq.path_app by (cases b) simp_all

text \<open>
  What the gateway reads from a path scoped by \<open>clusterQ\<close>: the parameter \<open>cluster\<close> is the
  selected cluster, whatever characters its name has, and it is absent exactly for the
  selection \<open>all\<close> (and the empty one); the path and the other parameters are untouched.
\<close>

theorem clusterQ_scopes:
  assumes "query_get path ''cluster'' = None"
  shows "query_get (clusterQ path c) ''cluster'' = (if c = [] \<or> c = ''all'' then None else Some c)
         \<and> path_of (clusterQ path c) = path_of path
         \<and> (\<forall>k. k \<noteq> ''cluster'' \<longrightarrow> query_get (clusterQ path c) k = query_get path k)"
  using cq.get_app [OF assms, of c] cq.path_app cq.get_other by simp

theorem clusterQ_scopes_witness:
  "query_get (clusterQ ''/policies?limit=5'' ''h20 & co'') ''cluster'' = Some ''h20 & co''"
proof -
  have "query_get ''/policies?limit=5'' ''cluster'' = None" by code_simp
  from clusterQ_scopes [OF this, of "''h20 & co''"] show ?thesis by simp
qed

section \<open>The provider\<close>

record cluster_state =
  cs_cluster :: string
  cs_storage :: "string option"
  cs_query :: "cluster_info list query"

definition clusters_of :: "cluster_state \<Rightarrow> cluster_info list" where
  "clusters_of s = q_list (cs_query s)"

definition multiCluster_of :: "cluster_state \<Rightarrow> bool" where
  "multiCluster_of s \<longleftrightarrow> \<not> q_isError (cs_query s) \<and> clusters_of s \<noteq> []"

text \<open>The initial state: nothing fetched, the selection \<open>all\<close>, the storage of the last visit.\<close>

definition cluster_init :: "string option \<Rightarrow> cluster_state" where
  "cluster_init saved =
     \<lparr>cs_cluster = ''all'', cs_storage = saved,
      cs_query = \<lparr>q_data = None, q_isLoading = True, q_isError = False, q_error = None\<rparr>\<rparr>"

text \<open>The effect of the first render, and the handler of the switcher.\<close>

definition cluster_mount :: "cluster_state \<Rightarrow> cluster_state" where
  "cluster_mount s = (if truthy (cs_storage s) then s\<lparr>cs_cluster := nullish (cs_storage s) []\<rparr> else s)"

definition setCluster :: "string \<Rightarrow> cluster_state \<Rightarrow> cluster_state" where
  "setCluster c s = s\<lparr>cs_cluster := c, cs_storage := Some c\<rparr>"

text \<open>The effect of every render: fall back to \<open>all\<close> when the selected cluster is gone.\<close>

definition cluster_fallback :: "cluster_state \<Rightarrow> cluster_state" where
  "cluster_fallback s =
     (if \<not> multiCluster_of s then s
      else if cs_cluster s = ''all'' then s
      else if \<not> list_ex (\<lambda>c. ci_cluster c = cs_cluster s) (clusters_of s)
      then s\<lparr>cs_cluster := ''all''\<rparr> else s)"

record cluster_ctx =
  cx_cluster :: string
  cx_clusters :: "cluster_info list"
  cx_isLoading :: bool
  cx_multiCluster :: bool

definition cluster_value :: "cluster_state \<Rightarrow> cluster_ctx" where
  "cluster_value s =
     \<lparr>cx_cluster = (if multiCluster_of s then cs_cluster s else ''all''),
      cx_clusters = clusters_of s, cx_isLoading = q_isLoading (cs_query s),
      cx_multiCluster = multiCluster_of s\<rparr>"

definition useCluster :: "cluster_ctx option \<Rightarrow> string + cluster_ctx" where
  "useCluster ctx = (case ctx of
     None \<Rightarrow> Inl ''useCluster must be used inside ClusterProvider'' | Some c \<Rightarrow> Inr c)"

interpretation fb: settling cluster_fallback 1
  by unfold_locales (auto simp: cluster_fallback_def multiCluster_of_def clusters_of_def)

text \<open>
  A step: the first render, a choice in the switcher, or a new result of the query (a
  refetch, or the loss of the gateway), each followed by the effects of its render.
\<close>

inductive cluster_step :: "cluster_state \<Rightarrow> cluster_state \<Rightarrow> bool" where
  mount: "settle cluster_fallback (cluster_mount s) = Some t \<Longrightarrow> cluster_step s t"
| choose: "settle cluster_fallback (setCluster c s) = Some t \<Longrightarrow> cluster_step s t"
| fetched: "settle cluster_fallback (s\<lparr>cs_query := q\<rparr>) = Some t \<Longrightarrow> cluster_step s t"

inductive cluster_reachable :: "string option \<Rightarrow> cluster_state \<Rightarrow> bool" for saved where
  start: "cluster_reachable saved (cluster_init saved)"
| step: "cluster_reachable saved s \<Longrightarrow> cluster_step s t \<Longrightarrow> cluster_reachable saved t"

definition cluster_ok :: "cluster_state \<Rightarrow> bool" where
  "cluster_ok s \<longleftrightarrow> multiCluster_of s \<longrightarrow>
     cs_cluster s = ''all'' \<or> cs_cluster s \<in> ci_cluster ` set (clusters_of s)"

lemma fallback_fixpoint_ok: "cluster_fallback t = t \<Longrightarrow> cluster_ok t"
proof -
  assume fix_t: "cluster_fallback t = t"
  show ?thesis
    unfolding cluster_ok_def
  proof (intro impI, rule ccontr)
    assume m: "multiCluster_of t"
      and no: "\<not> (cs_cluster t = ''all'' \<or> cs_cluster t \<in> ci_cluster ` set (clusters_of t))"
    then have "cluster_fallback t = t\<lparr>cs_cluster := ''all''\<rparr>"
      by (auto simp: cluster_fallback_def list_ex_iff image_iff)
    with fix_t have "cs_cluster t = ''all''"
      by (metis cluster_state.select_convs(1) cluster_state.surjective cluster_state.update_convs(1))
    with no show False by simp
  qed
qed

lemma cluster_step_ok: "cluster_step s t \<Longrightarrow> cluster_ok t"
  by (auto elim!: cluster_step.cases intro!: fallback_fixpoint_ok dest: settle_fixpoint)

lemma reachable_ok: "cluster_reachable saved s \<Longrightarrow> cluster_ok s"
proof (induction rule: cluster_reachable.induct)
  case start
  show ?case by (simp add: cluster_ok_def multiCluster_of_def clusters_of_def cluster_init_def q_list_def)
qed (rule cluster_step_ok)

text \<open>
  C15: after every render's effects, the cluster the pages work with is \<open>all\<close> or one the
  gateway currently lists, whatever was saved by an earlier visit and whatever the registry
  has since become; without a gateway it is \<open>all\<close>.
\<close>

theorem selected_cluster_exists:
  assumes "cluster_reachable saved s"
  shows "cx_cluster (cluster_value s) = ''all'' \<or>
         (cx_multiCluster (cluster_value s) \<and>
          cx_cluster (cluster_value s) \<in> ci_cluster ` set (cx_clusters (cluster_value s)))"
  using reachable_ok [OF assms] by (auto simp: cluster_value_def cluster_ok_def)

definition one_cluster :: "cluster_info list query" where
  "one_cluster = \<lparr>q_data = Some [\<lparr>ci_cluster = ''hkg'', ci_backends = []\<rparr>],
     q_isLoading = False, q_isError = False, q_error = None\<rparr>"

theorem selected_cluster_exists_witness:
  "\<exists>s. cluster_reachable (Some ''gone'') s \<and> cs_query s = one_cluster \<and> cs_storage s = Some ''gone''
     \<and> cx_cluster (cluster_value s) = ''all''"
proof -
  define m where "m = (cluster_init (Some ''gone''))\<lparr>cs_cluster := ''gone''\<rparr>"
  define s where "s = m\<lparr>cs_query := one_cluster, cs_cluster := ''all''\<rparr>"
  have "settle cluster_fallback (cluster_mount (cluster_init (Some ''gone''))) = Some m"
    by (simp add: fb.settle_eq m_def cluster_mount_def cluster_init_def truthy_def
        cluster_fallback_def multiCluster_of_def clusters_of_def q_list_def)
  then have m: "cluster_reachable (Some ''gone'') m"
    by (meson cluster_reachable.intros cluster_step.mount)
  have "settle cluster_fallback (m\<lparr>cs_query := one_cluster\<rparr>) = Some s"
    by (simp add: fb.settle_eq m_def s_def cluster_init_def one_cluster_def
        cluster_fallback_def multiCluster_of_def clusters_of_def q_list_def)
  then have s: "cluster_reachable (Some ''gone'') s"
    by (rule cluster_reachable.step [OF m cluster_step.fetched])
  have "cx_cluster (cluster_value s) = ''all''"
    using selected_cluster_exists [OF s]
    by (simp add: s_def cluster_value_def multiCluster_of_def clusters_of_def q_list_def one_cluster_def)
  with s show ?thesis by (auto simp: s_def m_def cluster_init_def intro!: exI [of _ s])
qed

text \<open>
  The choice survives a reload: what the switcher set is what the next visit's first
  render restores, as long as it is not empty; and losing the cluster from the registry
  changes the selection but not the saved choice, which a later visit restores.
\<close>

theorem selection_persists:
  assumes "c \<noteq> []"
  shows "cs_cluster (cluster_mount (cluster_init (cs_storage (setCluster c s)))) = c
         \<and> cs_storage (cluster_fallback s) = cs_storage s"
  using assms by (simp add: cluster_mount_def cluster_init_def setCluster_def truthy_def cluster_fallback_def)

theorem selection_persists_witness:
  "cs_cluster (cluster_mount (cluster_init (cs_storage (setCluster ''hkg'' (cluster_init None))))) = ''hkg''"
  using selection_persists [of "''hkg''" "cluster_init None"] by simp

section \<open>The switcher\<close>

definition tone_of :: "backend_health list \<Rightarrow> string" where
  "tone_of bs =
     (let allHealthy = list_all bh_healthy bs; anyHealthy = list_ex bh_healthy bs in
      if allHealthy then ''text-emerald-500'' else if anyHealthy then ''text-amber-500''
      else ''text-destructive'')"

definition health_count :: "backend_health list \<Rightarrow> nat \<times> nat" where
  "health_count bs = (length (filter bh_healthy bs), length bs)"

definition switcher_entry :: "cluster_ctx \<Rightarrow> cluster_info \<Rightarrow> string node" where
  "switcher_entry ctx c =
     Elem ''DropdownMenuItem'' [OnClick (ci_cluster c)]
       ([Elem ''IconCircleFilled'' [Prop ''tone'' (tone_of (ci_backends c))] [],
         tx ''span'' (ci_cluster c),
         tx ''span'' (int_text (int (fst (health_count (ci_backends c)))) @ ''/''
           @ int_text (int (snd (health_count (ci_backends c)))))]
        @ shown (cx_cluster ctx = ci_cluster c) [el ''IconCircleFilled'' []])"

definition ClusterSwitcher :: "(string \<Rightarrow> string) \<Rightarrow> cluster_ctx \<Rightarrow> string node option" where
  "ClusterSwitcher t ctx =
     (if \<not> cx_multiCluster ctx then None
      else let current = (if cx_cluster ctx = ''all'' then t ''cluster.all'' else cx_cluster ctx) in
        Some (el ''DropdownMenu''
          [el ''DropdownMenuTrigger'' [tx ''span'' current],
           el ''DropdownMenuContent''
             ([tx ''DropdownMenuLabel'' (t ''cluster.label''),
               Elem ''DropdownMenuItem'' [OnClick ''all'']
                 (tx ''span'' (t ''cluster.all'')
                  # shown (cx_cluster ctx = ''all'') [el ''IconCircleFilled'' []])]
              @ map (switcher_entry ctx) (cx_clusters ctx))]))"

lemma switcher_entry_offers: "offers (switcher_entry ctx c) = {ci_cluster c}"
  by (auto simp: switcher_entry_def attr_offers_def shown_def)

text \<open>
  The switcher offers exactly \<open>all\<close> and the clusters the gateway lists, so that choosing
  in it never selects a cluster that is not there (the fallback has nothing to do).
\<close>

theorem switcher_offers_known:
  assumes "ClusterSwitcher t (cluster_value s) = Some v" "c \<in> offers v"
  shows "(c = ''all'' \<or> c \<in> ci_cluster ` set (clusters_of s))
         \<and> settle cluster_fallback (setCluster c s) = Some (setCluster c s)"
proof -
  have "c = ''all'' \<or> c \<in> ci_cluster ` set (clusters_of s)"
    using assms
    by (auto simp: ClusterSwitcher_def cluster_value_def Let_def shown_def attr_offers_def
        switcher_entry_offers split: if_splits)
  then show ?thesis
    by (auto simp: fb.settle_eq cluster_fallback_def setCluster_def clusters_of_def multiCluster_of_def
        list_ex_iff)
qed

text \<open>The dot of an entry is green exactly when every backend is healthy, red when none is.\<close>

lemma tone_of_count:
  "tone_of bs = ''text-emerald-500'' \<longleftrightarrow> fst (health_count bs) = snd (health_count bs)"
  "tone_of bs = ''text-destructive'' \<longleftrightarrow> fst (health_count bs) = 0 \<and> bs \<noteq> []"
proof -
  have "length (filter bh_healthy bs) = length bs \<longleftrightarrow> list_all bh_healthy bs"
    by (metis filter_True length_filter_less list_all_iff nat_neq_iff)
  moreover have "filter bh_healthy bs = [] \<longleftrightarrow> \<not> list_ex bh_healthy bs"
    by (auto simp: filter_empty_conv list_ex_iff)
  moreover have "list_all bh_healthy bs \<Longrightarrow> list_ex bh_healthy bs \<or> bs = []"
    by (cases bs) auto
  ultimately show "tone_of bs = ''text-emerald-500'' \<longleftrightarrow> fst (health_count bs) = snd (health_count bs)"
    "tone_of bs = ''text-destructive'' \<longleftrightarrow> fst (health_count bs) = 0 \<and> bs \<noteq> []"
    by (auto simp: tone_of_def health_count_def Let_def)
qed

theorem switcher_offers_known_witness:
  "settle cluster_fallback (setCluster ''hkg'' ((cluster_init None)\<lparr>cs_query := one_cluster\<rparr>))
   = Some (setCluster ''hkg'' ((cluster_init None)\<lparr>cs_query := one_cluster\<rparr>))"
proof -
  let ?s = "(cluster_init None)\<lparr>cs_query := one_cluster\<rparr>"
  obtain v where v: "ClusterSwitcher id (cluster_value ?s) = Some v" "''hkg'' \<in> offers v"
    by (simp add: ClusterSwitcher_def cluster_value_def multiCluster_of_def clusters_of_def q_list_def
        one_cluster_def cluster_init_def switcher_entry_offers)
  from switcher_offers_known [OF v] show ?thesis by blast
qed

end
