(* ===== verification/Event_Log.thy ===== *)
theory Event_Log
  imports Prelude
begin

text \<open>
  Two contracts of \<open>web/app/streams/page.tsx\<close> and their consequences: the live list of events
  keeps the latest of them without repeats (\<open>bounded_log\<close>), and it is shown in pages of a
  fixed size, newest first (\<open>paging\<close>).
\<close>

section \<open>A bounded log without repeats\<close>

locale bounded_log =
  fixes key :: "'a \<Rightarrow> string"
    and cap :: nat
    and add :: "'a list \<Rightarrow> 'a \<Rightarrow> 'a list"
  assumes cap_pos: "0 < cap"
    and add_known: "key x \<in> key ` set xs \<Longrightarrow> add xs x = xs"
    and add_new: "key x \<notin> key ` set xs \<Longrightarrow> add xs x = slice_last cap (xs @ [x])"
begin

lemma length_add: "length xs \<le> cap \<Longrightarrow> length (add xs x) \<le> cap"
  by (cases "key x \<in> key ` set xs") (simp_all add: add_known add_new)

lemma key_present: "key x \<in> key ` set (add xs x)"
  using cap_pos
  by (cases "key x \<in> key ` set xs") (simp_all add: add_known add_new slice_last_snoc)

lemma add_idem: "add (add xs x) x = add xs x"
  by (rule add_known [OF key_present])

lemma distinct_slice: "distinct (map key xs) \<Longrightarrow> distinct (map key (slice_last n xs))"
  by (simp add: slice_last_def flip: drop_map)

lemma distinct_add: "distinct (map key xs) \<Longrightarrow> distinct (map key (add xs x))"
  by (cases "key x \<in> key ` set xs") (simp_all add: add_known add_new distinct_slice)

lemma set_add: "set (add xs x) \<subseteq> insert x (set xs)"
proof (cases "key x \<in> key ` set xs")
  case False
  then show ?thesis
    using set_mono_suffix [OF slice_last_suffix [of cap "xs @ [x]"]] by (simp add: add_new)
qed (auto simp: add_known)

text \<open>Events with distinct keys: the log is the last \<open>cap\<close> of them, in the order they came.\<close>

lemma slice_last_append: "slice_last n (slice_last n xs @ ys) = slice_last n (xs @ ys)"
proof (cases "length xs \<le> n")
  case False
  then show ?thesis by (simp add: slice_last_def min_def add.commute)
qed (simp add: slice_last_all)

lemma fold_add:
  "distinct (map key (xs @ ys)) \<Longrightarrow> length xs \<le> cap \<Longrightarrow> foldl add xs ys = slice_last cap (xs @ ys)"
proof (induction ys rule: rev_induct)
  case Nil
  then show ?case by (simp add: slice_last_all)
next
  case (snoc y ys)
  have "set (slice_last cap (xs @ ys)) \<subseteq> set (xs @ ys)"
    by (rule set_mono_suffix [OF slice_last_suffix])
  with snoc.prems have "key y \<notin> key ` set (slice_last cap (xs @ ys))"
    by (auto simp: subset_iff image_iff)
  with snoc show ?case by (simp add: add_new slice_last_append [of cap "xs @ ys" "[y]", simplified])
qed

end

section \<open>Pages\<close>

locale paging =
  fixes size :: nat
    and page_of :: "'a list \<Rightarrow> int \<Rightarrow> 'a list"
    and pages :: "nat \<Rightarrow> int"
  assumes size_pos: "0 < size"
    and page_of: "1 \<le> p \<Longrightarrow> page_of xs p = take size (drop ((nat p - 1) * size) (rev xs))"
    and pages: "pages n = max 1 (int ((n + size - 1) div size))"
begin

lemma pages_pos: "1 \<le> pages n"
  by (simp add: pages)

lemma pages_enough: "n \<le> nat (pages n) * size"
proof -
  have "n + size - 1 < (n + size - 1) div size * size + size"
    using dividend_less_div_times [OF size_pos, of "n + size - 1"] by linarith
  then have "n \<le> (n + size - 1) div size * size" using size_pos by linarith
  also have "\<dots> \<le> nat (pages n) * size" by (intro mult_right_mono) (simp_all add: pages)
  finally show ?thesis .
qed

lemma page_nonempty: "1 \<le> p \<Longrightarrow> page_of xs p = [] \<longleftrightarrow> length xs \<le> (nat p - 1) * size"
  using size_pos by (auto simp: page_of)

lemma inner_page:
  assumes "1 \<le> p" "p \<le> pages (length xs)" "xs \<noteq> []"
  shows "page_of xs p \<noteq> []"
proof
  assume "page_of xs p = []"
  with page_nonempty assms(1) have le: "length xs \<le> (nat p - 1) * size" by blast
  have pos: "0 < length xs" using assms(3) by simp
  with le have two: "2 \<le> nat p" by (cases "nat p - 1") auto
  then have "2 \<le> nat (pages (length xs))" using assms(2) by linarith
  then have pg: "nat (pages (length xs)) = (length xs + size - 1) div size"
    by (auto simp: pages max_def split: if_splits)
  have "nat p * size \<le> length xs + size - 1"
  proof -
    have "nat p \<le> (length xs + size - 1) div size" using assms(2) pg by linarith
    then show ?thesis using size_pos by (metis div_times_less_eq_dividend le_trans mult_le_mono1)
  qed
  moreover have "nat p * size = (nat p - 1) * size + size"
    using two by (cases "nat p") auto
  ultimately show False using le size_pos pos by linarith
qed

lemma prefix_pages:
  "concat (map (page_of xs) (map int [1..<Suc k])) = take (k * size) (rev xs)"
proof (induction k)
  case (Suc k)
  have "concat (map (page_of xs) (map int [1..<Suc (Suc k)]))
      = take (k * size) (rev xs) @ page_of xs (int (Suc k))"
    using Suc.IH by (simp del: of_nat_Suc)
  also have "\<dots> = take (k * size + size) (rev xs)" by (simp add: page_of [of "int (Suc k)"] take_add del: of_nat_Suc)
  finally show ?case by (simp add: add.commute)
qed simp

text \<open>The pages are a partition of the list, newest first.\<close>

lemma pages_partition:
  "concat (map (page_of xs) (map int [1..<Suc (nat (pages (length xs)))])) = rev xs"
  using prefix_pages [of xs "nat (pages (length xs))"] pages_enough [of "length xs"] by simp

end

end
