(* ===== verification/Js_Date.thy ===== *)
theory Js_Date
  imports Js_Number
begin

text \<open>
  \<open>Date.parse\<close> on the date-time format of the language (a calendar date, \<open>T\<close>, a time with an
  optional fraction, and \<open>Z\<close> or an offset), which is what the indexers write; a time value is
  a number of milliseconds, and \<open>None\<close> is \<open>NaN\<close>.  Other formats are up to the engine and are
  \<open>NaN\<close> here.  A fraction is cut to milliseconds.
\<close>

text \<open>Days from 1970-01-01, with the year starting in March.\<close>

definition days_from_civil :: "int \<Rightarrow> int \<Rightarrow> int \<Rightarrow> int" where
  "days_from_civil y m d =
     (let y' = (if m \<le> 2 then y - 1 else y); era = y' div 400; yoe = y' mod 400;
          doy = (153 * (if m > 2 then m - 3 else m + 9) + 2) div 5 + d - 1;
          doe = yoe * 365 + yoe div 4 - yoe div 100 + doy
      in era * 146097 + doe - 719468)"

definition leap :: "int \<Rightarrow> bool" where
  "leap y \<longleftrightarrow> y mod 4 = 0 \<and> (y mod 100 \<noteq> 0 \<or> y mod 400 = 0)"

definition days_in_month :: "int \<Rightarrow> int \<Rightarrow> int" where
  "days_in_month y m = (if m = 2 then (if leap y then 29 else 28)
     else if m \<in> {4, 6, 9, 11} then 30 else 31)"

text \<open>\<open>n\<close> digits at the front.\<close>

definition field_of :: "nat \<Rightarrow> string \<Rightarrow> (int \<times> string) option" where
  "field_of n s = (if n \<le> length s \<and> list_all is_digit (take n s)
     then Some (int (nat_of (take n s)), drop n s) else None)"

definition lit :: "char \<Rightarrow> string \<Rightarrow> string option" where
  "lit c s = (case s of [] \<Rightarrow> None | d # r \<Rightarrow> if d = c then Some r else None)"

definition field_sep :: "nat \<Rightarrow> char \<Rightarrow> string \<Rightarrow> (int \<times> string) option" where
  "field_sep n c s = (case field_of n s of None \<Rightarrow> None
     | Some (v, r) \<Rightarrow> map_option (\<lambda>r'. (v, r')) (lit c r))"

text \<open>The fraction of a second, in milliseconds, and the zone, in minutes.\<close>

definition fraction :: "string \<Rightarrow> (int \<times> string) option" where
  "fraction s = (case lit (CHR ''.'') s of None \<Rightarrow> Some (0, s)
     | Some r \<Rightarrow> let ds = takeWhile is_digit r in
         if ds = [] then None
         else Some (int (nat_of (take 3 (ds @ ''00''))), dropWhile is_digit r))"

definition zone :: "string \<Rightarrow> int option" where
  "zone s = (if s = ''Z'' then Some 0 else case s of [] \<Rightarrow> None | c # r \<Rightarrow>
     if c = CHR ''+'' \<or> c = CHR ''-'' then
       (case field_sep 2 (CHR '':'') r of None \<Rightarrow> None
        | Some (h, r1) \<Rightarrow> (case field_of 2 r1 of
            Some (m, []) \<Rightarrow> if h \<le> 23 \<and> m \<le> 59
                            then Some ((if c = CHR ''-'' then -1 else 1) * (h * 60 + m)) else None
          | _ \<Rightarrow> None))
     else None)"

definition date_parse :: "string \<Rightarrow> int option" where
  "date_parse s = (case field_sep 4 (CHR ''-'') s of None \<Rightarrow> None | Some (y, s1) \<Rightarrow>
     case field_sep 2 (CHR ''-'') s1 of None \<Rightarrow> None | Some (mo, s2) \<Rightarrow>
     case field_sep 2 (CHR ''T'') s2 of None \<Rightarrow> None | Some (d, s3) \<Rightarrow>
     case field_sep 2 (CHR '':'') s3 of None \<Rightarrow> None | Some (h, s4) \<Rightarrow>
     case field_sep 2 (CHR '':'') s4 of None \<Rightarrow> None | Some (mi, s5) \<Rightarrow>
     case field_of 2 s5 of None \<Rightarrow> None | Some (sec, s6) \<Rightarrow>
     case fraction s6 of None \<Rightarrow> None | Some (ms, s7) \<Rightarrow>
     case zone s7 of None \<Rightarrow> None | Some z \<Rightarrow>
     if 1 \<le> mo \<and> mo \<le> 12 \<and> 1 \<le> d \<and> d \<le> days_in_month y mo \<and> h \<le> 23 \<and> mi \<le> 59 \<and> sec \<le> 59
     then Some ((((days_from_civil y mo d * 24 + h) * 60 + mi - z) * 60 + sec) * 1000 + ms)
     else None)"

lemma date_parse_examples:
  "date_parse ''1970-01-01T00:00:00Z'' = Some 0"
  "date_parse ''2024-02-29T12:30:45.123456789Z'' = Some 1709209845123"
  "date_parse ''2024-02-29T20:30:45+08:00'' = Some 1709209845000"
  "date_parse ''2023-02-29T12:30:45Z'' = None"
  "date_parse ''yesterday'' = None"
  by code_simp+

text \<open>Successive days of a month are a day apart.\<close>

lemma days_from_civil_next_day: "days_from_civil y m (d + 1) = days_from_civil y m d + 1"
  by (simp add: days_from_civil_def Let_def)

end
