(* ===== verification/Streams.thy ===== *)
theory Streams
  imports Stream_Status Cluster Event_Log Js_Date
begin

text \<open>
  The page \<open>web/app/streams/page.tsx\<close>: the list of listeners, the live list of cache events fed
  by a query and by a server-sent event stream, its filter and its pages, and the detail of
  an event.  The page's cells are a record, its effects and handlers functions on it, and
  \<open>streams_step\<close> interleaves the user, the stream and the queries.
\<close>

section \<open>The event log\<close>

definition staleWindow :: int where
  "staleWindow = 60000"

definition eventKey :: "kv_event \<Rightarrow> string" where
  "eventKey e = nullish (kv_backend e) [] @ ''/'' @ kv_engine_id e @ ''/'' @ kv_seq e @ ''/''
     @ kv_kind e @ ''/'' @ kv_observed_at e"

definition appendEvent :: "kv_event list \<Rightarrow> kv_event \<Rightarrow> kv_event list" where
  "appendEvent prev ev =
     (if list_ex (\<lambda>p. eventKey p = eventKey ev) prev then prev else slice_last 100 (prev @ [ev]))"

definition observedUnix :: "kv_event \<Rightarrow> int" where
  "observedUnix e = (case date_parse (kv_observed_at e) of Some ts \<Rightarrow> ts div 1000 | None \<Rightarrow> 0)"

interpretation log: bounded_log eventKey 100 appendEvent
proof
  show "(0::nat) < 100" by simp
  show "eventKey x \<in> eventKey ` set xs \<Longrightarrow> appendEvent xs x = xs" for x xs
    by (simp add: appendEvent_def list_ex_image)
  show "eventKey x \<notin> eventKey ` set xs \<Longrightarrow> appendEvent xs x = slice_last 100 (xs @ [x])" for x xs
    by (simp add: appendEvent_def list_ex_image)
qed

section \<open>Pages of events\<close>

definition eventsPerPage :: int where
  "eventsPerPage = 10"

definition pagedEvents :: "kv_event list \<Rightarrow> int \<Rightarrow> kv_event list" where
  "pagedEvents events page =
     (let newestFirst = rev events; start = (page - 1) * eventsPerPage
      in js_slice start (start + eventsPerPage) newestFirst)"

text \<open>\<open>Math.max(1, Math.ceil(total / eventsPerPage))\<close>\<close>

definition pager_pages :: "nat \<Rightarrow> int" where
  "pager_pages tot = max 1 ((int tot + eventsPerPage - 1) div eventsPerPage)"

definition safePage :: "int \<Rightarrow> nat \<Rightarrow> int" where
  "safePage page tot = min page (pager_pages tot)"

interpretation pg: paging 10 pagedEvents pager_pages
proof
  show "(0::nat) < 10" by simp
  show "pagedEvents xs p = take 10 (drop ((nat p - 1) * 10) (rev xs))" if "1 \<le> p"
    for xs :: "kv_event list" and p
  proof -
    have "nat ((p - 1) * 10) = (nat p - 1) * 10" using that by (simp add: nat_mult_distrib nat_diff_distrib)
    with that show ?thesis
      by (simp add: pagedEvents_def eventsPerPage_def Let_def js_slice_nonneg)
  qed
  show "pager_pages n = max 1 (int ((n + 10 - 1) div 10))" for n
    by (simp add: pager_pages_def eventsPerPage_def zdiv_int)
qed

datatype streams_event =
    RetryStreams | RetryEvents | RetryStats
  | FilterValue string
  | QueryNow
  | SelectEvent kv_event
  | DetailOpen bool
  | SetPage int

definition EventPager :: "tr \<Rightarrow> int \<Rightarrow> nat \<Rightarrow> streams_event node" where
  "EventPager t page tot =
     (let pages = pager_pages tot; sp = safePage page tot in
      el ''div''
        [tx ''div'' (replace_first ''{total}'' (int_text (int tot))
           (replace_first ''{pages}'' (int_text pages)
             (replace_first ''{page}'' (int_text sp) (t ''streams.events.page_info'' [])))),
         el ''div''
           [button (sp \<le> 1) (SetPage (max 1 (sp - 1))) (t ''common.prev'' []),
            button (sp \<ge> pages) (SetPage (min pages (sp + 1))) (t ''common.next'' [])]])"

section \<open>The state of the page\<close>

record streams_state =
  ss_cluster :: string
  ss_multi :: bool
  ss_query :: "kv_event list query"
  ss_fetching :: bool
  ss_live :: "kv_event list"
  ss_page :: int
  ss_filter :: string
  ss_selected :: "kv_event option"
  ss_connected :: bool
  ss_source :: "string option"

definition canStream :: "streams_state \<Rightarrow> bool" where
  "canStream s \<longleftrightarrow> \<not> (ss_multi s \<and> ss_cluster s = ''all'')"

definition filteredEvents :: "streams_state \<Rightarrow> kv_event list" where
  "filteredEvents s = filter (\<lambda>event. if ss_filter s = ''all'' then True
     else if ss_filter s = ''yes'' then kv_indexed event else \<not> kv_indexed event) (ss_live s)"

text \<open>
  The effect on \<open>[canStream, cluster]\<close>: the source of the stream (its address after
  \<open>API_BASE\<close>), and its cleanup.
\<close>

definition open_source :: "streams_state \<Rightarrow> streams_state" where
  "open_source s =
     (if \<not> canStream s then s\<lparr>ss_connected := False\<rparr>
      else s\<lparr>ss_source := Some (clusterQ ''/kv-events/stream'' (ss_cluster s))\<rparr>)"

definition close_source :: "streams_state \<Rightarrow> streams_state" where
  "close_source s =
     (if ss_source s = None then s else s\<lparr>ss_source := None, ss_connected := False\<rparr>)"

text \<open>The effect on \<open>[kvEvents.data]\<close>.\<close>

definition load_events :: "streams_state \<Rightarrow> streams_state" where
  "load_events s = s\<lparr>ss_live := slice_last 100 (q_list (ss_query s))\<rparr>"

definition streams_mount :: "string \<Rightarrow> bool \<Rightarrow> kv_event list query \<Rightarrow> streams_state" where
  "streams_mount cluster multi q =
     open_source (load_events
       \<lparr>ss_cluster = cluster, ss_multi = multi, ss_query = q, ss_fetching = True, ss_live = [],
        ss_page = 1, ss_filter = ''yes'', ss_selected = None, ss_connected = False,
        ss_source = None\<rparr>)"

text \<open>A new result of the query for the same cluster; equal data keeps its identity.\<close>

definition on_query :: "kv_event list query \<Rightarrow> bool \<Rightarrow> streams_state \<Rightarrow> streams_state" where
  "on_query q fetching s =
     (let s' = s\<lparr>ss_query := q, ss_fetching := fetching\<rparr>
      in if q_data q = q_data (ss_query s) then s' else load_events s')"

text \<open>
  Another cluster, or the gateway's registry coming or going: the query of the new cluster
  has data of its own, and no data at all is the same \<open>undefined\<close> for every cluster.
\<close>

definition on_cluster :: "string \<Rightarrow> bool \<Rightarrow> kv_event list query \<Rightarrow> streams_state \<Rightarrow> streams_state" where
  "on_cluster cluster multi q s =
     (let s1 = s\<lparr>ss_cluster := cluster, ss_multi := multi\<rparr>;
          moved = (cluster \<noteq> ss_cluster s);
          s2 = (if moved then s1\<lparr>ss_query := q\<rparr> else s1);
          s3 = (if moved \<and> \<not> (q_data q = None \<and> q_data (ss_query s) = None) then load_events s2 else s2);
          s4 = (if moved then s3\<lparr>ss_page := 1, ss_selected := None\<rparr> else s3)
      in if moved \<or> canStream s1 \<noteq> canStream s then open_source (close_source s4) else s4)"

text \<open>
  The handlers of the stream.  A frame that is no JSON is \<open>None\<close> and ignored; an event
  without a cluster gets the selected one.
\<close>

definition on_open :: "streams_state \<Rightarrow> streams_state" where
  "on_open s = s\<lparr>ss_connected := True\<rparr>"

definition on_error :: "streams_state \<Rightarrow> streams_state" where
  "on_error s = s\<lparr>ss_connected := False\<rparr>"

definition tag_cluster :: "string \<Rightarrow> kv_event \<Rightarrow> kv_event" where
  "tag_cluster cluster ev =
     (if \<not> truthy (kv_cluster ev) \<and> cluster \<noteq> ''all'' then ev\<lparr>kv_cluster := Some cluster\<rparr> else ev)"

definition on_message :: "kv_event option \<Rightarrow> streams_state \<Rightarrow> streams_state" where
  "on_message frame s = (case frame of None \<Rightarrow> s
     | Some ev \<Rightarrow> s\<lparr>ss_live := appendEvent (ss_live s) (tag_cluster (ss_cluster s) ev)\<rparr>)"

text \<open>The handlers of the user; a refetch only shows in the query's next result.\<close>

fun streams_handle :: "streams_event \<Rightarrow> streams_state \<Rightarrow> streams_state" where
  "streams_handle (FilterValue v) s =
     (if v = [] \<or> v = ss_filter s then s else s\<lparr>ss_filter := v, ss_page := 1\<rparr>)"
| "streams_handle QueryNow s = s\<lparr>ss_page := 1, ss_fetching := True\<rparr>"
| "streams_handle (SelectEvent e) s = s\<lparr>ss_selected := Some e\<rparr>"
| "streams_handle (DetailOpen b) s = (if \<not> b then s\<lparr>ss_selected := None\<rparr> else s)"
| "streams_handle (SetPage p) s = s\<lparr>ss_page := p\<rparr>"
| "streams_handle RetryEvents s = s\<lparr>ss_fetching := True\<rparr>"
| "streams_handle RetryStreams s = s"
| "streams_handle RetryStats s = s"

text \<open>The pager is there when the table is and has rows; its effect corrects the page.\<close>

definition table_shown :: "streams_state \<Rightarrow> bool" where
  "table_shown s \<longleftrightarrow> \<not> q_isError (ss_query s) \<and> \<not> q_isLoading (ss_query s)"

definition pager_effect :: "streams_state \<Rightarrow> streams_state" where
  "pager_effect s =
     (let tot = length (filteredEvents s) in
      if table_shown s \<and> tot > 0 \<and> ss_page s \<noteq> safePage (ss_page s) tot
      then s\<lparr>ss_page := safePage (ss_page s) tot\<rparr> else s)"

lemma pager_effect_simps [simp]:
  "filteredEvents (pager_effect s) = filteredEvents s" "table_shown (pager_effect s) = table_shown s"
  "ss_live (pager_effect s) = ss_live s" "ss_cluster (pager_effect s) = ss_cluster s"
  "ss_multi (pager_effect s) = ss_multi s" "ss_query (pager_effect s) = ss_query s"
  "ss_connected (pager_effect s) = ss_connected s" "ss_source (pager_effect s) = ss_source s"
  "ss_filter (pager_effect s) = ss_filter s" "ss_selected (pager_effect s) = ss_selected s"
  "canStream (pager_effect s) = canStream s"
  by (simp_all add: pager_effect_def Let_def filteredEvents_def table_shown_def canStream_def)

lemma pager_effect_page:
  "ss_page (pager_effect s) =
     (if table_shown s \<and> filteredEvents s \<noteq> [] then safePage (ss_page s) (length (filteredEvents s))
      else ss_page s)"
  by (auto simp: pager_effect_def Let_def)

lemma safePage_idem: "safePage (safePage p n) n = safePage p n"
  by (simp add: safePage_def)

interpretation pager: settling pager_effect 1
proof
  fix s
  show "pager_effect ((pager_effect ^^ 1) s) = (pager_effect ^^ 1) s"
    by (simp add: pager_effect_def [of "pager_effect s"] pager_effect_page safePage_idem Let_def)
qed

section \<open>What the page shows\<close>

definition count_cell :: "string \<Rightarrow> int \<Rightarrow> 'e node" where
  "count_cell variant n =
     el ''TableCell'' [if n > 0 then badge variant (int_text n) else Txt ''0'']"

definition queue_cell :: "stream_health \<Rightarrow> 'e node" where
  "queue_cell s =
     (let cap = nullish (sh_queue_cap s) 0; depth = nullish (sh_queue_depth s) 0 in
      el ''TableCell''
        [if cap \<noteq> 0 then
           (if depth * 2 > cap
            then Elem ''Badge'' [Prop ''variant'' ''warning'']
                   [Txt (case sh_queue_depth s of None \<Rightarrow> [] | Some d \<Rightarrow> int_text d), Txt ''/'', Txt (int_text cap)]
            else Txt (int_text depth @ ''/'' @ int_text cap))
         else Txt dash_text])"

definition listener_heads :: "tr \<Rightarrow> bool \<Rightarrow> 'e node list" where
  "listener_heads t multi =
     [head (t ''streams.col.engine'' [])] @ shown multi [head (t ''cluster.col'' [])]
     @ [head (t ''streams.col.status'' []), head (t ''streams.col.endpoint'' []),
        head (t ''streams.col.topic'' []), head (t ''streams.col.last_seq'' []),
        head (t ''streams.col.events'' []), head (t ''streams.col.last_event'' []),
        head (t ''streams.col.gaps'' []), head (t ''streams.col.skipped'' []),
        head (t ''streams.col.decode'' []), head (t ''streams.col.queue'' []),
        head (t ''streams.col.last_err'' [])]"

definition listener_row :: "tr \<Rightarrow> bool \<Rightarrow> int \<Rightarrow> stream_health \<Rightarrow> 'e node" where
  "listener_row t multi now s =
     el ''TableRow''
       ([cell (sh_engine_id s)]
        @ shown multi [el ''TableCell'' [badge ''outline'' (nullish (sh_cluster s) dash_text)]]
        @ [el ''TableCell'' [StreamStatusBadge t s staleWindow now],
           cell (sh_endpoint s), cell (sh_topic s), cell (int_text (sh_last_seq s)),
           cell (int_text (sh_events_total s)), cell (useRelativeTime t (sh_last_event_unix s) now),
           count_cell ''warning'' (sh_gaps_total s),
           count_cell ''warning'' (nullish (sh_skipped_total s) 0),
           count_cell ''destructive'' (sh_decode_errors s), queue_cell s,
           cell (or_opt (sh_last_error s) dash_text)])"

definition unhealthy_count :: "stream_health list \<Rightarrow> int \<Rightarrow> nat" where
  "unhealthy_count ss now = length (filter (\<lambda>s. streamStatus s now staleWindow \<noteq> Healthy) ss)"

definition listeners_card :: "tr \<Rightarrow> bool \<Rightarrow> int \<Rightarrow> stream_health list query \<Rightarrow> streams_event node" where
  "listeners_card t multi now q =
     (let list = q_list q; unhealthy = unhealthy_count list now in
      el ''Card''
        [el ''CardTitle''
           (Txt (t ''streams.listeners.title'' [])
            # shown (list \<noteq> []) [badge (if unhealthy > 0 then ''warning'' else ''success'')
                 (int_text (int (length list - unhealthy)) @ ''/'' @ int_text (int (length list)))]),
         tx ''CardDescription'' (t ''streams.listeners.desc'' []),
         el ''CardContent'' (query_state (\<lambda>k. t k []) q RetryStreams 2
           ([table_of (listener_heads t multi) (map (listener_row t multi now) list)]
            @ shown (list = []) [EmptyState [Txt (t ''streams.empty.listeners'' [])]]))])"

definition event_heads :: "tr \<Rightarrow> bool \<Rightarrow> 'e node list" where
  "event_heads t multi =
     [head (t ''streams.events.col.time'' []), head (t ''streams.col.engine'' [])]
     @ shown multi [head (t ''cluster.col'' [])]
     @ [head (t ''streams.events.col.kind'' []), head (t ''streams.events.col.model'' []),
        head (t ''streams.col.last_seq'' []), head (t ''streams.events.col.tier'' []),
        head (t ''streams.events.col.indexed'' []), head (t ''streams.events.col.tokens'' []),
        head (t ''streams.events.col.keys'' []), head (t ''streams.events.col.skip'' []),
        head (t ''streams.events.col.detail'' [])]"

definition yes_no :: "tr \<Rightarrow> bool \<Rightarrow> string" where
  "yes_no t b = (if b then t ''common.yes'' [] else t ''common.no'' [])"

definition opt_length :: "'a list option \<Rightarrow> int" where
  "opt_length xs = (case xs of None \<Rightarrow> 0 | Some l \<Rightarrow> int (length l))"

definition tier_text :: "kv_event \<Rightarrow> string" where
  "tier_text e = or_opt (kv_tier e) (or_opt (kv_medium e) dash_text)"

definition event_row :: "tr \<Rightarrow> bool \<Rightarrow> int \<Rightarrow> kv_event \<Rightarrow> streams_event node" where
  "event_row t multi now e =
     el ''TableRow''
       ([cell (useRelativeTime t (observedUnix e) now), cell (kv_engine_id e)]
        @ shown multi [el ''TableCell'' [badge ''outline'' (nullish (kv_cluster e) dash_text)]]
        @ [el ''TableCell'' [badge ''outline'' (kv_kind e)], cell (kv_model e), cell (kv_seq e),
           cell (tier_text e),
           el ''TableCell'' [badge (if kv_indexed e then ''success'' else ''warning'') (yes_no t (kv_indexed e))],
           cell (int_text (opt_length (kv_token_ids e))),
           cell (int_text (opt_length (kv_request_keys e))),
           cell (or_opt (kv_skip_reason e) dash_text),
           el ''TableCell'' [Elem ''Button'' [Prop ''aria-label'' (t ''streams.events.detail'' []),
                                         OnClick (SelectEvent e)] []]])"

definition filter_toggle :: "tr \<Rightarrow> string \<Rightarrow> streams_event node" where
  "filter_toggle t v =
     Elem ''ToggleGroup'' [Prop ''value'' v, OnInput FilterValue]
       [Elem ''ToggleGroupItem'' [Prop ''value'' ''yes''] [Txt (t ''common.yes'' [])],
        Elem ''ToggleGroupItem'' [Prop ''value'' ''no''] [Txt (t ''common.no'' [])],
        Elem ''ToggleGroupItem'' [Prop ''value'' ''all''] [Txt (t ''streams.events.filter.all'' [])]]"

definition events_body :: "tr \<Rightarrow> int \<Rightarrow> streams_state \<Rightarrow> streams_event node list" where
  "events_body t now s =
     [table_of (event_heads t (ss_multi s))
        (map (event_row t (ss_multi s) now) (pagedEvents (filteredEvents s) (ss_page s)))]
     @ shown (filteredEvents s \<noteq> []) [EventPager t (ss_page s) (length (filteredEvents s))]
     @ shown (filteredEvents s = [])
         [EmptyState [Txt (if ss_live s = [] then t ''streams.events.empty'' []
                           else t ''streams.events.empty_filtered'' [])]]"

definition events_card :: "tr \<Rightarrow> int \<Rightarrow> streams_state \<Rightarrow> streams_event node" where
  "events_card t now s =
     el ''Card''
       [el ''CardTitle''
          [Txt (t ''streams.events.title'' []),
           badge (if ss_connected s then ''success'' else if canStream s then ''warning'' else ''outline'')
             (if ss_connected s then t ''streams.events.live'' []
              else if canStream s then t ''streams.events.connecting'' []
              else t ''streams.events.select_cluster'' [])],
        tx ''CardDescription'' (t ''streams.events.desc'' []),
        el ''div'' [tx ''span'' (t ''streams.events.filter.indexed'' []), filter_toggle t (ss_filter s)],
        button (ss_fetching s) QueryNow (t ''streams.events.query'' []),
        el ''CardContent''
          (query_state (\<lambda>k. t k []) (ss_query s) RetryEvents 2 (events_body t now s))]"

definition index_heads :: "tr \<Rightarrow> 'e node list" where
  "index_heads t =
     [head (t ''streams.col.namespace'' []), head (t ''streams.col.req_keys'' []),
      head (t ''streams.col.bridges'' []), head (t ''streams.col.engines'' [])]"

definition index_row :: "index_stat \<Rightarrow> 'e node" where
  "index_row s =
     el ''TableRow''
       [cell (is_namespace s), cell (int_text (is_request_keys s)),
        cell (int_text (is_bridges s)), cell (int_text (is_engines s))]"

definition index_card :: "tr \<Rightarrow> index_stat list query \<Rightarrow> streams_event node" where
  "index_card t q =
     el ''Card''
       [tx ''CardTitle'' (t ''streams.index.title'' []),
        tx ''CardDescription'' (t ''streams.index.desc'' []),
        el ''CardContent'' (query_state (\<lambda>k. t k []) q RetryStats 2
          ([table_of (index_heads t) (map index_row (q_list q))]
           @ shown (q_list q = []) [EmptyState [Txt (t ''streams.empty.index'' [])]]))]"

definition DetailRow :: "string \<Rightarrow> string \<Rightarrow> 'e node" where
  "DetailRow k v = el ''div'' [tx ''div'' k, tx ''div'' v]"

text \<open>\<open>JSON.stringify(values, null, 2)\<close> of an array of texts or numbers.\<close>

definition pretty_array :: "json list \<Rightarrow> string" where
  "pretty_array vs = (let nl = [CHR 0x0A]; sep = '','' @ nl @ ''  '' in
     ''['' @ nl @ ''  '' @ join sep (map stringify vs) @ nl @ '']'')"

definition ArrayBlock :: "string \<Rightarrow> json list \<Rightarrow> 'e node" where
  "ArrayBlock title vs =
     el ''div''
       [el ''div'' [Txt title, tx ''span'' (''('' @ int_text (int (length vs)) @ '')'')],
        tx ''pre'' (if vs \<noteq> [] then pretty_array vs else ''[]'')]"

definition int_or_dash :: "int option \<Rightarrow> string" where
  "int_or_dash v = (case v of None \<Rightarrow> dash_text | Some i \<Rightarrow> int_text i)"

definition str_values :: "string list option \<Rightarrow> json list" where
  "str_values v = map JStr (nullish v [])"

text \<open>\<open>raw\<close> is \<open>JSON.stringify(event, null, 2)\<close>, which shows the event as it was received.\<close>

definition event_details :: "tr \<Rightarrow> (kv_event \<Rightarrow> string) \<Rightarrow> kv_event \<Rightarrow> 'e node" where
  "event_details t raw event =
     el ''div''
       [el ''div''
          [DetailRow (t ''streams.events.col.time'' []) (kv_observed_at event),
           DetailRow (t ''streams.col.engine'' []) (kv_engine_id event),
           DetailRow (t ''cluster.col'' []) (or_opt (kv_cluster event) dash_text),
           DetailRow (t ''streams.events.col.model'' []) (kv_model event),
           DetailRow (t ''streams.col.namespace'' []) (or_opt (kv_namespace event) dash_text),
           DetailRow (t ''streams.col.last_seq'' []) (kv_seq event),
           DetailRow (t ''streams.events.col.kind'' []) (kv_kind event),
           DetailRow (t ''streams.events.col.tier'' []) (tier_text event),
           DetailRow (t ''streams.events.col.indexed'' []) (yes_no t (kv_indexed event)),
           DetailRow (t ''streams.events.col.skip'' []) (or_opt (kv_skip_reason event) dash_text),
           DetailRow ''dp_rank'' (int_text (kv_dp_rank event)),
           DetailRow ''block_size''
             (if nullish (kv_block_size event) 0 \<noteq> 0 then int_or_dash (kv_block_size event) else dash_text),
           DetailRow ''group_idx'' (int_or_dash (kv_group_idx event)),
           DetailRow ''spec_kind'' (or_opt (kv_spec_kind event) dash_text),
           DetailRow ''sliding_window'' (int_or_dash (kv_sliding_window event)),
           DetailRow ''lora_id'' (int_or_dash (kv_lora_id event)),
           DetailRow ''lora_name'' (or_opt (kv_lora_name event) dash_text),
           DetailRow ''extra_key_count'' (int_or_dash (kv_extra_key_count event)),
           DetailRow ''nested_token_ids'' (yes_no t (nullish (kv_nested_token_ids event) False)),
           DetailRow ''parent_hash'' (or_opt (kv_parent_hash event) dash_text),
           DetailRow ''batch_ts'' (case kv_batch_ts event of None \<Rightarrow> dash_text | Some x \<Rightarrow> num_to_string x)],
        ArrayBlock ''token_ids'' (map (JNum \<circ> of_int_num) (nullish (kv_token_ids event) [])),
        ArrayBlock ''request_keys'' (str_values (kv_request_keys event)),
        ArrayBlock ''block_hashes'' (str_values (kv_block_hashes event)),
        ArrayBlock ''extra_keys'' (str_values (kv_extra_keys event)),
        el ''div'' [tx ''div'' (t ''streams.events.raw_json'' []), tx ''pre'' (raw event)]]"

definition KVEventDetail ::
  "tr \<Rightarrow> (kv_event \<Rightarrow> string) \<Rightarrow> kv_event option \<Rightarrow> streams_event node" where
  "KVEventDetail t raw event =
     Elem ''Sheet'' [Flag ''open'' (event \<noteq> None), OnToggle DetailOpen]
       ([tx ''SheetTitle'' (t ''streams.events.detail'' []),
         tx ''SheetDescription'' (case event of None \<Rightarrow> []
           | Some e \<Rightarrow> kv_engine_id e @ '' '' @ dot_text @ '' '' @ kv_kind e @ '' '' @ dot_text
                       @ '' seq '' @ kv_seq e)]
        @ (case event of None \<Rightarrow> [] | Some e \<Rightarrow> [event_details t raw e]))"

definition StreamsPage ::
  "tr \<Rightarrow> (kv_event \<Rightarrow> string) \<Rightarrow> int \<Rightarrow> stream_health list query \<Rightarrow> index_stat list query
     \<Rightarrow> streams_state \<Rightarrow> streams_event node" where
  "StreamsPage t raw now streams stats s =
     el ''div''
       [PageHeader (t ''streams.title'' []) (Some (t ''streams.subtitle'' [])) None,
        listeners_card t (ss_multi s) now streams,
        events_card t now s,
        KVEventDetail t raw (ss_selected s),
        index_card t stats]"

section \<open>Runs of the page\<close>

text \<open>
  A step is something the user can do on what the page shows, a frame or a change of the
  open stream, a result of the query, or another cluster; the effect of the pager follows.
\<close>

inductive streams_act :: "tr \<Rightarrow> streams_state \<Rightarrow> streams_state \<Rightarrow> bool" for t where
  user: "e \<in> offers (StreamsPage t raw now streams stats s) \<Longrightarrow> streams_act t s (streams_handle e s)"
| opened: "ss_source s \<noteq> None \<Longrightarrow> streams_act t s (on_open s)"
| failed: "ss_source s \<noteq> None \<Longrightarrow> streams_act t s (on_error s)"
| message: "ss_source s \<noteq> None \<Longrightarrow> streams_act t s (on_message frame s)"
| fetched: "streams_act t s (on_query q fetching s)"
| moved: "streams_act t s (on_cluster cluster multi q s)"

inductive streams_reachable :: "tr \<Rightarrow> streams_state \<Rightarrow> bool" for t where
  start: "settle pager_effect (streams_mount cluster multi q) = Some s \<Longrightarrow> streams_reachable t s"
| step: "streams_reachable t s \<Longrightarrow> streams_act t s s' \<Longrightarrow> settle pager_effect s' = Some s''
    \<Longrightarrow> streams_reachable t s''"

end
