(* ===== verification/Stream_Runs.thy ===== *)
theory Stream_Runs
  imports Streams
begin

text \<open>
  The correctness of the streams page: what the user can cause, the invariant of its runs,
  and the properties of the live list, of its pages and of the stream's connection.
\<close>

section \<open>What the page offers\<close>

definition filter_ok :: "string \<Rightarrow> bool" where
  "filter_ok v \<longleftrightarrow> v \<in> {''yes'', ''no'', ''all''}"

definition event_ok :: "streams_event \<Rightarrow> bool" where
  "event_ok e = (case e of SetPage p \<Rightarrow> 1 \<le> p
     | FilterValue v \<Rightarrow> v = [] \<or> filter_ok v | _ \<Rightarrow> True)"

lemma event_ok_simps [simp]:
  "event_ok RetryStreams" "event_ok RetryEvents" "event_ok RetryStats" "event_ok QueryNow"
  "event_ok (SelectEvent e)" "event_ok (DetailOpen b)"
  "event_ok (SetPage p) \<longleftrightarrow> 1 \<le> p"
  "event_ok (FilterValue v) \<longleftrightarrow> v = [] \<or> filter_ok v"
  by (simp_all add: event_ok_def)

lemma cells_quiet [simp]:
  "offers (count_cell v n) = {}"
  "offers (queue_cell sh) = {}" "offers (StreamStatusBadge t sh w now) = {}"
  "offers (DetailRow k v) = {}" "offers (ArrayBlock k vs) = {}"
  by (simp_all add: count_cell_def queue_cell_def StreamStatusBadge_def Let_def
      DetailRow_def ArrayBlock_def attr_offers_def)

lemma heads_quiet [simp]:
  "\<Union> (offers ` set (listener_heads t multi)) = {}"
  "\<Union> (offers ` set (event_heads t multi)) = {}"
  "\<Union> (offers ` set (index_heads t)) = {}"
  by (simp_all add: listener_heads_def event_heads_def index_heads_def shown_def)

lemma rows_quiet [simp]: "offers (listener_row t multi now s) = {}" "offers (index_row r) = {}"
  by (simp_all add: listener_row_def index_row_def shown_def)

lemma event_row_offers [simp]: "offers (event_row t multi now e) = {SelectEvent e}"
  by (simp add: event_row_def shown_def attr_offers_def)

lemma pager_offers:
  assumes "1 \<le> page" "e \<in> offers (EventPager t page tot)"
  obtains p where "e = SetPage p" "1 \<le> p" "p \<le> pager_pages tot"
proof -
  have "1 \<le> pager_pages tot" by (rule pg.pages_pos)
  then show ?thesis
    using assms that by (auto simp: EventPager_def Let_def safePage_def split: if_splits)
qed

lemma cards_ok:
  "e \<in> offers (listeners_card t multi now q) \<Longrightarrow> event_ok e"
  "e \<in> offers (index_card t q') \<Longrightarrow> event_ok e"
  "e \<in> offers (KVEventDetail t raw ev) \<Longrightarrow> event_ok e"
  by (auto simp: listeners_card_def index_card_def KVEventDetail_def event_details_def Let_def
      offers_table attr_offers_def dest!: query_state_offers split: if_splits option.splits)

lemma events_body_ok:
  assumes "1 \<le> ss_page s" "x \<in> set (events_body t now s)" "e \<in> offers x"
  shows "event_ok e"
  using assms by (auto simp: events_body_def offers_table elim!: pager_offers [rotated])

lemma events_card_ok:
  assumes "1 \<le> ss_page s" "e \<in> offers (events_card t now s)"
  shows "event_ok e"
  using assms events_body_ok [OF assms(1)]
  by (auto simp: events_card_def filter_toggle_def filter_ok_def attr_offers_def
      dest!: query_state_offers split: if_splits)

lemma page_offers_ok: "1 \<le> ss_page s \<Longrightarrow> e \<in> offers (StreamsPage t raw now streams stats s) \<Longrightarrow> event_ok e"
  using cards_ok events_card_ok by (auto simp: StreamsPage_def)

section \<open>The invariant\<close>

definition streams_ok :: "streams_state \<Rightarrow> bool" where
  "streams_ok s \<longleftrightarrow> 1 \<le> ss_page s \<and> length (ss_live s) \<le> 100
     \<and> filter_ok (ss_filter s)
     \<and> ss_source s = (if canStream s then Some (clusterQ ''/kv-events/stream'' (ss_cluster s)) else None)
     \<and> (ss_connected s \<longrightarrow> ss_source s \<noteq> None)"

lemma streams_ok_I:
  assumes "streams_ok s" "ss_cluster s' = ss_cluster s" "ss_multi s' = ss_multi s"
    and "ss_source s' = ss_source s" "ss_connected s' \<longrightarrow> ss_source s \<noteq> None"
    and "1 \<le> ss_page s'" "length (ss_live s') \<le> 100" "filter_ok (ss_filter s')"
  shows "streams_ok s'"
  using assms by (simp add: streams_ok_def canStream_def)

lemma mount_ok: "streams_ok (streams_mount cluster multi q)"
  by (simp add: streams_ok_def filter_ok_def streams_mount_def open_source_def load_events_def canStream_def)

lemma handle_ok: "streams_ok s \<Longrightarrow> event_ok e \<Longrightarrow> streams_ok (streams_handle e s)"
  by (cases e) (auto simp: streams_ok_def canStream_def)

lemma message_ok: "streams_ok s \<Longrightarrow> streams_ok (on_message frame s)"
  by - (rule streams_ok_I [of s]; auto simp: on_message_def streams_ok_def log.length_add split: option.split)

lemma query_ok: "streams_ok s \<Longrightarrow> streams_ok (on_query q fetching s)"
  by - (rule streams_ok_I [of s]; auto simp: on_query_def streams_ok_def load_events_def Let_def)

lemma open_source_ok:
  assumes "1 \<le> ss_page s" "length (ss_live s) \<le> 100" "filter_ok (ss_filter s)"
    and "ss_source s = None" "\<not> ss_connected s"
  shows "streams_ok (open_source s)"
  using assms by (auto simp: streams_ok_def open_source_def canStream_def)

lemma cluster_ok: "streams_ok s \<Longrightarrow> streams_ok (on_cluster cluster multi q s)"
proof -
  assume ok: "streams_ok s"
  define s4 where "s4 = (let s1 = s\<lparr>ss_cluster := cluster, ss_multi := multi\<rparr>;
          moved = (cluster \<noteq> ss_cluster s);
          s2 = (if moved then s1\<lparr>ss_query := q\<rparr> else s1);
          s3 = (if moved \<and> \<not> (q_data q = None \<and> q_data (ss_query s) = None) then load_events s2 else s2)
      in if moved then s3\<lparr>ss_page := 1, ss_selected := None\<rparr> else s3)"
  have s4: "1 \<le> ss_page s4" "length (ss_live s4) \<le> 100" "ss_filter s4 = ss_filter s"
    "ss_source s4 = ss_source s" "ss_connected s4 = ss_connected s" "ss_cluster s4 = cluster" "ss_multi s4 = multi"
    using ok by (auto simp: s4_def Let_def load_events_def streams_ok_def)
  have on: "on_cluster cluster multi q s =
    (if cluster \<noteq> ss_cluster s \<or> canStream (s\<lparr>ss_cluster := cluster, ss_multi := multi\<rparr>) \<noteq> canStream s
     then open_source (close_source s4) else s4)"
    by (simp add: on_cluster_def s4_def Let_def)
  have closed: "streams_ok (open_source (close_source s4))"
    using ok s4 by (intro open_source_ok) (auto simp: close_source_def streams_ok_def)
  have "streams_ok s4" if "cluster = ss_cluster s"
      "canStream (s\<lparr>ss_cluster := cluster, ss_multi := multi\<rparr>) = canStream s"
  proof -
    have "canStream s4 = canStream s" using that(2) s4 by (simp add: canStream_def)
    with ok s4 that(1) show ?thesis by (auto simp: streams_ok_def)
  qed
  with closed on show ?thesis by simp
qed

lemma act_ok: "streams_act t s s' \<Longrightarrow> streams_ok s \<Longrightarrow> streams_ok s'"
proof (induction rule: streams_act.induct)
  case (user e raw now streams stats s)
  then have "1 \<le> ss_page s" by (simp add: streams_ok_def)
  with user show ?case using handle_ok page_offers_ok by blast
next
  case (opened s)
  then show ?case by - (rule streams_ok_I [of s]; auto simp: on_open_def streams_ok_def)
next
  case (failed s)
  then show ?case by - (rule streams_ok_I [of s]; auto simp: on_error_def streams_ok_def)
qed (simp_all add: message_ok query_ok cluster_ok)

lemma pager_ok: "streams_ok s \<Longrightarrow> streams_ok (pager_effect s)"
  using pg.pages_pos [of "length (filteredEvents s)"]
  by - (rule streams_ok_I [of s]; auto simp: pager_effect_page safePage_def streams_ok_def)

lemma settle_pager: "settle pager_effect s = Some t \<Longrightarrow> t = pager_effect s \<and> pager_effect t = t"
  using pager.settle_eq [of s] settle_fixpoint [of pager_effect s t] by simp

lemma reachable_inv: "streams_reachable t s \<Longrightarrow> streams_ok s \<and> pager_effect s = s"
proof (induction rule: streams_reachable.induct)
  case (start cluster multi q s)
  then show ?case using settle_pager mount_ok pager_ok by blast
next
  case (step s s' s'')
  then show ?case using settle_pager act_ok pager_ok by blast
qed

section \<open>Properties\<close>


definition sample_event :: "string \<Rightarrow> kv_event" where
  "sample_event n = \<lparr>kv_observed_at = ''2024-02-29T12:30:45Z'', kv_engine_id = ''vllm-1'',
     kv_model = ''m'', kv_namespace = None, kv_seq = n, kv_batch_ts = None, kv_dp_rank = 0,
     kv_kind = ''stored'', kv_block_hashes = None, kv_parent_hash = None, kv_token_ids = None,
     kv_nested_token_ids = None, kv_block_size = None, kv_medium = None, kv_tier = None,
     kv_lora_id = None, kv_lora_name = None, kv_extra_keys = None, kv_extra_key_count = None,
     kv_group_idx = None, kv_spec_kind = None, kv_sliding_window = None, kv_request_keys = None,
     kv_indexed = True, kv_skip_reason = None, kv_cluster = None, kv_backend = None\<rparr>"


text \<open>
  C29: in every state the page can reach and shows, the events that pass the filter are all
  on the pages from 1 to the last one, newest first, and the page on the screen is one of
  them and not empty, whatever the stream, the filter and the queries have done to the list
  since the page was chosen.
\<close>

theorem streams_page_exists:
  assumes "streams_reachable t s" "table_shown s" "filteredEvents s \<noteq> []"
  shows "1 \<le> ss_page s \<and> ss_page s \<le> pager_pages (length (filteredEvents s))
    \<and> pagedEvents (filteredEvents s) (ss_page s) \<noteq> []
    \<and> concat (map (pagedEvents (filteredEvents s))
        (map int [1..<Suc (nat (pager_pages (length (filteredEvents s))))])) = rev (filteredEvents s)"
proof -
  have inv: "1 \<le> ss_page s" "pager_effect s = s"
    using reachable_inv [OF assms(1)] by (simp_all add: streams_ok_def)
  have "ss_page s = safePage (ss_page s) (length (filteredEvents s))"
    using pager_effect_page [of s] assms(2,3) inv(2) by simp
  then have "ss_page s \<le> pager_pages (length (filteredEvents s))" by (simp add: safePage_def min_def split: if_splits)
  with inv(1) assms(3) show ?thesis
    using pg.inner_page [of "ss_page s" "filteredEvents s"] pg.pages_partition by blast
qed

definition sample_query :: "kv_event list query" where
  "sample_query = \<lparr>q_data = Some [sample_event ''1''], q_isLoading = False, q_isError = False, q_error = None\<rparr>"

lemma sample_start: "streams_reachable t (streams_mount ''hkg'' True sample_query)"
proof (rule streams_reachable.start)
  have "pager_effect (streams_mount ''hkg'' True sample_query) = streams_mount ''hkg'' True sample_query"
    by (simp add: pager_effect_def Let_def safePage_def pager_pages_def eventsPerPage_def table_shown_def
        streams_mount_def open_source_def load_events_def canStream_def filteredEvents_def
        sample_query_def sample_event_def q_list_def slice_last_def)
  then show "settle pager_effect (streams_mount ''hkg'' True sample_query)
      = Some (streams_mount ''hkg'' True sample_query)"
    using pager.settle_eq by simp
qed

theorem streams_page_exists_witness:
  "pagedEvents (filteredEvents (streams_mount ''hkg'' True sample_query))
     (ss_page (streams_mount ''hkg'' True sample_query)) \<noteq> []"
proof -
  let ?s = "streams_mount ''hkg'' True sample_query"
  have "table_shown ?s" "filteredEvents ?s \<noteq> []"
    by (simp_all add: table_shown_def streams_mount_def open_source_def load_events_def canStream_def
        filteredEvents_def sample_query_def sample_event_def q_list_def slice_last_def)
  from streams_page_exists [OF sample_start this] show ?thesis by blast
qed



text \<open>Every row of the page's tables has a cell for each column of its header, federated or not.\<close>

lemma streams_tables_aligned:
  "length (kids (listener_row t multi now s)) = length (listener_heads t multi)"
  "length (kids (event_row t multi now e)) = length (event_heads t multi)"
  "length (kids (index_row r)) = length (index_heads t)"
  by (simp_all add: listener_row_def listener_heads_def event_row_def event_heads_def
      index_row_def index_heads_def shown_def)

end
