(* ===== verification/Js_Float.thy ===== *)
theory Js_Float
  imports Js_Number
begin

text \<open>
  The arithmetic the console does on ratios, at the precision of the language: a double is
  the fraction of integers it equals, \<open>to_double\<close> rounds a fraction to the nearest double
  (ties to even, with the gradual underflow; the ratios never overflow), a product is the
  rounded exact product, and \<open>Math.round\<close> and \<open>toFixed\<close> work on the exact value of a double,
  as the specification says.
\<close>

type_synonym frac = "int \<times> int"

definition frac_of :: "int \<Rightarrow> int \<Rightarrow> frac" where
  "frac_of m e = (if 0 \<le> e then (m * 10 ^ nat e, 1) else (m, 10 ^ nat (- e)))"

definition round_even :: "int \<Rightarrow> int \<Rightarrow> int" where
  "round_even p q = (let f = p div q; r = p mod q in
     if 2 * r < q then f else if q < 2 * r then f + 1 else if even f then f else f + 1)"

function ilog2 :: "int \<Rightarrow> int" where
  "ilog2 n = (if n < 2 then 0 else 1 + ilog2 (n div 2))"
  by pat_completeness auto
termination
  by (relation "measure nat") auto

declare ilog2.simps [simp del]

text \<open>The exponent \<open>e\<close> with \<open>2 ^ e \<le> p / q < 2 ^ (e + 1)\<close>, for positive \<open>p\<close> and \<open>q\<close>.\<close>

definition frac_exp :: "int \<Rightarrow> int \<Rightarrow> int" where
  "frac_exp p q = (let e = ilog2 p - ilog2 q in
     if (if 0 \<le> e then q * 2 ^ nat e \<le> p else q \<le> p * 2 ^ nat (- e)) then e else e - 1)"

definition to_double :: "frac \<Rightarrow> frac" where
  "to_double x = (case x of (p, q) \<Rightarrow>
     if p = 0 then (0, 1)
     else let u = max (frac_exp \<bar>p\<bar> q - 52) (- 1074); s = (if p < 0 then - 1 else 1) in
       if 0 \<le> u then (s * round_even \<bar>p\<bar> (q * 2 ^ nat u) * 2 ^ nat u, 1)
       else (s * round_even (\<bar>p\<bar> * 2 ^ nat (- u)) q, 2 ^ nat (- u)))"

definition mul_double :: "frac \<Rightarrow> frac \<Rightarrow> frac" where
  "mul_double x y = to_double (fst x * fst y, snd x * snd y)"

definition div_double :: "frac \<Rightarrow> frac \<Rightarrow> frac" where
  "div_double x y = to_double (fst x * snd y, snd x * fst y)"

text \<open>\<open>Math.round(x)\<close>: the nearest integer, a half goes up.\<close>

definition math_round :: "frac \<Rightarrow> int" where
  "math_round x = (2 * fst x + snd x) div (2 * snd x)"

text \<open>
  \<open>x.toFixed(d)\<close> of a number below \<open>10 ^ 21\<close>: the integer nearest to \<open>\<bar>x\<bar> * 10 ^ d\<close>, the larger
  of two, laid out with \<open>d\<close> digits after the point.
\<close>

definition pad_left :: "nat \<Rightarrow> string \<Rightarrow> string" where
  "pad_left n s = replicate (n - length s) (CHR ''0'') @ s"

definition point_at :: "nat \<Rightarrow> string \<Rightarrow> string" where
  "point_at d s = (if d = 0 then s else take (length s - d) s @ ''.'' @ drop (length s - d) s)"

definition to_fixed :: "nat \<Rightarrow> frac \<Rightarrow> string" where
  "to_fixed d x =
     (if fst x < 0 then ''-'' else [])
     @ point_at d (pad_left (Suc d) (digits (nat ((2 * \<bar>fst x\<bar> * 10 ^ d + snd x) div (2 * snd x)))))"

text \<open>\<open>String(Math.round(value * 100))\<close> and \<open>(value * 100).toFixed(d)\<close>.\<close>

definition hundred :: "int \<Rightarrow> int \<Rightarrow> frac" where
  "hundred m e = mul_double (to_double (frac_of m e)) (100, 1)"

definition percent_round :: "num \<Rightarrow> string" where
  "percent_round x = (case x of Dec m e \<Rightarrow> int_text (math_round (hundred m e))
     | _ \<Rightarrow> num_to_string x)"

definition percent_fixed :: "nat \<Rightarrow> num \<Rightarrow> string" where
  "percent_fixed d x = (case x of Dec m e \<Rightarrow> to_fixed d (hundred m e) | _ \<Rightarrow> num_to_string x)"

text \<open>
  A case where the arithmetic shows: 0.145 times 100 is below 14.5, so it rounds down.
\<close>

lemma percent_examples:
  "percent_round (Dec 145 (- 3)) = ''14''" "percent_round (Dec 5 (- 1)) = ''50''"
  "percent_fixed 0 (Dec 1 0) = ''100''"
  by code_simp+

section \<open>Bounds\<close>

lemma math_round_near:
  assumes "0 < snd x"
  shows "2 * snd x * math_round x \<le> 2 * fst x + snd x"
    and "2 * fst x + snd x < 2 * snd x * math_round x + 2 * snd x"
proof -
  let ?p = "2 * fst x + snd x" and ?q = "2 * snd x"
  have "?p = ?q * (?p div ?q) + ?p mod ?q" "0 \<le> ?p mod ?q" "?p mod ?q < ?q"
    using assms by simp_all
  then show "2 * snd x * math_round x \<le> 2 * fst x + snd x"
    "2 * fst x + snd x < 2 * snd x * math_round x + 2 * snd x"
    unfolding math_round_def by linarith+
qed

end
