(* ===== verification/Policy_Form.thy ===== *)
theory Policy_Form
  imports Api Cluster Stream_Status Js_Float
begin

text \<open>
  The admission rules of \<open>web/app/policies/page.tsx\<close>, without their screens: the form state of
  a rule, its conditions as texts, their way back into a payload, the request a save, a
  toggle or a deletion makes, and the texts the list shows for a condition.
\<close>

section \<open>Fields and operators\<close>

definition conditionFields :: "string list" where
  "conditionFields =
     [''cluster_id'', ''model_id'', ''tenant_id'', ''input_tokens'', ''hit_ratio'', ''best_hit_tokens'',
      ''effective_cached_tokens'', ''kv_event_state'', ''tokenized'', ''hash_supported'',
      ''has_candidates'']"

definition conditionOps :: "string list" where
  "conditionOps = [''eq'', ''neq'', ''in'', ''not_in'', ''gt'', ''gte'', ''lt'', ''lte'', ''contains'']"

definition actionTypes :: "string list" where
  "actionTypes = [''accept'', ''reject'', ''require_cache_hit'']"

definition outcomes :: "string list" where
  "outcomes = [''reject'', ''fallback_accept'', ''accept'']"

definition anyClusterValue :: string where
  "anyClusterValue = ''__any_cluster__''"

definition numericField :: "string \<Rightarrow> bool" where
  "numericField field \<longleftrightarrow> List.member
     [''input_tokens'', ''hit_ratio'', ''best_hit_tokens'', ''effective_cached_tokens''] field"

definition booleanField :: "string \<Rightarrow> bool" where
  "booleanField field \<longleftrightarrow> List.member [''tokenized'', ''hash_supported'', ''has_candidates''] field"

definition list_op :: "string \<Rightarrow> bool" where
  "list_op op \<longleftrightarrow> op = ''in'' \<or> op = ''not_in''"

definition defaultOpForField :: "string \<Rightarrow> string" where
  "defaultOpForField field = (if numericField field then ''gte'' else ''eq'')"

definition defaultValueForField :: "string \<Rightarrow> string" where
  "defaultValueForField field =
     (if field = ''input_tokens'' then ''256'' else if field = ''hit_ratio'' then ''0.5''
      else if field = ''kv_event_state'' then ''available''
      else if booleanField field then ''true'' else [])"

definition valuePlaceholder :: "string \<Rightarrow> string \<Rightarrow> (string \<Rightarrow> string) \<Rightarrow> string" where
  "valuePlaceholder field op t =
     (if op = ''in'' \<or> op = ''not_in'' then t ''policies.placeholder.list''
      else if field = ''cluster_id'' then ''local-vllm''
      else if field = ''model_id'' then ''qwen3.5-4b''
      else if field = ''tenant_id'' then t ''common.default''
      else if field = ''input_tokens'' then ''256''
      else if field = ''hit_ratio'' then ''0.5''
      else if field = ''kv_event_state'' then ''available''
      else if booleanField field then ''true'' else [])"

section \<open>Condition values\<close>

fun scalar_string :: "scalar \<Rightarrow> string" where
  "scalar_string (SStr s) = s"
| "scalar_string (SNum x) = num_to_string x"
| "scalar_string (SBool b) = (if b then ''true'' else ''false'')"

definition valueToInput :: "cond_value option \<Rightarrow> string" where
  "valueToInput v = (case v of
     Some (Many xs) \<Rightarrow> join '', '' (map scalar_string xs)
   | None \<Rightarrow> []
   | Some (One x) \<Rightarrow> scalar_string x)"

definition parseSingleValue :: "string \<Rightarrow> string \<Rightarrow> scalar" where
  "parseSingleValue field raw =
     (if numericField field then SNum (to_number raw)
      else if booleanField field then SBool (raw = ''true'')
      else SStr raw)"

definition parseConditionValue :: "string \<Rightarrow> string \<Rightarrow> string \<Rightarrow> cond_value" where
  "parseConditionValue field op raw =
     (if op = ''in'' \<or> op = ''not_in''
      then Many (filter (\<lambda>part. part \<noteq> SStr [])
                   (map (\<lambda>part. parseSingleValue field (trim part)) (split_on (CHR '','') raw)))
      else One (parseSingleValue field raw))"

section \<open>The form\<close>

record condition_draft =
  cd_field :: string
  cd_op :: string
  cd_value :: string

record policy_form =
  pf_rule_id :: string
  pf_name :: string
  pf_priority :: num
  pf_scope_cluster :: string
  pf_conditions :: "condition_draft list"
  pf_action_type :: string
  pf_min_hit_ratio :: num
  pf_on_low_hit :: string
  pf_on_uncertain :: string
  pf_reject_status :: num
  pf_enabled :: bool

definition defaultCondition :: condition_draft where
  "defaultCondition = \<lparr>cd_field = ''input_tokens'', cd_op = ''gte'', cd_value = ''256''\<rparr>"

definition defaultConditions :: "string \<Rightarrow> condition_draft list" where
  "defaultConditions cluster =
     (if cluster \<noteq> ''all'' then [\<lparr>cd_field = ''cluster_id'', cd_op = ''eq'', cd_value = cluster\<rparr>] else [])
     @ [defaultCondition]"

definition scope_draft :: "condition_draft \<Rightarrow> bool" where
  "scope_draft c \<longleftrightarrow> cd_field c = ''cluster_id'' \<and> (cd_op c = [] \<or> cd_op c = ''eq'')
     \<and> trim (cd_value c) \<noteq> []"

definition extractScopeCluster :: "condition_draft list \<Rightarrow> string \<times> condition_draft list" where
  "extractScopeCluster conditions = (case find_index scope_draft conditions of
     None \<Rightarrow> ([], conditions)
   | Some index \<Rightarrow> (trim (cd_value (conditions ! index)), remove_at index conditions))"

definition draft_of :: "rule_condition \<Rightarrow> condition_draft" where
  "draft_of c = \<lparr>cd_field = rc_field c, cd_op = or_str (rc_op c) ''eq'', cd_value = valueToInput (rc_value c)\<rparr>"

definition formStateFromPolicy :: "policy option \<Rightarrow> string \<Rightarrow> policy_form" where
  "formStateFromPolicy initial cluster =
     (let sourceConditions = nullish (map_option (map draft_of) (Option.bind initial po_conditions))
            (defaultConditions cluster);
          (scopeCluster, conditions) = extractScopeCluster sourceConditions;
          act = map_option po_action initial
      in \<lparr>pf_rule_id = nullish (map_option po_rule_id initial) [],
          pf_name = nullish (Option.bind initial po_name) [],
          pf_priority = nullish (map_option po_priority initial) (Dec 1 2),
          pf_scope_cluster = scopeCluster,
          pf_conditions = conditions,
          pf_action_type = nullish (map_option ra_type act) ''require_cache_hit'',
          pf_min_hit_ratio = nullish (Option.bind act ra_min_hit_ratio) (Dec 5 (- 1)),
          pf_on_low_hit = nullish (Option.bind act ra_on_low_hit) ''reject'',
          pf_on_uncertain = nullish (Option.bind act ra_on_uncertain) ''fallback_accept'',
          pf_reject_status = nullish (Option.bind act ra_reject_status) (Dec 429 0),
          pf_enabled = (Option.bind initial po_enabled \<noteq> Some False)\<rparr>)"

definition form_action :: "policy_form \<Rightarrow> rule_action" where
  "form_action f =
     (let base = \<lparr>ra_type = pf_action_type f, ra_min_hit_ratio = None, ra_on_low_hit = None,
                  ra_on_uncertain = None, ra_reject_status = None\<rparr>;
          base1 = (if pf_action_type f = ''require_cache_hit''
             then base\<lparr>ra_min_hit_ratio := Some (pf_min_hit_ratio f),
                       ra_on_low_hit := Some (pf_on_low_hit f),
                       ra_on_uncertain := Some (pf_on_uncertain f),
                       ra_reject_status := Some (pf_reject_status f)\<rparr> else base)
      in if pf_action_type f = ''reject''
         then base1\<lparr>ra_reject_status := Some (pf_reject_status f)\<rparr> else base1)"

definition condition_of :: "condition_draft \<Rightarrow> rule_condition" where
  "condition_of c = \<lparr>rc_field = cd_field c, rc_op = cd_op c,
     rc_value = Some (parseConditionValue (cd_field c) (cd_op c) (cd_value c))\<rparr>"

definition payloadFromForm :: "policy_form \<Rightarrow> policy" where
  "payloadFromForm f =
     (let conditions = map condition_of
            (filter (\<lambda>c. cd_field c \<noteq> [] \<and> cd_op c \<noteq> []) (pf_conditions f));
          scoped = (if trim (pf_scope_cluster f) \<noteq> []
             then \<lparr>rc_field = ''cluster_id'', rc_op = ''eq'',
                   rc_value = Some (One (SStr (trim (pf_scope_cluster f))))\<rparr> # conditions
             else conditions)
      in \<lparr>po_rule_id = pf_rule_id f,
          po_name = (if pf_name f = [] then None else Some (pf_name f)),
          po_priority = pf_priority f, po_conditions = Some scoped, po_action = form_action f,
          po_enabled = Some (pf_enabled f), po_cluster = None, po_backend = None\<rparr>)"

definition createTargetCluster :: "policy_form \<Rightarrow> string \<Rightarrow> bool \<Rightarrow> string" where
  "createTargetCluster f selectedCluster multiCluster =
     (if trim (pf_scope_cluster f) \<noteq> [] then trim (pf_scope_cluster f)
      else if selectedCluster \<noteq> [] \<and> selectedCluster \<noteq> ''all'' then selectedCluster
      else if multiCluster then [] else selectedCluster)"

definition policyPayload :: "policy \<Rightarrow> policy" where
  "policyPayload p = p\<lparr>po_conditions := Some (nullish (po_conditions p) []),
     po_cluster := None, po_backend := None\<rparr>"

section \<open>Policies as JSON\<close>

text \<open>\<open>JSON.stringify\<close> leaves out the properties that are \<open>undefined\<close>.\<close>

definition opt_field :: "string \<Rightarrow> ('a \<Rightarrow> json) \<Rightarrow> 'a option \<Rightarrow> (string \<times> json) list" where
  "opt_field k f v = (case v of None \<Rightarrow> [] | Some x \<Rightarrow> [(k, f x)])"

fun scalar_json :: "scalar \<Rightarrow> json" where
  "scalar_json (SStr s) = JStr s"
| "scalar_json (SNum x) = JNum x"
| "scalar_json (SBool b) = JBool b"

fun value_json :: "cond_value \<Rightarrow> json" where
  "value_json (One x) = scalar_json x"
| "value_json (Many xs) = JArr (map scalar_json xs)"

definition condition_json :: "rule_condition \<Rightarrow> json" where
  "condition_json c = JObj ([(''field'', JStr (rc_field c)), (''op'', JStr (rc_op c))]
     @ opt_field ''value'' value_json (rc_value c))"

definition action_json :: "rule_action \<Rightarrow> json" where
  "action_json a = JObj ([(''type'', JStr (ra_type a))]
     @ opt_field ''min_hit_ratio'' JNum (ra_min_hit_ratio a)
     @ opt_field ''on_low_hit'' JStr (ra_on_low_hit a)
     @ opt_field ''on_uncertain'' JStr (ra_on_uncertain a)
     @ opt_field ''reject_status'' JNum (ra_reject_status a))"

definition policy_json :: "policy \<Rightarrow> json" where
  "policy_json p = JObj ([(''rule_id'', JStr (po_rule_id p))]
     @ opt_field ''name'' JStr (po_name p)
     @ [(''priority'', JNum (po_priority p))]
     @ opt_field ''conditions'' (\<lambda>cs. JArr (map condition_json cs)) (po_conditions p)
     @ [(''action'', action_json (po_action p))]
     @ opt_field ''enabled'' JBool (po_enabled p)
     @ opt_field ''_cluster'' JStr (po_cluster p)
     @ opt_field ''_backend'' JStr (po_backend p))"

section \<open>The requests\<close>

definition policy_target :: "policy \<Rightarrow> string \<Rightarrow> string" where
  "policy_target p cluster =
     (let path = ''/policies/'' @ encodeURIComponent (po_rule_id p) in
      if truthy (po_backend p) then backendQ path (po_backend p) else clusterQ path cluster)"

definition deletePolicy :: "string \<Rightarrow> string \<Rightarrow> policy \<Rightarrow> fetch_call" where
  "deletePolicy base cluster p = api_del base (policy_target p cluster)"

definition togglePolicy :: "string \<Rightarrow> string \<Rightarrow> policy \<Rightarrow> bool \<Rightarrow> fetch_call" where
  "togglePolicy base cluster p enabled =
     api_patch base (policy_target p cluster) (policy_json (policyPayload (p\<lparr>po_enabled := Some enabled\<rparr>)))"

definition savePolicy ::
  "(string \<Rightarrow> string) \<Rightarrow> string \<Rightarrow> string \<Rightarrow> bool \<Rightarrow> policy option \<Rightarrow> policy_form \<Rightarrow> string + fetch_call" where
  "savePolicy t base cluster multiCluster initial f =
     (let body = policy_json (payloadFromForm f) in
      case initial of
        None \<Rightarrow>
          let targetCluster = createTargetCluster f cluster multiCluster in
          if targetCluster = [] \<and> multiCluster then Inl (t ''policies.error.target_cluster_required'')
          else Inr (api_post base (clusterQ ''/policies'' (or_str targetCluster cluster)) body)
      | Some p \<Rightarrow> Inr (api_patch base (policy_target p cluster) body))"

section \<open>Texts of the list\<close>

definition fieldLabel :: "string \<Rightarrow> (string \<Rightarrow> string) \<Rightarrow> string" where
  "fieldLabel field t = t (''policies.condition.field.'' @ field)"

definition opLabel :: "string \<Rightarrow> (string \<Rightarrow> string) \<Rightarrow> string" where
  "opLabel op t = t (''policies.condition.op.'' @ op)"

definition actionLabel :: "string \<Rightarrow> (string \<Rightarrow> string) \<Rightarrow> string" where
  "actionLabel action t = t (''policies.action.'' @ action)"

definition outcomeLabel :: "string \<Rightarrow> (string \<Rightarrow> string) \<Rightarrow> string" where
  "outcomeLabel outcome t = t (''policies.outcome.'' @ outcome)"

definition formatConditionValue :: "cond_value option \<Rightarrow> string" where
  "formatConditionValue v = (case v of
     Some (Many xs) \<Rightarrow> join '', '' (map scalar_string xs)
   | Some (One x) \<Rightarrow> scalar_string x
   | None \<Rightarrow> dash_text)"

definition formatRatio :: "num \<Rightarrow> string" where
  "formatRatio value = percent_round value @ ''%''"

definition conditionText :: "rule_condition \<Rightarrow> (string \<Rightarrow> string) \<Rightarrow> string" where
  "conditionText c t = fieldLabel (rc_field c) t @ '' '' @ opLabel (rc_op c) t @ '' ''
     @ formatConditionValue (rc_value c)"

definition policyClusterScope :: "rule_condition list \<Rightarrow> (string \<Rightarrow> string) \<Rightarrow> string" where
  "policyClusterScope conditions t =
     (let clusterConditions = filter (\<lambda>c. rc_field c = ''cluster_id'') conditions in
      case clusterConditions of
        [] \<Rightarrow> t ''common.any''
      | [c] \<Rightarrow> if rc_op c = [] \<or> rc_op c = ''eq'' then formatConditionValue (rc_value c)
              else if rc_op c = ''in'' then formatConditionValue (rc_value c)
              else conditionText c t
      | _ \<Rightarrow> join '' AND '' (map (\<lambda>c. conditionText c t) clusterConditions))"

end
