(* ===== verification/Policy_View.thy ===== *)
theory Policy_View
  imports Policy_Form Chrome
begin

text \<open>
  The rule form of \<open>web/app/policies/page.tsx\<close> as a component: its cells, its handlers and
  what it shows, with the texts and badges of the rule list.  \<open>t\<close> is the lookup of the
  translations.
\<close>

section \<open>Labels with help\<close>

definition HelpTip :: "string \<Rightarrow> 'e node" where
  "HelpTip txt' =
     el ''Tooltip''
       [el ''TooltipTrigger'' [Elem ''span'' [Prop ''aria-label'' txt'] []], tx ''TooltipContent'' txt']"

definition HeadWithHelp :: "string \<Rightarrow> string \<Rightarrow> 'e node" where
  "HeadWithHelp label help = el ''TableHead'' [el ''div'' [tx ''span'' label, HelpTip help]]"

definition FieldLabelWithHelp :: "string \<Rightarrow> string \<Rightarrow> 'e node" where
  "FieldLabelWithHelp label help = el ''div'' [tx ''FieldLabel'' label, HelpTip help]"

definition ConditionChips :: "(string \<Rightarrow> string) \<Rightarrow> rule_condition list \<Rightarrow> 'e node" where
  "ConditionChips t conditions =
     (if conditions = [] then badge ''secondary'' (t ''policies.conditions.all'')
      else el ''div'' (map (\<lambda>c. badge ''outline'' (conditionText c t)) conditions))"

definition PolicyClusterScope :: "(string \<Rightarrow> string) \<Rightarrow> policy \<Rightarrow> 'e node" where
  "PolicyClusterScope t p =
     el ''div''
       (badge ''outline'' (policyClusterScope (nullish (po_conditions p) []) t)
        # shown (truthy (po_cluster p))
            [tx ''span'' (replace_first ''{cluster}'' (nullish (po_cluster p) []) (t ''policies.storage_cluster''))])"

definition ActionBadge :: "(string \<Rightarrow> string) \<Rightarrow> string \<Rightarrow> 'e node" where
  "ActionBadge t action =
     (if action = ''reject'' then badge ''destructive'' (t ''policies.action.reject'')
      else if action = ''require_cache_hit'' then badge ''default'' (t ''policies.action.require_hit'')
      else badge ''success'' (t ''policies.action.accept''))"

definition OutcomeBadge :: "(string \<Rightarrow> string) \<Rightarrow> string option \<Rightarrow> 'e node" where
  "OutcomeBadge t outcome =
     (if outcome = Some ''accept'' then badge ''success'' (t ''policies.outcome.accept'')
      else if outcome = Some ''reject'' then badge ''destructive'' (t ''policies.outcome.reject'')
      else badge ''warning'' (t ''policies.outcome.fallback_accept''))"

lemma help_quiet [simp]:
  "offers (HelpTip s) = {}" "offers (HeadWithHelp l h) = {}" "offers (FieldLabelWithHelp l h) = {}"
  "offers (ConditionChips t cs) = {}" "offers (PolicyClusterScope t p) = {}"
  "offers (ActionBadge t a) = {}" "offers (OutcomeBadge t out) = {}"
  by (simp_all add: HelpTip_def HeadWithHelp_def FieldLabelWithHelp_def ConditionChips_def
      PolicyClusterScope_def ActionBadge_def OutcomeBadge_def attr_offers_def shown_def)

section \<open>The form\<close>

datatype form_event =
    SetRuleId string | SetPriority string | SetName string | SetScope string
  | AddCondition | CondField nat string | CondOp nat string | CondValue nat string
  | RemoveCondition nat
  | SetAction string | SetMinHit string | SetLowHit string | SetUncertain string
  | SetRejectStatus string | SetEnabled bool
  | CancelForm | SaveForm

record form_state =
  fs_form :: policy_form
  fs_err :: string
  fs_pending :: bool

definition form_init :: "policy option \<Rightarrow> string \<Rightarrow> form_state" where
  "form_init initial cluster =
     \<lparr>fs_form = formStateFromPolicy initial cluster, fs_err = [], fs_pending = False\<rparr>"

definition setCondition ::
  "nat \<Rightarrow> (condition_draft \<Rightarrow> condition_draft) \<Rightarrow> policy_form \<Rightarrow> policy_form" where
  "setCondition index patch f = f\<lparr>pf_conditions := update_at index patch (pf_conditions f)\<rparr>"

text \<open>The handlers of the fields (\<open>SaveForm\<close> and \<open>CancelForm\<close> are the page's).\<close>

fun form_update :: "form_event \<Rightarrow> policy_form \<Rightarrow> policy_form" where
  "form_update (SetRuleId v) f = f\<lparr>pf_rule_id := v\<rparr>"
| "form_update (SetPriority v) f = f\<lparr>pf_priority := to_number v\<rparr>"
| "form_update (SetName v) f = f\<lparr>pf_name := v\<rparr>"
| "form_update (SetScope v) f = f\<lparr>pf_scope_cluster := v\<rparr>"
| "form_update AddCondition f = f\<lparr>pf_conditions := pf_conditions f @ [defaultCondition]\<rparr>"
| "form_update (CondField i v) f =
     setCondition i (\<lambda>c. \<lparr>cd_field = v, cd_op = defaultOpForField v, cd_value = defaultValueForField v\<rparr>) f"
| "form_update (CondOp i v) f = setCondition i (\<lambda>c. c\<lparr>cd_op := v\<rparr>) f"
| "form_update (CondValue i v) f = setCondition i (\<lambda>c. c\<lparr>cd_value := v\<rparr>) f"
| "form_update (RemoveCondition i) f = f\<lparr>pf_conditions := remove_at i (pf_conditions f)\<rparr>"
| "form_update (SetAction v) f = f\<lparr>pf_action_type := v\<rparr>"
| "form_update (SetMinHit v) f = f\<lparr>pf_min_hit_ratio := to_number v\<rparr>"
| "form_update (SetLowHit v) f = f\<lparr>pf_on_low_hit := v\<rparr>"
| "form_update (SetUncertain v) f = f\<lparr>pf_on_uncertain := v\<rparr>"
| "form_update (SetRejectStatus v) f = f\<lparr>pf_reject_status := to_number v\<rparr>"
| "form_update (SetEnabled b) f = f\<lparr>pf_enabled := b\<rparr>"
| "form_update CancelForm f = f"
| "form_update SaveForm f = f"

definition form_handle :: "form_event \<Rightarrow> form_state \<Rightarrow> form_state" where
  "form_handle e s = s\<lparr>fs_form := form_update e (fs_form s)\<rparr>"

definition OutcomeSelect :: "(string \<Rightarrow> string) \<Rightarrow> string \<Rightarrow> (string \<Rightarrow> 'e) \<Rightarrow> 'e node" where
  "OutcomeSelect t v f = select False v f (map (\<lambda>out. (out, outcomeLabel out t)) outcomes)"

definition ClusterScopeControl ::
  "(string \<Rightarrow> string) \<Rightarrow> string \<Rightarrow> string list \<Rightarrow> (string \<Rightarrow> 'e) \<Rightarrow> 'e node" where
  "ClusterScopeControl t v clusterOptions onChange =
     (if clusterOptions = [] then input_ph False v (t ''common.any'') onChange
      else select False (or_str v anyClusterValue)
        (\<lambda>next'. onChange (if next' = anyClusterValue then [] else next'))
        ((anyClusterValue, t ''common.any'') # map (\<lambda>id. (id, id)) clusterOptions))"

definition ConditionValueControl ::
  "(string \<Rightarrow> string) \<Rightarrow> condition_draft \<Rightarrow> string list \<Rightarrow> (string \<Rightarrow> 'e) \<Rightarrow> 'e node" where
  "ConditionValueControl t c clusterOptions onChange =
     (if (cd_field c = ''cluster_id'' \<and> cd_op c \<noteq> ''in'' \<and> cd_op c \<noteq> ''not_in'') \<and> clusterOptions \<noteq> []
      then select False (cd_value c) onChange (map (\<lambda>id. (id, id)) clusterOptions)
      else input_ph False (cd_value c) (valuePlaceholder (cd_field c) (cd_op c) t) onChange)"

definition field_row :: "'e node \<Rightarrow> 'e node \<Rightarrow> 'e node" where
  "field_row label control = el ''Field'' [label, control]"

definition condition_row ::
  "(string \<Rightarrow> string) \<Rightarrow> string list \<Rightarrow> nat \<Rightarrow> condition_draft \<Rightarrow> form_event node" where
  "condition_row t clusterOptions i c =
     el ''div''
       [field_row (tx ''FieldLabel'' (t ''policies.condition.field''))
          (select False (cd_field c) (CondField i) (map (\<lambda>f. (f, fieldLabel f t)) conditionFields)),
        field_row (tx ''FieldLabel'' (t ''policies.condition.op''))
          (select False (cd_op c) (CondOp i) (map (\<lambda>op. (op, opLabel op t)) conditionOps)),
        field_row (tx ''FieldLabel'' (t ''policies.condition.value''))
          (ConditionValueControl t c clusterOptions (CondValue i)),
        icon_button (t ''common.delete'') False (RemoveCondition i)]"

definition condition_rows ::
  "(string \<Rightarrow> string) \<Rightarrow> string list \<Rightarrow> condition_draft list \<Rightarrow> form_event node list" where
  "condition_rows t clusterOptions cs =
     map (\<lambda>(i, c). condition_row t clusterOptions i c) (zip [0..<length cs] cs)"

definition action_fields :: "(string \<Rightarrow> string) \<Rightarrow> policy_form \<Rightarrow> form_event node" where
  "action_fields t f =
     (let requiresHit = (pf_action_type f = ''require_cache_hit'');
          canReject = (pf_action_type f = ''reject'' \<or> requiresHit)
      in el ''FieldSet''
        ([tx ''FieldLegend'' (t ''policies.form.action''),
          field_row (FieldLabelWithHelp (t ''policies.field.action'') (t ''policies.help.action''))
            (select False (pf_action_type f) SetAction (map (\<lambda>a. (a, actionLabel a t)) actionTypes))]
         @ shown requiresHit
             [field_row (FieldLabelWithHelp (t ''policies.field.minhit'') (t ''policies.help.required_hit''))
                (input_el False (num_to_string (pf_min_hit_ratio f)) SetMinHit),
              field_row (FieldLabelWithHelp (t ''policies.field.low_hit'') (t ''policies.help.low_hit''))
                (OutcomeSelect t (pf_on_low_hit f) SetLowHit),
              field_row (FieldLabelWithHelp (t ''policies.field.uncertain'') (t ''policies.help.uncertain''))
                (OutcomeSelect t (pf_on_uncertain f) SetUncertain)]
         @ shown canReject
             [field_row (FieldLabelWithHelp (t ''policies.field.reject_status'') (t ''policies.help.reject_status''))
                (input_el False (num_to_string (pf_reject_status f)) SetRejectStatus)]))"

definition form_head :: "(string \<Rightarrow> string) \<Rightarrow> string list \<Rightarrow> bool \<Rightarrow> policy_form \<Rightarrow> form_event node" where
  "form_head t clusterOptions has_initial f =
     el ''div''
       [field_row (FieldLabelWithHelp (t ''policies.field.id'') (t ''policies.help.rule_id''))
          (input_ph has_initial (pf_rule_id f) (t ''policies.field.id_ph'') SetRuleId),
        field_row (FieldLabelWithHelp (t ''policies.field.priority'') (t ''policies.help.priority''))
          (input_el False (num_to_string (pf_priority f)) SetPriority),
        field_row (FieldLabelWithHelp (t ''policies.field.name'') (t ''policies.help.name''))
          (input_ph False (pf_name f) (t ''policies.field.name_ph'') SetName),
        el ''Field''
          [FieldLabelWithHelp (t ''policies.field.scope_cluster'') (t ''policies.help.cluster''),
           ClusterScopeControl t (pf_scope_cluster f) clusterOptions SetScope,
           tx ''FieldDescription'' (t ''policies.scope_cluster.desc'')]]"

definition PolicyForm ::
  "(string \<Rightarrow> string) \<Rightarrow> string list \<Rightarrow> policy option \<Rightarrow> form_state \<Rightarrow> form_event node" where
  "PolicyForm t clusterOptions initial s =
     (let f = fs_form s in
      el ''div''
        [el ''FieldGroup''
           ([form_head t clusterOptions (initial \<noteq> None) f,
             el ''FieldSet''
               ([tx ''FieldLegend'' (t ''policies.form.conditions''),
                 tx ''FieldDescription'' (t ''policies.form.conditions_desc''),
                 button False AddCondition (t ''policies.btn.add_condition'')]
                @ shown (pf_conditions f = []) [tx ''div'' (t ''policies.conditions.all_desc'')]
                @ condition_rows t clusterOptions (pf_conditions f)),
             action_fields t f,
             el ''Field''
               [switch False (pf_enabled f) SetEnabled,
                tx ''FieldLabel'' (t ''policies.col.enabled''),
                tx ''FieldDescription'' (t ''policies.help.enabled'')]]
            @ shown (fs_err s \<noteq> []) [tx ''div'' (fs_err s)]),
         el ''SheetFooter''
           [button False CancelForm (t ''common.cancel''),
            button (pf_rule_id f = [] \<or> fs_pending s) SaveForm (t ''policies.btn.save'')]])"

section \<open>What the form offers\<close>

text \<open>The texts the controls of a form can give, for each of its events.\<close>

definition form_event_ok :: "string list \<Rightarrow> bool \<Rightarrow> form_state \<Rightarrow> form_event \<Rightarrow> bool" where
  "form_event_ok clusterOptions has_initial s e = (case e of
     SetRuleId v \<Rightarrow> \<not> has_initial
   | CondField i v \<Rightarrow> i < length (pf_conditions (fs_form s)) \<and> v \<in> set conditionFields
   | CondOp i v \<Rightarrow> i < length (pf_conditions (fs_form s)) \<and> v \<in> set conditionOps
   | CondValue i v \<Rightarrow> i < length (pf_conditions (fs_form s))
   | RemoveCondition i \<Rightarrow> i < length (pf_conditions (fs_form s))
   | SetScope v \<Rightarrow> clusterOptions = [] \<or> v = [] \<or> v \<in> set clusterOptions
   | SetAction v \<Rightarrow> v \<in> set actionTypes
   | SetLowHit v \<Rightarrow> v \<in> set outcomes
   | SetUncertain v \<Rightarrow> v \<in> set outcomes
   | SaveForm \<Rightarrow> pf_rule_id (fs_form s) \<noteq> [] \<and> \<not> fs_pending s
   | _ \<Rightarrow> True)"

lemma offers_field_row [simp]: "offers (field_row l c) = offers l \<union> offers c"
  by (simp add: field_row_def)

lemma outcome_offers [simp]: "offers (OutcomeSelect t v f) = f ` set outcomes"
  by (simp add: OutcomeSelect_def comp_def)

lemma condition_row_offers:
  "e \<in> offers (condition_row t opts i c) \<Longrightarrow> i < length (pf_conditions (fs_form s)) \<Longrightarrow>
     form_event_ok opts b s e"
  by (auto simp: condition_row_def ConditionValueControl_def form_event_ok_def comp_def split: if_splits)

lemma condition_rows_offers:
  assumes "x \<in> set (condition_rows t opts (pf_conditions (fs_form s)))" "e \<in> offers x"
  shows "form_event_ok opts b s e"
proof -
  obtain i c where "x = condition_row t opts i c" "i < length (pf_conditions (fs_form s))"
    using assms(1) by (auto simp: condition_rows_def dest: set_zip_leftD)
  with assms(2) condition_row_offers show ?thesis by blast
qed

lemma action_fields_offers: "e \<in> offers (action_fields t f) \<Longrightarrow> form_event_ok opts b s e"
  by (auto simp: action_fields_def Let_def form_event_ok_def comp_def split: if_splits)

lemma form_head_offers: "e \<in> offers (form_head t opts b f) \<Longrightarrow> form_event_ok opts b s e"
  by (auto simp: form_head_def ClusterScopeControl_def form_event_ok_def comp_def split: if_splits)

lemma form_offers: "e \<in> offers (PolicyForm t opts initial s) \<Longrightarrow> form_event_ok opts (initial \<noteq> None) s e"
proof -
  assume "e \<in> offers (PolicyForm t opts initial s)"
  then consider (head) "e \<in> offers (form_head t opts (initial \<noteq> None) (fs_form s))"
    | (rows) x where "x \<in> set (condition_rows t opts (pf_conditions (fs_form s)))" "e \<in> offers x"
    | (action) "e \<in> offers (action_fields t (fs_form s))"
    | (rest) "e = AddCondition \<or> e \<in> range SetEnabled \<or> e = CancelForm"
    | (save) "e = SaveForm" "pf_rule_id (fs_form s) \<noteq> []" "\<not> fs_pending s"
    by (auto simp: PolicyForm_def Let_def split: if_splits)
  then show ?thesis
  proof cases
    case head
    then show ?thesis by (rule form_head_offers)
  next
    case rows
    then show ?thesis by (rule condition_rows_offers)
  next
    case action
    then show ?thesis by (rule action_fields_offers)
  qed (auto simp: form_event_ok_def)
qed

end
