(* ===== verification/Policy_Page.thy ===== *)
theory Policy_Page
  imports Policy_View
begin

text \<open>
  The page \<open>web/app/policies/page.tsx\<close>: the preview of the rules, the list with its toggles and
  deletions, the sheets with the forms, and the requests its handlers send.  A handler gives
  the new state and the requests it made; what the gateway answers comes back as a separate
  step (\<open>policies_done\<close>).
\<close>

section \<open>Options\<close>

text \<open>
  \<open>[...new Set(xs)].filter(Boolean).sort()\<close>.  The order is that of the code points, which is
  that of the UTF-16 units for the names of clusters and models.
\<close>

definition clusterOptions :: "cluster_info list \<Rightarrow> cluster list \<Rightarrow> string list" where
  "clusterOptions clusters catalog =
     sort (filter (\<lambda>id. id \<noteq> []) (nub (map ci_cluster clusters @ map cl_cluster_id catalog)))"

definition profileIDs :: "model_profile list \<Rightarrow> string list" where
  "profileIDs ps = sort (nub (map mp_model_id ps))"

lemma clusterOptions_set:
  "set (clusterOptions cs ks) = (ci_cluster ` set cs \<union> cl_cluster_id ` set ks) - {[]}"
  "sorted (clusterOptions cs ks)" "distinct (clusterOptions cs ks)"
  by (auto simp: clusterOptions_def)

lemma profileIDs_set: "set (profileIDs ps) = mp_model_id ` set ps" "sorted (profileIDs ps)" "distinct (profileIDs ps)"
  by (auto simp: profileIDs_def)

section \<open>The preview\<close>

record preview_scope =
  sc_cluster_id :: string
  sc_model_id :: string
  sc_tenant_id :: string
  sc_input_tokens :: num
  sc_hit_ratio :: num

record preview_state =
  pv_scope :: preview_scope
  pv_preview :: "policy_preview option"
  pv_err :: string
  pv_pending :: bool

datatype preview_event =
  PvModel string | PvTenant string | PvCluster string | PvTokens string | PvRatio string | PvRun

definition scope_cluster :: "string \<Rightarrow> string" where
  "scope_cluster cluster = (if cluster = ''all'' then [] else cluster)"

definition preview_init :: "string \<Rightarrow> preview_state" where
  "preview_init cluster =
     \<lparr>pv_scope = \<lparr>sc_cluster_id = scope_cluster cluster, sc_model_id = ''qwen3.5-4b'', sc_tenant_id = [],
        sc_input_tokens = Dec 256 0, sc_hit_ratio = Dec 5 (- 1)\<rparr>,
      pv_preview = None, pv_err = [], pv_pending = False\<rparr>"

text \<open>The effects: on another cluster, and on the models the profiles list.\<close>

definition preview_on_cluster :: "string \<Rightarrow> preview_state \<Rightarrow> preview_state" where
  "preview_on_cluster cluster s =
     s\<lparr>pv_scope := (pv_scope s)\<lparr>sc_cluster_id := scope_cluster cluster\<rparr>\<rparr>"

definition preview_model_effect :: "string list \<Rightarrow> preview_state \<Rightarrow> preview_state" where
  "preview_model_effect ids s =
     (if ids = [] then s
      else if sc_model_id (pv_scope s) \<notin> set ids
      then s\<lparr>pv_scope := (pv_scope s)\<lparr>sc_model_id := hd ids\<rparr>, pv_preview := None, pv_err := []\<rparr>
      else s)"

interpretation pme: settling "preview_model_effect ids" 1 for ids
  by unfold_locales (simp add: preview_model_effect_def)

definition scope_json :: "preview_scope \<Rightarrow> json" where
  "scope_json sc = JObj
     [(''cluster_id'', JStr (sc_cluster_id sc)), (''model_id'', JStr (sc_model_id sc)),
      (''tenant_id'', JStr (sc_tenant_id sc)), (''input_tokens'', JNum (sc_input_tokens sc)),
      (''hit_ratio'', JNum (sc_hit_ratio sc))]"

definition preview_call :: "string \<Rightarrow> string \<Rightarrow> preview_scope \<Rightarrow> fetch_call" where
  "preview_call base cluster sc =
     api_post base (clusterQ ''/config/effective-policy/preview'' (or_str (sc_cluster_id sc) cluster))
       (scope_json sc)"

fun scope_update :: "preview_event \<Rightarrow> preview_scope \<Rightarrow> preview_scope" where
  "scope_update (PvModel v) sc = sc\<lparr>sc_model_id := v\<rparr>"
| "scope_update (PvTenant v) sc = sc\<lparr>sc_tenant_id := v\<rparr>"
| "scope_update (PvCluster v) sc = sc\<lparr>sc_cluster_id := (if v = anyClusterValue then [] else v)\<rparr>"
| "scope_update (PvTokens v) sc = sc\<lparr>sc_input_tokens := to_number v\<rparr>"
| "scope_update (PvRatio v) sc = sc\<lparr>sc_hit_ratio := to_number v\<rparr>"
| "scope_update PvRun sc = sc"

definition preview_handle ::
  "string \<Rightarrow> string \<Rightarrow> preview_event \<Rightarrow> preview_state \<Rightarrow> preview_state \<times> fetch_call list" where
  "preview_handle base cluster e s =
     (if e = PvRun then (s\<lparr>pv_pending := True\<rparr>, [preview_call base cluster (pv_scope s)])
      else (s\<lparr>pv_scope := scope_update e (pv_scope s)\<rparr>, []))"

definition preview_done :: "string + policy_preview \<Rightarrow> preview_state \<Rightarrow> preview_state" where
  "preview_done res s = (case res of
     Inr d \<Rightarrow> s\<lparr>pv_pending := False, pv_preview := Some d, pv_err := []\<rparr>
   | Inl e \<Rightarrow> s\<lparr>pv_pending := False, pv_err := e\<rparr>)"

definition Row :: "string \<Rightarrow> string \<Rightarrow> string option \<Rightarrow> 'e node" where
  "Row k v help =
     el ''div''
       [el ''span'' (tx ''span'' k # shown (truthy help) [HelpTip (nullish help [])]), tx ''span'' v]"

definition arrow_text :: string where
  "arrow_text = [CHR 0xE2, CHR 0x86, CHR 0x92]"

definition preview_result :: "(string \<Rightarrow> string) \<Rightarrow> admission_result \<Rightarrow> 'e node" where
  "preview_result t r =
     el ''div''
       [Row (t ''policies.preview.matched'')
          (if truthy (ar_matched_rule_id r)
           then or_opt (ar_matched_rule_name r) (nullish (ar_matched_rule_id r) [])
           else t ''policies.preview.no_match'') (Some (t ''policies.help.matched_rule'')),
        Row (t ''overview.col.decision'') (ar_decision r) (Some (t ''policies.help.action'')),
        Row (t ''overview.col.reason'') (ar_reason r) (Some (t ''policies.help.result_reason'')),
        Row (t ''policies.preview.evaluated'')
          (or_opt (map_option (join ('' '' @ arrow_text @ '' '')) (ar_evaluated_rule_ids r)) dash_text)
          (Some (t ''policies.help.evaluated_rules''))]"

definition RulePreview ::
  "(string \<Rightarrow> string) \<Rightarrow> string list \<Rightarrow> string list \<Rightarrow> preview_state \<Rightarrow> preview_event node" where
  "RulePreview t ids opts s =
     (let sc = pv_scope s in
      el ''FieldGroup''
        ([field_row (FieldLabelWithHelp (t ''policies.field.model'') (t ''policies.help.model''))
            (if ids \<noteq> [] then select False (sc_model_id sc) PvModel (map (\<lambda>id. (id, id)) ids)
             else input_el False (sc_model_id sc) PvModel),
          field_row (FieldLabelWithHelp (t ''policies.field.tenant'') (t ''policies.help.tenant''))
            (input_ph False (sc_tenant_id sc) (t ''common.default'') PvTenant),
          field_row (FieldLabelWithHelp (t ''policies.field.cluster'') (t ''policies.help.cluster''))
            (if opts \<noteq> [] then select False (or_str (sc_cluster_id sc) anyClusterValue) PvCluster
                 ((anyClusterValue, t ''common.any'') # map (\<lambda>id. (id, id)) opts)
             else input_ph False (sc_cluster_id sc) (t ''common.any'') PvCluster),
          field_row (FieldLabelWithHelp (t ''policies.field.input_tokens'') (t ''policies.help.input_tokens''))
            (input_el False (num_to_string (sc_input_tokens sc)) PvTokens),
          field_row (FieldLabelWithHelp (t ''policies.field.preview_hit_ratio'')
              (t ''policies.help.preview_hit_ratio''))
            (input_el False (num_to_string (sc_hit_ratio sc)) PvRatio),
          button (pv_pending s) PvRun (t ''policies.preview.btn'')]
         @ shown (pv_err s \<noteq> []) [tx ''div'' (pv_err s)]
         @ (case pv_preview s of None \<Rightarrow> [] | Some p \<Rightarrow> [preview_result t (pp_result p)])))"

lemma preview_quiet [simp]: "offers (Row k v h) = {}" "offers (preview_result t r) = {}"
  by (simp_all add: Row_def preview_result_def shown_def)

lemma preview_offers_run: "PvRun \<in> offers (RulePreview t ids opts s) \<Longrightarrow> \<not> pv_pending s"
  by (auto simp: RulePreview_def Let_def split: option.splits if_splits)

section \<open>The page\<close>

text \<open>
  A sheet's content is mounted while the sheet is open, so an open sheet is \<open>Some\<close> state.
  A save, a toggle or a deletion in flight is a flag, the one of its \<open>useMutation\<close>; the
  saves of forms that were closed meanwhile are still in flight.
\<close>

record policies_state =
  pg_create :: "form_state option"
  pg_edit :: "(policy \<times> form_state) option"
  pg_test :: "preview_state option"
  pg_deleteErr :: string
  pg_deleting :: bool
  pg_toggling :: bool
  pg_saves :: nat

record policies_ctx =
  px_cluster :: string
  px_multi :: bool
  px_options :: "string list"
  px_profiles :: "string list"
  px_rows :: "policy list query"
  px_base :: string
  px_t :: "string \<Rightarrow> string"
  px_confirm :: "string \<Rightarrow> bool"

datatype policies_event =
    OpenCreate bool | OpenTest bool | EditOpen bool
  | EditRow policy | DeleteRow policy | ToggleRow policy bool | RetryPolicies
  | CreateForm form_event | EditForm form_event | Preview preview_event

definition policies_init :: policies_state where
  "policies_init = \<lparr>pg_create = None, pg_edit = None, pg_test = None, pg_deleteErr = [],
     pg_deleting = False, pg_toggling = False, pg_saves = 0\<rparr>"

definition confirm_text :: "policies_ctx \<Rightarrow> policy \<Rightarrow> string" where
  "confirm_text cx p = replace_first ''{id}'' (po_rule_id p) (px_t cx ''policies.confirm.delete'')"

text \<open>The button of a form: \<open>save.mutate()\<close>, whose \<open>mutationFn\<close> may throw before it sends.\<close>

definition form_save ::
  "policies_ctx \<Rightarrow> policy option \<Rightarrow> form_state \<Rightarrow> form_state \<times> fetch_call list" where
  "form_save cx initial fs =
     (case savePolicy (px_t cx) (px_base cx) (px_cluster cx) (px_multi cx) initial (fs_form fs) of
        Inl e \<Rightarrow> (fs\<lparr>fs_err := e\<rparr>, [])
      | Inr call \<Rightarrow> (fs\<lparr>fs_pending := True\<rparr>, [call]))"

fun policies_handle ::
  "policies_ctx \<Rightarrow> policies_event \<Rightarrow> policies_state \<Rightarrow> policies_state \<times> fetch_call list" where
  "policies_handle cx (OpenCreate b) s =
     (s\<lparr>pg_create := (if b then Some (form_init None (px_cluster cx)) else None)\<rparr>, [])"
| "policies_handle cx (OpenTest b) s =
     (s\<lparr>pg_test := (if b then Some (preview_init (px_cluster cx)) else None)\<rparr>, [])"
| "policies_handle cx (EditOpen b) s = (if b then s else s\<lparr>pg_edit := None\<rparr>, [])"
| "policies_handle cx (EditRow p) s =
     (s\<lparr>pg_edit := Some (p, form_init (Some p) (px_cluster cx))\<rparr>, [])"
| "policies_handle cx (DeleteRow p) s =
     (if px_confirm cx (confirm_text cx p)
      then (s\<lparr>pg_deleting := True\<rparr>, [deletePolicy (px_base cx) (px_cluster cx) p]) else (s, []))"
| "policies_handle cx (ToggleRow p b) s =
     (s\<lparr>pg_toggling := True\<rparr>, [togglePolicy (px_base cx) (px_cluster cx) p b])"
| "policies_handle cx RetryPolicies s = (s, [])"
| "policies_handle cx (CreateForm e) s = (case pg_create s of None \<Rightarrow> (s, []) | Some fs \<Rightarrow>
     if e = CancelForm then (s\<lparr>pg_create := None\<rparr>, [])
     else if e = SaveForm
     then (let (fs', calls) = form_save cx None fs
           in (s\<lparr>pg_create := Some fs', pg_saves := pg_saves s + length calls\<rparr>, calls))
     else (s\<lparr>pg_create := Some (form_handle e fs)\<rparr>, []))"
| "policies_handle cx (EditForm e) s = (case pg_edit s of None \<Rightarrow> (s, []) | Some (p, fs) \<Rightarrow>
     if e = CancelForm then (s\<lparr>pg_edit := None\<rparr>, [])
     else if e = SaveForm
     then (let (fs', calls) = form_save cx (Some p) fs in (s\<lparr>pg_edit := Some (p, fs')\<rparr>, calls))
     else (s\<lparr>pg_edit := Some (p, form_handle e fs)\<rparr>, []))"
| "policies_handle cx (Preview e) s = (case pg_test s of None \<Rightarrow> (s, []) | Some pv \<Rightarrow>
     let (pv', calls) = preview_handle (px_base cx) (px_cluster cx) e pv
     in (s\<lparr>pg_test := Some pv'\<rparr>, calls))"

text \<open>What comes back: a request's error message, or its success.\<close>

datatype policies_result = Created | Edited | Deleted | Toggled | Previewed "string + policy_preview"

definition form_failed :: "string \<Rightarrow> form_state \<Rightarrow> form_state" where
  "form_failed e fs = (if fs_pending fs then fs\<lparr>fs_pending := False, fs_err := e\<rparr> else fs)"

fun policies_done :: "policies_result \<Rightarrow> string option \<Rightarrow> policies_state \<Rightarrow> policies_state" where
  "policies_done Created None s = s\<lparr>pg_create := None, pg_saves := pg_saves s - 1\<rparr>"
| "policies_done Created (Some e) s =
     s\<lparr>pg_create := map_option (form_failed e) (pg_create s), pg_saves := pg_saves s - 1\<rparr>"
| "policies_done Edited None s = s\<lparr>pg_edit := None\<rparr>"
| "policies_done Edited (Some e) s = s\<lparr>pg_edit := map_option (map_prod id (form_failed e)) (pg_edit s)\<rparr>"
| "policies_done Deleted None s = s\<lparr>pg_deleting := False, pg_deleteErr := []\<rparr>"
| "policies_done Deleted (Some e) s = s\<lparr>pg_deleting := False, pg_deleteErr := e\<rparr>"
| "policies_done Toggled None s = s\<lparr>pg_toggling := False\<rparr>"
| "policies_done Toggled (Some e) s = s\<lparr>pg_toggling := False, pg_deleteErr := e\<rparr>"
| "policies_done (Previewed res) _ s = s\<lparr>pg_test := map_option (preview_done res) (pg_test s)\<rparr>"

section \<open>What the page shows\<close>

definition policy_heads :: "(string \<Rightarrow> string) \<Rightarrow> bool \<Rightarrow> 'e node list" where
  "policy_heads t multi =
     [HeadWithHelp (t ''policies.col.priority'') (t ''policies.help.priority''),
      HeadWithHelp (t ''policies.col.name'') (t ''policies.help.rule_id'')]
     @ shown multi [HeadWithHelp (t ''policies.col.scope_cluster'') (t ''policies.help.cluster'')]
     @ [HeadWithHelp (t ''policies.col.conditions'') (t ''policies.help.conditions''),
        HeadWithHelp (t ''policies.col.action'') (t ''policies.help.action''),
        HeadWithHelp (t ''policies.col.minhit'') (t ''policies.help.required_hit''),
        HeadWithHelp (t ''policies.col.uncertain'') (t ''policies.help.uncertain''),
        HeadWithHelp (t ''policies.col.enabled'') (t ''policies.help.status''),
        head (t ''engines.col.actions'')]"

definition policy_row :: "(string \<Rightarrow> string) \<Rightarrow> bool \<Rightarrow> bool \<Rightarrow> bool \<Rightarrow> policy \<Rightarrow> policies_event node" where
  "policy_row t multi toggling deleting p =
     (let a = po_action p; hit = (ra_type a = ''require_cache_hit'') in
      el ''TableRow''
       ([cell (num_to_string (po_priority p)),
         el ''TableCell'' [tx ''span'' (or_opt (po_name p) (po_rule_id p)), tx ''span'' (po_rule_id p)]]
        @ shown multi [el ''TableCell'' [PolicyClusterScope t p]]
        @ [el ''TableCell'' [ConditionChips t
             (filter (\<lambda>c. rc_field c \<noteq> ''cluster_id'') (nullish (po_conditions p) []))],
           el ''TableCell'' [ActionBadge t (ra_type a)],
           cell (case ra_min_hit_ratio a of
                   Some x \<Rightarrow> if hit then formatRatio x else dash_text | None \<Rightarrow> dash_text),
           el ''TableCell'' [if hit then OutcomeBadge t (ra_on_uncertain a) else tx ''span'' dash_text],
           el ''TableCell'' [switch toggling (po_enabled p \<noteq> Some False) (ToggleRow p)],
           el ''TableCell'' [icon_button (t ''common.edit'') False (EditRow p),
                             icon_button (t ''common.delete'') deleting (DeleteRow p)]]))"

definition policies_list :: "policies_ctx \<Rightarrow> policies_state \<Rightarrow> policies_event node" where
  "policies_list cx s =
     (let t = px_t cx in
      el ''Card''
        [tx ''CardTitle'' (t ''policies.list.title''), tx ''CardDescription'' (t ''policies.list.desc''),
         el ''CardContent''
           (shown (pg_deleteErr s \<noteq> []) [tx ''div'' (pg_deleteErr s)]
            @ query_state t (px_rows cx) RetryPolicies 3
               ([table_of (policy_heads t (px_multi cx))
                   (map (policy_row t (px_multi cx) (pg_toggling s) (pg_deleting s)) (q_list (px_rows cx)))]
                @ shown (q_list (px_rows cx) = []) [EmptyState [Txt (t ''policies.list.empty'')]]))])"

definition test_sheet :: "policies_ctx \<Rightarrow> policies_state \<Rightarrow> policies_event node" where
  "test_sheet cx s =
     (let t = px_t cx in
      Elem ''Sheet'' [Flag ''open'' (pg_test s \<noteq> None), OnToggle OpenTest]
       ([tx ''SheetTrigger'' (t ''policies.btn.test'')]
        @ (case pg_test s of None \<Rightarrow> [] | Some pv \<Rightarrow>
             [tx ''SheetTitle'' (t ''policies.test.title''), tx ''SheetDescription'' (t ''policies.test.desc''),
              map_node Preview (RulePreview t (px_profiles cx) (px_options cx) pv)])))"

definition create_sheet :: "policies_ctx \<Rightarrow> policies_state \<Rightarrow> policies_event node" where
  "create_sheet cx s =
     (let t = px_t cx in
      Elem ''Sheet'' [Flag ''open'' (pg_create s \<noteq> None), OnToggle OpenCreate]
       ([tx ''SheetTrigger'' (t ''policies.btn.new'')]
        @ (case pg_create s of None \<Rightarrow> [] | Some fs \<Rightarrow>
             [tx ''SheetTitle'' (t ''policies.sheet.title''), tx ''SheetDescription'' (t ''policies.sheet.desc''),
              map_node CreateForm (PolicyForm t (px_options cx) None fs)])))"

definition edit_sheet :: "policies_ctx \<Rightarrow> policies_state \<Rightarrow> policies_event node" where
  "edit_sheet cx s =
     (let t = px_t cx in
      Elem ''Sheet'' [Flag ''open'' (pg_edit s \<noteq> None), OnToggle EditOpen]
       ([tx ''SheetTitle'' (case pg_edit s of
            None \<Rightarrow> t ''common.edit''
          | Some (p, fs) \<Rightarrow> replace_first ''{id}'' (po_rule_id p) (t ''policies.sheet.edit'')),
         tx ''SheetDescription'' (t ''policies.sheet.desc'')]
        @ (case pg_edit s of None \<Rightarrow> [] | Some (p, fs) \<Rightarrow>
             [map_node EditForm (PolicyForm t (px_options cx) (Some p) fs)])))"

definition PoliciesPage :: "policies_ctx \<Rightarrow> policies_state \<Rightarrow> policies_event node" where
  "PoliciesPage cx s =
     (let t = px_t cx in
      el ''div''
        [PageHeader (t ''policies.title'') (Some (t ''policies.subtitle''))
           (Some (el ''div'' [test_sheet cx s, create_sheet cx s])),
         policies_list cx s,
         edit_sheet cx s])"

text \<open>An open sheet is modal: nothing behind it can be used.\<close>

definition policies_offers :: "policies_ctx \<Rightarrow> policies_state \<Rightarrow> policies_event set" where
  "policies_offers cx s =
     (if pg_create s \<noteq> None then offers (create_sheet cx s)
      else if pg_edit s \<noteq> None then offers (edit_sheet cx s)
      else if pg_test s \<noteq> None then offers (test_sheet cx s)
      else offers (PoliciesPage cx s))"

end
