(* ===== verification/Policy_Props.thy ===== *)
theory Policy_Props
  imports Policy_Form "HOL-Library.Multiset"
begin

text \<open>
  The correctness of the rule form: opening a rule and saving it again gives the rule back,
  a new rule goes to one cluster, an edit reaches the rule it shows, and what the texts of
  the conditions turn into.
\<close>

section \<open>Numbers and lists as texts\<close>

definition plain_text :: "string \<Rightarrow> bool" where
  "plain_text s \<longleftrightarrow> s \<noteq> [] \<and> trimmed s \<and> CHR '','' \<notin> set s"

lemma plain_graphic:
  assumes "s \<noteq> []" "graphic (hd s)" "graphic (last s)" "CHR '','' \<notin> set s"
  shows "plain_text s"
  using assms trimmed_graphic by (simp add: plain_text_def)

lemma num_text_plain: "plain_text (num_to_string x)"
proof (cases x)
  case (Dec m e)
  show ?thesis
  proof (cases "m = 0")
    case True
    with Dec show ?thesis by (simp add: plain_graphic graphic_def)
  next
    case False
    let ?u = "layout (digits (nat \<bar>m\<bar>)) (int (length (digits (nat \<bar>m\<bar>))) + e)"
    have u: "?u \<noteq> []" "graphic (hd ?u)" "graphic (last ?u)" "CHR '','' \<notin> set ?u"
      using digits_all_digit layout_nonempty layout_hd layout_last layout_chars digit_graphic
      by (auto simp: is_digit_def dest!: subsetD [OF layout_chars [OF digits_all_digit]])
    have "graphic (CHR ''-'')" by (simp add: graphic_def)
    with u False Dec show ?thesis by (auto simp: Let_def intro!: plain_graphic)
  qed
qed (simp_all add: plain_graphic graphic_def)

lemma trim_parts:
  assumes "\<forall>s \<in> set ss. plain_text s" "ss \<noteq> []"
  shows "map trim (split_on (CHR '','') (join '', '' ss)) = ss"
proof -
  have "split_on (CHR '','') (join '', '' ss) = hd ss # map (\<lambda>x. '' '' @ x) (tl ss)"
    using assms by (intro split_on_join_blank) (auto simp: plain_text_def)
  moreover have "trim ('' '' @ s) = s" if "s \<in> set ss" for s
    using assms(1) that trim_blank by (auto simp: plain_text_def)
  moreover have "trim (hd ss) = hd ss" using assms trim_trimmed by (simp add: plain_text_def)
  ultimately show ?thesis
    using assms(2) by (cases ss) (simp_all add: map_idI)
qed

section \<open>Conditions that survive the form\<close>

text \<open>
  The conditions the form can show: a value of the kind of its field; the items of a list are
  texts without commas and without blanks around them, and a list of numbers or truth values
  has an item; the cluster of an equality has no blanks around it.
\<close>

definition typed_scalar :: "string \<Rightarrow> scalar \<Rightarrow> bool" where
  "typed_scalar field x = (case x of
     SNum n \<Rightarrow> numericField field \<and> canonical n
   | SBool b \<Rightarrow> \<not> numericField field \<and> booleanField field
   | SStr s \<Rightarrow> \<not> numericField field \<and> \<not> booleanField field)"

definition editable :: "rule_condition \<Rightarrow> bool" where
  "editable c \<longleftrightarrow> rc_field c \<noteq> [] \<and> rc_op c \<noteq> [] \<and> (case rc_value c of
     None \<Rightarrow> False
   | Some (One x) \<Rightarrow> \<not> list_op (rc_op c) \<and> typed_scalar (rc_field c) x
       \<and> (rc_field c = ''cluster_id'' \<and> rc_op c = ''eq'' \<longrightarrow> trimmed (scalar_string x))
   | Some (Many xs) \<Rightarrow> list_op (rc_op c)
       \<and> (\<forall>x \<in> set xs. typed_scalar (rc_field c) x \<and> plain_text (scalar_string x))
       \<and> (xs = [] \<longrightarrow> \<not> numericField (rc_field c) \<and> \<not> booleanField (rc_field c)))"

lemma parse_scalar: "typed_scalar field x \<Longrightarrow> parseSingleValue field (scalar_string x) = x"
  by (cases x) (auto simp: typed_scalar_def parseSingleValue_def number_print_parse)

lemma parse_list:
  assumes "\<forall>x \<in> set xs. typed_scalar field x \<and> plain_text (scalar_string x)" "list_op op"
    and "xs = [] \<longrightarrow> \<not> numericField field \<and> \<not> booleanField field"
  shows "parseConditionValue field op (join '', '' (map scalar_string xs)) = Many xs"
proof (cases "xs = []")
  case True
  with assms show ?thesis by (auto simp: parseConditionValue_def list_op_def parseSingleValue_def)
next
  case False
  have strings: "\<forall>s \<in> set (map scalar_string xs). plain_text s" using assms(1) by simp
  have "map (\<lambda>p. parseSingleValue field (trim p)) (split_on (CHR '','') (join '', '' (map scalar_string xs)))
      = map (parseSingleValue field) (map scalar_string xs)"
    using arg_cong [OF trim_parts [OF strings], of "map (parseSingleValue field)"] False
    by (simp add: comp_def)
  also have "\<dots> = xs" using assms(1) by (simp add: map_idI parse_scalar)
  finally have "map (\<lambda>p. parseSingleValue field (trim p))
      (split_on (CHR '','') (join '', '' (map scalar_string xs))) = xs" .
  moreover have "p \<noteq> SStr []" if "p \<in> set xs" for p
    using assms(1) that by (fastforce simp: plain_text_def)
  then have "filter (\<lambda>p. p \<noteq> SStr []) xs = xs" by simp
  ultimately show ?thesis using assms(2) by (simp add: parseConditionValue_def list_op_def)
qed

lemma parse_one:
  "\<not> list_op op \<Longrightarrow> typed_scalar field x \<Longrightarrow> parseConditionValue field op (scalar_string x) = One x"
  by (simp add: parseConditionValue_def list_op_def parse_scalar)

lemma condition_back: "editable c \<Longrightarrow> condition_of (draft_of c) = c"
  by (cases c)
     (auto simp: editable_def condition_of_def draft_of_def valueToInput_def parse_list parse_one
       split: option.splits cond_value.splits)

section \<open>Editing a rule\<close>

lemma scope_draft_value:
  assumes "editable c" "scope_draft (draft_of c)"
  shows "c = \<lparr>rc_field = ''cluster_id'', rc_op = ''eq'', rc_value = Some (One (SStr (trim (cd_value (draft_of c)))))\<rparr>"
    and "trim (cd_value (draft_of c)) \<noteq> []"
proof -
  have c: "rc_field c = ''cluster_id''" "rc_op c = ''eq''"
    using assms by (auto simp: scope_draft_def draft_of_def editable_def or_str_def split: if_splits)
  have "\<not> numericField ''cluster_id''" "\<not> booleanField ''cluster_id''" "\<not> list_op ''eq''"
    by (simp_all add: numericField_def booleanField_def list_op_def)
  with assms(1) c obtain s where s: "rc_value c = Some (One (SStr s))" "trimmed s"
    by (auto simp: editable_def typed_scalar_def split: option.splits cond_value.splits scalar.splits)
  with c show "c = \<lparr>rc_field = ''cluster_id'', rc_op = ''eq'', rc_value = Some (One (SStr (trim (cd_value (draft_of c)))))\<rparr>"
    by (cases c) (simp add: draft_of_def valueToInput_def trim_trimmed)
  show "trim (cd_value (draft_of c)) \<noteq> []" using assms(2) by (simp add: scope_draft_def)
qed

definition form_conditions :: "string \<Rightarrow> condition_draft list \<Rightarrow> rule_condition list" where
  "form_conditions scope ds =
     (if trim scope \<noteq> []
      then [\<lparr>rc_field = ''cluster_id'', rc_op = ''eq'', rc_value = Some (One (SStr (trim scope)))\<rparr>] else [])
     @ map condition_of (filter (\<lambda>c. cd_field c \<noteq> [] \<and> cd_op c \<noteq> []) ds)"

lemma payload_conditions:
  "po_conditions (payloadFromForm f) = Some (form_conditions (pf_scope_cluster f) (pf_conditions f))"
  by (simp add: payloadFromForm_def form_conditions_def Let_def)

lemma drafts_back:
  assumes "\<forall>c \<in> set cs. editable c"
  shows "map condition_of (filter (\<lambda>c. cd_field c \<noteq> [] \<and> cd_op c \<noteq> []) (map draft_of cs)) = cs"
proof -
  have "cd_field (draft_of c) \<noteq> [] \<and> cd_op (draft_of c) \<noteq> []" if "c \<in> set cs" for c
    using assms that by (auto simp: draft_of_def editable_def or_str_def)
  then have "filter (\<lambda>c. cd_field c \<noteq> [] \<and> cd_op c \<noteq> []) (map draft_of cs) = map draft_of cs" by simp
  with assms show ?thesis by (simp add: map_idI condition_back)
qed

lemma mset_remove_at: "i < length xs \<Longrightarrow> add_mset (xs ! i) (mset (remove_at i xs)) = mset xs"
  by (metis id_take_nth_drop mset.simps(2) mset_append remove_at_def union_mset_add_mset_right)

lemma conditions_back:
  assumes "\<forall>c \<in> set cs. editable c" "extractScopeCluster (map draft_of cs) = (scope, ds)"
  shows "mset (form_conditions scope ds) = mset cs"
proof (cases "find_index scope_draft (map draft_of cs)")
  case None
  with assms(2) have "scope = []" "ds = map draft_of cs" by (simp_all add: extractScopeCluster_def)
  with drafts_back [OF assms(1)] show ?thesis by (simp add: form_conditions_def)
next
  case (Some i)
  then have i: "i < length cs" "scope_draft (draft_of (cs ! i))" by (auto simp: find_index_Some)
  have ds: "ds = map draft_of (remove_at i cs)" and scope: "scope = trim (cd_value (draft_of (cs ! i)))"
    using assms(2) Some i(1) by (simp_all add: extractScopeCluster_def remove_at_map)
  have rest: "\<forall>c \<in> set (remove_at i cs). editable c" using assms(1) by (meson set_remove_at subsetD)
  have "form_conditions scope ds = cs ! i # remove_at i cs"
    using scope_draft_value [of "cs ! i"] assms(1) i drafts_back [OF rest]
    by (simp add: form_conditions_def scope ds)
  with mset_remove_at [OF i(1)] show ?thesis by simp
qed

definition editable_action :: "rule_action \<Rightarrow> bool" where
  "editable_action a \<longleftrightarrow>
     (let low = (ra_min_hit_ratio a = None \<and> ra_on_low_hit a = None \<and> ra_on_uncertain a = None) in
      if ra_type a = ''require_cache_hit''
      then ra_min_hit_ratio a \<noteq> None \<and> ra_on_low_hit a \<noteq> None \<and> ra_on_uncertain a \<noteq> None
           \<and> ra_reject_status a \<noteq> None
      else if ra_type a = ''reject'' then low \<and> ra_reject_status a \<noteq> None
      else low \<and> ra_reject_status a = None)"

lemma action_back:
  assumes "editable_action (po_action p)"
  shows "form_action (formStateFromPolicy (Some p) cluster) = po_action p"
  using assms
  by (cases "po_action p") (auto simp: editable_action_def form_action_def formStateFromPolicy_def Let_def
      split: if_splits prod.splits)


definition sample_policy :: policy where
  "sample_policy = \<lparr>po_rule_id = ''r1'', po_name = Some ''long prompts'', po_priority = Dec 1 2,
     po_conditions = Some
       [\<lparr>rc_field = ''input_tokens'', rc_op = ''gte'', rc_value = Some (One (SNum (Dec 256 0)))\<rparr>,
        \<lparr>rc_field = ''tenant_id'', rc_op = ''in'', rc_value = Some (Many [SStr ''a'', SStr ''b''])\<rparr>,
        \<lparr>rc_field = ''cluster_id'', rc_op = ''eq'', rc_value = Some (One (SStr ''hkg''))\<rparr>],
     po_action = \<lparr>ra_type = ''reject'', ra_min_hit_ratio = None, ra_on_low_hit = None,
       ra_on_uncertain = None, ra_reject_status = Some (Dec 429 0)\<rparr>,
     po_enabled = None, po_cluster = Some ''hkg'', po_backend = Some ''b1''\<rparr>"

lemma graphic_plain: "list_all graphic s \<Longrightarrow> s \<noteq> [] \<Longrightarrow> CHR '','' \<notin> set s \<Longrightarrow> plain_text s"
  by (rule plain_graphic) (auto simp: list_all_iff)

lemma sample_plain: "plain_text ''a''" "plain_text ''b''" "trimmed ''hkg''"
  by (simp_all add: graphic_plain graphic_def trimmed_graphic)


section \<open>The targets of the requests\<close>

lemma policies_path:
  "query_get (''/policies/'' @ encodeURIComponent s) k = None"
  "path_of (''/policies/'' @ encodeURIComponent s) = ''/policies/'' @ encodeURIComponent s"
proof -
  have no: "CHR ''?'' \<notin> set (''/policies/'' @ encodeURIComponent s)"
    using encode_no_delimiter by simp
  show "query_get (''/policies/'' @ encodeURIComponent s) k = None"
    using no query_of_append(3) [OF no] by (simp add: query_get_def params_def)
  show "path_of (''/policies/'' @ encodeURIComponent s) = ''/policies/'' @ encodeURIComponent s"
    using no by (auto simp: path_of_def takeWhile_eq_all_conv)
qed

text \<open>
  An edit, a toggle and a deletion reach the rule they were asked for: the path names the
  rule, whatever characters its identity has, and the query the indexer that owns it, or for
  a row without an owner the selected cluster.
\<close>

theorem policy_target_reaches_rule:
  "path_of (policy_target p cluster) = ''/policies/'' @ encodeURIComponent (po_rule_id p)
   \<and> decode (drop 10 (path_of (policy_target p cluster))) = po_rule_id p
   \<and> query_get (policy_target p cluster) ''backend''
       = (if truthy (po_backend p) then po_backend p else None)
   \<and> query_get (policy_target p cluster) ''cluster''
       = (if truthy (po_backend p) \<or> cluster = [] \<or> cluster = ''all'' then None else Some cluster)"
proof (cases "truthy (po_backend p)")
  case True
  then obtain b where b: "po_backend p = Some b" "b \<noteq> []" by (auto simp: truthy_iff)
  then show ?thesis
    using True policies_path bq.path_app bq.get_app [OF policies_path(1), of "po_rule_id p" b] bq.get_other
    by (simp add: policy_target_def Let_def)
next
  case False
  then show ?thesis
    using policies_path cq.path_app cq.get_app [OF policies_path(1), of "po_rule_id p" cluster] cq.get_other
    by (simp add: policy_target_def Let_def)
qed

text \<open>
  On a federated console a new rule is posted to one named cluster or not at all: the
  cluster the rule is scoped to, else the selected one; with neither, the save is refused
  before anything is sent.  The body is the JSON of the form's payload.
\<close>

theorem create_targets_one_cluster:
  assumes "trim (pf_scope_cluster f) \<noteq> ''all''"
  shows "savePolicy t base cluster True None f =
    (if trim (pf_scope_cluster f) = [] \<and> (cluster = [] \<or> cluster = ''all'')
     then Inl (t ''policies.error.target_cluster_required'')
     else Inr (api_post base (clusterQ ''/policies'' (or_str (trim (pf_scope_cluster f)) cluster))
                 (policy_json (payloadFromForm f))))
    \<and> (trim (pf_scope_cluster f) = [] \<and> (cluster = [] \<or> cluster = ''all'')
       \<or> query_get (clusterQ ''/policies'' (or_str (trim (pf_scope_cluster f)) cluster)) ''cluster''
           = Some (or_str (trim (pf_scope_cluster f)) cluster))"
proof -
  have "query_get ''/policies'' ''cluster'' = None" by code_simp
  from cq.get_app [OF this] assms show ?thesis
    by (simp add: savePolicy_def createTargetCluster_def Let_def or_str_def)
qed

theorem create_targets_one_cluster_witness:
  "savePolicy (\<lambda>k. k) ''/api/kvi'' ''all'' True None (formStateFromPolicy None ''all'')
   = Inl ''policies.error.target_cluster_required''"
proof -
  have "pf_scope_cluster (formStateFromPolicy None ''all'') = []"
    by (simp add: formStateFromPolicy_def defaultConditions_def defaultCondition_def
        extractScopeCluster_def scope_draft_def)
  then show ?thesis
    using create_targets_one_cluster [of "formStateFromPolicy None ''all''" "\<lambda>k. k" "''/api/kvi''" "''all''"]
    by simp
qed

section \<open>What a text of the form means\<close>

text \<open>
  In a list of numbers every comma separates two items, so a list that ends in a comma,
  or has an empty place, gets a zero: the blank parts are only taken out of lists of texts.
  A text that is no number becomes \<open>NaN\<close>, which the request carries as \<open>null\<close>.
\<close>

theorem numeric_list_keeps_blanks:
  assumes "numericField field" "list_op op"
  shows "parseConditionValue field op raw
      = Many (map (\<lambda>part. SNum (to_number (trim part))) (split_on (CHR '','') raw))
    \<and> ([] \<in> trim ` set (split_on (CHR '','') raw) \<longrightarrow>
         (\<exists>xs. parseConditionValue field op raw = Many xs \<and> SNum (Dec 0 0) \<in> set xs))
    \<and> stringify (scalar_json (SNum NaN)) = ''null''"
proof -
  have "parseConditionValue field op raw
      = Many (map (\<lambda>part. SNum (to_number (trim part))) (split_on (CHR '','') raw))"
    using assms by (auto simp: parseConditionValue_def list_op_def parseSingleValue_def)
  moreover have "stringify (scalar_json (SNum NaN)) = ''null''" by (simp add: num_json_def)
  ultimately show ?thesis by (force simp: image_iff)
qed

theorem numeric_list_keeps_blanks_witness:
  "\<exists>xs. parseConditionValue ''input_tokens'' ''in'' ''128,256,'' = Many xs \<and> SNum (Dec 0 0) \<in> set xs"
proof -
  have "[] \<in> trim ` set (split_on (CHR '','') ''128,256,'')" by (simp add: image_iff)
  then show ?thesis
    using numeric_list_keeps_blanks [of "''input_tokens''" "''in''" "''128,256,''"]
    by (simp add: numericField_def list_op_def)
qed

end
