(* ===== verification/Policy_Runs.thy ===== *)
theory Policy_Runs
  imports Policy_Page Policy_Props
begin

text \<open>
  The runs of the policies page: the rules a form can make, the requests the page can send,
  and what the answer of a save does to a form that was opened after it.
\<close>

section \<open>The rules a new form can make\<close>

inductive form_reachable ::
  "(string \<Rightarrow> string) \<Rightarrow> string list \<Rightarrow> policy option \<Rightarrow> string \<Rightarrow> form_state \<Rightarrow> bool"
  for t opts initial cluster where
  opened: "form_reachable t opts initial cluster (form_init initial cluster)"
| edited: "form_reachable t opts initial cluster s \<Longrightarrow> e \<in> offers (PolicyForm t opts initial s) \<Longrightarrow>
    form_reachable t opts initial cluster (form_handle e s)"
| answered: "form_reachable t opts initial cluster s \<Longrightarrow>
    form_reachable t opts initial cluster (s\<lparr>fs_err := err, fs_pending := pending\<rparr>)"

definition draft_typed :: "condition_draft \<Rightarrow> bool" where
  "draft_typed c \<longleftrightarrow> cd_field c \<in> set conditionFields \<and> cd_op c \<in> set conditionOps"

definition form_typed :: "policy_form \<Rightarrow> bool" where
  "form_typed f \<longleftrightarrow> (\<forall>c \<in> set (pf_conditions f). draft_typed c) \<and> pf_action_type f \<in> set actionTypes
     \<and> pf_on_low_hit f \<in> set outcomes \<and> pf_on_uncertain f \<in> set outcomes"

lemma typed_lists:
  "''cluster_id'' \<in> set conditionFields" "''input_tokens'' \<in> set conditionFields"
  "''eq'' \<in> set conditionOps" "''gte'' \<in> set conditionOps"
  "''require_cache_hit'' \<in> set actionTypes" "''reject'' \<in> set outcomes" "''fallback_accept'' \<in> set outcomes"
  "defaultOpForField v \<in> set conditionOps"
  by (simp_all add: conditionFields_def conditionOps_def actionTypes_def outcomes_def defaultOpForField_def)

lemma default_typed: "draft_typed defaultCondition" "\<forall>c \<in> set (defaultConditions cluster). draft_typed c"
  by (simp_all add: draft_typed_def defaultConditions_def defaultCondition_def typed_lists)

lemma extract_subset: "extractScopeCluster cs = (scope, ds) \<Longrightarrow> set ds \<subseteq> set cs"
  using set_remove_at by (fastforce simp: extractScopeCluster_def split: option.splits)

lemma new_form_typed: "form_typed (formStateFromPolicy None cluster)"
proof -
  obtain scope ds where e: "extractScopeCluster (defaultConditions cluster) = (scope, ds)" by fastforce
  then show ?thesis
    using extract_subset [OF e] default_typed(2) [of cluster]
    by (auto simp: formStateFromPolicy_def form_typed_def typed_lists)
qed

lemma setCondition_typed:
  assumes "form_typed f" "\<And>c. draft_typed c \<Longrightarrow> draft_typed (g c)"
  shows "form_typed (setCondition i g f)"
  using assms
  by (auto simp: form_typed_def setCondition_def update_at_def dest!: subsetD [OF set_update_subset_insert])

lemma update_typed:
  assumes "form_typed f" "form_event_ok opts b s e" "fs_form s = f"
  shows "form_typed (form_update e f)"
proof -
  have keep: "form_typed f'" if "pf_conditions f' = pf_conditions f" "pf_action_type f' \<in> set actionTypes"
    "pf_on_low_hit f' \<in> set outcomes" "pf_on_uncertain f' \<in> set outcomes" for f' :: policy_form
    using that assms(1) by (simp add: form_typed_def)
  have own: "pf_action_type f \<in> set actionTypes" "pf_on_low_hit f \<in> set outcomes"
    "pf_on_uncertain f \<in> set outcomes" using assms(1) by (simp_all add: form_typed_def)
  show ?thesis
  proof (cases e)
    case AddCondition
    with assms(1) default_typed(1) show ?thesis by (auto simp: form_typed_def)
  next
    case (CondField i v)
    with assms show ?thesis
      by (auto simp: form_event_ok_def draft_typed_def typed_lists intro!: setCondition_typed)
  next
    case (CondOp i v)
    with assms show ?thesis
      by (auto simp: form_event_ok_def draft_typed_def intro!: setCondition_typed)
  next
    case (CondValue i v)
    with assms show ?thesis by (auto simp: draft_typed_def intro!: setCondition_typed)
  next
    case (RemoveCondition i)
    with assms(1) set_remove_at show ?thesis by (fastforce simp: form_typed_def)
  qed (use assms own in \<open>auto simp: form_event_ok_def intro!: keep\<close>)
qed

lemma reachable_typed: "form_reachable t opts None cluster s \<Longrightarrow> form_typed (fs_form s)"
proof (induction rule: form_reachable.induct)
  case opened
  show ?case by (simp add: form_init_def new_form_typed)
next
  case (edited s e)
  then show ?case using form_offers update_typed by (fastforce simp: form_handle_def)
qed simp

text \<open>The kind of a condition's value that the evaluation of a rule expects.\<close>

definition kind_of :: "string \<Rightarrow> scalar \<Rightarrow> bool" where
  "kind_of field x = (case x of SNum n \<Rightarrow> numericField field
     | SBool b \<Rightarrow> booleanField field | SStr s \<Rightarrow> \<not> numericField field \<and> \<not> booleanField field)"

definition condition_typed :: "rule_condition \<Rightarrow> bool" where
  "condition_typed c \<longleftrightarrow> rc_field c \<in> set conditionFields \<and> rc_op c \<in> set conditionOps \<and>
     (case rc_value c of
        Some (Many xs) \<Rightarrow> list_op (rc_op c) \<and> (\<forall>x \<in> set xs. kind_of (rc_field c) x)
      | Some (One x) \<Rightarrow> \<not> list_op (rc_op c) \<and> kind_of (rc_field c) x
      | None \<Rightarrow> False)"

lemma parsed_kind: "kind_of field (parseSingleValue field raw)"
  by (simp add: parseSingleValue_def kind_of_def)

lemma condition_of_typed: "draft_typed c \<Longrightarrow> condition_typed (condition_of c)"
  using parsed_kind
  by (auto simp: draft_typed_def condition_typed_def condition_of_def parseConditionValue_def list_op_def)

lemma cluster_condition_typed:
  "condition_typed \<lparr>rc_field = ''cluster_id'', rc_op = ''eq'', rc_value = Some (One (SStr c))\<rparr>"
  using typed_lists
  by (simp add: condition_typed_def kind_of_def list_op_def numericField_def booleanField_def)

lemma form_action_editable: "editable_action (form_action f)"
  by (simp add: form_action_def editable_action_def Let_def)

text \<open>
  Whatever a user does in the form of a new rule, the rule it sends is well formed: the
  fields, the operators, the action and its outcomes are among the known ones, a list comes
  with just the two list operators, every value has the kind of its field, and the action
  carries just the settings its type uses.
\<close>

theorem new_rules_typed:
  assumes "form_reachable t opts None cluster s"
  shows "(\<forall>c \<in> set (nullish (po_conditions (payloadFromForm (fs_form s))) []). condition_typed c)
    \<and> ra_type (po_action (payloadFromForm (fs_form s))) \<in> set actionTypes
    \<and> editable_action (po_action (payloadFromForm (fs_form s)))"
proof -
  let ?f = "fs_form s"
  have typed: "form_typed ?f" by (rule reachable_typed [OF assms])
  have "condition_typed c" if "c \<in> set (form_conditions (pf_scope_cluster ?f) (pf_conditions ?f))" for c
    using that typed cluster_condition_typed condition_of_typed
    by (auto simp: form_conditions_def form_typed_def split: if_splits)
  moreover have "po_action (payloadFromForm ?f) = form_action ?f" by (simp add: payloadFromForm_def Let_def)
  moreover have "ra_type (form_action ?f) = pf_action_type ?f" by (simp add: form_action_def Let_def)
  ultimately show ?thesis
    using typed payload_conditions [of ?f] form_action_editable by (simp add: form_typed_def)
qed

theorem new_rules_typed_witness:
  "ra_type (po_action (payloadFromForm (fs_form (form_handle (SetAction ''reject'') (form_init None ''all'')))))
     \<in> set actionTypes"
proof -
  have "SetAction ''reject'' \<in> offers (PolicyForm id [] None (form_init None ''all''))"
    by (simp add: PolicyForm_def Let_def action_fields_def actionTypes_def)
  then have "form_reachable id [] None ''all'' (form_handle (SetAction ''reject'') (form_init None ''all''))"
    by (intro form_reachable.edited form_reachable.opened)
  from new_rules_typed [OF this] show ?thesis by blast
qed

section \<open>The requests of the page\<close>

definition request_ok :: "policies_ctx \<Rightarrow> policies_state \<Rightarrow> fetch_call \<Rightarrow> bool" where
  "request_ok cx s call \<longleftrightarrow>
     (\<exists>p \<in> set (q_list (px_rows cx)). call = deletePolicy (px_base cx) (px_cluster cx) p
        \<and> px_confirm cx (confirm_text cx p) \<and> \<not> pg_deleting s)
   \<or> (\<exists>p \<in> set (q_list (px_rows cx)). \<exists>b. call = togglePolicy (px_base cx) (px_cluster cx) p b
        \<and> \<not> pg_toggling s)
   \<or> (\<exists>initial fs. (pg_create s = Some fs \<and> initial = None \<or> (\<exists>p. pg_edit s = Some (p, fs) \<and> initial = Some p))
        \<and> pf_rule_id (fs_form fs) \<noteq> [] \<and> \<not> fs_pending fs
        \<and> savePolicy (px_t cx) (px_base cx) (px_cluster cx) (px_multi cx) initial (fs_form fs) = Inr call)
   \<or> (\<exists>pv. pg_test s = Some pv \<and> \<not> pv_pending pv
        \<and> call = preview_call (px_base cx) (px_cluster cx) (pv_scope pv))"

lemma request_okI:
  "p \<in> set (q_list (px_rows cx)) \<Longrightarrow> px_confirm cx (confirm_text cx p) \<Longrightarrow> \<not> pg_deleting s \<Longrightarrow>
     request_ok cx s (deletePolicy (px_base cx) (px_cluster cx) p)"
  "p \<in> set (q_list (px_rows cx)) \<Longrightarrow> \<not> pg_toggling s \<Longrightarrow>
     request_ok cx s (togglePolicy (px_base cx) (px_cluster cx) p b)"
  "pg_create s = Some fs \<Longrightarrow> pf_rule_id (fs_form fs) \<noteq> [] \<Longrightarrow> \<not> fs_pending fs \<Longrightarrow>
     savePolicy (px_t cx) (px_base cx) (px_cluster cx) (px_multi cx) None (fs_form fs) = Inr call \<Longrightarrow>
     request_ok cx s call"
  "pg_edit s = Some (q, fs) \<Longrightarrow> pf_rule_id (fs_form fs) \<noteq> [] \<Longrightarrow> \<not> fs_pending fs \<Longrightarrow>
     savePolicy (px_t cx) (px_base cx) (px_cluster cx) (px_multi cx) (Some q) (fs_form fs) = Inr call \<Longrightarrow>
     request_ok cx s call"
  "pg_test s = Some pv \<Longrightarrow> \<not> pv_pending pv \<Longrightarrow>
     request_ok cx s (preview_call (px_base cx) (px_cluster cx) (pv_scope pv))"
  unfolding request_ok_def by blast+

lemma policy_row_offers:
  "offers (policy_row t multi toggling deleting p) =
     (if toggling then {} else range (ToggleRow p)) \<union> {EditRow p} \<union> (if deleting then {} else {DeleteRow p})"
  by (auto simp: policy_row_def Let_def)

lemma policy_heads_offers: "x \<in> set (policy_heads t multi) \<Longrightarrow> offers x = {}"
  by (auto simp: policy_heads_def)

lemma policies_list_offers:
  assumes "e \<in> offers (policies_list cx s)"
  shows "e = RetryPolicies \<or> (\<exists>p \<in> set (q_list (px_rows cx)).
     e \<in> offers (policy_row (px_t cx) (px_multi cx) (pg_toggling s) (pg_deleting s) p))"
  using assms
  by (auto simp: policies_list_def Let_def offers_table policy_heads_offers
      dest!: query_state_offers split: if_splits)

lemma row_request:
  assumes "p \<in> set (q_list (px_rows cx))"
    and "e \<in> offers (policy_row t multi (pg_toggling s) (pg_deleting s) p)"
  shows "length (snd (policies_handle cx e s)) \<le> 1
    \<and> (\<forall>call \<in> set (snd (policies_handle cx e s)). request_ok cx s call)"
  using assms by (auto simp: policy_row_offers intro: request_okI split: if_splits)

lemma save_offered:
  assumes "SaveForm \<in> offers (PolicyForm t opts initial fs)"
  shows "pf_rule_id (fs_form fs) \<noteq> [] \<and> \<not> fs_pending fs"
  using form_offers [OF assms] by (simp add: form_event_ok_def)

lemma form_save_calls:
  "snd (form_save cx initial fs) =
     (case savePolicy (px_t cx) (px_base cx) (px_cluster cx) (px_multi cx) initial (fs_form fs) of
        Inl e \<Rightarrow> [] | Inr call \<Rightarrow> [call])"
  by (simp add: form_save_def split: sum.split)

lemma sheet_offers:
  "e \<in> offers (create_sheet cx s) \<Longrightarrow> (\<exists>b. e = OpenCreate b) \<or>
     (\<exists>fs fe. pg_create s = Some fs \<and> e = CreateForm fe \<and> fe \<in> offers (PolicyForm (px_t cx) (px_options cx) None fs))"
  "e \<in> offers (edit_sheet cx s) \<Longrightarrow> (\<exists>b. e = EditOpen b) \<or>
     (\<exists>p fs fe. pg_edit s = Some (p, fs) \<and> e = EditForm fe
        \<and> fe \<in> offers (PolicyForm (px_t cx) (px_options cx) (Some p) fs))"
  "e \<in> offers (test_sheet cx s) \<Longrightarrow> (\<exists>b. e = OpenTest b) \<or>
     (\<exists>pv pe. pg_test s = Some pv \<and> e = Preview pe
        \<and> pe \<in> offers (RulePreview (px_t cx) (px_profiles cx) (px_options cx) pv))"
  by (auto simp: create_sheet_def edit_sheet_def test_sheet_def Let_def attr_offers_def offers_map
      split: option.splits)

lemma page_offers:
  "e \<in> offers (PoliciesPage cx s) \<Longrightarrow> e \<in> offers (policies_list cx s) \<or> e \<in> offers (create_sheet cx s)
     \<or> e \<in> offers (edit_sheet cx s) \<or> e \<in> offers (test_sheet cx s)"
  by (auto simp: PoliciesPage_def PageHeader_def Let_def)

lemma offers_cases:
  "e \<in> policies_offers cx s \<Longrightarrow> e \<in> offers (policies_list cx s) \<or> e \<in> offers (create_sheet cx s)
     \<or> e \<in> offers (edit_sheet cx s) \<or> e \<in> offers (test_sheet cx s)"
  using page_offers by (fastforce simp: policies_offers_def split: if_splits)

text \<open>
  C25: every request the page sends is one the user asked for on what it shows, at most one
  at a time: the deletion of a listed rule that was confirmed while no deletion is under way,
  the toggle of a listed rule while no toggle is, the save of an open form that names its
  rule and is not being saved, or the preview of the scope on the screen.
\<close>

theorem policies_requests:
  assumes "e \<in> policies_offers cx s"
  shows "length (snd (policies_handle cx e s)) \<le> 1
    \<and> (\<forall>call \<in> set (snd (policies_handle cx e s)). request_ok cx s call)"
proof -
  consider (list) "e \<in> offers (policies_list cx s)"
    | (create) "e \<in> offers (create_sheet cx s)" | (edit) "e \<in> offers (edit_sheet cx s)"
    | (test) "e \<in> offers (test_sheet cx s)"
    using offers_cases [OF assms] by blast
  then show ?thesis
  proof cases
    case list
    then show ?thesis using policies_list_offers row_request by fastforce
  next
    case create
    then show ?thesis
      using save_offered
      by (auto dest!: sheet_offers(1) simp: form_save_calls split_beta Let_def
          intro: request_okI split: sum.splits if_splits)
  next
    case edit
    then show ?thesis
      using save_offered
      by (auto dest!: sheet_offers(2) simp: form_save_calls split_beta Let_def
          intro: request_okI split: sum.splits if_splits)
  next
    case test
    then consider (toggle) b where "e = OpenTest b"
      | (preview) pv pe where "pg_test s = Some pv" "e = Preview pe"
          "pe \<in> offers (RulePreview (px_t cx) (px_profiles cx) (px_options cx) pv)"
      using sheet_offers(3) by blast
    then show ?thesis
    proof cases
      case preview
      then show ?thesis
        using preview_offers_run request_okI(5) by (cases "pe = PvRun") (auto simp: preview_handle_def)
    qed simp
  qed
qed

definition sample_ctx :: policies_ctx where
  "sample_ctx = \<lparr>px_cluster = ''all'', px_multi = False, px_options = [], px_profiles = [],
     px_rows = \<lparr>q_data = Some [sample_policy], q_isLoading = False, q_isError = False, q_error = None\<rparr>,
     px_base = ''/api/kvi'', px_t = id, px_confirm = (\<lambda>_. True)\<rparr>"

theorem policies_requests_witness:
  "request_ok sample_ctx policies_init (deletePolicy ''/api/kvi'' ''all'' sample_policy)"
proof -
  have "DeleteRow sample_policy \<in> policies_offers sample_ctx policies_init"
    by (simp add: policies_offers_def policies_init_def PoliciesPage_def policies_list_def
        query_state_def QueryState_def sample_ctx_def q_list_def offers_table policy_row_offers)
  from policies_requests [OF this] show ?thesis
    by (simp add: sample_ctx_def)
qed

section \<open>Late answers\<close>

text \<open>
  The success of a save closes the sheet for a new rule even when it is not the form that
  was saved: a user who closes the form while its save is under way and opens a new one loses
  the new form, with everything typed into it, when the first answer arrives.
\<close>

theorem late_save_closes_new_form:
  assumes "pg_create s = Some fs" "pf_rule_id (fs_form fs) \<noteq> []"
    and "savePolicy (px_t cx) (px_base cx) (px_cluster cx) (px_multi cx) None (fs_form fs) = Inr call"
    and "s1 = fst (policies_handle cx (CreateForm SaveForm) s)"
    and "s2 = fst (policies_handle cx (CreateForm CancelForm) s1)"
    and "s3 = fst (policies_handle cx (OpenCreate True) s2)"
    and "s4 = fst (policies_handle cx (CreateForm (SetRuleId draft)) s3)"
  shows "map_option (pf_rule_id \<circ> fs_form) (pg_create s4) = Some draft
    \<and> pg_create (policies_done Created None s4) = None"
  using assms(1,3) by (simp add: assms(4-7) form_save_def form_handle_def form_init_def)

theorem late_save_closes_new_form_witness:
  "\<exists>s4. map_option (pf_rule_id \<circ> fs_form) (pg_create s4) = Some ''r2''
     \<and> pg_create (policies_done Created None s4) = None"
proof -
  let ?fs = "form_handle (SetRuleId ''r1'') (form_init None ''all'')"
  let ?s = "policies_init\<lparr>pg_create := Some ?fs\<rparr>"
  have id: "pf_rule_id (fs_form ?fs) \<noteq> []" by (simp add: form_handle_def)
  obtain call where save: "savePolicy (px_t sample_ctx) (px_base sample_ctx) (px_cluster sample_ctx)
      (px_multi sample_ctx) None (fs_form ?fs) = Inr call"
    by (simp add: savePolicy_def sample_ctx_def Let_def)
  have "pg_create ?s = Some ?fs" by simp
  from late_save_closes_new_form [OF this id save refl refl refl refl] show ?thesis by blast
qed

section \<open>The model of the preview\<close>

text \<open>
  The effect of the preview settles on a model the profiles list, if there is one; then a
  preview is asked for a model that exists, and the result of another model is gone.
\<close>

lemma preview_model_settles:
  "\<exists>s'. settle (preview_model_effect ids) s = Some s'
     \<and> (ids \<noteq> [] \<longrightarrow> sc_model_id (pv_scope s') \<in> set ids)
     \<and> (sc_model_id (pv_scope s') \<noteq> sc_model_id (pv_scope s) \<longrightarrow> pv_preview s' = None)"
  unfolding pme.settle_eq by (auto simp: preview_model_effect_def)

end
