(* ===== verification/Connections.thy ===== *)
theory Connections
  imports Policy_Form Chrome
begin

text \<open>
  The panel of the indexer connections of \<open>web/app/engines/page.tsx\<close>: the form that adds or
  edits a connection of the gateway's registry, the switch, the health check and the
  deletion of a row, with the requests they send.  \<open>t\<close> is the lookup of the translations
  with the values it fills in; notices (toasts) are not modelled.
\<close>

section \<open>The form\<close>

record connection_draft =
  dr_kind :: indexer_kind
  dr_id :: string
  dr_cluster :: string
  dr_display_name :: string
  dr_url :: string
  dr_token :: string
  dr_enabled :: bool

definition emptyConnectionDraft :: connection_draft where
  "emptyConnectionDraft = \<lparr>dr_kind = Backend, dr_id = [], dr_cluster = [], dr_display_name = [],
     dr_url = [], dr_token = [], dr_enabled = True\<rparr>"

definition draft_of_connection :: "indexer_connection \<Rightarrow> connection_draft" where
  "draft_of_connection c = \<lparr>dr_kind = nullish (ic_kind c) Backend, dr_id = ic_id c,
     dr_cluster = ic_cluster c, dr_display_name = nullish (ic_display_name c) [],
     dr_url = ic_url c, dr_token = [], dr_enabled = ic_enabled c\<rparr>"

text \<open>The body of a \<open>POST /admin/connections\<close>; an absent property is left out of the JSON.\<close>

record connection_body =
  cb_kind :: indexer_kind
  cb_id :: string
  cb_cluster :: string
  cb_enabled :: bool
  cb_display_name :: "string option"
  cb_url :: "string option"
  cb_token :: "string option"

definition kind_text :: "indexer_kind \<Rightarrow> string" where
  "kind_text k = (case k of Backend \<Rightarrow> ''backend'' | Virtual \<Rightarrow> ''virtual'')"

definition kind_of_text :: "string \<Rightarrow> indexer_kind" where
  "kind_of_text v = (if v = ''virtual'' then Virtual else Backend)"

definition some_text :: "string \<Rightarrow> string option" where
  "some_text s = (if s \<noteq> [] then Some s else None)"

lemma nullish_some_text [simp]: "nullish (some_text s) [] = s"
  by (simp add: some_text_def)

lemma some_text_eq: "some_text s = some_text s' \<longleftrightarrow> s = s'"
  by (auto simp: some_text_def)

definition submit_body :: "connection_draft \<Rightarrow> connection_body" where
  "submit_body f =
     (let body = \<lparr>cb_kind = dr_kind f, cb_id = trim (dr_id f), cb_cluster = trim (dr_cluster f),
                  cb_enabled = dr_enabled f, cb_display_name = None, cb_url = None, cb_token = None\<rparr>
      in if dr_kind f = Virtual then body\<lparr>cb_display_name := some_text (trim (dr_display_name f))\<rparr>
         else body\<lparr>cb_url := Some (trim (dr_url f)), cb_token := some_text (trim (dr_token f))\<rparr>)"

definition submit_disabled :: "connection_draft \<Rightarrow> bool \<Rightarrow> bool" where
  "submit_disabled f pending \<longleftrightarrow> pending \<or> trim (dr_id f) = [] \<or> trim (dr_cluster f) = []
     \<or> (dr_kind f = Backend \<and> trim (dr_url f) = [])"

definition toggle_body :: "indexer_connection \<Rightarrow> connection_body" where
  "toggle_body c =
     \<lparr>cb_kind = nullish (ic_kind c) Backend, cb_id = ic_id c, cb_cluster = ic_cluster c,
      cb_enabled = (\<not> ic_enabled c), cb_display_name = ic_display_name c,
      cb_url = (if ic_kind c = Some Virtual then None else Some (ic_url c)), cb_token = None\<rparr>"

definition body_json :: "connection_body \<Rightarrow> json" where
  "body_json b = JObj ([(''kind'', JStr (kind_text (cb_kind b))), (''id'', JStr (cb_id b)),
       (''cluster'', JStr (cb_cluster b)), (''enabled'', JBool (cb_enabled b))]
     @ opt_field ''display_name'' JStr (cb_display_name b)
     @ opt_field ''url'' JStr (cb_url b) @ opt_field ''token'' JStr (cb_token b))"

text \<open>The toggle lists the properties in another order.\<close>

definition toggle_json :: "connection_body \<Rightarrow> json" where
  "toggle_json b = JObj ([(''id'', JStr (cb_id b)), (''kind'', JStr (kind_text (cb_kind b))),
       (''cluster'', JStr (cb_cluster b))]
     @ opt_field ''display_name'' JStr (cb_display_name b)
     @ opt_field ''url'' JStr (cb_url b) @ [(''enabled'', JBool (cb_enabled b))])"

definition connection_post :: "string \<Rightarrow> json \<Rightarrow> fetch_call" where
  "connection_post base j = api_post base ''/admin/connections'' j"

definition connection_delete :: "string \<Rightarrow> string \<Rightarrow> fetch_call" where
  "connection_delete base cid = api_del base (''/admin/connections/'' @ encodeURIComponent cid)"

section \<open>The health check\<close>

definition health_result ::
  "tr \<Rightarrow> cluster_info list \<Rightarrow> indexer_connection \<Rightarrow> string + string" where
  "health_result t groups c =
     (case find (\<lambda>b. bh_id b = ic_id c) (concat (map ci_backends groups)) of
        None \<Rightarrow> Inl (t ''indexers.health.missing'' [])
      | Some b \<Rightarrow>
          if \<not> bh_healthy b then Inl (or_opt (bh_error b) (t ''indexers.health.unhealthy'' []))
          else Inr (if nullish (bh_virtual b) False then t ''indexers.health.virtual_detail'' []
                    else t ''indexers.health.ok_detail'' [(''url'', bh_url b)]))"

record health_check =
  hc_ok :: bool
  hc_message :: string
  hc_checkedAt :: string

section \<open>The panel\<close>

text \<open>
  Several checks may be under way: \<open>isPending\<close> and \<open>variables\<close> of the mutation speak of the one
  started last (\<open>cn_checking\<close>, with its number), while the result of each is recorded.
\<close>

record connections_state =
  cn_open :: bool
  cn_editing :: "indexer_connection option"
  cn_form :: connection_draft
  cn_err :: string
  cn_checks :: "health_check obj"
  cn_upserting :: bool
  cn_toggling :: bool
  cn_started :: nat
  cn_checking :: "(nat \<times> indexer_connection) option"

datatype connection_event =
    PanelOpen bool | OpenNew | OpenEdit indexer_connection | CancelPanel | SubmitConnection
  | SetKind string | SetConnId string | SetConnCluster string | SetConnName string
  | SetConnUrl string | SetConnToken string | SetConnEnabled bool
  | ToggleConnection indexer_connection | CheckConnection indexer_connection
  | RemoveConnection indexer_connection | RetryConnections

definition connections_init :: connections_state where
  "connections_init = \<lparr>cn_open = False, cn_editing = None, cn_form = emptyConnectionDraft, cn_err = [],
     cn_checks = [], cn_upserting = False, cn_toggling = False, cn_started = 0, cn_checking = None\<rparr>"

definition set_form :: "(connection_draft \<Rightarrow> connection_draft) \<Rightarrow> connections_state \<Rightarrow> connections_state" where
  "set_form f s = s\<lparr>cn_form := f (cn_form s)\<rparr>"

text \<open>\<open>base\<close> is \<open>API_BASE\<close>, \<open>confirm\<close> the answer of the user to a question.\<close>

fun connections_handle ::
  "tr \<Rightarrow> string \<Rightarrow> (string \<Rightarrow> bool) \<Rightarrow> connection_event \<Rightarrow> connections_state
     \<Rightarrow> connections_state \<times> fetch_call list" where
  "connections_handle t base confirm (PanelOpen b) s = (s\<lparr>cn_open := b\<rparr>, [])"
| "connections_handle t base confirm OpenNew s =
     (s\<lparr>cn_editing := None, cn_form := emptyConnectionDraft, cn_err := [], cn_open := True\<rparr>, [])"
| "connections_handle t base confirm (OpenEdit c) s =
     (s\<lparr>cn_editing := Some c, cn_form := draft_of_connection c, cn_err := [], cn_open := True\<rparr>, [])"
| "connections_handle t base confirm CancelPanel s = (s\<lparr>cn_open := False\<rparr>, [])"
| "connections_handle t base confirm SubmitConnection s =
     (s\<lparr>cn_err := [], cn_upserting := True\<rparr>, [connection_post base (body_json (submit_body (cn_form s)))])"
| "connections_handle t base confirm (SetKind v) s = (set_form (\<lambda>f. f\<lparr>dr_kind := kind_of_text v\<rparr>) s, [])"
| "connections_handle t base confirm (SetConnId v) s = (set_form (\<lambda>f. f\<lparr>dr_id := v\<rparr>) s, [])"
| "connections_handle t base confirm (SetConnCluster v) s = (set_form (\<lambda>f. f\<lparr>dr_cluster := v\<rparr>) s, [])"
| "connections_handle t base confirm (SetConnName v) s = (set_form (\<lambda>f. f\<lparr>dr_display_name := v\<rparr>) s, [])"
| "connections_handle t base confirm (SetConnUrl v) s = (set_form (\<lambda>f. f\<lparr>dr_url := v\<rparr>) s, [])"
| "connections_handle t base confirm (SetConnToken v) s = (set_form (\<lambda>f. f\<lparr>dr_token := v\<rparr>) s, [])"
| "connections_handle t base confirm (SetConnEnabled b) s = (set_form (\<lambda>f. f\<lparr>dr_enabled := b\<rparr>) s, [])"
| "connections_handle t base confirm (ToggleConnection c) s =
     (s\<lparr>cn_toggling := True\<rparr>, [connection_post base (toggle_json (toggle_body c))])"
| "connections_handle t base confirm (CheckConnection c) s =
     (s\<lparr>cn_started := Suc (cn_started s), cn_checking := Some (cn_started s, c)\<rparr>,
      [api_get base ''/clusters-health''])"
| "connections_handle t base confirm (RemoveConnection c) s =
     (if confirm (t ''indexers.confirm.delete'' [(''id'', ic_id c)])
      then (s, [connection_delete base (ic_id c)]) else (s, []))"
| "connections_handle t base confirm RetryConnections s = (s, [])"

text \<open>What comes back: the error of a save or its success, a toggle, a check at some time.\<close>

definition upsert_done :: "string option \<Rightarrow> connections_state \<Rightarrow> connections_state" where
  "upsert_done err s = (case err of
     None \<Rightarrow> s\<lparr>cn_upserting := False, cn_open := False, cn_err := []\<rparr>
   | Some e \<Rightarrow> s\<lparr>cn_upserting := False, cn_err := e\<rparr>)"

definition toggle_done :: "connections_state \<Rightarrow> connections_state" where
  "toggle_done s = s\<lparr>cn_toggling := False\<rparr>"

definition check_entry :: "string + string \<Rightarrow> string \<Rightarrow> health_check" where
  "check_entry res time = (case res of
     Inr m \<Rightarrow> \<lparr>hc_ok = True, hc_message = m, hc_checkedAt = time\<rparr>
   | Inl e \<Rightarrow> \<lparr>hc_ok = False, hc_message = e, hc_checkedAt = time\<rparr>)"

definition check_done ::
  "nat \<Rightarrow> indexer_connection \<Rightarrow> string + string \<Rightarrow> string \<Rightarrow> connections_state \<Rightarrow> connections_state" where
  "check_done n c res time s =
     s\<lparr>cn_checks := obj_set (ic_id c) (check_entry res time) (cn_checks s),
       cn_checking := (if map_option fst (cn_checking s) = Some n then None else cn_checking s)\<rparr>"

section \<open>What the panel shows\<close>

definition labelled :: "string \<Rightarrow> 'e node \<Rightarrow> 'e node" where
  "labelled label control = el ''div'' [tx ''Label'' label, control]"

definition connection_form :: "tr \<Rightarrow> connections_state \<Rightarrow> connection_event node list" where
  "connection_form t s =
     (let f = cn_form s; editing = (cn_editing s \<noteq> None) in
      [labelled (t ''indexers.field.kind'' [])
         (select editing (kind_text (dr_kind f)) SetKind
            [(''backend'', t ''indexers.kind.backend'' []), (''virtual'', t ''indexers.kind.virtual'' [])]),
       labelled (t ''indexers.field.id'' []) (input_ph editing (dr_id f) ''vllm-hkg-0'' SetConnId),
       labelled (t ''indexers.field.cluster'' []) (input_ph False (dr_cluster f) ''hkg-vllm'' SetConnCluster)]
      @ (if dr_kind f = Virtual
         then [labelled (t ''indexers.field.display_name'' [])
                 (input_ph False (dr_display_name f) (t ''indexers.field.display_name_ph'' []) SetConnName)]
         else [labelled (t ''indexers.field.url'' [])
                 (input_ph False (dr_url f) ''http://10.0.0.12:8090'' SetConnUrl),
               labelled (t ''indexers.field.token'' [])
                 (input_ph False (dr_token f)
                    (case cn_editing s of
                       Some c \<Rightarrow> if ic_has_token c then t ''indexers.field.token_keep'' []
                                else t ''indexers.field.token_optional'' []
                     | None \<Rightarrow> t ''indexers.field.token_optional'' []) SetConnToken)])
      @ [el ''div'' [tx ''Label'' (t ''indexers.field.enabled'' []), tx ''p'' (t ''indexers.field.enabled_hint'' []),
                     switch False (dr_enabled f) SetConnEnabled]])"

definition connection_sheet :: "tr \<Rightarrow> connections_state \<Rightarrow> connection_event node" where
  "connection_sheet t s =
     Elem ''Sheet'' [Flag ''open'' (cn_open s), OnToggle PanelOpen]
       (button False OpenNew (t ''indexers.btn.add'' [])
        # shown (cn_open s)
          [tx ''SheetTitle'' (case cn_editing s of
               Some c \<Rightarrow> t ''indexers.sheet.edit'' [(''id'', ic_id c)]
             | None \<Rightarrow> t ''indexers.sheet.new'' []),
           tx ''SheetDescription'' (t ''indexers.sheet.desc'' []),
           el ''div'' (connection_form t s),
           el ''div'' (shown (cn_err s \<noteq> []) [tx ''div'' (cn_err s)]),
           el ''SheetFooter''
             [button False CancelPanel (t ''common.cancel'' []),
              button (submit_disabled (cn_form s) (cn_upserting s)) SubmitConnection (t ''common.save'' [])]])"

definition connection_heads :: "tr \<Rightarrow> 'e node list" where
  "connection_heads t = map (\<lambda>k. head (t k []))
     [''indexers.col.id'', ''indexers.col.cluster'', ''indexers.col.url'', ''indexers.col.token'',
      ''indexers.col.state'', ''indexers.col.health'', ''indexers.col.actions'']"

definition health_cell :: "tr \<Rightarrow> health_check option \<Rightarrow> 'e node" where
  "health_cell t hc = el ''TableCell'' (case hc of
     Some h \<Rightarrow>
       [badge (if hc_ok h then ''success'' else ''destructive'')
          (if hc_ok h then t ''indexers.health.ok'' [] else t ''indexers.health.failed'' []),
        tx ''span'' (hc_checkedAt h @ '' '' @ dot_text @ '' '' @ hc_message h)]
   | None \<Rightarrow> [badge ''outline'' (t ''indexers.health.unknown'' [])])"

definition check_disabled :: "connections_state \<Rightarrow> indexer_connection \<Rightarrow> bool" where
  "check_disabled s c \<longleftrightarrow> \<not> ic_enabled c
     \<or> map_option (\<lambda>p. ic_id (snd p)) (cn_checking s) = Some (ic_id c)"

definition connection_row :: "tr \<Rightarrow> connections_state \<Rightarrow> indexer_connection \<Rightarrow> connection_event node" where
  "connection_row t s c =
     (let virtual = (ic_kind c = Some Virtual) in
      el ''TableRow''
        [cell (ic_id c),
         el ''TableCell'' [tx ''span'' (ic_cluster c),
           badge (if virtual then ''warning'' else ''outline'')
             (if virtual then t ''indexers.kind.virtual'' [] else t ''indexers.kind.backend'' [])],
         cell (if virtual then dash_text else ic_url c),
         el ''TableCell'' [badge (if ic_has_token c then ''secondary'' else ''outline'')
           (if ic_has_token c then t ''indexers.token.set'' [] else t ''indexers.token.none'' [])],
         el ''TableCell'' [switch (cn_toggling s) (ic_enabled c) (\<lambda>b. ToggleConnection c),
           tx ''span'' (if ic_enabled c then t ''common.enabled'' [] else t ''common.disabled'' [])],
         health_cell t (map_of (cn_checks s) (ic_id c)),
         el ''TableCell''
           [button (check_disabled s c) (CheckConnection c) (t ''indexers.btn.check'' []),
            button False (OpenEdit c) (t ''common.edit'' []),
            button False (RemoveConnection c) (t ''common.delete'' [])]])"

definition connections_table ::
  "tr \<Rightarrow> indexer_connection list query \<Rightarrow> connections_state \<Rightarrow> connection_event node" where
  "connections_table t q s =
     el ''CardContent'' (query_state (\<lambda>k. t k []) q RetryConnections 3
       ([table_of (connection_heads t) (map (connection_row t s) (q_list q))]
        @ shown (q_list q = []) [EmptyState [Txt (t ''indexers.empty'' [])]]))"

definition IndexerConnectionsPanel ::
  "tr \<Rightarrow> indexer_connection list query \<Rightarrow> connections_state \<Rightarrow> connection_event node" where
  "IndexerConnectionsPanel t q s =
     el ''Card''
       [tx ''CardTitle'' (t ''indexers.title'' []), tx ''CardDescription'' (t ''indexers.desc'' []),
        connection_sheet t s, connections_table t q s]"

text \<open>The open sheet is modal.\<close>

definition connections_offers ::
  "tr \<Rightarrow> indexer_connection list query \<Rightarrow> connections_state \<Rightarrow> connection_event set" where
  "connections_offers t q s =
     (if cn_open s then offers (connection_sheet t s) - {OpenNew} else offers (IndexerConnectionsPanel t q s))"

end
