(* ===== verification/Register.thy ===== *)
theory Register
  imports Connections
begin

text \<open>
  The form that registers an engine in \<open>web/app/engines/page.tsx\<close>: the indexers it offers, the
  two effects that keep the target and the cluster among those offered, and the request.
\<close>

section \<open>What the form is given\<close>

record target =
  tg_id :: string
  tg_cluster :: string
  tg_url :: string

record register_props =
  rp_clusters :: "cluster list"
  rp_clusterInfos :: "cluster_info list"
  rp_connections :: "indexer_connection list"
  rp_registryAvailable :: bool
  rp_multiCluster :: bool

definition targets :: "register_props \<Rightarrow> target list" where
  "targets p =
     (if rp_registryAvailable p
      then map (\<lambda>c. \<lparr>tg_id = ic_id c, tg_cluster = ic_cluster c, tg_url = ic_url c\<rparr>)
             (filter (\<lambda>c. ic_enabled c \<and> nullish (ic_kind c) Backend = Backend) (rp_connections p))
      else concat (map (\<lambda>c. map (\<lambda>b. \<lparr>tg_id = bh_id b, tg_cluster = ci_cluster c, tg_url = bh_url b\<rparr>)
             (ci_backends c)) (rp_clusterInfos p)))"

definition requiresBackend :: "register_props \<Rightarrow> bool" where
  "requiresBackend p \<longleftrightarrow> rp_registryAvailable p \<or> rp_multiCluster p"

section \<open>State\<close>

record engine_draft =
  ed_engine_id :: string
  ed_cluster_id :: string
  ed_framework :: string
  ed_api_endpoint :: string
  ed_tokenizer_endpoint :: string
  ed_kv_event_endpoint :: string
  ed_replay_endpoint :: string
  ed_topic :: string
  ed_served_models :: string

record register_state =
  rf_target :: string
  rf_f :: engine_draft
  rf_err :: string
  rf_pending :: bool

definition register_init :: register_state where
  "register_init = \<lparr>rf_target = [], rf_f =
     \<lparr>ed_engine_id = [], ed_cluster_id = [], ed_framework = ''vllm'',
      ed_api_endpoint = ''http://127.0.0.1:8000'', ed_tokenizer_endpoint = ''http://127.0.0.1:8000'',
      ed_kv_event_endpoint = ''tcp://127.0.0.1:5559'', ed_replay_endpoint = ''tcp://127.0.0.1:5560'',
      ed_topic = ''kv-events'', ed_served_models = ''qwen3.5-4b''\<rparr>,
     rf_err = [], rf_pending = False\<rparr>"

section \<open>The two effects\<close>

definition target_effect :: "register_props \<Rightarrow> register_state \<Rightarrow> string" where
  "target_effect p s =
     (if \<not> requiresBackend p then rf_target s
      else if rf_target s \<noteq> [] \<and> list_ex (\<lambda>b. tg_id b = rf_target s) (targets p) then rf_target s
      else (case targets p of [] \<Rightarrow> [] | b # _ \<Rightarrow> tg_id b))"

definition register_clusters :: "register_props \<Rightarrow> string \<Rightarrow> cluster list" where
  "register_clusters p tgt =
     (if \<not> requiresBackend p \<or> tgt = [] then rp_clusters p
      else let byBackend = filter (\<lambda>c. cl_backend c = Some tgt) (rp_clusters p) in
        if 0 < length byBackend then byBackend
        else (case find (\<lambda>b. tg_id b = tgt) (targets p) of
                None \<Rightarrow> []
              | Some b \<Rightarrow> filter (\<lambda>c. cl_cluster_id c = tg_cluster b \<or> cl_cluster c = Some (tg_cluster b))
                           (rp_clusters p)))"

definition cluster_effect :: "register_props \<Rightarrow> register_state \<Rightarrow> string" where
  "cluster_effect p s =
     (let opts = register_clusters p (rf_target s); cur = ed_cluster_id (rf_f s) in
      if list_ex (\<lambda>c. cl_cluster_id c = cur) opts then cur
      else (case opts of [] \<Rightarrow> cur | c # _ \<Rightarrow> cl_cluster_id c))"

text \<open>Both effects of a commit see the state that was rendered.\<close>

definition register_effects :: "register_props \<Rightarrow> register_state \<Rightarrow> register_state" where
  "register_effects p s =
     s\<lparr>rf_target := target_effect p s, rf_f := (rf_f s)\<lparr>ed_cluster_id := cluster_effect p s\<rparr>\<rparr>"

lemma effects_simps [simp]:
  "rf_target (register_effects p s) = target_effect p s"
  "ed_cluster_id (rf_f (register_effects p s)) = cluster_effect p s"
  by (simp_all add: register_effects_def)

text \<open>The target is settled after one round, and the cluster, which follows it, after two.\<close>

lemma target_effect_cong: "rf_target s = rf_target s' \<Longrightarrow> target_effect p s = target_effect p s'"
  by (simp add: target_effect_def)

lemma target_stable: "rf_target s = target_effect p s0 \<Longrightarrow> target_effect p s = rf_target s"
  by (auto simp: target_effect_def list_ex_iff split: list.splits if_splits)

lemma cluster_stable:
  "rf_target s = rf_target s0 \<Longrightarrow> ed_cluster_id (rf_f s) = cluster_effect p s0 \<Longrightarrow>
     cluster_effect p s = ed_cluster_id (rf_f s)"
  by (auto simp: cluster_effect_def Let_def split: list.splits if_splits)

lemma register_settles: "register_effects p ((register_effects p ^^ 2) s) = (register_effects p ^^ 2) s"
proof -
  let ?a = "register_effects p s" and ?b = "register_effects p (register_effects p s)"
  have a: "target_effect p ?a = rf_target ?a" by (rule target_stable) simp
  then have t: "rf_target ?b = rf_target ?a" by simp
  have "target_effect p ?b = rf_target ?b" by (rule target_stable [of _ _ ?a]) simp
  moreover have "cluster_effect p ?b = ed_cluster_id (rf_f ?b)"
    by (rule cluster_stable [of _ ?a]) (use t in simp_all)
  ultimately have "register_effects p ?b = ?b" by (simp add: register_effects_def [of p ?b])
  then show ?thesis by (simp add: numeral_2_eq_2)
qed

interpretation reg: settling "register_effects p" 2 for p
  by unfold_locales (rule register_settles)

section \<open>The request\<close>

text \<open>\<open>served_models\<close>: the nonempty trimmed items of the list.\<close>

definition split_models :: "string \<Rightarrow> string list" where
  "split_models s = filter (\<lambda>x. x \<noteq> []) (map trim (split_on (CHR '','') s))"

definition register_json :: "engine_draft \<Rightarrow> json" where
  "register_json f = JObj
     [(''engine_id'', JStr (trim (ed_engine_id f))), (''cluster_id'', JStr (trim (ed_cluster_id f))),
      (''framework'', JStr (ed_framework f)), (''api_endpoint'', JStr (ed_api_endpoint f)),
      (''tokenizer_endpoint'', JStr (ed_tokenizer_endpoint f)),
      (''kv_event_endpoint'', JStr (ed_kv_event_endpoint f)),
      (''replay_endpoint'', JStr (ed_replay_endpoint f)), (''topic'', JStr (ed_topic f)),
      (''served_models'', JArr (map JStr (split_models (ed_served_models f)))),
      (''enabled'', JBool True), (''healthy'', JBool True), (''dp_ranks'', JNum (of_int_num 1))]"

definition register_call :: "string \<Rightarrow> register_props \<Rightarrow> register_state \<Rightarrow> fetch_call" where
  "register_call base p s =
     api_post base (backendQ ''/engines/register'' (if requiresBackend p then Some (rf_target s) else None))
       (register_json (rf_f s))"

section \<open>Events\<close>

datatype register_event =
    SetTarget string | SetEngineId string | SetClusterId string | SetFramework string | SetServed string
  | SetApi string | SetTokenizer string | SetKv string | SetReplay string | RunSubmit | CancelRegister

definition edit_draft :: "(engine_draft \<Rightarrow> engine_draft) \<Rightarrow> register_state \<Rightarrow> register_state" where
  "edit_draft g s = s\<lparr>rf_f := g (rf_f s)\<rparr>"

fun register_handle ::
  "(string \<Rightarrow> string) \<Rightarrow> string \<Rightarrow> register_props \<Rightarrow> register_event \<Rightarrow> register_state
     \<Rightarrow> register_state \<times> fetch_call list" where
  "register_handle t base p (SetTarget v) s = (s\<lparr>rf_target := v\<rparr>, [])"
| "register_handle t base p (SetEngineId v) s = (edit_draft (\<lambda>f. f\<lparr>ed_engine_id := v\<rparr>) s, [])"
| "register_handle t base p (SetClusterId v) s = (edit_draft (\<lambda>f. f\<lparr>ed_cluster_id := v\<rparr>) s, [])"
| "register_handle t base p (SetFramework v) s = (edit_draft (\<lambda>f. f\<lparr>ed_framework := v\<rparr>) s, [])"
| "register_handle t base p (SetServed v) s = (edit_draft (\<lambda>f. f\<lparr>ed_served_models := v\<rparr>) s, [])"
| "register_handle t base p (SetApi v) s = (edit_draft (\<lambda>f. f\<lparr>ed_api_endpoint := v\<rparr>) s, [])"
| "register_handle t base p (SetTokenizer v) s = (edit_draft (\<lambda>f. f\<lparr>ed_tokenizer_endpoint := v\<rparr>) s, [])"
| "register_handle t base p (SetKv v) s = (edit_draft (\<lambda>f. f\<lparr>ed_kv_event_endpoint := v\<rparr>) s, [])"
| "register_handle t base p (SetReplay v) s = (edit_draft (\<lambda>f. f\<lparr>ed_replay_endpoint := v\<rparr>) s, [])"
| "register_handle t base p RunSubmit s =
     (if requiresBackend p \<and> rf_target s = []
      then (s\<lparr>rf_err := t ''engines.error.no_indexer''\<rparr>, [])
      else if trim (ed_cluster_id (rf_f s)) = []
      then (s\<lparr>rf_err := t ''engines.error.no_cluster''\<rparr>, [])
      else (s\<lparr>rf_err := [], rf_pending := True\<rparr>, [register_call base p s]))"
| "register_handle t base p CancelRegister s = (s, [])"

definition register_failed :: "string \<Rightarrow> register_state \<Rightarrow> register_state" where
  "register_failed e s = s\<lparr>rf_pending := False, rf_err := e\<rparr>"

definition register_disabled :: "register_props \<Rightarrow> register_state \<Rightarrow> bool" where
  "register_disabled p s \<longleftrightarrow> rf_pending s \<or> trim (ed_engine_id (rf_f s)) = [] \<or> trim (ed_cluster_id (rf_f s)) = []
     \<or> (requiresBackend p \<and> rf_target s = [])"

section \<open>What the form shows\<close>

definition target_field :: "(string \<Rightarrow> string) \<Rightarrow> register_props \<Rightarrow> register_state \<Rightarrow> register_event node" where
  "target_field t p s = el ''Field''
     (tx ''Label'' (t ''engines.field.target_backend'')
      # select (targets p = []) (rf_target s) SetTarget
          (map (\<lambda>b. (tg_id b, tg_cluster b @ '' '' @ dot_text @ '' '' @ tg_id b)) (targets p))
      # shown (targets p = []) [tx ''p'' (t ''engines.no_indexers'')])"

definition cluster_field :: "(string \<Rightarrow> string) \<Rightarrow> register_props \<Rightarrow> register_state \<Rightarrow> register_event node" where
  "cluster_field t p s =
     (let opts = register_clusters p (rf_target s); cur = ed_cluster_id (rf_f s) in
      labelled (t ''engines.field.cluster'')
        (if 0 < length opts
         then select False cur SetClusterId
                (map (\<lambda>c. (cl_cluster_id c, or_str (cl_display_name c) (cl_cluster_id c))) opts)
         else input_ph False cur ''local-vllm'' SetClusterId))"

definition RegisterForm :: "(string \<Rightarrow> string) \<Rightarrow> register_props \<Rightarrow> register_state \<Rightarrow> register_event node" where
  "RegisterForm t p s =
     (let f = rf_f s in el ''div''
       [el ''div''
          (shown (requiresBackend p) [target_field t p s]
           @ [labelled (t ''engines.field.engine_id'') (input_ph False (ed_engine_id f) ''vllm-qwen-1'' SetEngineId),
              cluster_field t p s,
              labelled (t ''engines.field.framework'')
                (select False (ed_framework f) SetFramework [(''vllm'', ''vllm''), (''sglang'', ''sglang'')]),
              labelled (t ''engines.field.served'') (input_el False (ed_served_models f) SetServed),
              labelled (t ''engines.field.api'') (input_el False (ed_api_endpoint f) SetApi),
              labelled (t ''engines.field.tokenizer'') (input_el False (ed_tokenizer_endpoint f) SetTokenizer),
              labelled (t ''engines.field.kv'') (input_el False (ed_kv_event_endpoint f) SetKv),
              labelled (t ''engines.field.replay'') (input_el False (ed_replay_endpoint f) SetReplay)]),
        el ''div'' (shown (rf_err s \<noteq> []) [tx ''div'' (rf_err s)]),
        el ''SheetFooter''
          [button False CancelRegister (t ''common.cancel''),
           button (register_disabled p s) RunSubmit (t ''engines.btn.register'')]])"

end
