(* ===== verification/Connection_Runs.thy ===== *)
theory Connection_Runs
  imports Connections
begin

text \<open>
  The runs of the connections panel: the invariant that the form of an edit keeps the
  identity of the row it edits, the requests the panel sends, and the outcome of a check.
\<close>

section \<open>The events of the panel\<close>

definition form_edit :: "connections_state \<Rightarrow> connection_event \<Rightarrow> bool" where
  "form_edit s e \<longleftrightarrow>
     (cn_editing s = None \<and> (e = SetKind ''backend'' \<or> e = SetKind ''virtual'' \<or> e \<in> range SetConnId))
   \<or> e \<in> range SetConnCluster \<union> range SetConnName \<union> range SetConnUrl \<union> range SetConnToken
        \<union> range SetConnEnabled"

lemma connection_form_offers:
  "x \<in> set (connection_form t s) \<Longrightarrow> e \<in> offers x \<Longrightarrow> form_edit s e"
  by (auto simp: connection_form_def Let_def labelled_def form_edit_def split: if_splits)

lemma connection_sheet_offers:
  assumes "e \<in> offers (connection_sheet t s)"
  shows "e \<in> range PanelOpen \<or> e = OpenNew \<or> cn_open s \<and>
    (form_edit s e \<or> e = CancelPanel \<or> e = SubmitConnection \<and> \<not> submit_disabled (cn_form s) (cn_upserting s))"
  using assms
  by (auto simp: connection_sheet_def attr_offers_def shown_def dest: connection_form_offers split: if_splits)

lemma health_cell_quiet [simp]: "offers (health_cell t hc) = {}"
  by (auto simp: health_cell_def split: option.splits)

lemma connection_row_offers:
  "offers (connection_row t s c) =
     (if cn_toggling s then {} else {ToggleConnection c})
     \<union> (if check_disabled s c then {} else {CheckConnection c}) \<union> {OpenEdit c, RemoveConnection c}"
  by (auto simp: connection_row_def Let_def)

definition row_event :: "connections_state \<Rightarrow> indexer_connection \<Rightarrow> connection_event \<Rightarrow> bool" where
  "row_event s c e \<longleftrightarrow> e = ToggleConnection c \<and> \<not> cn_toggling s \<or> e = CheckConnection c \<and> \<not> check_disabled s c
     \<or> e = OpenEdit c \<or> e = RemoveConnection c"

lemma row_event_offered: "e \<in> offers (connection_row t s c) \<Longrightarrow> row_event s c e"
  by (simp add: connection_row_offers row_event_def split: if_splits) blast+

lemma connection_heads_quiet: "x \<in> set (connection_heads t) \<Longrightarrow> offers x = {}"
  by (auto simp: connection_heads_def)

lemma connections_table_offers:
  assumes "e \<in> offers (connections_table t q s)"
  shows "e = RetryConnections \<or> (\<exists>c \<in> set (q_list q). row_event s c e)"
proof -
  have "e = RetryConnections \<or> (\<exists>c \<in> set (q_list q). e \<in> offers (connection_row t s c))"
    using assms
    by (auto simp: connections_table_def offers_table connection_heads_quiet
        dest!: query_state_offers split: if_splits)
  then show ?thesis using row_event_offered by blast
qed

lemma panel_offers:
  "offers (IndexerConnectionsPanel t q s) = offers (connection_sheet t s) \<union> offers (connections_table t q s)"
  by (simp add: IndexerConnectionsPanel_def)

lemma connections_offers_split:
  "e \<in> connections_offers t q s \<Longrightarrow>
     e \<in> offers (connection_sheet t s) \<and> (e = OpenNew \<longrightarrow> \<not> cn_open s)
     \<or> e \<in> offers (connections_table t q s) \<and> \<not> cn_open s"
  by (auto simp: connections_offers_def panel_offers split: if_splits)

lemma connections_offers_cases:
  assumes "e \<in> connections_offers t q s"
  obtains (sheet) b where "e = PanelOpen b"
    | (new) "e = OpenNew" "\<not> cn_open s"
    | (edit) "cn_open s" "form_edit s e"
    | (cancel) "e = CancelPanel"
    | (submit) "e = SubmitConnection" "\<not> submit_disabled (cn_form s) (cn_upserting s)"
    | (retry) "e = RetryConnections"
    | (row) c where "c \<in> set (q_list q)" "row_event s c e" "\<not> cn_open s"
proof -
  from connections_offers_split [OF assms] show ?thesis
  proof (elim disjE conjE)
    assume "e \<in> offers (connection_sheet t s)" "e = OpenNew \<longrightarrow> \<not> cn_open s"
    with connection_sheet_offers [of e t s] that(1-5) show ?thesis by blast
  next
    assume "e \<in> offers (connections_table t q s)" "\<not> cn_open s"
    with connections_table_offers [of e t q s] that(6,7) show ?thesis by blast
  qed
qed

section \<open>Reachable states\<close>

inductive connections_reachable ::
  "tr \<Rightarrow> string \<Rightarrow> (string \<Rightarrow> bool) \<Rightarrow> connections_state \<Rightarrow> bool"
  for t base confirm where
  start: "connections_reachable t base confirm connections_init"
| act: "connections_reachable t base confirm s \<Longrightarrow> e \<in> connections_offers t q s \<Longrightarrow>
    connections_reachable t base confirm (fst (connections_handle t base confirm e s))"
| saved: "connections_reachable t base confirm s \<Longrightarrow> connections_reachable t base confirm (upsert_done err s)"
| toggled: "connections_reachable t base confirm s \<Longrightarrow> connections_reachable t base confirm (toggle_done s)"
| checked: "connections_reachable t base confirm s \<Longrightarrow>
    connections_reachable t base confirm (check_done n c res time s)"

definition edit_locked :: "connections_state \<Rightarrow> bool" where
  "edit_locked s \<longleftrightarrow> (\<forall>c. cn_editing s = Some c \<longrightarrow>
     dr_id (cn_form s) = ic_id c \<and> dr_kind (cn_form s) = nullish (ic_kind c) Backend)"

lemma form_edit_locked:
  "form_edit s e \<Longrightarrow> edit_locked s \<Longrightarrow> edit_locked (fst (connections_handle t base confirm e s))"
  by (auto simp: form_edit_def edit_locked_def set_form_def)

lemma row_event_locked:
  "row_event s c e \<Longrightarrow> edit_locked s \<Longrightarrow> edit_locked (fst (connections_handle t base confirm e s))"
  by (auto simp: row_event_def edit_locked_def draft_of_connection_def split: if_splits)

lemma reachable_locked: "connections_reachable t base confirm s \<Longrightarrow> edit_locked s"
proof (induction rule: connections_reachable.induct)
  case (act s e q)
  from act(2) show ?case
    by (cases rule: connections_offers_cases)
      (use act(3) form_edit_locked row_event_locked in \<open>auto simp: edit_locked_def\<close>)
qed (auto simp: edit_locked_def connections_init_def upsert_done_def toggle_done_def check_done_def Let_def
      split: option.splits)

section \<open>What is posted\<close>

definition body_ok :: "connection_body \<Rightarrow> bool" where
  "body_ok b \<longleftrightarrow> cb_id b \<noteq> [] \<and> trim (cb_id b) = cb_id b \<and> cb_cluster b \<noteq> [] \<and> trim (cb_cluster b) = cb_cluster b
     \<and> (case cb_kind b of
          Backend \<Rightarrow> cb_display_name b = None \<and> (\<exists>u. cb_url b = Some u \<and> u \<noteq> [] \<and> trim u = u)
        | Virtual \<Rightarrow> cb_url b = None \<and> cb_token b = None)
     \<and> cb_token b \<noteq> Some [] \<and> cb_display_name b \<noteq> Some []"

lemma submit_body_ok: "\<not> submit_disabled f pending \<Longrightarrow> body_ok (submit_body f)"
  by (auto simp: submit_disabled_def body_ok_def submit_body_def Let_def some_text_def split: indexer_kind.splits)

definition connection_request ::
  "tr \<Rightarrow> string \<Rightarrow> (string \<Rightarrow> bool) \<Rightarrow> indexer_connection list query \<Rightarrow> connections_state \<Rightarrow> fetch_call \<Rightarrow> bool" where
  "connection_request t base confirm q s call \<longleftrightarrow>
     (\<exists>b. call = connection_post base (body_json b) \<and> body_ok b \<and> \<not> cn_upserting s
        \<and> (\<forall>c. cn_editing s = Some c \<longrightarrow> cb_id b = trim (ic_id c) \<and> cb_kind b = nullish (ic_kind c) Backend))
   \<or> (\<exists>c \<in> set (q_list q). call = connection_post base (toggle_json (toggle_body c)) \<and> \<not> cn_toggling s)
   \<or> (call = api_get base ''/clusters-health'' \<and> (\<exists>c \<in> set (q_list q). ic_enabled c))
   \<or> (\<exists>c \<in> set (q_list q). call = connection_delete base (ic_id c)
        \<and> confirm (t ''indexers.confirm.delete'' [(''id'', ic_id c)]))"

lemma submit_request:
  assumes "\<not> submit_disabled (cn_form s) (cn_upserting s)" "edit_locked s"
  shows "connection_request t base confirm q s (connection_post base (body_json (submit_body (cn_form s))))"
proof -
  let ?b = "submit_body (cn_form s)"
  have "cb_id ?b = trim (dr_id (cn_form s)) \<and> cb_kind ?b = dr_kind (cn_form s)"
    by (simp add: submit_body_def Let_def)
  with assms(2) have "\<forall>c. cn_editing s = Some c \<longrightarrow> cb_id ?b = trim (ic_id c) \<and> cb_kind ?b = nullish (ic_kind c) Backend"
    by (simp add: edit_locked_def)
  moreover have "\<not> cn_upserting s" using assms(1) by (simp add: submit_disabled_def)
  ultimately show ?thesis
    using submit_body_ok [OF assms(1)] by (auto simp: connection_request_def)
qed

lemma row_requests:
  assumes "c \<in> set (q_list q)" "row_event s c e"
  shows "\<forall>call \<in> set (snd (connections_handle t base confirm e s)). connection_request t base confirm q s call"
  using assms(2) unfolding row_event_def
proof (elim disjE conjE)
  assume "e = CheckConnection c" "\<not> check_disabled s c"
  with assms(1) show ?thesis by (auto simp: connection_request_def check_disabled_def)
qed (use assms(1) in \<open>auto simp: connection_request_def split: if_splits\<close>)

text \<open>
  C16: in every reachable state of the panel, whatever the user does on what it shows sends
  only well-formed requests: a save with a trimmed, nonempty id and cluster, an address just
  for an indexer and neither address nor token for a virtual connection, and never an empty
  token (which would erase the stored one); the save of an edit has the id and the kind of
  the row that was opened; a toggle, a check or a confirmed deletion is of a listed row.
\<close>

theorem connection_requests_safe:
  assumes "connections_reachable t base confirm s" "e \<in> connections_offers t q s"
    and "call \<in> set (snd (connections_handle t base confirm e s))"
  shows "connection_request t base confirm q s call"
  using assms(2)
proof (cases rule: connections_offers_cases)
  case edit
  with assms(3) show ?thesis by (auto simp: form_edit_def)
next
  case submit
  with assms(3) submit_request reachable_locked [OF assms(1)] show ?thesis by auto
next
  case (row c)
  with assms(3) row_requests show ?thesis by blast
qed (use assms(3) in auto)

definition sample_connection :: indexer_connection where
  "sample_connection = \<lparr>ic_id = ''vllm-0'', ic_kind = Some Backend, ic_cluster = ''hkg'',
     ic_display_name = None, ic_region = None, ic_environment = None, ic_labels = None,
     ic_url = ''http://10.0.0.12:8090'', ic_has_token = True, ic_enabled = True\<rparr>"

definition sample_connections :: "indexer_connection list query" where
  "sample_connections = \<lparr>q_data = Some [sample_connection], q_isLoading = False, q_isError = False, q_error = None\<rparr>"

theorem connection_requests_safe_witness:
  "connection_request (\<lambda>k p. k) ''/api/kvi'' (\<lambda>_. True) sample_connections connections_init
     (connection_delete ''/api/kvi'' ''vllm-0'')"
proof -
  have "RemoveConnection sample_connection \<in> connections_offers (\<lambda>k p. k) sample_connections connections_init"
    by (simp add: connections_offers_def connections_init_def panel_offers connections_table_def
        sample_connections_def query_state_def QueryState_def q_list_def offers_table connection_row_offers)
  from connection_requests_safe [OF connections_reachable.start this] show ?thesis
    by (simp add: sample_connection_def)
qed

section \<open>The health check\<close>

text \<open>
  A check tells the truth about the connection it was asked for, whatever other checks
  are under way: its row then shows success just when the gateway lists a healthy backend
  under that id as the first of that id, the rows of other connections keep what they showed, and
  the button stays disabled only for the connection whose check was started last.
\<close>

theorem check_is_truthful:
  assumes "s' = check_done n c (health_result t groups c) time s"
    and "find (\<lambda>b. bh_id b = ic_id c) (concat (map ci_backends groups)) = found"
  shows "(\<exists>h. map_of (cn_checks s') (ic_id c) = Some h
            \<and> (hc_ok h \<longleftrightarrow> (\<exists>b. found = Some b \<and> bh_healthy b)) \<and> hc_checkedAt h = time
            \<and> (found = None \<longrightarrow> hc_message h = t ''indexers.health.missing'' [])
            \<and> (\<forall>b e. found = Some b \<and> \<not> bh_healthy b \<and> bh_error b = Some e \<and> e \<noteq> [] \<longrightarrow> hc_message h = e))
    \<and> (\<forall>d. d \<noteq> ic_id c \<longrightarrow> map_of (cn_checks s') d = map_of (cn_checks s) d)
    \<and> (cn_checking s' = (if map_option fst (cn_checking s) = Some n then None else cn_checking s))"
proof -
  have res: "health_result t groups c = (case found of
       None \<Rightarrow> Inl (t ''indexers.health.missing'' [])
     | Some b \<Rightarrow> if \<not> bh_healthy b then Inl (or_opt (bh_error b) (t ''indexers.health.unhealthy'' []))
         else Inr (if nullish (bh_virtual b) False then t ''indexers.health.virtual_detail'' []
                   else t ''indexers.health.ok_detail'' [(''url'', bh_url b)]))"
    by (simp only: health_result_def assms(2))
  define h where "h = check_entry (health_result t groups c) time"
  have s': "map_of (cn_checks s') = (map_of (cn_checks s))(ic_id c \<mapsto> h)"
    "cn_checking s' = (if map_option fst (cn_checking s) = Some n then None else cn_checking s)"
    by (simp_all add: assms(1) check_done_def h_def)
  have "(hc_ok h \<longleftrightarrow> (\<exists>b. found = Some b \<and> bh_healthy b)) \<and> hc_checkedAt h = time
      \<and> (found = None \<longrightarrow> hc_message h = t ''indexers.health.missing'' [])
      \<and> (\<forall>b e. found = Some b \<and> \<not> bh_healthy b \<and> bh_error b = Some e \<and> e \<noteq> [] \<longrightarrow> hc_message h = e)"
    unfolding h_def res by (cases found) (auto simp: check_entry_def or_opt_def)
  moreover have "map_of (cn_checks s') (ic_id c) = Some h" by (simp add: s')
  moreover have "\<forall>d. d \<noteq> ic_id c \<longrightarrow> map_of (cn_checks s') d = map_of (cn_checks s) d" by (simp add: s')
  ultimately show ?thesis using s'(2) by blast
qed

theorem check_is_truthful_witness:
  "\<exists>h. map_of (cn_checks (check_done 0 sample_connection
       (health_result (\<lambda>k p. k) [\<lparr>ci_cluster = ''hkg'', ci_backends =
          [\<lparr>bh_id = ''vllm-0'', bh_url = [], bh_healthy = False, bh_error = Some ''timeout'', bh_virtual = None\<rparr>]\<rparr>]
          sample_connection) ''12:00'' connections_init)) ''vllm-0'' = Some h \<and> \<not> hc_ok h \<and> hc_message h = ''timeout''"
  using check_is_truthful [OF refl refl, of 0 sample_connection "\<lambda>k p. k" "[\<lparr>ci_cluster = ''hkg'', ci_backends =
     [\<lparr>bh_id = ''vllm-0'', bh_url = [], bh_healthy = False, bh_error = Some ''timeout'', bh_virtual = None\<rparr>]\<rparr>]"
     "''12:00''" connections_init]
  by (auto simp: sample_connection_def)

end
