(* ===== verification/Engines.thy ===== *)
theory Engines
  imports Register Connection_Runs
begin

text \<open>
  The engines page of \<open>web/app/engines/page.tsx\<close>: the list of the engines with its two switches
  per row, the sheet with the registration form, and the connections panel as a part.
\<close>

section \<open>The patch of an engine\<close>

datatype patch_body = PatchEnabled bool | PatchDraining bool

definition patch_json :: "patch_body \<Rightarrow> json" where
  "patch_json b = JObj [(case b of PatchEnabled v \<Rightarrow> (''enabled'', JBool v) | PatchDraining v \<Rightarrow> (''draining'', JBool v))]"

definition engine_patch :: "string \<Rightarrow> string \<Rightarrow> patch_body \<Rightarrow> string option \<Rightarrow> fetch_call" where
  "engine_patch base eid b backend = api_patch base (backendQ (''/engines/'' @ eid) backend) (patch_json b)"

section \<open>The page\<close>

record engines_ctx =
  ex_cluster :: string
  ex_multi :: bool
  ex_infos :: "cluster_info list"
  ex_engines :: "engine list query"
  ex_clusters :: "cluster list query"
  ex_isSuccess :: bool
  ex_connections :: "indexer_connection list query"
  ex_base :: string
  ex_t :: tr
  ex_confirm :: "string \<Rightarrow> bool"

text \<open>The form of the sheet is there while the sheet is open.\<close>

record engines_state =
  eg_register :: "register_state option"
  eg_panel :: connections_state

datatype engines_event =
    OpenRegister bool | Registering register_event | Panel connection_event
  | Patch engine patch_body | RetryEngines

definition engines_init :: engines_state where
  "engines_init = \<lparr>eg_register = None, eg_panel = connections_init\<rparr>"

definition plain :: "tr \<Rightarrow> string \<Rightarrow> string" where
  "plain t k = t k []"

definition register_props_of :: "engines_ctx \<Rightarrow> register_props" where
  "register_props_of cx =
     \<lparr>rp_clusters = q_list (ex_clusters cx), rp_clusterInfos = ex_infos cx,
      rp_connections = q_list (ex_connections cx), rp_registryAvailable = ex_isSuccess cx,
      rp_multiCluster = ex_multi cx\<rparr>"

text \<open>The effects of the open form run after every event, until they settle.\<close>

definition settle_register :: "engines_ctx \<Rightarrow> register_state \<Rightarrow> register_state" where
  "settle_register cx r = nullish (settle (register_effects (register_props_of cx)) r) r"

fun engines_handle :: "engines_ctx \<Rightarrow> engines_event \<Rightarrow> engines_state \<Rightarrow> engines_state \<times> fetch_call list" where
  "engines_handle cx (OpenRegister b) s =
     (s\<lparr>eg_register := (if b then Some (settle_register cx register_init) else None)\<rparr>, [])"
| "engines_handle cx (Registering e) s =
     (case eg_register s of
        None \<Rightarrow> (s, [])
      | Some r \<Rightarrow>
          if e = CancelRegister then (s\<lparr>eg_register := None\<rparr>, [])
          else let (r', calls) = register_handle (plain (ex_t cx)) (ex_base cx) (register_props_of cx) e r in
            (s\<lparr>eg_register := Some (settle_register cx r')\<rparr>, calls))"
| "engines_handle cx (Panel e) s =
     (let (p, calls) = connections_handle (ex_t cx) (ex_base cx) (ex_confirm cx) e (eg_panel s) in
      (s\<lparr>eg_panel := p\<rparr>, calls))"
| "engines_handle cx (Patch e b) s = (s, [engine_patch (ex_base cx) (en_engine_id e) b (en_backend e)])"
| "engines_handle cx RetryEngines s = (s, [])"

text \<open>The answer of a registration: its success closes the sheet.\<close>

definition registered :: "engines_ctx \<Rightarrow> string option \<Rightarrow> engines_state \<Rightarrow> engines_state" where
  "registered cx err s = (case err of
     None \<Rightarrow> s\<lparr>eg_register := None\<rparr>
   | Some e \<Rightarrow> s\<lparr>eg_register := map_option (settle_register cx \<circ> register_failed e) (eg_register s)\<rparr>)"

definition engine_heads :: "(string \<Rightarrow> string) \<Rightarrow> bool \<Rightarrow> 'e node list" where
  "engine_heads t multi =
     [head (t ''engines.col.engine'')] @ shown multi [head (t ''engines.col.indexer'')]
     @ map (\<lambda>k. head (t k))
         [''engines.col.cluster'', ''engines.col.framework'', ''engines.col.models'', ''engines.col.endpoint'',
          ''engines.col.kv_stream'', ''engines.col.state'', ''engines.col.actions'']"

definition engine_states :: "(string \<Rightarrow> string) \<Rightarrow> engine \<Rightarrow> 'e node" where
  "engine_states t e = el ''TableCell''
     ([badge (if en_enabled e then ''success'' else ''outline'')
         (if en_enabled e then t ''common.enabled'' else t ''common.disabled'')]
      @ shown (en_draining e) [badge ''warning'' (t ''engines.status.draining'')]
      @ shown (\<not> en_healthy e) [badge ''destructive'' (t ''engines.status.unhealthy'')])"

definition engine_row :: "(string \<Rightarrow> string) \<Rightarrow> bool \<Rightarrow> engine \<Rightarrow> engines_event node" where
  "engine_row t multi e = el ''TableRow''
     ([cell (en_engine_id e)]
      @ shown multi [el ''TableCell''
          [badge ''outline'' (nullish (en_backend e) dash_text), tx ''div'' (nullish (en_cluster e) dash_text)]]
      @ [cell (en_cluster_id e),
         el ''TableCell'' [badge ''secondary'' (en_framework e)],
         cell (join '', '' (en_served_models e)), cell (en_api_endpoint e), cell (en_kv_event_endpoint e),
         engine_states t e,
         el ''TableCell''
           [button False (Patch e (PatchEnabled (\<not> en_enabled e)))
              (if en_enabled e then t ''engines.action.disable'' else t ''engines.action.enable''),
            button False (Patch e (PatchDraining (\<not> en_draining e)))
              (if en_draining e then t ''engines.action.undrain'' else t ''engines.action.drain'')]])"

definition engines_table :: "engines_ctx \<Rightarrow> engines_event node" where
  "engines_table cx =
     (let t = plain (ex_t cx); rows = q_list (ex_engines cx) in
      el ''Card'' [el ''CardContent'' (query_state t (ex_engines cx) RetryEngines 3
        ([table_of (engine_heads t (ex_multi cx)) (map (engine_row t (ex_multi cx)) rows)]
         @ shown (length rows = 0) [EmptyState [Txt (t ''engines.empty'')]]))])"

definition register_sheet :: "engines_ctx \<Rightarrow> engines_state \<Rightarrow> engines_event node" where
  "register_sheet cx s =
     (let t = plain (ex_t cx) in
      Elem ''Sheet'' [Flag ''open'' (eg_register s \<noteq> None), OnToggle OpenRegister]
        (button False (OpenRegister True) (t ''engines.btn.register'')
         # (case eg_register s of
              None \<Rightarrow> []
            | Some r \<Rightarrow>
                [tx ''SheetTitle'' (t ''engines.sheet.title''),
                 tx ''SheetDescription'' (t ''engines.sheet.desc''),
                 map_node Registering (RegisterForm t (register_props_of cx) r)])))"

definition EnginesPage :: "engines_ctx \<Rightarrow> engines_state \<Rightarrow> engines_event node" where
  "EnginesPage cx s =
     (let t = plain (ex_t cx) in el ''div''
       [PageHeader (t ''engines.title'') (Some (t ''engines.subtitle'')) (Some (register_sheet cx s)),
        map_node Panel (IndexerConnectionsPanel (ex_t cx) (ex_connections cx) (eg_panel s)),
        engines_table cx])"

text \<open>An open sheet is modal.\<close>

definition engines_offers :: "engines_ctx \<Rightarrow> engines_state \<Rightarrow> engines_event set" where
  "engines_offers cx s =
     (if eg_register s \<noteq> None then offers (register_sheet cx s)
      else if cn_open (eg_panel s) then Panel ` connections_offers (ex_t cx) (ex_connections cx) (eg_panel s)
      else offers (EnginesPage cx s))"

end
