(* ===== verification/Engine_Runs.thy ===== *)
theory Engine_Runs
  imports Engines
begin

text \<open>
  What the registration form and the rows of the engines page promise: its effects come to
  rest on an indexer and a cluster that are offered, a registration goes there, and a patch
  goes to the engine of its row.
\<close>

section \<open>The effects come to rest\<close>

lemma at_rest:
  assumes "settle (register_effects p) s = Some s'"
  shows "target_effect p s' = rf_target s'" "cluster_effect p s' = ed_cluster_id (rf_f s')"
  using effects_simps [of p s'] unfolding settle_fixpoint [OF assms] by simp_all

lemma target_effect_offered:
  "requiresBackend p \<Longrightarrow>
     if targets p = [] then target_effect p s = [] else target_effect p s \<in> tg_id ` set (targets p)"
  by (force simp: target_effect_def list_ex_iff split: list.splits)

lemma cluster_effect_offered:
  "register_clusters p (rf_target s) \<noteq> [] \<Longrightarrow>
     cluster_effect p s \<in> cl_cluster_id ` set (register_clusters p (rf_target s))"
  by (force simp: cluster_effect_def Let_def list_ex_iff split: list.splits)

lemmas rest_offered = target_effect_offered cluster_effect_offered

text \<open>
  C30: the two effects of the registration form, which read what the other one writes, come to rest
  for every state and every answer of the gateway, and at rest nothing dangles: the target is
  one of the offered indexers (none if there are none), the cluster is one of those of the
  target when any is known, and nothing else of what was typed has changed.
\<close>

theorem register_converges:
  "\<exists>s'. settle (register_effects p) s = Some s' \<and> register_effects p s' = s'
     \<and> (requiresBackend p \<longrightarrow> (if targets p = [] then rf_target s' = [] else rf_target s' \<in> tg_id ` set (targets p)))
     \<and> (register_clusters p (rf_target s') \<noteq> [] \<longrightarrow>
          ed_cluster_id (rf_f s') \<in> cl_cluster_id ` set (register_clusters p (rf_target s')))
     \<and> (rf_f s')\<lparr>ed_cluster_id := []\<rparr> = (rf_f s)\<lparr>ed_cluster_id := []\<rparr>"
proof -
  let ?s' = "(register_effects p ^^ 2) s"
  have settled: "settle (register_effects p) s = Some ?s'" by (rule reg.settle_eq)
  have "(rf_f ?s')\<lparr>ed_cluster_id := []\<rparr> = (rf_f s)\<lparr>ed_cluster_id := []\<rparr>"
    by (simp add: numeral_2_eq_2 register_effects_def)
  with settled rest_offered [of p ?s'] show ?thesis
    unfolding at_rest [OF settled] using register_settles by blast
qed

definition sample_props :: register_props where
  "sample_props = \<lparr>rp_clusters = [], rp_clusterInfos = [], rp_connections = [sample_connection],
     rp_registryAvailable = True, rp_multiCluster = False\<rparr>"

lemma sample_targets: "targets sample_props = [\<lparr>tg_id = ''vllm-0'', tg_cluster = ''hkg'', tg_url = ''http://10.0.0.12:8090''\<rparr>]"
  by (simp add: sample_props_def targets_def sample_connection_def)

theorem register_converges_witness:
  "\<exists>s'. settle (register_effects sample_props) register_init = Some s' \<and> rf_target s' = ''vllm-0''"
proof -
  have "requiresBackend sample_props" by (simp add: requiresBackend_def sample_props_def)
  with register_converges [of sample_props register_init] show ?thesis
    by (auto simp: sample_targets)
qed

section \<open>Registrations\<close>

lemma register_offers_submit:
  "RunSubmit \<in> offers (RegisterForm t p s) \<Longrightarrow> \<not> register_disabled p s"
  by (auto simp: RegisterForm_def Let_def target_field_def cluster_field_def labelled_def shown_def split: if_splits)

lemma targets_enabled:
  "rp_registryAvailable p \<Longrightarrow> b \<in> set (targets p) \<Longrightarrow>
     \<exists>c \<in> set (rp_connections p). ic_id c = tg_id b \<and> ic_enabled c \<and> ic_kind c \<noteq> Some Virtual"
  by (auto simp: targets_def)

lemma split_models_clean: "m \<in> set (split_models x) \<Longrightarrow> m \<noteq> [] \<and> trim m = m \<and> CHR '','' \<notin> set m"
proof -
  assume "m \<in> set (split_models x)"
  then obtain w where w: "w \<in> set (split_on (CHR '','') x)" "m = trim w" "m \<noteq> []"
    by (auto simp: split_models_def)
  have "set (trim w) \<subseteq> set w" by (rule trim_subset)
  with w split_on_free show ?thesis by fastforce
qed

text \<open>
  An offered registration of a form at rest sends exactly one request, with an engine id and a
  cluster that are not blank; with the registry at hand its target is a connection that is
  enabled and no virtual one, so an engine is never registered at an indexer that was
  disabled or deleted while the form was open; a known cluster of that target is used, and
  every served model is a nonblank name without commas and surrounding blanks.
\<close>

theorem registrations_targeted:
  assumes "settle (register_effects p) s0 = Some s" "RunSubmit \<in> offers (RegisterForm t p s)"
  shows "snd (register_handle t base p RunSubmit s) = [register_call base p s]
    \<and> trim (ed_engine_id (rf_f s)) \<noteq> [] \<and> trim (ed_cluster_id (rf_f s)) \<noteq> []
    \<and> (rp_registryAvailable p \<longrightarrow> (\<exists>c \<in> set (rp_connections p). ic_id c = rf_target s \<and> ic_enabled c
         \<and> ic_kind c \<noteq> Some Virtual))
    \<and> (register_clusters p (rf_target s) \<noteq> [] \<longrightarrow>
         ed_cluster_id (rf_f s) \<in> cl_cluster_id ` set (register_clusters p (rf_target s)))
    \<and> (\<forall>m \<in> set (split_models (ed_served_models (rf_f s))). m \<noteq> [] \<and> trim m = m \<and> CHR '','' \<notin> set m)"
proof -
  have ok: "trim (ed_engine_id (rf_f s)) \<noteq> []" "trim (ed_cluster_id (rf_f s)) \<noteq> []"
    "\<not> (requiresBackend p \<and> rf_target s = [])"
    using register_offers_submit [OF assms(2)] by (auto simp: register_disabled_def)
  note rest = rest_offered [of p s, unfolded at_rest [OF assms(1)]]
  have "\<exists>c \<in> set (rp_connections p). ic_id c = rf_target s \<and> ic_enabled c \<and> ic_kind c \<noteq> Some Virtual"
    if "rp_registryAvailable p"
  proof -
    from that have "requiresBackend p" by (simp add: requiresBackend_def)
    with ok(3) rest(1) obtain b where "b \<in> set (targets p)" "tg_id b = rf_target s"
      by (auto split: if_splits)
    with targets_enabled [OF that] show ?thesis by fastforce
  qed
  moreover have "snd (register_handle t base p RunSubmit s) = [register_call base p s]"
    using ok by simp
  ultimately show ?thesis using ok(1,2) rest(2) split_models_clean by blast
qed

definition typed_form :: register_state where
  "typed_form = edit_draft (\<lambda>f. f\<lparr>ed_engine_id := ''e1'', ed_cluster_id := ''hkg''\<rparr>) (register_init\<lparr>rf_target := ''vllm-0''\<rparr>)"

theorem registrations_targeted_witness:
  "\<exists>c \<in> set (rp_connections sample_props). ic_id c = ''vllm-0'' \<and> ic_enabled c"
proof -
  have t: "target_effect sample_props typed_form = rf_target typed_form"
    by (simp add: target_effect_def sample_targets typed_form_def edit_draft_def)
  have "register_clusters sample_props tgt = []" for tgt
    by (simp add: register_clusters_def sample_props_def Let_def split: option.split)
  then have "cluster_effect sample_props typed_form = ed_cluster_id (rf_f typed_form)"
    by (simp add: cluster_effect_def)
  with t have "register_effects sample_props typed_form = typed_form" by (simp add: register_effects_def)
  then have s: "settle (register_effects sample_props) typed_form = Some typed_form"
    by (simp add: reg.settle_eq numeral_2_eq_2)
  have "trim ''e1'' = ''e1''" "trim ''hkg'' = ''hkg''" by code_simp+
  then have "RunSubmit \<in> offers (RegisterForm id sample_props typed_form)"
    by (simp add: RegisterForm_def Let_def register_disabled_def typed_form_def edit_draft_def register_init_def)
  from registrations_targeted [OF s this, of "''/api/kvi''"] show ?thesis
    by (auto simp: sample_props_def typed_form_def edit_draft_def)
qed

section \<open>The switches of a row\<close>

lemma takeWhile_engine: "path_of (''/engines/'' @ eid) = ''/engines/'' @ path_of eid"
  by (simp add: path_of_def)

text \<open>
  A row's switches send one patch that flips just the flag they show; it reaches
  the path of the engine at its indexer exactly when the id has no question mark, since
  the page does not encode the id (unlike the panel, whose path decodes to any id): the rest
  of such an id is read as parameters.
\<close>

theorem engine_patch_path:
  fixes e :: engine
  defines "p \<equiv> backendQ (''/engines/'' @ en_engine_id e) (en_backend e)"
  shows "fc_url (engine_patch base (en_engine_id e) b (en_backend e)) = base @ p
    \<and> (path_of p = ''/engines/'' @ en_engine_id e \<longleftrightarrow> CHR ''?'' \<notin> set (en_engine_id e))
    \<and> (CHR ''?'' \<notin> set (en_engine_id e) \<longrightarrow>
         query_get p ''backend'' = (if truthy (en_backend e) then en_backend e else None))
    \<and> offers (engine_row t multi e) =
        {Patch e (PatchEnabled (\<not> en_enabled e)), Patch e (PatchDraining (\<not> en_draining e))}"
proof -
  have url: "fc_url (engine_patch base (en_engine_id e) b (en_backend e)) = base @ p"
    by (simp add: engine_patch_def api_patch_def req_call_def p_def)
  have path: "path_of p = ''/engines/'' @ path_of (en_engine_id e)"
    unfolding p_def path_of_backendQ by (rule takeWhile_engine)
  have whole: "path_of x = x \<longleftrightarrow> CHR ''?'' \<notin> set x" for x
    by (auto simp: path_of_def takeWhile_eq_all_conv)
  have get: "query_get p ''backend'' = (if truthy (en_backend e) then en_backend e else None)"
    if "CHR ''?'' \<notin> set (en_engine_id e)"
  proof -
    from that have none: "query_get (''/engines/'' @ en_engine_id e) ''backend'' = None"
      by (simp add: no_query)
    show ?thesis unfolding p_def
    proof (cases "en_backend e")
      case None
      then show "query_get (backendQ (''/engines/'' @ en_engine_id e) (en_backend e)) ''backend''
          = (if truthy (en_backend e) then en_backend e else None)"
        using none by (simp only: backendQ_None) (simp add: truthy_def)
    qed (use bq.get_app [OF none] in \<open>simp add: truthy_def\<close>)
  qed
  have "offers (engine_row t multi e) =
      {Patch e (PatchEnabled (\<not> en_enabled e)), Patch e (PatchDraining (\<not> en_draining e))}"
    by (auto simp: engine_row_def engine_states_def shown_def)
  with url get show ?thesis unfolding path by (simp add: whole)
qed

definition sample_engine :: "string \<Rightarrow> engine" where
  "sample_engine eid = \<lparr>en_engine_id = eid, en_cluster_id = ''hkg'', en_framework = ''vllm'',
     en_api_endpoint = [], en_tokenizer_endpoint = [], en_kv_event_endpoint = [], en_replay_endpoint = None,
     en_topic = [], en_served_models = [], en_dp_ranks = 1, en_max_num_seqs = 0, en_max_model_len = 0,
     en_queue_depth = 0, en_healthy = True, en_draining = False, en_enabled = True, en_labels = None,
     en_cluster = None, en_backend = None, en_virtual = None\<rparr>"

theorem engine_patch_path_witness:
  "path_of (backendQ (''/engines/'' @ ''a?b'') None) \<noteq> ''/engines/a?b''"
  using engine_patch_path [of _ "sample_engine ''a?b''"] by (simp add: sample_engine_def)

end
