(* ===== verification/Profiles.thy ===== *)
theory Profiles
  imports Connections
begin

text \<open>
  The form of a model profile in \<open>web/app/profiles/page.tsx\<close>: the indexers it can be saved
  to, the two effects that choose one and follow its kind, the announcement of a new version,
  and the requests of a save, as the list of the calls it makes one after the other.  A
  chosen file is the list of its bytes.
\<close>

section \<open>What the form is given\<close>

definition blank :: model_profile where
  "blank = \<lparr>mp_model_id = [], mp_aliases = None, mp_framework = ''vllm'', mp_version = 0,
     mp_tokenizer_endpoint = None, mp_tokenizer_mode = Some ''remote'', mp_chat_template_sha256 = None,
     mp_chat_template = None, mp_hash_profile = ''vllm-v1-text'', mp_block_size = of_int_num 16,
     mp_hash_seed = ''0'', mp_supports_lora = False, mp_supports_multimodal = False,
     mp_supports_cache_salt = False, mp_cluster = None, mp_backend = None, mp_virtual = None\<rparr>"

record profile_props =
  pr_initial :: model_profile
  pr_existing :: "model_profile option"
  pr_cluster :: string
  pr_connections :: "indexer_connection list"
  pr_registryAvailable :: bool

record editor_state =
  pe_f :: model_profile
  pe_target :: string
  pe_zip :: "string option"
  pe_file :: "string option"
  pe_err :: string

definition editor_init :: "model_profile \<Rightarrow> editor_state" where
  "editor_init initial = \<lparr>pe_f = initial, pe_target = nullish (mp_backend initial) [],
     pe_zip = None, pe_file = None, pe_err = []\<rparr>"

definition targetOptions :: "profile_props \<Rightarrow> indexer_connection list" where
  "targetOptions p =
     filter (\<lambda>c. ic_enabled c \<or> mp_backend (pr_initial p) = Some (ic_id c)) (pr_connections p)"

section \<open>Effects\<close>

definition default_target :: "profile_props \<Rightarrow> string" where
  "default_target p =
     (let matchingCluster = (if pr_cluster p \<noteq> ''all''
            then find (\<lambda>c. ic_cluster c = pr_cluster p) (targetOptions p) else None);
          first = (case targetOptions p of [] \<Rightarrow> None | c # _ \<Rightarrow> Some c)
      in case (case matchingCluster of Some c \<Rightarrow> Some c | None \<Rightarrow> first) of
           Some c \<Rightarrow> ic_id c | None \<Rightarrow> [])"

definition backend_effect :: "profile_props \<Rightarrow> editor_state \<Rightarrow> string" where
  "backend_effect p s =
     (if \<not> pr_registryAvailable p \<or> pe_target s \<noteq> [] then pe_target s else default_target p)"

definition selectedTarget :: "profile_props \<Rightarrow> string \<Rightarrow> indexer_connection option" where
  "selectedTarget p tgt = find (\<lambda>c. ic_id c = tgt) (targetOptions p)"

definition virtualTarget :: "profile_props \<Rightarrow> string \<Rightarrow> bool" where
  "virtualTarget p tgt \<longleftrightarrow> Option.bind (selectedTarget p tgt) ic_kind = Some Virtual
     \<or> (\<not> pr_registryAvailable p \<and> nullish (mp_virtual (pr_initial p)) False)"

definition mode_effect :: "profile_props \<Rightarrow> editor_state \<Rightarrow> string option" where
  "mode_effect p s =
     (if virtualTarget p (pe_target s) \<and> mp_tokenizer_mode (pe_f s) \<noteq> Some ''local''
      then Some ''local'' else mp_tokenizer_mode (pe_f s))"

definition editor_effects :: "profile_props \<Rightarrow> editor_state \<Rightarrow> editor_state" where
  "editor_effects p s =
     s\<lparr>pe_target := backend_effect p s, pe_f := (pe_f s)\<lparr>mp_tokenizer_mode := mode_effect p s\<rparr>\<rparr>"

lemma editor_effects_simps [simp]:
  "pe_target (editor_effects p s) = backend_effect p s"
  "mp_tokenizer_mode (pe_f (editor_effects p s)) = mode_effect p s"
  by (simp_all add: editor_effects_def)

lemma editor_settles: "editor_effects p ((editor_effects p ^^ 2) s) = (editor_effects p ^^ 2) s"
proof -
  let ?a = "editor_effects p s" and ?b = "editor_effects p (editor_effects p s)"
  have target: "backend_effect p x = pe_target x" if "pe_target x = backend_effect p y" for x y
    using that by (auto simp: backend_effect_def)
  have same: "pe_target ?b = pe_target ?a" using target [of ?a s] by simp
  have "mode_effect p ?b = mp_tokenizer_mode (pe_f ?b)"
    using same by (auto simp: mode_effect_def)
  with target [of ?b ?a] have "editor_effects p ?b = ?b" by (simp add: editor_effects_def [of p ?b])
  then show ?thesis by (simp add: numeral_2_eq_2)
qed

interpretation prof: settling "editor_effects p" 2 for p
  by unfold_locales (rule editor_settles)

section \<open>Announcing a version\<close>

text \<open>\<open>!==\<close> on numbers: \<open>NaN\<close> differs from itself.\<close>

definition num_neq :: "num \<Rightarrow> num \<Rightarrow> bool" where
  "num_neq x y \<longleftrightarrow> x \<noteq> y \<or> x = NaN"

definition willBump :: "model_profile option \<Rightarrow> model_profile \<Rightarrow> bool" where
  "willBump existing f = (case existing of None \<Rightarrow> False | Some e \<Rightarrow>
     num_neq (mp_block_size e) (mp_block_size f)
     \<or> mp_hash_profile e \<noteq> mp_hash_profile f
     \<or> mp_tokenizer_endpoint e \<noteq> mp_tokenizer_endpoint f
     \<or> mp_tokenizer_mode e \<noteq> mp_tokenizer_mode f
     \<or> mp_chat_template_sha256 e \<noteq> mp_chat_template_sha256 f
     \<or> mp_hash_seed e \<noteq> mp_hash_seed f
     \<or> mp_framework e \<noteq> mp_framework f
     \<or> mp_supports_lora e \<noteq> mp_supports_lora f
     \<or> mp_supports_multimodal e \<noteq> mp_supports_multimodal f
     \<or> mp_supports_cache_salt e \<noteq> mp_supports_cache_salt f)"

section \<open>Saving\<close>

definition profileForSave :: "model_profile \<Rightarrow> model_profile" where
  "profileForSave f =
     (if mp_tokenizer_mode f = Some ''local''
      then f\<lparr>mp_tokenizer_endpoint := None, mp_tokenizer_mode := Some ''local''\<rparr>
      else f\<lparr>mp_tokenizer_mode := Some ''remote'', mp_chat_template := None, mp_chat_template_sha256 := None\<rparr>)"

definition profile_json :: "model_profile \<Rightarrow> json" where
  "profile_json f = JObj
     ([(''model_id'', JStr (mp_model_id f))]
      @ opt_field ''aliases'' (\<lambda>as. JArr (map JStr as)) (mp_aliases f)
      @ [(''framework'', JStr (mp_framework f)), (''version'', JNum (of_int_num (mp_version f)))]
      @ opt_field ''tokenizer_endpoint'' JStr (mp_tokenizer_endpoint f)
      @ opt_field ''tokenizer_mode'' JStr (mp_tokenizer_mode f)
      @ opt_field ''chat_template_sha256'' JStr (mp_chat_template_sha256 f)
      @ opt_field ''chat_template'' JStr (mp_chat_template f)
      @ [(''hash_profile'', JStr (mp_hash_profile f)), (''block_size'', JNum (mp_block_size f)),
         (''hash_seed'', JStr (mp_hash_seed f)), (''supports_lora'', JBool (mp_supports_lora f)),
         (''supports_multimodal'', JBool (mp_supports_multimodal f)),
         (''supports_cache_salt'', JBool (mp_supports_cache_salt f))]
      @ opt_field ''_cluster'' JStr (mp_cluster f) @ opt_field ''_backend'' JStr (mp_backend f)
      @ opt_field ''_virtual'' JBool (mp_virtual f))"

definition bool_text :: "bool \<Rightarrow> string" where
  "bool_text b = (if b then ''true'' else ''false'')"

definition appendProfileForm :: "string obj \<Rightarrow> model_profile \<Rightarrow> string obj" where
  "appendProfileForm body f = fold (\<lambda>(k, v). obj_set k v)
     [(''model_id'', mp_model_id f), (''framework'', mp_framework f),
      (''tokenizer_endpoint'', nullish (mp_tokenizer_endpoint f) []),
      (''tokenizer_mode'', nullish (mp_tokenizer_mode f) ''remote''),
      (''chat_template'', nullish (mp_chat_template f) []),
      (''hash_profile'', mp_hash_profile f), (''block_size'', num_to_string (mp_block_size f)),
      (''hash_seed'', mp_hash_seed f), (''supports_lora'', bool_text (mp_supports_lora f)),
      (''supports_multimodal'', bool_text (mp_supports_multimodal f)),
      (''supports_cache_salt'', bool_text (mp_supports_cache_salt f))] body"

definition form_file :: "string \<Rightarrow> string option \<Rightarrow> string obj \<Rightarrow> string obj" where
  "form_file k file body = (case file of None \<Rightarrow> body | Some content \<Rightarrow> obj_set k content body)"

definition appendSourceBackend :: "string \<Rightarrow> string \<Rightarrow> string" where
  "appendSourceBackend path sourceBackend =
     (let sep = (if str_includes path ''?'' then ''&'' else ''?'')
      in path @ sep @ ''source_backend='' @ encodeURIComponent sourceBackend)"

interpretation sbq: query_appender appendSourceBackend "''source_backend''" "\<lambda>b. True"
  by unfold_locales (auto simp: appendSourceBackend_def add_param_def plain_names)

definition movingProfile :: "profile_props \<Rightarrow> string \<Rightarrow> bool" where
  "movingProfile p tgt \<longleftrightarrow> pr_existing p \<noteq> None \<and> truthy (mp_backend (pr_initial p)) \<and> tgt \<noteq> []
     \<and> mp_backend (pr_initial p) \<noteq> Some tgt"

definition save_target :: "profile_props \<Rightarrow> string \<Rightarrow> string" where
  "save_target p tgt =
     (let src = mp_backend (pr_initial p);
          target = (if tgt \<noteq> [] then backendQ ''/model-profiles'' (Some tgt)
                    else if truthy src then backendQ ''/model-profiles'' src
                    else clusterQ ''/model-profiles'' (pr_cluster p))
      in if movingProfile p tgt \<and> truthy src then appendSourceBackend target (nullish src []) else target)"

definition hasLocalUpload :: "editor_state \<Rightarrow> bool" where
  "hasLocalUpload s \<longleftrightarrow> mp_tokenizer_mode (pe_f s) = Some ''local''
     \<and> (pe_zip s \<noteq> None \<or> pe_file s \<noteq> None \<or> truthy (mp_chat_template (pe_f s)))"

definition upload_error :: "(string \<Rightarrow> string) \<Rightarrow> editor_state \<Rightarrow> string option" where
  "upload_error t s =
     (if \<not> hasLocalUpload s then None
      else if pe_zip s = Some [] then Some (t ''profiles.error.empty_tokenizer_zip'')
      else if pe_file s = Some [] then Some (t ''profiles.error.empty_template_file'') else None)"

definition save_call :: "string \<Rightarrow> profile_props \<Rightarrow> editor_state \<Rightarrow> fetch_call" where
  "save_call base p s =
     (let payload = profileForSave (pe_f s) in
      if \<not> hasLocalUpload s then api_post base (save_target p (pe_target s)) (profile_json payload)
      else api_postForm base (save_target p (pe_target s))
             (form_file ''chat_template_file'' (pe_file s)
               (form_file ''tokenizer_zip'' (pe_zip s) (appendProfileForm [] payload))))"

definition source_delete :: "string \<Rightarrow> profile_props \<Rightarrow> fetch_call" where
  "source_delete base p = api_del base (backendQ
     (''/model-profiles/'' @ encodeURIComponent (mp_model_id (pr_initial p))) (mp_backend (pr_initial p)))"

text \<open>The calls of a save, in order: each is sent when the one before has succeeded.\<close>

definition save_plan ::
  "(string \<Rightarrow> string) \<Rightarrow> string \<Rightarrow> profile_props \<Rightarrow> editor_state \<Rightarrow> string + fetch_call list" where
  "save_plan t base p s = (case upload_error t s of
     Some e \<Rightarrow> Inl e
   | None \<Rightarrow> Inr (save_call base p s
       # (if movingProfile p (pe_target s) \<and> truthy (mp_backend (pr_initial p))
          then [source_delete base p] else [])))"

section \<open>Events of the form\<close>

datatype editor_event =
    PickTarget string | SetModel string | SetFrame string | SetHash string | SetBlock string
  | SetMode string | SetEndpoint string | SetZip "string option" | SetFile "string option"
  | SetSeed string | SetTemplate string | SetLora bool | SetMultimodal bool | SetSalt bool
  | SaveProfile | CancelProfile

fun profile_update :: "editor_event \<Rightarrow> model_profile \<Rightarrow> model_profile" where
  "profile_update (SetModel v) f = f\<lparr>mp_model_id := v\<rparr>"
| "profile_update (SetFrame v) f = f\<lparr>mp_framework := v\<rparr>"
| "profile_update (SetHash v) f = f\<lparr>mp_hash_profile := v\<rparr>"
| "profile_update (SetBlock v) f = f\<lparr>mp_block_size := to_number v\<rparr>"
| "profile_update (SetMode v) f = f\<lparr>mp_tokenizer_mode := Some v\<rparr>"
| "profile_update (SetEndpoint v) f = f\<lparr>mp_tokenizer_endpoint := Some v\<rparr>"
| "profile_update (SetSeed v) f = f\<lparr>mp_hash_seed := v\<rparr>"
| "profile_update (SetTemplate v) f = f\<lparr>mp_chat_template := Some v\<rparr>"
| "profile_update (SetLora b) f = f\<lparr>mp_supports_lora := b\<rparr>"
| "profile_update (SetMultimodal b) f = f\<lparr>mp_supports_multimodal := b\<rparr>"
| "profile_update (SetSalt b) f = f\<lparr>mp_supports_cache_salt := b\<rparr>"
| "profile_update _ f = f"

fun editor_handle :: "profile_props \<Rightarrow> editor_event \<Rightarrow> editor_state \<Rightarrow> editor_state" where
  "editor_handle p (PickTarget v) s =
     (let s' = s\<lparr>pe_target := v\<rparr> in
      if Option.bind (selectedTarget p v) ic_kind = Some Virtual
      then s'\<lparr>pe_f := (pe_f s')\<lparr>mp_tokenizer_mode := Some ''local''\<rparr>\<rparr> else s')"
| "editor_handle p (SetZip z) s = s\<lparr>pe_zip := z\<rparr>"
| "editor_handle p (SetFile z) s = s\<lparr>pe_file := z\<rparr>"
| "editor_handle p e s = s\<lparr>pe_f := profile_update e (pe_f s)\<rparr>"

definition save_disabled :: "profile_props \<Rightarrow> editor_state \<Rightarrow> bool" where
  "save_disabled p s \<longleftrightarrow> mp_model_id (pe_f s) = [] \<or> (pr_registryAvailable p \<and> pe_target s = [])"

end
