(* ===== verification/Profile_Page.thy ===== *)
theory Profile_Page
  imports Profiles
begin

text \<open>
  The screens of the profiles page: the form, the list, the sheet, and the saves under way.
  The sheet's form belongs to the opening it was made for (\<open>inst\<close> counts them), while the
  success of any save closes the sheet.
\<close>

section \<open>The form\<close>

definition CheckField :: "string \<Rightarrow> bool \<Rightarrow> (bool \<Rightarrow> 'e) \<Rightarrow> 'e node" where
  "CheckField label v onChange =
     el ''div'' [Elem ''Checkbox'' [Flag ''checked'' v, OnToggle onChange] [], tx ''Label'' label]"

text \<open>A file field: the content of the chosen file, or no file any more.\<close>

definition file_input :: "string \<Rightarrow> (string option \<Rightarrow> 'e) \<Rightarrow> 'e node" where
  "file_input accept f = Elem ''Input'' [Prop ''type'' ''file'', Prop ''accept'' accept,
     OnInput (\<lambda>c. f (Some c)), OnClick (f None)] []"

lemma offers_file [simp]: "offers (file_input accept f) = range f"
  by (auto simp: file_input_def attr_offers_def) (metis not_Some_eq rangeI)

lemma offers_check [simp]: "offers (CheckField label v f) = range f"
  by (simp add: CheckField_def attr_offers_def)

lemma offers_labelled [simp]: "offers (labelled label n) = offers n"
  by (simp add: labelled_def)

definition feature_checks :: "tr \<Rightarrow> model_profile \<Rightarrow> editor_event node list" where
  "feature_checks t f =
     [CheckField (t ''profiles.feature.lora'' []) (mp_supports_lora f) SetLora,
      CheckField (t ''profiles.feature.mm'' []) (mp_supports_multimodal f) SetMultimodal,
      CheckField (t ''profiles.feature.salt'' []) (mp_supports_cache_salt f) SetSalt]"

definition target_select :: "tr \<Rightarrow> profile_props \<Rightarrow> editor_state \<Rightarrow> editor_event node" where
  "target_select t p s = labelled (t ''profiles.field.target_backend'' [])
     (select (targetOptions p = []) (pe_target s) PickTarget
       (map (\<lambda>c. (ic_id c, ic_cluster c @ '' '' @ dot_text @ '' '' @ ic_id c
          @ (if ic_kind c = Some Virtual then '' '' @ dot_text @ '' '' @ t ''indexers.kind.virtual'' [] else [])))
         (targetOptions p)))"

definition identity_fields :: "tr \<Rightarrow> profile_props \<Rightarrow> model_profile \<Rightarrow> editor_event node list" where
  "identity_fields t p f =
     [labelled (t ''profiles.field.model'' [])
        (input_ph (pr_existing p \<noteq> None) (mp_model_id f) ''qwen3.5-4b'' SetModel),
      labelled (t ''profiles.field.framework'' [])
        (select False (mp_framework f) SetFrame [(''vllm'', ''vllm''), (''sglang'', ''sglang'')]),
      labelled (t ''profiles.field.hash'' []) (input_el False (mp_hash_profile f) SetHash),
      labelled (t ''profiles.field.block'' []) (input_el False (num_to_string (mp_block_size f)) SetBlock)]"

definition tokenizer_fields :: "tr \<Rightarrow> profile_props \<Rightarrow> editor_state \<Rightarrow> editor_event node list" where
  "tokenizer_fields t p s =
     (let f = pe_f s; isLocal = (mp_tokenizer_mode f = Some ''local'') in
      [labelled (t ''profiles.field.tokenizer_mode'' [])
         (select (virtualTarget p (pe_target s)) (or_opt (mp_tokenizer_mode f) ''remote'') SetMode
            [(''remote'', t ''profiles.tokenizer_mode.remote'' []), (''local'', t ''profiles.tokenizer_mode.local'' [])]),
       if \<not> isLocal
       then labelled (t ''profiles.field.tokenizer'' [])
              (input_ph False (nullish (mp_tokenizer_endpoint f) []) (t ''profiles.field.tokenizer_ph'' []) SetEndpoint)
       else labelled (t ''profiles.field.tokenizer_zip'' []) (file_input ''.zip,application/zip'' SetZip)]
      @ shown isLocal
          [labelled (t ''profiles.field.template_file'' []) (file_input ''.jinja,.jinja2,.txt,.json'' SetFile),
           labelled (t ''profiles.field.seed'' []) (input_el False (mp_hash_seed f) SetSeed)]
      @ (if isLocal
         then [labelled (t ''profiles.field.template'' [])
                 (Elem ''Textarea'' [Prop ''value'' (nullish (mp_chat_template f) []), OnInput SetTemplate] [])]
         else [labelled (t ''profiles.field.seed'' []) (input_el False (mp_hash_seed f) SetSeed),
               el ''div'' (feature_checks t f)])
      @ shown isLocal [el ''div'' (feature_checks t f)])"

definition save_label :: "tr \<Rightarrow> profile_props \<Rightarrow> editor_state \<Rightarrow> string" where
  "save_label t p s =
     (if movingProfile p (pe_target s) then t ''profiles.btn.move'' []
      else if willBump (pr_existing p) (pe_f s) then t ''profiles.btn.save_new'' [] else t ''common.save'' [])"

definition bump_alert :: "tr \<Rightarrow> profile_props \<Rightarrow> editor_state \<Rightarrow> 'e node list" where
  "bump_alert t p s = shown (willBump (pr_existing p) (pe_f s))
     [el ''Alert''
        [tx ''AlertTitle'' (t ''profiles.bump.title''
           [(''n'', int_text ((case pr_existing p of Some e \<Rightarrow> mp_version e | None \<Rightarrow> 0) + 1))]),
         tx ''AlertDescription'' (t ''profiles.bump.desc'' [])]]"

definition ProfileForm :: "tr \<Rightarrow> profile_props \<Rightarrow> editor_state \<Rightarrow> editor_event node" where
  "ProfileForm t p s = el ''div''
     [el ''div''
        (shown (pr_registryAvailable p) [target_select t p s]
         @ identity_fields t p (pe_f s) @ tokenizer_fields t p s @ bump_alert t p s
         @ shown (pe_err s \<noteq> []) [tx ''div'' (pe_err s)]),
      el ''SheetFooter''
        [button False CancelProfile (t ''common.cancel'' []),
         Elem ''Button'' [Flag ''disabled'' (save_disabled p s), OnClick SaveProfile]
           (shown (mp_tokenizer_mode (pe_f s) = Some ''local'' \<and> (pe_zip s \<noteq> None \<or> pe_file s \<noteq> None))
              [el ''Upload'' []]
            @ [Txt (save_label t p s)])]]"

section \<open>The page\<close>

record profiles_ctx =
  pc_cluster :: string
  pc_multi :: bool
  pc_profiles :: "model_profile list query"
  pc_connections :: "indexer_connection list query"
  pc_isSuccess :: bool
  pc_base :: string
  pc_t :: tr

record profiles_state =
  pp_editing :: "(model_profile \<times> editor_state) option"
  pp_creating :: bool
  pp_inst :: nat
  pp_saves :: "(nat \<times> fetch_call list) list"

definition profiles_init :: profiles_state where
  "profiles_init = \<lparr>pp_editing = None, pp_creating = False, pp_inst = 0, pp_saves = []\<rparr>"

definition existing_of :: "profiles_ctx \<Rightarrow> profiles_state \<Rightarrow> model_profile option" where
  "existing_of cx s =
     (if pp_creating s then None
      else case pp_editing s of
             None \<Rightarrow> None
           | Some (e, _) \<Rightarrow> find (\<lambda>p. mp_model_id p = mp_model_id e) (q_list (pc_profiles cx)))"

definition profile_props_of :: "profiles_ctx \<Rightarrow> profiles_state \<Rightarrow> model_profile \<Rightarrow> profile_props" where
  "profile_props_of cx s initial =
     \<lparr>pr_initial = initial, pr_existing = existing_of cx s, pr_cluster = pc_cluster cx,
      pr_connections = q_list (pc_connections cx), pr_registryAvailable = pc_isSuccess cx\<rparr>"

definition close_sheet :: "profiles_state \<Rightarrow> profiles_state" where
  "close_sheet s = s\<lparr>pp_editing := None, pp_creating := False\<rparr>"

definition open_sheet :: "bool \<Rightarrow> model_profile \<Rightarrow> profiles_state \<Rightarrow> profiles_state" where
  "open_sheet creating e s =
     s\<lparr>pp_creating := creating, pp_editing := Some (e, editor_init e), pp_inst := Suc (pp_inst s)\<rparr>"

datatype profiles_event =
    NewProfile | EditProfile model_profile | SheetOpen bool | Edit editor_event | RetryProfiles

text \<open>The effects of the form settle after every event, against what is then fetched.\<close>

definition settle_editor :: "profiles_ctx \<Rightarrow> profiles_state \<Rightarrow> profiles_state" where
  "settle_editor cx s = (case pp_editing s of
     None \<Rightarrow> s
   | Some (e, r) \<Rightarrow>
       s\<lparr>pp_editing := Some (e, nullish (settle (editor_effects (profile_props_of cx s e)) r) r)\<rparr>)"

definition start_save ::
  "profiles_ctx \<Rightarrow> model_profile \<Rightarrow> editor_state \<Rightarrow> profiles_state \<Rightarrow> profiles_state \<times> fetch_call list" where
  "start_save cx e r s =
     (case save_plan (\<lambda>k. pc_t cx k []) (pc_base cx) (profile_props_of cx s e) r of
        Inl msg \<Rightarrow> (s\<lparr>pp_editing := Some (e, r\<lparr>pe_err := msg\<rparr>)\<rparr>, [])
      | Inr calls \<Rightarrow> (s\<lparr>pp_saves := pp_saves s @ [(pp_inst s, tl calls)]\<rparr>, [hd calls]))"

fun profiles_handle :: "profiles_ctx \<Rightarrow> profiles_event \<Rightarrow> profiles_state \<Rightarrow> profiles_state \<times> fetch_call list" where
  "profiles_handle cx NewProfile s = (settle_editor cx (open_sheet True blank s), [])"
| "profiles_handle cx (EditProfile e) s = (settle_editor cx (open_sheet False e s), [])"
| "profiles_handle cx (SheetOpen b) s = (if b then s else close_sheet s, [])"
| "profiles_handle cx (Edit ev) s = (case pp_editing s of
     None \<Rightarrow> (s, [])
   | Some (e, r) \<Rightarrow>
       if ev = SaveProfile then start_save cx e r s
       else if ev = CancelProfile then (close_sheet s, [])
       else (settle_editor cx
               (s\<lparr>pp_editing := Some (e, editor_handle (profile_props_of cx s e) ev r)\<rparr>), []))"
| "profiles_handle cx RetryProfiles s = (s, [])"

text \<open>
  The answer to the current call of the \<open>i\<close>-th save under way: a failure ends the save and
  shows its message in the form it came from, a success sends the next call or ends it.
\<close>

definition save_answer ::
  "profiles_ctx \<Rightarrow> nat \<Rightarrow> string option \<Rightarrow> profiles_state \<Rightarrow> profiles_state \<times> fetch_call list" where
  "save_answer cx i err s =
     (if length (pp_saves s) \<le> i then (s, [])
      else let (inst, rest) = pp_saves s ! i; drop_i = remove_at i (pp_saves s) in
        case err of
          Some msg \<Rightarrow>
            (s\<lparr>pp_saves := drop_i,
               pp_editing := (case pp_editing s of
                 Some (e, r) \<Rightarrow> Some (e, if inst = pp_inst s then r\<lparr>pe_err := msg\<rparr> else r)
               | None \<Rightarrow> None)\<rparr>, [])
        | None \<Rightarrow>
            (case rest of
               [] \<Rightarrow> (close_sheet (s\<lparr>pp_saves := drop_i\<rparr>), [])
             | c # cs \<Rightarrow> (s\<lparr>pp_saves := (pp_saves s)[i := (inst, cs)]\<rparr>, [c])))"

definition profile_heads :: "tr \<Rightarrow> bool \<Rightarrow> 'e node list" where
  "profile_heads t multi =
     [head (t ''profiles.col.model'' [])] @ shown multi [head (t ''cluster.col'' [])]
     @ map (\<lambda>k. head (t k []))
         [''profiles.col.framework'', ''profiles.col.tokenizer_source'', ''profiles.col.version'',
          ''profiles.col.hash'', ''profiles.col.block'', ''profiles.col.namespace'', ''profiles.col.features'']
     @ [el ''TableHead'' []]"

definition namespace_text :: "model_profile \<Rightarrow> string" where
  "namespace_text p = mp_model_id p @ ''/v'' @ int_text (mp_version p) @ ''/'' @ mp_hash_profile p
     @ ''/'' @ num_to_string (mp_block_size p)"

definition feature_badges :: "tr \<Rightarrow> model_profile \<Rightarrow> 'e node list" where
  "feature_badges t p =
     shown (mp_supports_lora p) [badge ''outline'' (t ''profiles.feature.lora'' [])]
     @ shown (mp_supports_multimodal p) [badge ''outline'' (t ''profiles.feature.mm'' [])]
     @ shown (mp_supports_cache_salt p) [badge ''outline'' (t ''profiles.feature.salt'' [])]
     @ shown (\<not> mp_supports_lora p \<and> \<not> mp_supports_multimodal p \<and> \<not> mp_supports_cache_salt p)
         [tx ''span'' (t ''profiles.text_only'' [])]"

definition profile_row :: "tr \<Rightarrow> bool \<Rightarrow> model_profile \<Rightarrow> profiles_event node" where
  "profile_row t multi p =
     (let isLocal = (mp_tokenizer_mode p = Some ''local'') in el ''TableRow''
       ([cell (mp_model_id p)]
        @ shown multi [el ''TableCell'' [badge ''outline'' (nullish (mp_cluster p) dash_text)]]
        @ [el ''TableCell'' [badge ''secondary'' (mp_framework p)],
           el ''TableCell'' [badge (if isLocal then ''warning'' else ''outline'')
             (if isLocal then t ''profiles.tokenizer_mode.local'' [] else t ''profiles.tokenizer_mode.remote'' [])],
           el ''TableCell'' [badge ''success'' (''v'' @ int_text (mp_version p))],
           cell (mp_hash_profile p), cell (num_to_string (mp_block_size p)), cell (namespace_text p),
           el ''TableCell'' (feature_badges t p),
           el ''TableCell'' [button False (EditProfile p) (t ''common.edit'' [])]]))"

definition profiles_table :: "profiles_ctx \<Rightarrow> profiles_event node" where
  "profiles_table cx =
     (let t = pc_t cx; rows = q_list (pc_profiles cx) in
      el ''Card'' [el ''CardContent'' (query_state (\<lambda>k. t k []) (pc_profiles cx) RetryProfiles 3
        ([table_of (profile_heads t (pc_multi cx)) (map (profile_row t (pc_multi cx)) rows)]
         @ shown (length rows = 0) [EmptyState [Txt (t ''profiles.empty'' [])]]))])"

definition profile_sheet :: "profiles_ctx \<Rightarrow> profiles_state \<Rightarrow> profiles_event node" where
  "profile_sheet cx s =
     (let t = pc_t cx in
      Elem ''Sheet'' [Flag ''open'' (pp_editing s \<noteq> None), OnToggle SheetOpen]
        (case pp_editing s of
           None \<Rightarrow> []
         | Some (e, r) \<Rightarrow>
             [tx ''SheetTitle'' (case existing_of cx s of
                Some x \<Rightarrow> t ''profiles.sheet.edit'' [(''id'', mp_model_id x)]
              | None \<Rightarrow> t ''profiles.sheet.new'' []),
              tx ''SheetDescription'' (t ''profiles.sheet.desc'' []),
              map_node Edit (ProfileForm t (profile_props_of cx s e) r)]))"

definition ProfilesPage :: "profiles_ctx \<Rightarrow> profiles_state \<Rightarrow> profiles_event node" where
  "ProfilesPage cx s =
     (let t = pc_t cx in el ''div''
       [PageHeader (t ''profiles.title'' []) (Some (t ''profiles.subtitle'' []))
          (Some (button False NewProfile (t ''profiles.btn.new'' []))),
        profile_sheet cx s, profiles_table cx])"

text \<open>The open sheet is modal.\<close>

definition profiles_offers :: "profiles_ctx \<Rightarrow> profiles_state \<Rightarrow> profiles_event set" where
  "profiles_offers cx s =
     (if pp_editing s \<noteq> None then offers (profile_sheet cx s) else offers (ProfilesPage cx s))"

end
