(* ===== verification/Profile_Store.thy ===== *)
theory Profile_Store
  imports Profiles
begin

text \<open>
  The other end of a profile's save: how the gateway (\<open>internal/gateway/local_tokenizer.go\<close>) and an
  indexer (\<open>internal/config/store.go\<close>, \<open>internal/config/model.go\<close>) read what the console
  sends, when a save makes a new version, and what the console is shown of the result.  Go's
  \<open>int\<close> has 64 bits; the values that leave it are refused or cut at its ends, as \<open>strconv\<close>
  does.  The asset store and the tokenizer service of the gateway are not modelled.
\<close>

section \<open>Reading numbers\<close>

text \<open>\<open>strconv.ParseInt(s, 10, 64)\<close> and \<open>strconv.Atoi\<close>: the value and whether there was no error.\<close>

definition int64_ok :: "int \<Rightarrow> bool" where
  "int64_ok i \<longleftrightarrow> - (2 ^ 63) \<le> i \<and> i < 2 ^ 63"

definition parse_int64 :: "string \<Rightarrow> int \<times> bool" where
  "parse_int64 s =
     (let neg = (take 1 s = ''-''); u = (if neg \<or> take 1 s = ''+'' then drop 1 s else s);
          v = (if neg then - int (nat_of u) else int (nat_of u))
      in if u = [] \<or> \<not> list_all is_digit u then (0, False)
         else if int64_ok v then (v, True)
         else (if neg then - (2 ^ 63) else 2 ^ 63 - 1, False))"

definition parse_bool :: "string \<Rightarrow> bool" where
  "parse_bool s \<longleftrightarrow> List.member [''1'', ''t'', ''T'', ''TRUE'', ''true'', ''True''] s"

lemma mk_dec_int: "\<exists>m e. mk_dec i (int k) = Dec m (int e) \<and> m * 10 ^ e = i * 10 ^ k \<and> (m = 0 \<longrightarrow> e = 0)"
proof (induction "nat \<bar>i\<bar>" arbitrary: i k rule: less_induct)
  case less
  show ?case
  proof (cases "i = 0 \<or> i mod 10 \<noteq> 0")
    case True
    then show ?thesis
    proof (cases "i = 0")
      case True
      then have "mk_dec i (int k) = Dec 0 (int 0) \<and> 0 * 10 ^ (0::nat) = i * 10 ^ k"
        by (simp add: mk_dec.simps [of 0])
      then show ?thesis by blast
    next
      case False
      with True have "mk_dec i (int k) = Dec i (int k)" by (simp add: mk_dec.simps [of i])
      with False show ?thesis by blast
    qed
  next
    case False
    then have i: "i = (i div 10) * 10" "i \<noteq> 0" by auto
    then have "nat \<bar>i div 10\<bar> < nat \<bar>i\<bar>" by linarith
    from less [OF this, of "Suc k"] obtain m e where
      me: "mk_dec (i div 10) (int (Suc k)) = Dec m (int e)" "m * 10 ^ e = (i div 10) * 10 ^ Suc k" "m = 0 \<longrightarrow> e = 0"
      by blast
    have "mk_dec i (int k) = mk_dec (i div 10) (int (Suc k))"
      using False by (simp add: mk_dec.simps [of i] add.commute)
    moreover have "(i div 10) * 10 ^ Suc k = i * 10 ^ k" using i by simp
    ultimately show ?thesis using me by metis
  qed
qed

lemma digits_length: "0 < n \<Longrightarrow> n < 10 ^ k \<Longrightarrow> length (digits n) \<le> k"
proof (induction n arbitrary: k rule: digits.induct)
  case (1 n)
  show ?case
  proof (cases "n < 10")
    case True
    with "1.prems" show ?thesis by (cases k) (simp_all add: digits.simps [of n])
  next
    case False
    with "1.prems" obtain j where k: "k = Suc j" by (cases k) auto
    have "n div 10 < 10 ^ j" using "1.prems" k by (simp add: div_less_iff_less_mult mult.commute)
    moreover have "0 < n div 10" using False by simp
    ultimately show ?thesis using "1.IH" [OF False] False k by (simp add: digits.simps [of n])
  qed
qed

lemma int_text_parse:
  assumes "\<bar>i\<bar> < 10 ^ 18"
  shows "parse_int64 (num_to_string (of_int_num i)) = (i, True)"
proof (cases "i = 0")
  case True
  have "parse_int64 (num_to_string (of_int_num 0)) = (0, True)" by code_simp
  with True show ?thesis by simp
next
  case False
  obtain m e where me: "of_int_num i = Dec m (int e)" "m * 10 ^ e = i"
    using mk_dec_int [of i 0] by (auto simp: of_int_num_def)
  with False have "m \<noteq> 0" by auto
  let ?s = "digits (nat \<bar>m\<bar>)"
  have abs: "\<bar>m\<bar> * 10 ^ e = \<bar>i\<bar>" unfolding me(2) [symmetric] by (simp add: abs_mult)
  have "(10::int) ^ e \<le> \<bar>m\<bar> * 10 ^ e" using \<open>m \<noteq> 0\<close> by simp
  with abs assms have "(10::int) ^ e < 10 ^ 18" by linarith
  then have e: "e < 18" by (rule power_less_imp_less_exp [rotated]) simp
  have "\<bar>m\<bar> * 10 ^ e < 10 ^ (18 - e) * 10 ^ e"
    using abs assms e by (simp flip: power_add)
  then have "\<bar>m\<bar> < 10 ^ (18 - e)" by simp
  then have "nat \<bar>m\<bar> < 10 ^ (18 - e)" by (simp add: nat_less_iff)
  with \<open>m \<noteq> 0\<close> e have "length ?s + e \<le> 18" using digits_length [of "nat \<bar>m\<bar>" "18 - e"] by simp
  then have "layout ?s (int (length ?s) + int e) = ?s @ replicate e (CHR ''0'')"
    by (simp add: layout_def Let_def)
  with me(1) \<open>m \<noteq> 0\<close> have printed: "num_to_string (of_int_num i)
      = (if m < 0 then ''-'' else []) @ ?s @ replicate e (CHR ''0'')" by (simp add: Let_def)
  have hd: "is_digit (hd ?s)" using digits_digit [of "hd ?s" "nat \<bar>m\<bar>"] by simp
  then have "hd ?s \<noteq> CHR ''-''" "hd ?s \<noteq> CHR ''+''" by auto
  then have sign: "take 1 (?s @ z) \<noteq> ''-''" "take 1 (?s @ z) \<noteq> ''+''" for z
    by (cases ?s; simp)+
  have nat_of: "int (nat_of (?s @ replicate e (CHR ''0''))) = \<bar>i\<bar>"
    using abs by (simp add: nat_of_append)
  have ok: "int64_ok i" using assms unfolding int64_ok_def by simp linarith
  have neg: "m < 0 \<longleftrightarrow> i < 0" using me(2) by (auto simp: mult_less_0_iff)
  let ?z = "?s @ replicate e (CHR ''0'')"
  have digit: "?z \<noteq> []" "list_all is_digit ?z" by (simp_all add: digits_all_digit)
  show ?thesis
  proof (cases "m < 0")
    case True
    then have "num_to_string (of_int_num i) = CHR ''-'' # ?z" by (simp add: printed)
    moreover have "- int (nat_of ?z) = i" using nat_of True neg by simp
    ultimately show ?thesis using digit ok by (simp add: parse_int64_def del: list_all_append)
  next
    case False
    then have "num_to_string (of_int_num i) = ?z" by (simp add: printed)
    moreover have "int (nat_of ?z) = i" using nat_of False neg by simp
    ultimately show ?thesis
      using digit ok sign [of "replicate e (CHR ''0'')"] by (simp add: parse_int64_def del: list_all_append)
  qed
qed

lemma of_int_num_inject:
  "\<bar>i\<bar> < 10 ^ 18 \<Longrightarrow> \<bar>j\<bar> < 10 ^ 18 \<Longrightarrow> of_int_num i = of_int_num j \<longleftrightarrow> i = j"
  by (metis int_text_parse prod.inject)

section \<open>Clusters\<close>

record go_cluster =
  gk_cluster_id :: string
  gk_display_name :: string
  gk_region :: string
  gk_environment :: string
  gk_enabled :: bool
  gk_maintenance :: bool
  gk_labels :: "string obj option"

section \<open>Profiles\<close>

record go_profile =
  gp_model_id :: string
  gp_aliases :: "string list"
  gp_framework :: string
  gp_version :: int
  gp_tokenizer_endpoint :: string
  gp_tokenizer_mode :: string
  gp_sha :: string
  gp_hash_profile :: string
  gp_block_size :: int
  gp_hash_seed :: string
  gp_lora :: bool
  gp_multimodal :: bool
  gp_salt :: bool

text \<open>The JSON reader: an absent or null member leaves the zero value, another type is an error.\<close>

definition go_str :: "json option \<Rightarrow> string option" where
  "go_str v = (case v of None \<Rightarrow> Some [] | Some JNull \<Rightarrow> Some [] | Some (JStr s) \<Rightarrow> Some s | _ \<Rightarrow> None)"

definition go_bool :: "json option \<Rightarrow> bool option" where
  "go_bool v = (case v of None \<Rightarrow> Some False | Some JNull \<Rightarrow> Some False | Some (JBool b) \<Rightarrow> Some b | _ \<Rightarrow> None)"

lemma map_of_opt_field [simp]:
  "map_of (opt_field k f v) k' = (if k' = k then map_option f v else None)"
  by (cases v) (auto simp: opt_field_def)

lemma go_str_simps [simp]: "go_str (Some (JStr s)) = Some s" "go_str (map_option JStr v) = Some (nullish v [])"
  by (simp add: go_str_def) (cases v; simp add: go_str_def)

lemma go_bool_simps [simp]: "go_bool (Some (JBool b)) = Some b"
  by (simp add: go_bool_def)

text \<open>A number is read from its text, as the console printed it; \<open>NaN\<close> was printed as null.\<close>

definition go_int :: "json option \<Rightarrow> int option" where
  "go_int v = (case v of
     None \<Rightarrow> Some 0
   | Some JNull \<Rightarrow> Some 0
   | Some (JNum (Dec m e)) \<Rightarrow>
       (case parse_int64 (num_to_string (Dec m e)) of (i, True) \<Rightarrow> Some i | _ \<Rightarrow> None)
   | Some (JNum x) \<Rightarrow> Some 0
   | _ \<Rightarrow> None)"

lemma go_int_whole [simp]: "\<bar>i\<bar> < 10 ^ 18 \<Longrightarrow> go_int (Some (JNum (of_int_num i))) = Some i"
  using int_text_parse [of i] mk_dec_int [of i 0] by (auto simp: go_int_def of_int_num_def)

definition go_strs :: "json option \<Rightarrow> string list option" where
  "go_strs v = (case v of
     None \<Rightarrow> Some []
   | Some JNull \<Rightarrow> Some []
   | Some (JArr vs) \<Rightarrow> those (map (\<lambda>x. go_str (Some x)) vs)
   | _ \<Rightarrow> None)"

definition go_labels :: "json option \<Rightarrow> string obj option option" where
  "go_labels v = (case v of
     None \<Rightarrow> Some None
   | Some JNull \<Rightarrow> Some None
   | Some (JObj ps) \<Rightarrow>
       map_option (\<lambda>vs. Some (zip (map fst ps) vs)) (those (map (\<lambda>p. go_str (Some (snd p))) ps))
   | _ \<Rightarrow> None)"

definition decode_profile :: "json \<Rightarrow> go_profile option" where
  "decode_profile j =
     (case (go_str (get_prop j ''model_id''), go_strs (get_prop j ''aliases''), go_str (get_prop j ''framework''),
            go_int (get_prop j ''version'')) of
        (Some mid, Some als, Some frame, Some ver) \<Rightarrow>
       (case (go_str (get_prop j ''tokenizer_endpoint''), go_str (get_prop j ''tokenizer_mode''),
              go_str (get_prop j ''chat_template_sha256''), go_str (get_prop j ''hash_profile''),
              go_int (get_prop j ''block_size''), go_str (get_prop j ''hash_seed'')) of
          (Some ep, Some md, Some sha, Some hp, Some bs, Some seed) \<Rightarrow>
         (case (go_bool (get_prop j ''supports_lora''), go_bool (get_prop j ''supports_multimodal''),
                go_bool (get_prop j ''supports_cache_salt'')) of
            (Some lo, Some mm, Some sa) \<Rightarrow> Some
              \<lparr>gp_model_id = mid, gp_aliases = als, gp_framework = frame, gp_version = ver,
               gp_tokenizer_endpoint = ep, gp_tokenizer_mode = md, gp_sha = sha, gp_hash_profile = hp,
               gp_block_size = bs, gp_hash_seed = seed, gp_lora = lo, gp_multimodal = mm, gp_salt = sa\<rparr>
          | _ \<Rightarrow> None)
        | _ \<Rightarrow> None)
      | _ \<Rightarrow> None)"

text \<open>The form reader of the gateway, which reports no errors.\<close>

definition formValue :: "string obj \<Rightarrow> string \<Rightarrow> string" where
  "formValue form k = nullish (map_of form k) []"

definition formList :: "(string \<Rightarrow> string list option) \<Rightarrow> string obj \<Rightarrow> string \<Rightarrow> string list" where
  "formList json_strings form k =
     (let raw = trim (formValue form k) in
      if raw = [] then []
      else let parts = filter (\<lambda>p. p \<noteq> []) (map trim (split_on (CHR '','') raw)) in
        if prefix ''['' raw then nullish (json_strings raw) parts else parts)"

definition parseProfileMultipart :: "(string \<Rightarrow> string list option) \<Rightarrow> string obj \<Rightarrow> go_profile" where
  "parseProfileMultipart json_strings form =
     \<lparr>gp_model_id = formValue form ''model_id'', gp_aliases = formList json_strings form ''aliases'',
      gp_framework = formValue form ''framework'', gp_version = 0,
      gp_tokenizer_endpoint = formValue form ''tokenizer_endpoint'',
      gp_tokenizer_mode = formValue form ''tokenizer_mode'',
      gp_sha = formValue form ''chat_template_sha256'',
      gp_hash_profile = formValue form ''hash_profile'',
      gp_block_size = fst (parse_int64 (formValue form ''block_size'')),
      gp_hash_seed = formValue form ''hash_seed'',
      gp_lora = parse_bool (formValue form ''supports_lora''),
      gp_multimodal = parse_bool (formValue form ''supports_multimodal''),
      gp_salt = parse_bool (formValue form ''supports_cache_salt'')\<rparr>"

section \<open>The indexer's store\<close>

record audit_row =
  au_version :: int
  au_entity_id :: string
  au_bump :: bool

record profile_store =
  st_version :: int
  st_profiles :: "go_profile obj"
  st_audit :: "audit_row list"

definition affectsHashNamespace :: "go_profile \<Rightarrow> go_profile \<Rightarrow> bool" where
  "affectsHashNamespace old neu \<longleftrightarrow>
     gp_framework old \<noteq> gp_framework neu \<or> gp_tokenizer_endpoint old \<noteq> gp_tokenizer_endpoint neu
     \<or> gp_tokenizer_mode old \<noteq> gp_tokenizer_mode neu \<or> gp_sha old \<noteq> gp_sha neu
     \<or> gp_hash_profile old \<noteq> gp_hash_profile neu \<or> gp_block_size old \<noteq> gp_block_size neu
     \<or> gp_hash_seed old \<noteq> gp_hash_seed neu \<or> gp_lora old \<noteq> gp_lora neu
     \<or> gp_multimodal old \<noteq> gp_multimodal neu \<or> gp_salt old \<noteq> gp_salt neu"

definition normalizeModelProfile :: "go_profile \<Rightarrow> go_profile" where
  "normalizeModelProfile p =
     (if gp_tokenizer_mode p = ''local'' then p\<lparr>gp_tokenizer_endpoint := []\<rparr>
      else p\<lparr>gp_tokenizer_mode := ''remote'', gp_sha := []\<rparr>)"

definition UpsertModelProfile :: "go_profile \<Rightarrow> profile_store \<Rightarrow> go_profile \<times> profile_store" where
  "UpsertModelProfile p0 st =
     (let p = normalizeModelProfile p0;
          (p', bump) = (case map_of (st_profiles st) (gp_model_id p) of
             Some old \<Rightarrow>
               if affectsHashNamespace old p then (p\<lparr>gp_version := gp_version old + 1\<rparr>, True)
               else if gp_version p = 0 then (p\<lparr>gp_version := gp_version old\<rparr>, False) else (p, False)
           | None \<Rightarrow> if gp_version p = 0 then (p\<lparr>gp_version := 1\<rparr>, False) else (p, False));
          v = st_version st + 1
      in (p', \<lparr>st_version = v, st_profiles = obj_set (gp_model_id p) p' (st_profiles st),
               st_audit = st_audit st @ [\<lparr>au_version = v, au_entity_id = gp_model_id p, au_bump = bump\<rparr>]\<rparr>))"

text \<open>The gateway's handling of a profile for the remote tokenizer.\<close>

definition gateway_remote :: "go_profile \<Rightarrow> go_profile" where
  "gateway_remote p = p\<lparr>gp_tokenizer_mode := ''remote'', gp_sha := []\<rparr>"

text \<open>What the console reads of a stored profile: empty optional members are left out.\<close>

definition shown_profile :: "string option \<Rightarrow> string option \<Rightarrow> go_profile \<Rightarrow> model_profile" where
  "shown_profile cluster backend p =
     \<lparr>mp_model_id = gp_model_id p, mp_aliases = (if gp_aliases p = [] then None else Some (gp_aliases p)),
      mp_framework = gp_framework p, mp_version = gp_version p,
      mp_tokenizer_endpoint = some_text (gp_tokenizer_endpoint p),
      mp_tokenizer_mode = some_text (gp_tokenizer_mode p), mp_chat_template_sha256 = some_text (gp_sha p),
      mp_chat_template = None, mp_hash_profile = gp_hash_profile p,
      mp_block_size = of_int_num (gp_block_size p), mp_hash_seed = gp_hash_seed p,
      mp_supports_lora = gp_lora p, mp_supports_multimodal = gp_multimodal p,
      mp_supports_cache_salt = gp_salt p, mp_cluster = cluster, mp_backend = backend, mp_virtual = None\<rparr>"

text \<open>Every stored profile is normalized.\<close>

definition store_ok :: "profile_store \<Rightarrow> bool" where
  "store_ok st \<longleftrightarrow> (\<forall>(k, p) \<in> set (st_profiles st). normalizeModelProfile p = p)"

lemma normalize_idem: "normalizeModelProfile (normalizeModelProfile p) = normalizeModelProfile p"
  by (simp add: normalizeModelProfile_def)

lemma normalize_version: "normalizeModelProfile (p\<lparr>gp_version := v\<rparr>) = (normalizeModelProfile p)\<lparr>gp_version := v\<rparr>"
  by (simp add: normalizeModelProfile_def)

lemma set_obj_set: "set (obj_set k v o') \<subseteq> insert (k, v) (set o')"
  by (induction k v o' rule: obj_set.induct) auto

lemma upsert_store_ok: "store_ok st \<Longrightarrow> store_ok (snd (UpsertModelProfile p st))"
proof -
  assume ok: "store_ok st"
  have stored: "normalizeModelProfile (fst (UpsertModelProfile p st)) = fst (UpsertModelProfile p st)"
    by (auto simp: UpsertModelProfile_def Let_def normalize_idem normalize_version split: option.splits prod.splits)
  have "st_profiles (snd (UpsertModelProfile p st)) =
      obj_set (gp_model_id (normalizeModelProfile p)) (fst (UpsertModelProfile p st)) (st_profiles st)"
    by (simp add: UpsertModelProfile_def Let_def split: prod.splits)
  with ok stored set_obj_set show ?thesis by (fastforce simp: store_ok_def)
qed

end
