(* ===== verification/Profile_Runs.thy ===== *)
theory Profile_Runs
  imports Profile_Page Profile_Store
begin

text \<open>
  What the profiles page promises together with the gateway and the indexers: the new version
  it announces is the one that is made, what an upload carries, when a moved profile is
  deleted at its source, and what an edit compares with.
\<close>

section \<open>The announced version\<close>

lemma get_prop_obj: "get_prop (JObj ps) k = map_of ps k"
  by simp

lemma profile_json_props:
  "get_prop (profile_json f) ''model_id'' = Some (JStr (mp_model_id f))"
  "get_prop (profile_json f) ''aliases'' = map_option (\<lambda>as. JArr (map JStr as)) (mp_aliases f)"
  "get_prop (profile_json f) ''framework'' = Some (JStr (mp_framework f))"
  "get_prop (profile_json f) ''version'' = Some (JNum (of_int_num (mp_version f)))"
  "get_prop (profile_json f) ''tokenizer_endpoint'' = map_option JStr (mp_tokenizer_endpoint f)"
  "get_prop (profile_json f) ''tokenizer_mode'' = map_option JStr (mp_tokenizer_mode f)"
  "get_prop (profile_json f) ''chat_template_sha256'' = map_option JStr (mp_chat_template_sha256 f)"
  "get_prop (profile_json f) ''hash_profile'' = Some (JStr (mp_hash_profile f))"
  "get_prop (profile_json f) ''block_size'' = Some (JNum (mp_block_size f))"
  "get_prop (profile_json f) ''hash_seed'' = Some (JStr (mp_hash_seed f))"
  "get_prop (profile_json f) ''supports_lora'' = Some (JBool (mp_supports_lora f))"
  "get_prop (profile_json f) ''supports_multimodal'' = Some (JBool (mp_supports_multimodal f))"
  "get_prop (profile_json f) ''supports_cache_salt'' = Some (JBool (mp_supports_cache_salt f))"
  unfolding profile_json_def get_prop_obj map_of_append
  by (simp_all add: map_add_def split: option.splits)

lemma those_strs: "those (map (\<lambda>x. go_str (Some x)) (map JStr as)) = Some as"
  by (induction as) simp_all

lemma go_strs_simps [simp]: "go_strs (map_option (\<lambda>as. JArr (map JStr as)) v) = Some (nullish v [])"
  using those_strs by (cases v) (simp_all add: go_strs_def)

text \<open>The profile a Go reader gets from the console's JSON, for whole numbers.\<close>

definition received :: "model_profile \<Rightarrow> int \<Rightarrow> go_profile" where
  "received f n =
     \<lparr>gp_model_id = mp_model_id f, gp_aliases = nullish (mp_aliases f) [], gp_framework = mp_framework f,
      gp_version = mp_version f, gp_tokenizer_endpoint = nullish (mp_tokenizer_endpoint f) [],
      gp_tokenizer_mode = nullish (mp_tokenizer_mode f) [], gp_sha = nullish (mp_chat_template_sha256 f) [],
      gp_hash_profile = mp_hash_profile f, gp_block_size = n, gp_hash_seed = mp_hash_seed f,
      gp_lora = mp_supports_lora f, gp_multimodal = mp_supports_multimodal f, gp_salt = mp_supports_cache_salt f\<rparr>"

lemma decode_profile_json:
  assumes "mp_block_size f = of_int_num n" "\<bar>n\<bar> < 10 ^ 18" "\<bar>mp_version f\<bar> < 10 ^ 18"
  shows "decode_profile (profile_json f) = Some (received f n)"
  unfolding decode_profile_def profile_json_props using assms by (simp add: received_def)

text \<open>A text field that was emptied stands for the absent value it is stored as.\<close>

definition emptied :: "model_profile \<Rightarrow> model_profile" where
  "emptied f = f\<lparr>mp_tokenizer_endpoint := some_text (nullish (mp_tokenizer_endpoint f) [])\<rparr>"

lemma remote_bump:
  assumes "normalizeModelProfile old = old" "g = normalizeModelProfile (gateway_remote (received (profileForSave f) n))"
    and "mp_tokenizer_mode f = Some ''remote''" "mp_block_size f = of_int_num n" "\<bar>n\<bar> < 10 ^ 18"
    and "\<bar>gp_block_size old\<bar> < 10 ^ 18" "mp_chat_template_sha256 f = mp_chat_template_sha256 e"
    and "e = shown_profile c b old"
  shows "affectsHashNamespace old g \<longleftrightarrow> willBump (Some e) (emptied f)"
proof -
  have num: "num_neq (of_int_num (gp_block_size old)) (of_int_num n) \<longleftrightarrow> gp_block_size old \<noteq> n"
    using of_int_num_inject [OF assms(6,5)] mk_dec_int [of "gp_block_size old" 0]
    by (auto simp: num_neq_def of_int_num_def)
  have old: "gp_tokenizer_mode old \<noteq> ''local'' \<Longrightarrow> gp_tokenizer_mode old = ''remote'' \<and> gp_sha old = []"
    using arg_cong [OF assms(1), of gp_tokenizer_mode] arg_cong [OF assms(1), of gp_sha]
    by (simp add: normalizeModelProfile_def)
  have g: "gp_framework g = mp_framework f" "gp_tokenizer_endpoint g = nullish (mp_tokenizer_endpoint f) []"
    "gp_tokenizer_mode g = ''remote''" "gp_sha g = []" "gp_hash_profile g = mp_hash_profile f"
    "gp_block_size g = n" "gp_hash_seed g = mp_hash_seed f" "gp_lora g = mp_supports_lora f"
    "gp_multimodal g = mp_supports_multimodal f" "gp_salt g = mp_supports_cache_salt f"
    using assms(3)
    by (simp_all add: assms(2) gateway_remote_def normalizeModelProfile_def received_def profileForSave_def)
  have e: "willBump (Some e) (emptied f) \<longleftrightarrow>
      gp_block_size old \<noteq> n \<or> gp_hash_profile old \<noteq> mp_hash_profile f
      \<or> gp_tokenizer_endpoint old \<noteq> nullish (mp_tokenizer_endpoint f) [] \<or> gp_tokenizer_mode old \<noteq> ''remote''
      \<or> gp_hash_seed old \<noteq> mp_hash_seed f \<or> gp_framework old \<noteq> mp_framework f
      \<or> gp_lora old \<noteq> mp_supports_lora f \<or> gp_multimodal old \<noteq> mp_supports_multimodal f
      \<or> gp_salt old \<noteq> mp_supports_cache_salt f"
    using assms(3,7) some_text_eq [of _ "''remote''"]
    by (simp add: willBump_def emptied_def assms(4,8) num shown_profile_def some_text_eq) (simp add: some_text_def)
  have "gp_tokenizer_mode old = ''remote'' \<Longrightarrow> gp_tokenizer_mode old \<noteq> ''local''" by simp
  with old have "gp_tokenizer_mode old = ''remote'' \<Longrightarrow> gp_sha old = []" by blast
  then show ?thesis unfolding e affectsHashNamespace_def g by blast
qed

text \<open>
  C31: the console and the indexer agree on when an edit makes a new version: for an edit of a stored
  profile with the remote tokenizer and a whole block size, the indexer that receives the save
  makes a new version exactly when the form announces one, and it has the announced number;
  only a tokenizer address that was typed and emptied again is announced without a reason.
\<close>

theorem announced_version_is_made:
  assumes "store_ok st" "map_of (st_profiles st) (mp_model_id f) = Some old" "e = shown_profile c b old"
    and "mp_tokenizer_mode f = Some ''remote''" "mp_block_size f = of_int_num n" "\<bar>n\<bar> < 10 ^ 18"
    and "\<bar>gp_block_size old\<bar> < 10 ^ 18" "\<bar>gp_version old\<bar> < 10 ^ 18"
    and "mp_chat_template_sha256 f = mp_chat_template_sha256 e" "mp_version f = mp_version e"
  shows "\<exists>g stored st'. decode_profile (profile_json (profileForSave f)) = Some g
    \<and> UpsertModelProfile (gateway_remote g) st = (stored, st')
    \<and> (au_bump (last (st_audit st')) \<longleftrightarrow> willBump (Some e) (emptied f))
    \<and> gp_version stored = (if willBump (Some e) (emptied f) then mp_version e + 1 else mp_version e)"
proof -
  let ?p = "profileForSave f"
  let ?g = "normalizeModelProfile (gateway_remote (received ?p n))"
  have ver: "mp_version ?p = gp_version old" "mp_version e = gp_version old"
    using assms(3,10) by (simp_all add: profileForSave_def shown_profile_def)
  have dec: "decode_profile (profile_json ?p) = Some (received ?p n)"
    using assms(5,6,8) ver by (intro decode_profile_json) (simp_all add: profileForSave_def)
  have "normalizeModelProfile old = old"
    using assms(1,2) by (auto simp: store_ok_def dest: map_of_SomeD)
  from remote_bump [OF this refl assms(4-7) assms(9,3)]
  have bump: "affectsHashNamespace old ?g \<longleftrightarrow> willBump (Some e) (emptied f)" .
  have g: "gp_model_id ?g = mp_model_id f" "gp_version ?g = gp_version old"
    using ver by (simp_all add: normalizeModelProfile_def gateway_remote_def received_def profileForSave_def)
  define r where "r = UpsertModelProfile (gateway_remote (received ?p n)) st"
  have "au_bump (last (st_audit (snd r))) \<longleftrightarrow> affectsHashNamespace old ?g"
    "gp_version (fst r) = (if affectsHashNamespace old ?g then gp_version old + 1 else gp_version old)"
    using assms(2) g by (auto simp: r_def UpsertModelProfile_def Let_def)
  with dec bump ver(2) show ?thesis unfolding r_def by (metis prod.collapse)
qed

definition sample_stored :: go_profile where
  "sample_stored = \<lparr>gp_model_id = ''qwen'', gp_aliases = [''q''], gp_framework = ''vllm'', gp_version = 3,
     gp_tokenizer_endpoint = [], gp_tokenizer_mode = ''remote'', gp_sha = [], gp_hash_profile = ''vllm-v1-text'',
     gp_block_size = 16, gp_hash_seed = ''0'', gp_lora = False, gp_multimodal = False, gp_salt = False\<rparr>"

definition sample_store :: profile_store where
  "sample_store = \<lparr>st_version = 7, st_profiles = [(''qwen'', sample_stored)], st_audit = []\<rparr>"

theorem announced_version_is_made_witness:
  "\<exists>g stored st'. UpsertModelProfile (gateway_remote g) sample_store = (stored, st') \<and> gp_version stored = 4"
proof -
  let ?e = "shown_profile None (Some ''b0'') sample_stored"
  let ?f = "?e\<lparr>mp_hash_seed := ''1''\<rparr>"
  have ok: "store_ok sample_store"
    by (simp add: store_ok_def sample_store_def sample_stored_def normalizeModelProfile_def)
  have stored: "map_of (st_profiles sample_store) (mp_model_id ?f) = Some sample_stored"
    by (simp add: sample_store_def shown_profile_def sample_stored_def)
  have mode: "mp_tokenizer_mode ?f = Some ''remote''"
    by (simp add: shown_profile_def sample_stored_def some_text_def)
  have block: "mp_block_size ?f = of_int_num 16" by (simp add: shown_profile_def sample_stored_def)
  have bump: "willBump (Some ?e) (emptied ?f)"
    by (simp add: willBump_def emptied_def shown_profile_def sample_stored_def)
  have size: "\<bar>16::int\<bar> < 10 ^ 18" "\<bar>gp_block_size sample_stored\<bar> < 10 ^ 18" "\<bar>gp_version sample_stored\<bar> < 10 ^ 18"
    by (simp_all add: sample_stored_def)
  have same: "mp_chat_template_sha256 ?f = mp_chat_template_sha256 ?e" "mp_version ?f = mp_version ?e" by simp_all
  have "mp_version ?e = 3" by (simp add: shown_profile_def sample_stored_def)
  with announced_version_is_made [OF ok stored refl mode block size same] bump show ?thesis by auto
qed

section \<open>Uploads\<close>

lemma formValue_set [simp]: "formValue (obj_set k v form) k' = (if k' = k then v else formValue form k')"
  by (simp add: formValue_def)

lemma formValue_file [simp]:
  "k' \<noteq> k \<Longrightarrow> formValue (form_file k file form) k' = formValue form k'"
  by (simp add: form_file_def split: option.split)

lemma parse_bool_text [simp]: "parse_bool (bool_text b) = b"
  by (simp add: parse_bool_def bool_text_def)

lemma profile_form_values:
  "formValue (appendProfileForm [] f) ''model_id'' = mp_model_id f"
  "formValue (appendProfileForm [] f) ''aliases'' = []"
  "formValue (appendProfileForm [] f) ''framework'' = mp_framework f"
  "formValue (appendProfileForm [] f) ''tokenizer_endpoint'' = nullish (mp_tokenizer_endpoint f) []"
  "formValue (appendProfileForm [] f) ''tokenizer_mode'' = nullish (mp_tokenizer_mode f) ''remote''"
  "formValue (appendProfileForm [] f) ''chat_template_sha256'' = []"
  "formValue (appendProfileForm [] f) ''hash_profile'' = mp_hash_profile f"
  "formValue (appendProfileForm [] f) ''block_size'' = num_to_string (mp_block_size f)"
  "formValue (appendProfileForm [] f) ''hash_seed'' = mp_hash_seed f"
  "formValue (appendProfileForm [] f) ''supports_lora'' = bool_text (mp_supports_lora f)"
  "formValue (appendProfileForm [] f) ''supports_multimodal'' = bool_text (mp_supports_multimodal f)"
  "formValue (appendProfileForm [] f) ''supports_cache_salt'' = bool_text (mp_supports_cache_salt f)"
  by (simp_all add: appendProfileForm_def) (simp_all add: formValue_def)

text \<open>
  An upload carries the profile as the JSON of a save does, but for its aliases: the
  gateway reads the same profile from the multipart form, except that the version and the
  digest, which the servers compute themselves, are left to them, and that the aliases are lost, because
  the console never appends the field the gateway reads them from; the indexer then stores
  the profile without them.
\<close>

theorem upload_loses_aliases:
  assumes "hasLocalUpload s" "mp_block_size (pe_f s) = of_int_num n" "\<bar>n\<bar> < 10 ^ 18"
    and "\<bar>mp_version (pe_f s)\<bar> < 10 ^ 18"
  shows "\<exists>form g. save_call base p s = api_postForm base (save_target p (pe_target s)) form
    \<and> decode_profile (profile_json (profileForSave (pe_f s))) = Some g
    \<and> parseProfileMultipart js form = g\<lparr>gp_aliases := [], gp_version := 0, gp_sha := []\<rparr>
    \<and> gp_aliases g = nullish (mp_aliases (pe_f s)) []
    \<and> gp_aliases (fst (UpsertModelProfile (parseProfileMultipart js form) st)) = []"
proof -
  let ?f = "profileForSave (pe_f s)"
  let ?form = "form_file ''chat_template_file'' (pe_file s) (form_file ''tokenizer_zip'' (pe_zip s) (appendProfileForm [] ?f))"
  have mode: "mp_tokenizer_mode (pe_f s) = Some ''local''" using assms(1) by (simp add: hasLocalUpload_def)
  have call: "save_call base p s = api_postForm base (save_target p (pe_target s)) ?form"
    using assms(1) by (simp add: save_call_def)
  have block: "mp_block_size ?f = of_int_num n" "mp_version ?f = mp_version (pe_f s)"
    using assms(2) by (simp_all add: profileForSave_def)
  have dec: "decode_profile (profile_json ?f) = Some (received ?f n)"
    using assms(3,4) block by (intro decode_profile_json) simp_all
  have form: "parseProfileMultipart js ?form = (received ?f n)\<lparr>gp_aliases := [], gp_version := 0, gp_sha := []\<rparr>"
    using mode assms(3) block(1)
    by (simp add: parseProfileMultipart_def formList_def profile_form_values received_def int_text_parse)
      (simp add: profileForSave_def)
  have "gp_aliases (fst (UpsertModelProfile q st)) = gp_aliases q" for q
    by (simp add: UpsertModelProfile_def Let_def normalizeModelProfile_def split: option.split)
  then have "gp_aliases (fst (UpsertModelProfile (parseProfileMultipart js ?form) st)) = []"
    by (simp add: form)
  moreover have "gp_aliases (received ?f n) = nullish (mp_aliases (pe_f s)) []"
    by (simp add: received_def profileForSave_def)
  ultimately show ?thesis using call dec form by blast
qed

definition local_edit :: model_profile where
  "local_edit = blank\<lparr>mp_aliases := Some [''q''], mp_tokenizer_mode := Some ''local'', mp_chat_template := Some ''x''\<rparr>"

theorem upload_loses_aliases_witness:
  "\<forall>p. \<exists>form (g :: go_profile). save_call ''/api/kvi'' p (editor_init local_edit)
       = api_postForm ''/api/kvi'' (save_target p (pe_target (editor_init local_edit))) form
     \<and> gp_aliases g = [''q''] \<and> gp_aliases (parseProfileMultipart (\<lambda>_. None) form) = []"
proof
  fix p
  have up: "hasLocalUpload (editor_init local_edit)" "mp_block_size (pe_f (editor_init local_edit)) = of_int_num 16"
    "\<bar>mp_version (pe_f (editor_init local_edit))\<bar> < 10 ^ 18" "mp_aliases (pe_f (editor_init local_edit)) = Some [''q'']"
    by (simp_all add: hasLocalUpload_def editor_init_def local_edit_def blank_def truthy_def)
  have "\<bar>16::int\<bar> < 10 ^ 18" by simp
  from upload_loses_aliases [OF up(1,2) this up(3)] obtain form g where
    "save_call ''/api/kvi'' p (editor_init local_edit)
       = api_postForm ''/api/kvi'' (save_target p (pe_target (editor_init local_edit))) form"
    "parseProfileMultipart (\<lambda>_. None) form = g\<lparr>gp_aliases := [], gp_version := 0, gp_sha := []\<rparr>"
    "gp_aliases g = nullish (mp_aliases (pe_f (editor_init local_edit))) []" by blast
  moreover from this(2,3) up(4) have "gp_aliases g = [''q'']" "gp_aliases (parseProfileMultipart (\<lambda>_. None) form) = []"
    by simp_all
  ultimately show "\<exists>form (g :: go_profile). save_call ''/api/kvi'' p (editor_init local_edit)
       = api_postForm ''/api/kvi'' (save_target p (pe_target (editor_init local_edit))) form
     \<and> gp_aliases g = [''q''] \<and> gp_aliases (parseProfileMultipart (\<lambda>_. None) form) = []" by blast
qed

section \<open>Moving a profile\<close>

lemma start_save_calls:
  assumes "upload_error (\<lambda>k. pc_t cx k []) r = None"
  shows "start_save cx e r s =
    (s\<lparr>pp_saves := pp_saves s @ [(pp_inst s,
        if movingProfile (profile_props_of cx s e) (pe_target r) \<and> truthy (mp_backend e)
        then [source_delete (pc_base cx) (profile_props_of cx s e)] else [])]\<rparr>,
     [save_call (pc_base cx) (profile_props_of cx s e) r])"
  by (simp add: start_save_def save_plan_def assms profile_props_of_def)

lemma moving_backend:
  "movingProfile p tgt \<Longrightarrow> \<exists>src. mp_backend (pr_initial p) = Some src \<and> src \<noteq> [] \<and> tgt \<noteq> [] \<and> src \<noteq> tgt"
  by (cases "mp_backend (pr_initial p)") (auto simp: movingProfile_def truthy_def)

lemma profiles_path: "query_get ''/model-profiles'' k = None"
  "query_get (''/model-profiles/'' @ encodeURIComponent x) k = None"
proof -
  show "query_get ''/model-profiles'' k = None" by (rule no_query) simp
  have "CHR ''?'' \<notin> set (encodeURIComponent x)" using encode_no_delimiter by blast
  then show "query_get (''/model-profiles/'' @ encodeURIComponent x) k = None" by (intro no_query) simp
qed

lemma path_whole:
  "path_of (''/model-profiles/'' @ encodeURIComponent x) = ''/model-profiles/'' @ encodeURIComponent x"
proof -
  have "CHR ''?'' \<notin> set (encodeURIComponent x)" using encode_no_delimiter by blast
  then show ?thesis by (auto simp: path_of_def takeWhile_eq_all_conv)
qed

lemma move_target:
  assumes "movingProfile p tgt" "mp_backend (pr_initial p) = Some src"
  shows "query_get (save_target p tgt) ''backend'' = Some tgt"
    "query_get (save_target p tgt) ''source_backend'' = Some src"
proof -
  have ne: "src \<noteq> []" "tgt \<noteq> []" using moving_backend [OF assms(1)] assms(2) by auto
  then have t: "save_target p tgt = appendSourceBackend (backendQ1 ''/model-profiles'' tgt) src"
    using assms by (simp add: save_target_def truthy_def Let_def del: append.simps)
  have b: "query_get (backendQ1 ''/model-profiles'' tgt) ''backend'' = Some tgt"
    using bq.get_app [OF profiles_path(1), of tgt] ne by simp
  have none: "query_get (backendQ1 ''/model-profiles'' tgt) ''source_backend'' = None"
    using bq.get_other [of "''source_backend''" "''/model-profiles''" tgt] profiles_path(1) by simp
  show "query_get (save_target p tgt) ''backend'' = Some tgt"
    unfolding t using sbq.get_other [of "''backend''"] b by simp
  show "query_get (save_target p tgt) ''source_backend'' = Some src"
    unfolding t using sbq.get_app [OF none] by simp
qed

text \<open>
  C26: moving a profile to another indexer never loses it: the save is posted to the chosen indexer,
  naming the old one as the source of its assets, and only a successful answer to it makes
  the page delete the profile, at the old indexer and under its own id; a failed answer
  deletes nothing and shows its message in the form; a profile that stays is never deleted.
\<close>

theorem move_deletes_last:
  fixes cx :: profiles_ctx and s :: profiles_state and e :: model_profile
  defines "p \<equiv> profile_props_of cx s e" and "i \<equiv> length (pp_saves s)"
  assumes "pp_editing s = Some (e, r)" "upload_error (\<lambda>k. pc_t cx k []) r = None"
    and "profiles_handle cx (Edit SaveProfile) s = (s1, calls)"
  shows "calls = [save_call (pc_base cx) p r]
    \<and> snd (save_answer cx i (Some msg) s1) = []
    \<and> map_option (pe_err \<circ> snd) (pp_editing (fst (save_answer cx i (Some msg) s1))) = Some msg
    \<and> snd (save_answer cx i None s1) =
        (if movingProfile p (pe_target r) then [source_delete (pc_base cx) p] else [])
    \<and> (movingProfile p (pe_target r) \<longrightarrow> (\<exists>src. mp_backend e = Some src \<and> src \<noteq> pe_target r
        \<and> query_get (save_target p (pe_target r)) ''backend'' = Some (pe_target r)
        \<and> query_get (save_target p (pe_target r)) ''source_backend'' = Some src
        \<and> (\<exists>u. fc_url (source_delete (pc_base cx) p) = pc_base cx @ u \<and> query_get u ''backend'' = Some src
             \<and> path_of u = ''/model-profiles/'' @ encodeURIComponent (mp_model_id e))))"
proof -
  have ini: "pr_initial p = e" by (simp add: p_def profile_props_of_def)
  have truth: "movingProfile p (pe_target r) \<Longrightarrow> truthy (mp_backend e)"
    by (simp add: movingProfile_def ini)
  have "(s1, calls) = start_save cx e r s" using assms(3,5) by simp
  then have s1: "calls = [save_call (pc_base cx) p r]"
    "s1 = s\<lparr>pp_saves := pp_saves s @ [(pp_inst s,
        if movingProfile p (pe_target r) then [source_delete (pc_base cx) p] else [])]\<rparr>"
    using truth by (auto simp: start_save_calls [OF assms(4)] p_def)
  have "snd (save_answer cx i (Some msg) s1) = []"
    "map_option (pe_err \<circ> snd) (pp_editing (fst (save_answer cx i (Some msg) s1))) = Some msg"
    "snd (save_answer cx i None s1) =
        (if movingProfile p (pe_target r) then [source_delete (pc_base cx) p] else [])"
    using assms(3) by (simp_all add: save_answer_def s1(2) i_def nth_append)
  moreover have "\<exists>src. mp_backend e = Some src \<and> src \<noteq> pe_target r
        \<and> query_get (save_target p (pe_target r)) ''backend'' = Some (pe_target r)
        \<and> query_get (save_target p (pe_target r)) ''source_backend'' = Some src
        \<and> (\<exists>u. fc_url (source_delete (pc_base cx) p) = pc_base cx @ u \<and> query_get u ''backend'' = Some src
             \<and> path_of u = ''/model-profiles/'' @ encodeURIComponent (mp_model_id e))"
    if moving: "movingProfile p (pe_target r)"
  proof -
    obtain src where src: "mp_backend e = Some src" "src \<noteq> []" "src \<noteq> pe_target r"
      using moving_backend [OF moving] ini by auto
    let ?path = "''/model-profiles/'' @ encodeURIComponent (mp_model_id e)"
    have "fc_url (source_delete (pc_base cx) p) = pc_base cx @ backendQ1 ?path src"
      by (simp add: source_delete_def ini src(1) api_del_def req_call_def)
    moreover have "query_get (backendQ1 ?path src) ''backend'' = Some src"
      using bq.get_app [OF profiles_path(2)] src(2) by simp
    moreover have "path_of (backendQ1 ?path src) = ?path"
      unfolding bq.path_app by (rule path_whole)
    ultimately show ?thesis using move_target [OF moving] src ini by blast
  qed
  ultimately show ?thesis using s1(1) by blast
qed

definition moved_profile :: model_profile where
  "moved_profile = blank\<lparr>mp_model_id := ''qwen'', mp_backend := Some ''b0''\<rparr>"

definition moving_ctx :: profiles_ctx where
  "moving_ctx = \<lparr>pc_cluster = ''all'', pc_multi = True,
     pc_profiles = \<lparr>q_data = Some [moved_profile], q_isLoading = False, q_isError = False, q_error = None\<rparr>,
     pc_connections = \<lparr>q_data = None, q_isLoading = False, q_isError = True, q_error = None\<rparr>,
     pc_isSuccess = False, pc_base = ''/api/kvi'', pc_t = (\<lambda>k p. k)\<rparr>"

definition moving_state :: profiles_state where
  "moving_state = \<lparr>pp_editing = Some (moved_profile, (editor_init moved_profile)\<lparr>pe_target := ''b1''\<rparr>),
     pp_creating = False, pp_inst = 1, pp_saves = []\<rparr>"

theorem move_deletes_last_witness:
  "\<exists>s1 calls. profiles_handle moving_ctx (Edit SaveProfile) moving_state = (s1, calls)
     \<and> snd (save_answer moving_ctx 0 None s1)
         = [source_delete ''/api/kvi'' (profile_props_of moving_ctx moving_state moved_profile)]"
proof -
  let ?r = "(editor_init moved_profile)\<lparr>pe_target := ''b1''\<rparr>"
  have ed: "pp_editing moving_state = Some (moved_profile, ?r)" by (simp add: moving_state_def)
  have up: "upload_error (\<lambda>k. pc_t moving_ctx k []) ?r = None"
    by (simp add: upload_error_def hasLocalUpload_def editor_init_def moved_profile_def blank_def)
  obtain s1 calls where h: "profiles_handle moving_ctx (Edit SaveProfile) moving_state = (s1, calls)" by fastforce
  have "movingProfile (profile_props_of moving_ctx moving_state moved_profile) ''b1''"
    by (simp add: movingProfile_def profile_props_of_def existing_of_def moving_ctx_def moving_state_def
        moved_profile_def truthy_def q_list_def)
  with move_deletes_last [OF ed up h] h show ?thesis
    by (simp add: moving_state_def moving_ctx_def)
qed

section \<open>What an edit is compared with\<close>

lemma effects_keep: "(pe_f (editor_effects p r))\<lparr>mp_tokenizer_mode := m\<rparr> = (pe_f r)\<lparr>mp_tokenizer_mode := m\<rparr>"
  by (simp add: editor_effects_def)

lemma settled_keeps:
  "settle (editor_effects p) r = Some r' \<Longrightarrow>
     (pe_f r')\<lparr>mp_tokenizer_mode := m\<rparr> = (pe_f r)\<lparr>mp_tokenizer_mode := m\<rparr>"
  using effects_keep by (auto simp: prof.settle_eq numeral_2_eq_2)

text \<open>
  The form finds the stored profile by its model alone: when two indexers serve a model and differ in
  its hash profile, opening the second one and changing nothing already announces a new
  version, because it is compared with the first (the comparison of a row with itself never
  does).
\<close>

theorem edit_compares_wrong_row:
  assumes "q_list (pc_profiles cx) = p1 # p2 # rest" "mp_model_id p1 = mp_model_id p2"
    and "mp_hash_profile p1 \<noteq> mp_hash_profile p2" "s = fst (profiles_handle cx (EditProfile p2) s0)"
  shows "\<exists>r. pp_editing s = Some (p2, r) \<and> pr_existing (profile_props_of cx s p2) = Some p1
    \<and> (pe_f r)\<lparr>mp_tokenizer_mode := m\<rparr> = p2\<lparr>mp_tokenizer_mode := m\<rparr>
    \<and> willBump (pr_existing (profile_props_of cx s p2)) (pe_f r)
    \<and> (mp_block_size p2 \<noteq> NaN \<longrightarrow> \<not> willBump (Some p2) p2)"
proof -
  let ?open = "open_sheet False p2 s0" and ?p = "profile_props_of cx (open_sheet False p2 s0) p2"
  obtain r where r: "settle (editor_effects ?p) (editor_init p2) = Some r" using prof.settle_eq by blast
  have ed: "pp_editing s = Some (p2, r)" "pp_creating s = False"
    using r by (simp_all add: assms(4) settle_editor_def open_sheet_def)
  have ex: "pr_existing (profile_props_of cx s p2) = Some p1"
    using assms(1,2) ed by (simp add: profile_props_of_def existing_of_def)
  have keep: "(pe_f r)\<lparr>mp_tokenizer_mode := k\<rparr> = p2\<lparr>mp_tokenizer_mode := k\<rparr>" for k
    using settled_keeps [OF r] by (simp add: editor_init_def)
  from arg_cong [OF keep, of mp_hash_profile] have "mp_hash_profile (pe_f r) = mp_hash_profile p2" by simp
  with assms(3) have "willBump (Some p1) (pe_f r)" by (simp add: willBump_def)
  moreover have "mp_block_size p2 \<noteq> NaN \<longrightarrow> \<not> willBump (Some p2) p2"
    by (simp add: willBump_def num_neq_def)
  ultimately show ?thesis using ed(1) ex by (intro exI [of _ r] conjI keep) simp_all
qed

definition two_rows :: "model_profile list" where
  "two_rows = [moved_profile, moved_profile\<lparr>mp_backend := Some ''b1'', mp_hash_profile := ''sglang-v1''\<rparr>]"

theorem edit_compares_wrong_row_witness:
  "\<exists>cx s r. pp_editing s = Some (two_rows ! 1, r)
     \<and> willBump (pr_existing (profile_props_of cx s (two_rows ! 1))) (pe_f r)"
proof -
  let ?cx = "moving_ctx\<lparr>pc_profiles := \<lparr>q_data = Some two_rows, q_isLoading = False, q_isError = False, q_error = None\<rparr>\<rparr>"
  let ?p = "two_rows ! 1"
  have rows: "q_list (pc_profiles ?cx) = moved_profile # ?p # []" by (simp add: q_list_def two_rows_def)
  have ids: "mp_model_id moved_profile = mp_model_id ?p" by (simp add: two_rows_def)
  have "mp_hash_profile moved_profile \<noteq> mp_hash_profile ?p"
    by (simp add: two_rows_def moved_profile_def blank_def)
  from edit_compares_wrong_row [OF rows ids this refl, where m = None and ?s0.0 = profiles_init]
  show ?thesis by (elim exE conjE) (intro exI conjI, assumption+)
qed

end
