(* ===== verification/Registry.thy ===== *)
theory Registry
  imports Profile_Store Connection_Runs "HOL-Library.Product_Lexorder"
begin

text \<open>
  The registry of the gateway that the connections panel edits: the rows and the upsert of
  \<open>internal/gateway/store.go\<close> (the in-memory store) and its HTTP handlers in
  \<open>internal/gateway/gateway.go\<close>.  The locale \<open>connection_store\<close> is what the panel relies on; its lemmas
  say what a toggle and a save of the panel do to any such store, and the interpretation
  shows that the gateway is one.  The parser of addresses is Go's \<open>net/url\<close>: an
  argument that gives the scheme and the host.  Of a virtual cluster's configuration only the
  clusters and the version change here; the rest is kept as it is.
\<close>

section \<open>Rows\<close>

record go_connection =
  gc_id :: string
  gc_kind :: string
  gc_cluster :: string
  gc_display_name :: string
  gc_region :: string
  gc_environment :: string
  gc_labels :: "string obj option"
  gc_url :: string
  gc_token :: string
  gc_enabled :: bool

definition KindOrDefault :: "go_connection \<Rightarrow> string" where
  "KindOrDefault c = (if gc_kind c = [] then ''backend'' else gc_kind c)"

definition normalizeConnection :: "go_connection \<Rightarrow> go_connection" where
  "normalizeConnection c0 =
     (let c = (if gc_kind c0 = [] then c0\<lparr>gc_kind := ''backend''\<rparr> else c0)
      in if gc_kind c = ''virtual'' then c\<lparr>gc_url := [], gc_token := []\<rparr> else c)"

datatype upsert_error = BadJson | NoIdOrCluster | NoUrl | BadKind | BadUrl

definition validateConnection :: "(string \<Rightarrow> (string \<times> string) option) \<Rightarrow> go_connection \<Rightarrow> upsert_error option" where
  "validateConnection parse c =
     (if gc_id c = [] \<or> gc_cluster c = [] then Some NoIdOrCluster
      else if KindOrDefault c = ''virtual'' then None
      else if KindOrDefault c \<noteq> ''backend'' then Some BadKind
      else if gc_url c = [] then Some NoUrl
      else case parse (gc_url c) of
             None \<Rightarrow> Some BadUrl
           | Some (scheme, host) \<Rightarrow>
               if (scheme \<noteq> ''http'' \<and> scheme \<noteq> ''https'') \<or> host = [] then Some BadUrl else None)"

section \<open>The store\<close>

record 'r virtual_config =
  vc_backend_id :: string
  vc_version :: int
  vc_clusters :: "go_cluster obj"
  vc_rest :: 'r

record 'r registry_store =
  rs_conns :: "go_connection obj"
  rs_virtual :: "'r virtual_config obj"

definition upsertVirtualCluster :: "'r virtual_config \<Rightarrow> go_connection \<Rightarrow> 'r virtual_config" where
  "upsertVirtualCluster vc c =
     (let displayName = (if gc_display_name c = [] then gc_cluster c else gc_display_name c);
          k = \<lparr>gk_cluster_id = gc_cluster c, gk_display_name = displayName, gk_region = gc_region c,
               gk_environment = gc_environment c, gk_enabled = gc_enabled c, gk_maintenance = False,
               gk_labels = gc_labels c\<rparr>
      in vc\<lparr>vc_backend_id := gc_id c, vc_version := vc_version vc + 1,
            vc_clusters := obj_set (gc_cluster c) k (vc_clusters vc)\<rparr>)"

definition list_connections :: "'r registry_store \<Rightarrow> go_connection list" where
  "list_connections st = sort_key (\<lambda>c. (gc_cluster c, gc_id c)) (map snd (rs_conns st))"

text \<open>\<open>fresh\<close> is the empty configuration that a missing map entry reads as.\<close>

definition upsert_connection ::
  "(string \<Rightarrow> (string \<times> string) option) \<Rightarrow> 'r virtual_config \<Rightarrow> go_connection \<Rightarrow> 'r registry_store
     \<Rightarrow> upsert_error + 'r registry_store" where
  "upsert_connection parse fresh c0 st =
     (let c = normalizeConnection c0 in case validateConnection parse c of
        Some e \<Rightarrow> Inl e
      | None \<Rightarrow>
          let st' = st\<lparr>rs_conns := obj_set (gc_id c) c (rs_conns st)\<rparr> in
          Inr (if KindOrDefault c = ''virtual''
               then st'\<lparr>rs_virtual := obj_set (gc_id c)
                      (upsertVirtualCluster (nullish (map_of (rs_virtual st) (gc_id c)) fresh) c) (rs_virtual st)\<rparr>
               else st'))"

section \<open>The handlers\<close>

record conn_input =
  in_id :: string
  in_kind :: string
  in_cluster :: string
  in_display_name :: string
  in_region :: string
  in_environment :: string
  in_labels :: "string obj option"
  in_url :: string
  in_token :: "string option"
  in_enabled :: "bool option"

text \<open>A pointer field tells an absent member from a zero value.\<close>

definition go_ptr :: "(json option \<Rightarrow> 'a option) \<Rightarrow> json option \<Rightarrow> 'a option option" where
  "go_ptr read v = (if v = None \<or> v = Some JNull then Some None else map_option Some (read v))"

definition decode_input :: "json \<Rightarrow> conn_input option" where
  "decode_input j =
     (case (go_str (get_prop j ''id''), go_str (get_prop j ''kind''), go_str (get_prop j ''cluster''),
            go_str (get_prop j ''display_name''), go_str (get_prop j ''region''),
            go_str (get_prop j ''environment'')) of
        (Some cid, Some kd, Some cl, Some dn, Some rg, Some en) \<Rightarrow>
       (case (go_labels (get_prop j ''labels''), go_str (get_prop j ''url''),
              go_ptr go_str (get_prop j ''token''), go_ptr go_bool (get_prop j ''enabled'')) of
          (Some lb, Some u, Some tk, Some eb) \<Rightarrow> Some
            \<lparr>in_id = cid, in_kind = kd, in_cluster = cl, in_display_name = dn, in_region = rg,
             in_environment = en, in_labels = lb, in_url = u, in_token = tk, in_enabled = eb\<rparr>
        | _ \<Rightarrow> None)
      | _ \<Rightarrow> None)"

definition keep_str :: "string \<Rightarrow> go_connection option \<Rightarrow> (go_connection \<Rightarrow> string) \<Rightarrow> string" where
  "keep_str v existing sel = (case existing of Some e \<Rightarrow> if v = [] then sel e else v | None \<Rightarrow> v)"

definition merge_connection :: "go_connection option \<Rightarrow> conn_input \<Rightarrow> go_connection" where
  "merge_connection ex inp =
     \<lparr>gc_id = in_id inp, gc_kind = keep_str (in_kind inp) ex gc_kind,
      gc_cluster = keep_str (in_cluster inp) ex gc_cluster,
      gc_display_name = keep_str (in_display_name inp) ex gc_display_name,
      gc_region = keep_str (in_region inp) ex gc_region,
      gc_environment = keep_str (in_environment inp) ex gc_environment,
      gc_labels = (case in_labels inp of Some l \<Rightarrow> Some l | None \<Rightarrow> Option.bind ex gc_labels),
      gc_url = keep_str (in_url inp) ex gc_url,
      gc_token = (case in_token inp of Some tk \<Rightarrow> tk
                  | None \<Rightarrow> (case ex of Some e \<Rightarrow> gc_token e | None \<Rightarrow> [])),
      gc_enabled = (case in_enabled inp of Some b \<Rightarrow> b
                  | None \<Rightarrow> (case ex of Some e \<Rightarrow> gc_enabled e | None \<Rightarrow> True))\<rparr>"

definition handleUpsertConnection ::
  "(string \<Rightarrow> (string \<times> string) option) \<Rightarrow> 'r virtual_config \<Rightarrow> json \<Rightarrow> 'r registry_store
     \<Rightarrow> upsert_error + 'r registry_store" where
  "handleUpsertConnection parse fresh j st = (case decode_input j of
     None \<Rightarrow> Inl BadJson
   | Some inp \<Rightarrow>
       let existing = find (\<lambda>ex. gc_id ex = in_id inp) (list_connections st) in
       upsert_connection parse fresh (merge_connection existing inp) st)"

text \<open>What the list shows of a row, as the console reads it; the token stays behind.\<close>

definition list_view :: "go_connection \<Rightarrow> indexer_connection" where
  "list_view c = \<lparr>ic_id = gc_id c, ic_kind = Some (kind_of_text (KindOrDefault c)), ic_cluster = gc_cluster c,
     ic_display_name = some_text (gc_display_name c), ic_region = some_text (gc_region c),
     ic_environment = some_text (gc_environment c),
     ic_labels = (case gc_labels c of Some l \<Rightarrow> (if l = [] then None else Some l) | None \<Rightarrow> None),
     ic_url = gc_url c, ic_has_token = (gc_token c \<noteq> []), ic_enabled = gc_enabled c\<rparr>"

definition handleListConnections :: "'r registry_store \<Rightarrow> indexer_connection list" where
  "handleListConnections st = map list_view (list_connections st)"

section \<open>The console's messages as the gateway reads them\<close>

lemma kind_text_simps [simp]:
  "kind_text k \<noteq> []" "kind_text Backend = ''backend''" "kind_text Virtual = ''virtual''"
  "kind_of_text ''backend'' = Backend" "kind_of_text ''virtual'' = Virtual" "kind_of_text (kind_text k) = k"
  by (cases k; simp add: kind_text_def kind_of_text_def)+

definition console_input :: "connection_body \<Rightarrow> conn_input" where
  "console_input b = \<lparr>in_id = cb_id b, in_kind = kind_text (cb_kind b), in_cluster = cb_cluster b,
     in_display_name = nullish (cb_display_name b) [], in_region = [], in_environment = [], in_labels = None,
     in_url = nullish (cb_url b) [], in_token = cb_token b, in_enabled = Some (cb_enabled b)\<rparr>"

lemma go_ptr_simps [simp]:
  "go_ptr go_str (map_option JStr v) = Some v" "go_ptr go_bool (Some (JBool b)) = Some (Some b)"
  by (cases v) (simp_all add: go_ptr_def go_str_def go_bool_def)

lemma go_absent [simp]: "go_str None = Some []" "go_labels None = Some None" "go_ptr r None = Some None"
  by (simp_all add: go_str_def go_labels_def go_ptr_def)

lemma body_json_props:
  "get_prop (body_json b) ''id'' = Some (JStr (cb_id b))"
  "get_prop (body_json b) ''kind'' = Some (JStr (kind_text (cb_kind b)))"
  "get_prop (body_json b) ''cluster'' = Some (JStr (cb_cluster b))"
  "get_prop (body_json b) ''enabled'' = Some (JBool (cb_enabled b))"
  "get_prop (body_json b) ''display_name'' = map_option JStr (cb_display_name b)"
  "get_prop (body_json b) ''url'' = map_option JStr (cb_url b)"
  "get_prop (body_json b) ''token'' = map_option JStr (cb_token b)"
  "get_prop (body_json b) ''region'' = None" "get_prop (body_json b) ''environment'' = None"
  "get_prop (body_json b) ''labels'' = None"
  unfolding body_json_def get_prop.simps map_of_append
  by (simp_all add: map_add_def map_of_opt_field split: option.splits)

lemma toggle_json_props:
  "get_prop (toggle_json b) ''id'' = Some (JStr (cb_id b))"
  "get_prop (toggle_json b) ''kind'' = Some (JStr (kind_text (cb_kind b)))"
  "get_prop (toggle_json b) ''cluster'' = Some (JStr (cb_cluster b))"
  "get_prop (toggle_json b) ''enabled'' = Some (JBool (cb_enabled b))"
  "get_prop (toggle_json b) ''display_name'' = map_option JStr (cb_display_name b)"
  "get_prop (toggle_json b) ''url'' = map_option JStr (cb_url b)"
  "get_prop (toggle_json b) ''token'' = None" "get_prop (toggle_json b) ''region'' = None"
  "get_prop (toggle_json b) ''environment'' = None" "get_prop (toggle_json b) ''labels'' = None"
  unfolding toggle_json_def get_prop.simps map_of_append
  by (simp_all add: map_add_def map_of_opt_field split: option.splits)

lemma decode_body: "decode_input (body_json b) = Some (console_input b)"
  unfolding decode_input_def body_json_props by (simp add: console_input_def)

lemma decode_toggle: "cb_token b = None \<Longrightarrow> decode_input (toggle_json b) = Some (console_input b)"
  unfolding decode_input_def toggle_json_props by (simp add: console_input_def)

definition row_ok :: "go_connection \<Rightarrow> bool" where
  "row_ok c \<longleftrightarrow> normalizeConnection c = c \<and> (gc_kind c = ''backend'' \<or> gc_kind c = ''virtual'')"

lemma normalize_fields:
  "gc_kind (normalizeConnection c) = (if gc_kind c = [] then ''backend'' else gc_kind c)"
  "gc_url (normalizeConnection c) = (if gc_kind c = ''virtual'' then [] else gc_url c)"
  "gc_token (normalizeConnection c) = (if gc_kind c = ''virtual'' then [] else gc_token c)"
  by (simp_all add: normalizeConnection_def Let_def)

lemma row_ok_url: "row_ok c \<Longrightarrow> gc_kind c = ''virtual'' \<Longrightarrow> gc_url c = [] \<and> gc_token c = []"
  unfolding row_ok_def by (metis normalize_fields(2,3))

lemma row_ok_kind:
  assumes "row_ok c"
  shows "kind_text (kind_of_text (KindOrDefault c)) = gc_kind c" "gc_kind c \<noteq> []"
    "kind_of_text (KindOrDefault c) = Virtual \<longleftrightarrow> gc_kind c = ''virtual''"
  using assms by (auto simp: row_ok_def KindOrDefault_def)

text \<open>What a toggle and a save of an edit amount to on a row.\<close>

definition flipped :: "go_connection \<Rightarrow> go_connection" where
  "flipped c = c\<lparr>gc_enabled := \<not> gc_enabled c\<rparr>"

definition or_keep :: "string \<Rightarrow> string \<Rightarrow> string" where
  "or_keep v old = (if trim v = [] then old else trim v)"

definition edited :: "connection_draft \<Rightarrow> go_connection \<Rightarrow> go_connection" where
  "edited f c =
     (let c' = c\<lparr>gc_cluster := trim (dr_cluster f), gc_enabled := dr_enabled f\<rparr> in
      if gc_kind c = ''virtual'' then c'\<lparr>gc_display_name := or_keep (dr_display_name f) (gc_display_name c)\<rparr>
      else c'\<lparr>gc_url := trim (dr_url f), gc_token := or_keep (dr_token f) (gc_token c)\<rparr>)"

lemma merge_toggle:
  assumes "row_ok c"
  shows "merge_connection (Some c) (console_input (toggle_body (list_view c))) = flipped c"
proof -
  have url: "keep_str (if gc_kind c = ''virtual'' then [] else gc_url c) (Some c) gc_url = gc_url c"
    using row_ok_url [OF assms] by (simp add: keep_str_def)
  show ?thesis
    using url
    by (intro go_connection.equality)
      (simp_all add: merge_connection_def console_input_def toggle_body_def list_view_def flipped_def
        keep_str_def row_ok_kind [OF assms])
qed

lemma merge_edit:
  assumes "row_ok c" "dr_id f = gc_id c" "trim (gc_id c) = gc_id c" "dr_kind f = kind_of_text (KindOrDefault c)"
    and "\<not> submit_disabled f False"
  shows "merge_connection (Some c) (console_input (submit_body f)) = edited f c"
proof -
  have kind: "dr_kind f = Virtual \<longleftrightarrow> gc_kind c = ''virtual''" "kind_text (dr_kind f) = gc_kind c"
    using row_ok_kind [OF assms(1)] assms(4) by simp_all
  have ok: "trim (dr_cluster f) \<noteq> []" "dr_kind f \<noteq> Virtual \<Longrightarrow> trim (dr_url f) \<noteq> []"
    using assms(5) by (auto simp: submit_disabled_def intro: indexer_kind.exhaust)
  show ?thesis
  proof (cases "gc_kind c = ''virtual''")
    case True
    then show ?thesis
      using ok(1) kind row_ok_url [OF assms(1) True] assms(2,3)
      by (intro go_connection.equality)
        (simp_all add: merge_connection_def console_input_def submit_body_def edited_def keep_str_def or_keep_def
          some_text_def)
  next
    case False
    then show ?thesis
      using ok kind assms(2,3) row_ok_kind(2) [OF assms(1)]
      by (intro go_connection.equality)
        (simp_all add: merge_connection_def console_input_def submit_body_def edited_def keep_str_def or_keep_def
          some_text_def)
  qed
qed

lemma normalize_edits:
  assumes "row_ok c"
  shows "normalizeConnection (flipped c) = flipped c" "normalizeConnection (edited f c) = edited f c"
proof -
  have kind: "gc_kind c \<noteq> []" using row_ok_kind [OF assms] by simp
  show "normalizeConnection (flipped c) = flipped c"
    using kind row_ok_url [OF assms]
    by (cases "gc_kind c = ''virtual''") (simp_all add: normalizeConnection_def flipped_def)
  show "normalizeConnection (edited f c) = edited f c"
    using kind row_ok_url [OF assms]
    by (cases "gc_kind c = ''virtual''") (simp_all add: normalizeConnection_def edited_def)
qed

section \<open>What the panel relies on\<close>

text \<open>
  The contract: the store is a map from ids to rows that are normalized and accepted; a post
  that is understood and accepted writes the merged row under its id and nothing else, and
  one that is not accepted is refused.
\<close>

locale connection_store =
  fixes post :: "json \<Rightarrow> 's \<Rightarrow> upsert_error + 's"
    and look :: "'s \<Rightarrow> string \<Rightarrow> go_connection option"
    and good :: "'s \<Rightarrow> bool"
    and accepts :: "go_connection \<Rightarrow> bool"
  assumes accepted: "good s \<Longrightarrow> decode_input j = Some inp \<Longrightarrow>
      c = normalizeConnection (merge_connection (look s (in_id inp)) inp) \<Longrightarrow> accepts c \<Longrightarrow>
      \<exists>s'. post j s = Inr s' \<and> good s' \<and> look s' = (look s)(gc_id c \<mapsto> c)"
    and refused: "good s \<Longrightarrow> decode_input j = Some inp \<Longrightarrow>
      \<not> accepts (normalizeConnection (merge_connection (look s (in_id inp)) inp)) \<Longrightarrow> \<exists>err. post j s = Inl err"
    and row: "good s \<Longrightarrow> look s k = Some c \<Longrightarrow>
      gc_id c = k \<and> normalizeConnection c = c \<and> accepts c"
    and switched: "accepts (c\<lparr>gc_enabled := b\<rparr>) \<longleftrightarrow> accepts c"
    and kinds: "accepts c \<Longrightarrow> gc_id c \<noteq> [] \<and> (gc_kind c = [] \<or> gc_kind c = ''backend'' \<or> gc_kind c = ''virtual'')"

begin

lemma row_ok: "good s \<Longrightarrow> look s k = Some c \<Longrightarrow> row_ok c \<and> gc_id c = k \<and> accepts c"
proof -
  assume "good s" "look s k = Some c"
  note r = row [OF this]
  then have "gc_kind c \<noteq> []" by (metis list.distinct(1) normalize_fields(1))
  with r kinds [of c] show ?thesis by (auto simp: row_ok_def)
qed

lemma toggle_flips:
  assumes "good s" "look s k = Some c"
  shows "\<exists>s'. post (toggle_json (toggle_body (list_view c))) s = Inr s' \<and> good s' \<and> look s' = (look s)(k \<mapsto> flipped c)"
proof -
  note ok = row_ok [OF assms]
  have token: "cb_token (toggle_body (list_view c)) = None" by (simp add: toggle_body_def)
  have cid: "in_id (console_input (toggle_body (list_view c))) = k"
    using ok by (simp add: console_input_def toggle_body_def list_view_def)
  have "flipped c = normalizeConnection (merge_connection
      (look s (in_id (console_input (toggle_body (list_view c))))) (console_input (toggle_body (list_view c))))"
    using ok assms(2) by (simp add: cid merge_toggle normalize_edits)
  moreover have "accepts (flipped c)" using ok switched by (simp add: flipped_def)
  moreover have "gc_id (flipped c) = k" using ok by (simp add: flipped_def)
  ultimately show ?thesis using accepted [OF assms(1) decode_toggle [OF token]] by metis
qed

lemma edit_merges:
  assumes "good s" "look s k = Some c" "trim k = k" "dr_id f = k" "dr_kind f = kind_of_text (KindOrDefault c)"
    and "\<not> submit_disabled f False"
  shows "if accepts (edited f c)
    then \<exists>s'. post (body_json (submit_body f)) s = Inr s' \<and> good s' \<and> look s' = (look s)(k \<mapsto> edited f c)
    else \<exists>err. post (body_json (submit_body f)) s = Inl err"
proof -
  note ok = row_ok [OF assms(1,2)]
  have cid: "in_id (console_input (submit_body f)) = k"
    using assms(3,4) by (simp add: console_input_def submit_body_def Let_def)
  have merged: "normalizeConnection (merge_connection (look s (in_id (console_input (submit_body f))))
      (console_input (submit_body f))) = edited f c"
    using ok assms by (simp add: cid merge_edit normalize_edits)
  have "gc_id (edited f c) = k" using ok by (simp add: edited_def Let_def)
  with accepted [OF assms(1) decode_body [of "submit_body f"]] refused [OF assms(1) decode_body [of "submit_body f"]]
  show ?thesis unfolding merged by auto
qed

lemma toggle_twice:
  assumes "good s" "look s k = Some c" "post (toggle_json (toggle_body (list_view c))) s = Inr s1"
    and "post (toggle_json (toggle_body (list_view (flipped c)))) s1 = Inr s2"
  shows "look s2 = look s"
proof -
  have one: "good s1" "look s1 = (look s)(k \<mapsto> flipped c)" using toggle_flips [OF assms(1,2)] assms(3) by auto
  then have "look s1 k = Some (flipped c)" by simp
  from toggle_flips [OF one(1) this] assms(4) one(2)
  have "look s2 = (look s)(k \<mapsto> flipped (flipped c))" by auto
  also have "flipped (flipped c) = c" by (simp add: flipped_def)
  finally show ?thesis using assms(2) by (simp add: fun_upd_idem)
qed

end

section \<open>The gateway's store keeps the contract\<close>

definition registry_lookup :: "'r registry_store \<Rightarrow> string \<Rightarrow> go_connection option" where
  "registry_lookup st = map_of (rs_conns st)"

definition registry_good :: "(string \<Rightarrow> (string \<times> string) option) \<Rightarrow> 'r registry_store \<Rightarrow> bool" where
  "registry_good parse st \<longleftrightarrow> distinct (map fst (rs_conns st)) \<and>
     (\<forall>(k, c) \<in> set (rs_conns st). gc_id c = k \<and> normalizeConnection c = c \<and> validateConnection parse c = None)"

lemma find_row:
  assumes "registry_good parse st"
  shows "find (\<lambda>ex. gc_id ex = k) (list_connections st) = registry_lookup st k"
proof -
  have rows: "set (list_connections st) = snd ` set (rs_conns st)" by (simp add: list_connections_def)
  have keyed: "gc_id c = j" if "(j, c) \<in> set (rs_conns st)" for j c
    using assms that unfolding registry_good_def by blast
  have own: "(gc_id c, c) \<in> set (rs_conns st)" if "c \<in> set (list_connections st)" for c
  proof -
    from that rows obtain j where "(j, c) \<in> set (rs_conns st)" by auto
    with keyed show ?thesis by metis
  qed
  have listed: "c \<in> set (list_connections st) \<and> gc_id c = j" if "(j, c) \<in> set (rs_conns st)" for j c
    unfolding rows using that keyed by (metis image_eqI snd_conv)
  have dist: "distinct (map fst (rs_conns st))" using assms by (simp add: registry_good_def)
  show ?thesis
  proof (cases "find (\<lambda>ex. gc_id ex = k) (list_connections st)")
    case None
    then have "\<forall>c \<in> set (list_connections st). gc_id c \<noteq> k" by (simp add: find_None_iff)
    then have "k \<notin> fst ` set (rs_conns st)" using listed by (metis imageE prod.collapse)
    then have "registry_lookup st k = None" by (simp add: registry_lookup_def map_of_eq_None_iff)
    with None show ?thesis by simp
  next
    case (Some d)
    then have "d \<in> set (list_connections st)" "gc_id d = k" by (auto simp: find_Some_iff)
    with own have "(k, d) \<in> set (rs_conns st)" by auto
    with dist have "registry_lookup st k = Some d" by (simp add: registry_lookup_def map_of_is_SomeI)
    with Some show ?thesis by simp
  qed
qed

lemma upsert_refuses:
  "validateConnection parse (normalizeConnection c0) \<noteq> None \<Longrightarrow> \<exists>e. upsert_connection parse fresh c0 st = Inl e"
  by (auto simp: upsert_connection_def)

lemma normalizeConnection_idem: "normalizeConnection (normalizeConnection c) = normalizeConnection c"
  by (simp add: normalizeConnection_def Let_def)

lemma upsert_writes:
  assumes "registry_good parse st" "c = normalizeConnection c0" "validateConnection parse c = None"
  shows "\<exists>st'. upsert_connection parse fresh c0 st = Inr st' \<and> registry_good parse st'
    \<and> registry_lookup st' = (registry_lookup st)(gc_id c \<mapsto> c)"
proof -
  have "registry_good parse st'" if "rs_conns st' = obj_set (gc_id c) c (rs_conns st)" for st' :: "'a registry_store"
    using assms that set_obj_set [of "gc_id c" c "rs_conns st"] normalizeConnection_idem
    by (fastforce simp: registry_good_def distinct_obj_set)
  moreover have "\<exists>st'. upsert_connection parse fresh c0 st = Inr st' \<and> rs_conns st' = obj_set (gc_id c) c (rs_conns st)"
    using assms(3) by (cases "KindOrDefault c = ''virtual''") (simp_all add: upsert_connection_def Let_def assms(2))
  ultimately show ?thesis by (auto simp: registry_lookup_def)
qed

interpretation gw: connection_store "handleUpsertConnection parse fresh" registry_lookup "registry_good parse"
    "\<lambda>c. validateConnection parse c = None" for parse fresh
proof unfold_locales
  fix s :: "'a registry_store" and j inp c
  assume s: "registry_good parse s" "decode_input j = Some inp"
    "c = normalizeConnection (merge_connection (registry_lookup s (in_id inp)) inp)" "validateConnection parse c = None"
  from upsert_writes [OF s(1,3,4)] find_row [OF s(1)] s(2)
  show "\<exists>s'. handleUpsertConnection parse fresh j s = Inr s' \<and> registry_good parse s'
      \<and> registry_lookup s' = (registry_lookup s)(gc_id c \<mapsto> c)"
    by (simp add: handleUpsertConnection_def)
next
  fix s :: "'a registry_store" and j inp
  assume "registry_good parse s" "decode_input j = Some inp"
    "validateConnection parse (normalizeConnection (merge_connection (registry_lookup s (in_id inp)) inp)) \<noteq> None"
  then show "\<exists>err. handleUpsertConnection parse fresh j s = Inl err"
    unfolding handleUpsertConnection_def by (simp only: find_row option.case Let_def) (rule upsert_refuses)
next
  fix s :: "'a registry_store" and k c
  assume "registry_good parse s" "registry_lookup s k = Some c"
  then show "gc_id c = k \<and> normalizeConnection c = c \<and> validateConnection parse c = None"
    by (auto simp: registry_good_def registry_lookup_def dest: map_of_SomeD)
next
  fix c b
  show "validateConnection parse (c\<lparr>gc_enabled := b\<rparr>) = None \<longleftrightarrow> validateConnection parse c = None"
    by (simp add: validateConnection_def KindOrDefault_def)
next
  fix c
  assume "validateConnection parse c = None"
  then show "gc_id c \<noteq> [] \<and> (gc_kind c = [] \<or> gc_kind c = ''backend'' \<or> gc_kind c = ''virtual'')"
    by (auto simp: validateConnection_def KindOrDefault_def split: if_splits)
qed

end
