(* ===== verification/Registry_Runs.thy ===== *)
theory Registry_Runs
  imports Registry
begin

text \<open>
  The connections panel and the gateway's registry together: what the user's two edits of a
  listed row do to the registry, as updates of a map from ids to rows.
\<close>

lemma listed_row:
  assumes "registry_good parse st" "r \<in> set (handleListConnections st)"
  obtains c where "registry_lookup st (ic_id r) = Some c" "r = list_view c" "row_ok c"
proof -
  obtain c where c: "c \<in> set (list_connections st)" "r = list_view c"
    using assms(2) by (auto simp: handleListConnections_def)
  then have "find (\<lambda>ex. gc_id ex = ic_id r) (list_connections st) \<noteq> None"
    by (auto simp: find_None_iff list_view_def)
  then obtain d where d: "registry_lookup st (ic_id r) = Some d" by (auto simp: find_row [OF assms(1)])
  obtain j where j: "(j, c) \<in> set (rs_conns st)" using c(1) by (auto simp: list_connections_def)
  have "gc_id c = j" using assms(1) j unfolding registry_good_def by blast
  with j c(2) have "registry_lookup st (ic_id r) = Some c"
    using assms(1) by (simp add: registry_good_def registry_lookup_def map_of_is_SomeI list_view_def)
  with c(2) gw.row_ok [OF assms(1) this] show ?thesis using that by blast
qed

text \<open>
  C10: the switch of a listed row refines the update of one row of the registry: whatever the row holds,
  also what the list does not show (the token) or the request does not say (region,
  environment, labels), the gateway accepts the request and the registry differs afterwards
  in just that row's enabled flag; switching twice gives the registry back.
\<close>

theorem toggle_refines_registry:
  assumes "registry_good parse st" "r \<in> set (handleListConnections st)"
  shows "\<exists>c st'. registry_lookup st (ic_id r) = Some c \<and> r = list_view c
    \<and> handleUpsertConnection parse fresh (toggle_json (toggle_body r)) st = Inr st'
    \<and> registry_good parse st'
    \<and> registry_lookup st' = (registry_lookup st)(ic_id r \<mapsto> c\<lparr>gc_enabled := \<not> gc_enabled c\<rparr>)
    \<and> (\<exists>st''. handleUpsertConnection parse fresh (toggle_json (toggle_body (list_view (flipped c)))) st' = Inr st''
         \<and> registry_lookup st'' = registry_lookup st)"
proof -
  obtain c where c: "registry_lookup st (ic_id r) = Some c" "r = list_view c"
    using listed_row [OF assms] by blast
  obtain st' where st': "handleUpsertConnection parse fresh (toggle_json (toggle_body r)) st = Inr st'"
    "registry_good parse st'" "registry_lookup st' = (registry_lookup st)(ic_id r \<mapsto> flipped c)"
    using gw.toggle_flips [OF assms(1) c(1)] unfolding c(2) by blast
  then have "registry_lookup st' (ic_id r) = Some (flipped c)" by simp
  from gw.toggle_flips [OF st'(2) this] obtain st'' where
    st'': "handleUpsertConnection parse fresh (toggle_json (toggle_body (list_view (flipped c)))) st' = Inr st''"
    by blast
  have "registry_lookup st'' = registry_lookup st"
    using gw.toggle_twice [OF assms(1) c(1) _ st''] st'(1) unfolding c(2) by blast
  with c st' st'' show ?thesis unfolding flipped_def by blast
qed

definition sample_row :: go_connection where
  "sample_row = \<lparr>gc_id = ''v1'', gc_kind = ''virtual'', gc_cluster = ''hkg'', gc_display_name = ''Hong Kong'',
     gc_region = ''hk'', gc_environment = [], gc_labels = None, gc_url = [], gc_token = [], gc_enabled = True\<rparr>"

definition sample_registry :: "unit registry_store" where
  "sample_registry = \<lparr>rs_conns = [(''v1'', sample_row)], rs_virtual = []\<rparr>"

definition no_config :: "unit virtual_config" where
  "no_config = \<lparr>vc_backend_id = [], vc_version = 0, vc_clusters = [], vc_rest = ()\<rparr>"

lemma sample_good: "registry_good parse sample_registry"
  by (simp add: registry_good_def sample_registry_def sample_row_def normalizeConnection_def
      validateConnection_def KindOrDefault_def)

lemma sample_listed: "handleListConnections sample_registry = [list_view sample_row]"
  by (simp add: handleListConnections_def list_connections_def sample_registry_def)

theorem toggle_refines_registry_witness:
  "\<exists>st'. handleUpsertConnection (\<lambda>_. None) no_config (toggle_json (toggle_body (list_view sample_row)))
      sample_registry = Inr st' \<and> map_option gc_enabled (registry_lookup st' ''v1'') = Some False"
proof -
  have "list_view sample_row \<in> set (handleListConnections sample_registry)" by (simp add: sample_listed)
  note t = toggle_refines_registry [OF sample_good this, of "\<lambda>_. None" no_config]
  have "registry_lookup sample_registry ''v1'' = Some sample_row" "ic_id (list_view sample_row) = ''v1''"
    "gc_enabled sample_row" by (simp_all add: registry_lookup_def sample_registry_def list_view_def sample_row_def)
  with t show ?thesis by auto
qed

text \<open>
  C18: saving the edit of a listed row refines the update of that row: the cluster and the
  flag are the form's, an indexer gets the form's address and keeps its token when the token
  field is left blank, and what the form does not show is kept; when the gateway refuses the
  edited row, nothing changes.  A name that is emptied is kept as well, because an absent
  name means just that to the gateway: the form cannot clear the name of a virtual cluster.
\<close>

theorem edit_refines_registry:
  assumes "registry_good parse st" "r \<in> set (handleListConnections st)" "trim (ic_id r) = ic_id r"
    and "dr_id f = ic_id r" "dr_kind f = nullish (ic_kind r) Backend" "\<not> submit_disabled f False"
  shows "\<exists>c c'. registry_lookup st (ic_id r) = Some c
    \<and> gc_cluster c' = trim (dr_cluster f) \<and> gc_enabled c' = dr_enabled f
    \<and> (dr_kind f = Backend \<longrightarrow> c' = c\<lparr>gc_cluster := trim (dr_cluster f), gc_enabled := dr_enabled f,
         gc_url := trim (dr_url f), gc_token := (if trim (dr_token f) = [] then gc_token c else trim (dr_token f))\<rparr>)
    \<and> (dr_kind f = Virtual \<longrightarrow> c' = c\<lparr>gc_cluster := trim (dr_cluster f), gc_enabled := dr_enabled f,
         gc_display_name := (if trim (dr_display_name f) = [] then gc_display_name c else trim (dr_display_name f))\<rparr>)
    \<and> (if validateConnection parse c' = None
       then \<exists>st'. handleUpsertConnection parse fresh (body_json (submit_body f)) st = Inr st'
              \<and> registry_good parse st' \<and> registry_lookup st' = (registry_lookup st)(ic_id r \<mapsto> c')
       else \<exists>err. handleUpsertConnection parse fresh (body_json (submit_body f)) st = Inl err)"
proof -
  obtain c where c: "registry_lookup st (ic_id r) = Some c" "r = list_view c" "row_ok c"
    using listed_row [OF assms(1,2)] by blast
  have kind: "dr_kind f = kind_of_text (KindOrDefault c)" using assms(5) c(2) by (simp add: list_view_def)
  have saved: "if validateConnection parse (edited f c) = None
       then \<exists>st'. handleUpsertConnection parse fresh (body_json (submit_body f)) st = Inr st'
              \<and> registry_good parse st' \<and> registry_lookup st' = (registry_lookup st)(ic_id r \<mapsto> edited f c)
       else \<exists>err. handleUpsertConnection parse fresh (body_json (submit_body f)) st = Inl err"
    by (rule gw.edit_merges [OF assms(1) c(1) assms(3,4) kind assms(6)])
  have virtual: "dr_kind f = Virtual \<longleftrightarrow> gc_kind c = ''virtual''" using kind row_ok_kind(3) [OF c(3)] by simp
  have row: "gc_cluster (edited f c) = trim (dr_cluster f)" "gc_enabled (edited f c) = dr_enabled f"
    "gc_kind c \<noteq> ''virtual'' \<Longrightarrow> edited f c = c\<lparr>gc_cluster := trim (dr_cluster f), gc_enabled := dr_enabled f,
       gc_url := trim (dr_url f), gc_token := (if trim (dr_token f) = [] then gc_token c else trim (dr_token f))\<rparr>"
    "gc_kind c = ''virtual'' \<Longrightarrow> edited f c = c\<lparr>gc_cluster := trim (dr_cluster f), gc_enabled := dr_enabled f,
       gc_display_name := (if trim (dr_display_name f) = [] then gc_display_name c else trim (dr_display_name f))\<rparr>"
    by (simp_all add: edited_def Let_def or_keep_def)
  have "dr_kind f = Backend \<longleftrightarrow> gc_kind c \<noteq> ''virtual''"
    using virtual by (cases "dr_kind f") auto
  with c(1) saved row virtual show ?thesis by (intro exI [of _ c] exI [of _ "edited f c"]) simp
qed

theorem edit_refines_registry_witness:
  "\<exists>st'. handleUpsertConnection (\<lambda>_. None) no_config
       (body_json (submit_body ((draft_of_connection (list_view sample_row))\<lparr>dr_display_name := []\<rparr>))) sample_registry
       = Inr st'
     \<and> map_option gc_display_name (registry_lookup st' ''v1'') = Some ''Hong Kong''"
proof -
  let ?r = "list_view sample_row"
  let ?f = "(draft_of_connection ?r)\<lparr>dr_display_name := []\<rparr>"
  have trims: "trim ''v1'' = ''v1''" "trim ''hkg'' = ''hkg''" by code_simp+
  have r: "?r \<in> set (handleListConnections sample_registry)" by (simp add: sample_listed)
  have f: "trim (ic_id ?r) = ic_id ?r" "dr_id ?f = ic_id ?r" "dr_kind ?f = nullish (ic_kind ?r) Backend"
    "\<not> submit_disabled ?f False" "dr_kind ?f = Virtual" "trim (dr_cluster ?f) = ''hkg''" "trim (dr_display_name ?f) = []"
    using trims by (simp_all add: list_view_def draft_of_connection_def sample_row_def submit_disabled_def KindOrDefault_def)
  from edit_refines_registry [OF sample_good r f(1-4), of "\<lambda>_. None" no_config] obtain c c' where
    c: "registry_lookup sample_registry (ic_id ?r) = Some c"
    and c': "c' = c\<lparr>gc_cluster := ''hkg'', gc_enabled := dr_enabled ?f, gc_display_name := gc_display_name c\<rparr>"
    and saved: "if validateConnection (\<lambda>_. None) c' = None
       then \<exists>st'. handleUpsertConnection (\<lambda>_. None) no_config (body_json (submit_body ?f)) sample_registry = Inr st'
              \<and> registry_good (\<lambda>_. None) st' \<and> registry_lookup st' = (registry_lookup sample_registry)(ic_id ?r \<mapsto> c')
       else \<exists>err. handleUpsertConnection (\<lambda>_. None) no_config (body_json (submit_body ?f)) sample_registry = Inl err"
    unfolding f(6) using f(5,7) by auto
  have id: "ic_id ?r = ''v1''" by (simp add: list_view_def sample_row_def)
  then have "c = sample_row" using c by (simp add: registry_lookup_def sample_registry_def)
  then have "validateConnection (\<lambda>_. None) c' = None" "gc_display_name c' = ''Hong Kong''"
    by (simp_all add: c' sample_row_def validateConnection_def KindOrDefault_def)
  with saved id show ?thesis by auto
qed

end
