(* ===== verification/Simulator.thy ===== *)
theory Simulator
  imports Policy_Page
begin

text \<open>
  The simulator of \<open>web/app/simulator/page.tsx\<close>: the request it builds for each protocol, the
  run that tokenizes, looks the tokens up and asks for a decision, one call after the other,
  while the user may go on editing, and the cards that show the answers.  A call is built
  from the state at the time it is sent, but whether the model is a local one is what it was
  when the run was started.
\<close>

section \<open>State\<close>

record protocol =
  pl_id :: string
  pl_labelKey :: string
  pl_path :: string

definition PROTOCOLS :: "protocol list" where
  "PROTOCOLS =
     [\<lparr>pl_id = ''openai.chat'', pl_labelKey = ''protocol.openai.chat'', pl_path = ''/v1/chat/completions''\<rparr>,
      \<lparr>pl_id = ''openai.responses'', pl_labelKey = ''protocol.openai.responses'', pl_path = ''/v1/responses''\<rparr>,
      \<lparr>pl_id = ''anthropic.messages'', pl_labelKey = ''protocol.anthropic.messages'', pl_path = ''/v1/messages''\<rparr>]"

text \<open>Where a run is: the flag says whether the model was local when it was started.\<close>

datatype sim_phase = SimIdle | TokenizeOnly | RunTokenize bool | RunQuery | RunJudge

record sim_state =
  sm_model :: string
  sm_proto :: string
  sm_text :: string
  sm_tok :: "tokenize_preview option"
  sm_hits :: "query_prefix_response option"
  sm_route :: "route_response option"
  sm_err :: string
  sm_phase :: sim_phase

definition sim_init :: sim_state where
  "sim_init = \<lparr>sm_model = ''qwen3.5-4b'', sm_proto = ''openai.chat'',
     sm_text = concat (replicate 20 ''In a distant kingdom, the council debated trade routes. ''),
     sm_tok = None, sm_hits = None, sm_route = None, sm_err = [], sm_phase = SimIdle\<rparr>"

record sim_ctx =
  sx_cluster :: string
  sx_multi :: bool
  sx_profiles :: "model_profile list query"
  sx_base :: string
  sx_t :: tr

definition needsCluster :: "sim_ctx \<Rightarrow> bool" where
  "needsCluster cx \<longleftrightarrow> sx_multi cx \<and> sx_cluster cx = ''all''"

definition sim_profileIDs :: "sim_ctx \<Rightarrow> string list" where
  "sim_profileIDs cx = profileIDs (q_list (sx_profiles cx))"

definition isLocalModel :: "sim_ctx \<Rightarrow> sim_state \<Rightarrow> bool" where
  "isLocalModel cx s =
     (case find (\<lambda>p. mp_model_id p = sm_model s) (q_list (sx_profiles cx)) of
        Some p \<Rightarrow> mp_tokenizer_mode p = Some ''local'' | None \<Rightarrow> False)"

text \<open>The effect: a model the cluster does not have gives way to its first, and the results go.\<close>

definition sim_effect :: "string list \<Rightarrow> sim_state \<Rightarrow> sim_state" where
  "sim_effect ids s =
     (case ids of [] \<Rightarrow> s
      | i # _ \<Rightarrow> if List.member ids (sm_model s) then s
          else s\<lparr>sm_model := i, sm_tok := None, sm_hits := None, sm_route := None, sm_err := []\<rparr>)"

interpretation sim: settling "sim_effect ids" 1 for ids
  by unfold_locales (auto simp: sim_effect_def split: list.splits)

section \<open>Requests\<close>

definition user_message :: "string \<Rightarrow> json" where
  "user_message content = JArr [JObj [(''role'', JStr ''user''), (''content'', JStr content)]]"

definition buildRaw :: "sim_state \<Rightarrow> json" where
  "buildRaw s =
     (if sm_proto s = ''anthropic.messages''
      then JObj [(''model'', JStr (sm_model s)), (''max_tokens'', JNum (of_int_num 16)),
                 (''messages'', user_message (sm_text s))]
      else if sm_proto s = ''openai.responses''
      then JObj [(''model'', JStr (sm_model s)), (''input'', JStr (sm_text s))]
      else JObj [(''model'', JStr (sm_model s)), (''messages'', user_message (sm_text s))])"

definition tokenize_call :: "sim_ctx \<Rightarrow> sim_state \<Rightarrow> fetch_call" where
  "tokenize_call cx s = api_post (sx_base cx) (clusterQ ''/tokenize/preview'' (sx_cluster cx))
     (JObj [(''model'', JStr (sm_model s)), (''protocol'', JStr (sm_proto s)), (''raw'', buildRaw s)])"

definition query_call :: "sim_ctx \<Rightarrow> sim_state \<Rightarrow> int list \<Rightarrow> fetch_call" where
  "query_call cx s tokens = api_post (sx_base cx) (clusterQ ''/query-prefix'' (sx_cluster cx))
     (JObj [(''model'', JStr (sm_model s)), (''token_ids'', JArr (map (\<lambda>i. JNum (of_int_num i)) tokens))])"

definition proto_path :: "string \<Rightarrow> string" where
  "proto_path proto = (case find (\<lambda>p. pl_id p = proto) PROTOCOLS of Some p \<Rightarrow> pl_path p | None \<Rightarrow> [])"

definition judge_call :: "sim_ctx \<Rightarrow> sim_state \<Rightarrow> fetch_call" where
  "judge_call cx s = req_call (sx_base cx) (clusterQ (proto_path (sm_proto s)) (sx_cluster cx))
     (Some \<lparr>ri_method = Some ''POST'', ri_body = Some (Text (stringify (buildRaw s))), ri_headers = None\<rparr>)"

section \<open>Events\<close>

datatype sim_event = SetSimModel string | SetProto string | SetText string | RunAll | TokenizeNow

definition sim_running :: "sim_state \<Rightarrow> bool" where
  "sim_running s \<longleftrightarrow> sm_phase s \<noteq> SimIdle"

fun sim_handle :: "sim_ctx \<Rightarrow> sim_event \<Rightarrow> sim_state \<Rightarrow> sim_state \<times> fetch_call list" where
  "sim_handle cx (SetSimModel v) s = (sim_effect (sim_profileIDs cx) (s\<lparr>sm_model := v\<rparr>), [])"
| "sim_handle cx (SetProto v) s = (s\<lparr>sm_proto := v\<rparr>, [])"
| "sim_handle cx (SetText v) s = (s\<lparr>sm_text := v\<rparr>, [])"
| "sim_handle cx TokenizeNow s = (s\<lparr>sm_phase := TokenizeOnly\<rparr>, [tokenize_call cx s])"
| "sim_handle cx RunAll s =
     (if needsCluster cx then (s\<lparr>sm_err := sx_t cx ''sim.needs_cluster'' []\<rparr>, [])
      else (s\<lparr>sm_err := [], sm_phase := RunTokenize (isLocalModel cx s)\<rparr>, [tokenize_call cx s]))"

text \<open>The three kinds of answers; \<open>Inl\<close> is the message of the error.\<close>

datatype sim_answer =
    Tokenized "string + tokenize_preview"
  | Queried "string + query_prefix_response"
  | Judged "string + route_response"

definition to_judge :: "sim_ctx \<Rightarrow> sim_state \<Rightarrow> sim_state \<times> fetch_call list" where
  "to_judge cx s = (s\<lparr>sm_phase := RunJudge\<rparr>, [judge_call cx s])"

definition tokenized :: "string + tokenize_preview \<Rightarrow> sim_state \<Rightarrow> sim_state" where
  "tokenized r s = (case r of
     Inr d \<Rightarrow> s\<lparr>sm_tok := Some d, sm_err := []\<rparr> | Inl e \<Rightarrow> s\<lparr>sm_err := e, sm_tok := None\<rparr>)"

definition queried :: "string + query_prefix_response \<Rightarrow> sim_state \<Rightarrow> sim_state" where
  "queried r s = (case r of Inr d \<Rightarrow> s\<lparr>sm_hits := Some d\<rparr> | Inl e \<Rightarrow> s\<lparr>sm_err := e\<rparr>)"

definition judged :: "string + route_response \<Rightarrow> sim_state \<Rightarrow> sim_state" where
  "judged r s = (case r of Inr d \<Rightarrow> s\<lparr>sm_route := Some d, sm_err := []\<rparr> | Inl e \<Rightarrow> s\<lparr>sm_err := e\<rparr>)"

fun sim_answered :: "sim_ctx \<Rightarrow> sim_answer \<Rightarrow> sim_state \<Rightarrow> (sim_state \<times> fetch_call list) option" where
  "sim_answered cx (Tokenized r) s =
     (let s' = tokenized r s in
      case sm_phase s of
        TokenizeOnly \<Rightarrow> Some (s'\<lparr>sm_phase := SimIdle\<rparr>, [])
      | RunTokenize isLocal \<Rightarrow>
          Some (if isLocal then to_judge cx (s'\<lparr>sm_hits := None\<rparr>)
                else case r of
                  Inr tk \<Rightarrow> (s'\<lparr>sm_phase := RunQuery\<rparr>, [query_call cx s' (tp_tokens tk)])
                | Inl _ \<Rightarrow> to_judge cx s')
      | _ \<Rightarrow> None)"
| "sim_answered cx (Queried r) s =
     (if sm_phase s = RunQuery then Some (to_judge cx (queried r s)) else None)"
| "sim_answered cx (Judged r) s =
     (if sm_phase s = RunJudge then Some ((judged r s)\<lparr>sm_phase := SimIdle\<rparr>, []) else None)"

section \<open>The screen\<close>

text \<open>\<open>JSON.stringify(v, null, 2)\<close>.\<close>

fun pretty :: "string \<Rightarrow> json \<Rightarrow> string" where
  "pretty ind (JArr vs) =
     (let nl = [CHR 0x0A]; ind' = ind @ ''  '' in
      if vs = [] then ''[]''
      else ''['' @ nl @ ind' @ join ('','' @ nl @ ind') (map (pretty ind') vs) @ nl @ ind @ '']'')"
| "pretty ind (JObj ps) =
     (let nl = [CHR 0x0A]; ind' = ind @ ''  '' in
      if ps = [] then ''{}''
      else ''{'' @ nl @ ind' @ join ('','' @ nl @ ind') (map (\<lambda>(k, v). quote_string k @ '': '' @ pretty ind' v) ps)
           @ nl @ ind @ ''}'')"
| "pretty ind v = stringify v"

definition route_badge :: "string \<Rightarrow> bool \<Rightarrow> string" where
  "route_badge decision fallback =
     (if decision = ''reject'' then ''destructive'' else if fallback then ''warning'' else ''success'')"

definition decision_border :: "bool \<Rightarrow> bool \<Rightarrow> string" where
  "decision_border reject fallback =
     (if reject then ''border-destructive/40'' else if fallback then ''border-warning/40'' else ''border-success/40'')"

definition route_rule_ids :: "route_config \<Rightarrow> string" where
  "route_rule_ids c =
     (if truthy (rg_matched_rule_id c) then nullish (rg_matched_rule_id c) []
      else nullish (map_option (join ('' '' @ arrow_text @ '' '')) (rg_evaluated_rule_ids c)) [])"

definition DecisionCard :: "tr \<Rightarrow> route_response \<Rightarrow> 'e node" where
  "DecisionCard t r =
     (let reject = (rs_decision r = ''reject''); c = rs_cache r; g = rs_config r in
      Elem ''Card'' [Prop ''className'' (decision_border reject (rs_fallback r))]
        [el ''CardHeader''
           [tx ''CardTitle'' (if reject then t ''sim.dec.reject'' [] else t ''sim.dec.accept'' []),
            tx ''CardDescription'' (rs_reason r),
            badge (route_badge (rs_decision r) (rs_fallback r)) (rs_decision r)],
         el ''CardContent''
           ([el ''div''
               ([el ''span'' [Txt (t ''sim.dec.input'' []), tx ''b'' (int_text (rh_input_tokens c)), Txt (t ''sim.dec.tok'' [])],
                 el ''span'' [Txt (t ''sim.dec.best'' []), tx ''b'' (int_text (rh_best_hit_tokens c)), Txt (t ''sim.dec.tok'' [])],
                 el ''span'' [Txt (t ''sim.dec.ratio'' []), tx ''b'' (percent_fixed 1 (rh_hit_ratio c) @ ''%'')]]
                @ shown (rs_fallback r) [badge ''warning'' (t ''sim.dec.fallback'' [])])]
            @ (case rs_target r of None \<Rightarrow> []
               | Some g \<Rightarrow> [el ''div'' [Txt (t ''sim.dec.target'' []), tx ''span'' (rt_engine_id g)]])
            @ (case rs_error r of None \<Rightarrow> []
               | Some e \<Rightarrow> [tx ''div'' (t ''sim.dec.min''
                   [(''min'', num_to_string (re_min_required_hit_ratio e)), (''got'', percent_fixed 1 (re_hit_ratio e))])])
            @ [tx ''div'' (t ''sim.dec.profile''
                 [(''p'', int_text (rg_model_profile_version g)), (''c'', int_text (rg_config_version g)),
                  (''ids'', route_rule_ids g)])])])"

definition ellipsis_text :: string where
  "ellipsis_text = '' '' @ [CHR 0xE2, CHR 0x80, CHR 0xA6]"

definition tokenize_card :: "tr \<Rightarrow> tokenize_preview \<Rightarrow> 'e node" where
  "tokenize_card t k = el ''Card''
     [tx ''CardTitle'' (t ''sim.tok.title'' []),
      el ''CardContent''
        [tx ''span'' (t ''sim.tok.tokens'' [(''n'', int_text (tp_count k))]),
         tx ''span'' (t ''sim.tok.blocks'' [(''n'', int_text (int (length (tp_request_keys k))))]),
         tx ''span'' (t ''sim.tok.block_size'' [(''n'', int_text (tp_block_size k))]),
         tx ''div'' (t ''sim.tok.namespace'' []), tx ''div'' (tp_namespace k),
         tx ''div'' (t ''sim.tok.req_keys'' []),
         tx ''div'' (join '', '' (map num_to_string (take 8 (tp_request_keys k)))
           @ (if 8 < length (tp_request_keys k) then ellipsis_text else []))]]"

definition hit_entry :: "tr \<Rightarrow> string \<times> instance_hit \<Rightarrow> 'e node" where
  "hit_entry t p = (case p of (iid, h) \<Rightarrow> el ''div''
     [tx ''div'' iid, tx ''span'' (t ''sim.hits.matched'' [(''n'', int_text (ih_longest_matched h))]),
      tx ''span'' (''gpu '' @ int_text (ih_gpu h)), tx ''span'' (''cpu '' @ int_text (ih_cpu h)),
      tx ''span'' (''disk '' @ int_text (ih_disk h))])"

definition hits_card :: "tr \<Rightarrow> query_prefix_response \<Rightarrow> 'e node" where
  "hits_card t h = el ''Card''
     [el ''CardTitle'' [Txt (t ''sim.hits.title'' []),
        badge (if qp_fresh h then ''success'' else ''warning'')
          (if qp_fresh h then t ''common.fresh'' [] else t ''common.stale'' [])],
      el ''CardContent''
        ([tx ''span'' (qp_namespace h), tx ''span'' (t ''sim.tok.block_size'' [(''n'', int_text (qp_block_size h))])]
         @ (if length (qp_instances h) = 0 then [tx ''div'' (t ''sim.hits.empty'' [])]
            else map (hit_entry t) (qp_instances h)))]"

definition request_card :: "sim_ctx \<Rightarrow> sim_state \<Rightarrow> sim_event node" where
  "request_card cx s =
     (let t = sx_t cx; ids = sim_profileIDs cx; off = (needsCluster cx \<or> sim_running s) in
      el ''Card''
        [tx ''CardTitle'' (t ''sim.req.title'' []), tx ''CardDescription'' (t ''sim.req.desc'' []),
         el ''CardContent''
           ([el ''div'' [tx ''Label'' (t ''sim.field.model'' []),
               if 0 < length ids then select False (sm_model s) SetSimModel (map (\<lambda>i. (i, i)) ids)
               else input_el False (sm_model s) SetSimModel],
             el ''div'' [tx ''Label'' (t ''sim.field.protocol'' []),
               select False (sm_proto s) SetProto (map (\<lambda>p. (pl_id p, t (pl_labelKey p) [])) PROTOCOLS)],
             el ''div'' [tx ''Label'' (t ''sim.field.text'' []),
               Elem ''Textarea'' [Prop ''value'' (sm_text s), OnInput SetText] []],
             button off RunAll (if sim_running s then t ''sim.btn.running'' [] else t ''sim.btn.run'' []),
             button off TokenizeNow (t ''sim.btn.tokenize'' [])]
            @ shown (needsCluster cx) [tx ''div'' (t ''sim.needs_cluster'' [])]
            @ shown (sm_err s \<noteq> []) [tx ''div'' (sm_err s)]
            @ [tx ''div'' (t ''sim.raw.desc'' [(''path'', proto_path (sm_proto s))]),
               tx ''pre'' (pretty [] (buildRaw s))])])"

definition opt_card :: "('a \<Rightarrow> 'e node) \<Rightarrow> 'a option \<Rightarrow> 'e node list" where
  "opt_card f v = (case v of None \<Rightarrow> [] | Some x \<Rightarrow> [f x])"

definition SimulatorPage :: "sim_ctx \<Rightarrow> sim_state \<Rightarrow> sim_event node" where
  "SimulatorPage cx s =
     (let t = sx_t cx in el ''div''
       [PageHeader (t ''sim.title'' []) (Some (t ''sim.subtitle'' [])) None,
        request_card cx s,
        el ''div'' (opt_card (DecisionCard t) (sm_route s) @ opt_card (tokenize_card t) (sm_tok s)
          @ opt_card (hits_card t) (sm_hits s))])"

end
