(* ===== verification/Simulator_Runs.thy ===== *)
theory Simulator_Runs
  imports Simulator
begin

text \<open>
  The runs of the simulator: that every run ends, whatever is edited meanwhile, and what a
  failed step leaves on the screen.
\<close>

section \<open>Every run ends\<close>

text \<open>
  A run from its first call on: before each answer the user may have edited (\<open>upd\<close>), and \<open>ans\<close> is
  the answer to the call that is awaited; the result has the calls in their order.
\<close>

fun sim_drive ::
  "sim_ctx \<Rightarrow> (sim_state \<Rightarrow> sim_state) \<Rightarrow> (sim_state \<Rightarrow> sim_answer) \<Rightarrow> nat
     \<Rightarrow> sim_state \<times> fetch_call list \<Rightarrow> sim_state \<times> fetch_call list" where
  "sim_drive cx upd ans 0 (s, calls) = (s, calls)"
| "sim_drive cx upd ans (Suc n) (s, calls) =
     (if sm_phase s = SimIdle then (s, calls)
      else case sim_answered cx (ans (upd s)) (upd s) of
             None \<Rightarrow> (s, calls)
           | Some (s', rest) \<Rightarrow> sim_drive cx upd ans n (s', calls @ rest))"

text \<open>The distance of a phase from the end.\<close>

fun phase_rank :: "sim_phase \<Rightarrow> nat" where
  "phase_rank SimIdle = 0"
| "phase_rank TokenizeOnly = 1"
| "phase_rank RunJudge = 1"
| "phase_rank RunQuery = 2"
| "phase_rank (RunTokenize b) = 3"

lemma answer_phases [simp]:
  "sm_phase (tokenized r1 s) = sm_phase s" "sm_phase (queried r2 s) = sm_phase s" "sm_phase (judged r3 s) = sm_phase s"
  by (simp_all add: tokenized_def queried_def judged_def split: sum.split)

lemma answered_descends:
  "sim_answered cx a s = Some (s', calls) \<Longrightarrow> phase_rank (sm_phase s') < phase_rank (sm_phase s) \<and> length calls \<le> 1"
  by (cases a) (auto simp: to_judge_def Let_def split: sim_phase.splits if_splits sum.splits)

lemma answered_calls:
  "sim_answered cx a s = Some (s', calls) \<Longrightarrow> sm_phase s' \<noteq> SimIdle \<Longrightarrow> length calls = 1"
  by (cases a) (auto simp: to_judge_def Let_def split: sim_phase.splits if_splits sum.splits)

lemma answered_last:
  "sim_answered cx a s = Some (s', calls) \<Longrightarrow> sm_phase s' = SimIdle \<Longrightarrow>
     calls = [] \<and> (sm_phase s = RunJudge \<or> sm_phase s = TokenizeOnly)"
  by (cases a) (auto simp: to_judge_def Let_def split: sim_phase.splits if_splits sum.splits)

lemma drive_idle:
  assumes "\<And>s. sm_phase (upd s) = sm_phase s"
    and "\<And>s. sm_phase s \<noteq> SimIdle \<Longrightarrow> sim_answered cx (ans s) s \<noteq> None"
    and "phase_rank (sm_phase s) \<le> n"
  shows "\<exists>s' rest. sim_drive cx upd ans n (s, calls) = (s', calls @ rest) \<and> sm_phase s' = SimIdle
    \<and> length rest < max 1 (phase_rank (sm_phase s))"
  using assms(3)
proof (induction n arbitrary: s calls)
  case 0
  then have "sm_phase s = SimIdle" by (cases "sm_phase s") auto
  then show ?case by simp
next
  case (Suc n)
  show ?case
  proof (cases "sm_phase s = SimIdle")
    case False
    then obtain s1 m where a: "sim_answered cx (ans (upd s)) (upd s) = Some (s1, m)"
      using assms(1,2) [of "upd s"] assms(1) by (metis not_None_eq surj_pair)
    have less: "phase_rank (sm_phase s1) < phase_rank (sm_phase s)" "length m \<le> 1"
      using answered_descends [OF a] assms(1) by auto
    with Suc.prems have "phase_rank (sm_phase s1) \<le> n" by simp
    from Suc.IH [OF this, of "calls @ m"] obtain s' rest where
      r: "sim_drive cx upd ans n (s1, calls @ m) = (s', (calls @ m) @ rest)" "sm_phase s' = SimIdle"
        "length rest < max 1 (phase_rank (sm_phase s1))" by blast
    have "length (m @ rest) < max 1 (phase_rank (sm_phase s))"
    proof (cases "sm_phase s1 = SimIdle")
      case True
      with answered_last [OF a] r(3) show ?thesis by simp
    next
      case False
      then have "0 < phase_rank (sm_phase s1)" by (cases "sm_phase s1") auto
      with r(3) less show ?thesis by simp
    qed
    with r a False show ?thesis by auto
  qed simp
qed

text \<open>
  C32: every run ends: whatever the user edits while it is under way and whatever the answers are,
  errors included, at most three answers later the page is idle again, after at least two
  and at most three calls of which the first asks for the tokens; the run buttons are
  enabled again.
\<close>

theorem runs_finish:
  assumes "\<not> needsCluster cx" "\<And>s. sm_phase (upd s) = sm_phase s"
    and "\<And>s. sm_phase s \<noteq> SimIdle \<Longrightarrow> sim_answered cx (ans s) s \<noteq> None"
    and "sim_drive cx upd ans 3 (sim_handle cx RunAll s) = (s', calls)"
  shows "sm_phase s' = SimIdle \<and> hd calls = tokenize_call cx s \<and> length calls \<in> {2, 3}
    \<and> RunAll \<in> offers (SimulatorPage cx s')"
proof -
  let ?s1 = "s\<lparr>sm_err := [], sm_phase := RunTokenize (isLocalModel cx s)\<rparr>"
  have start: "sim_handle cx RunAll s = (?s1, [tokenize_call cx s])" using assms(1) by simp
  obtain s2 m where a: "sim_answered cx (ans (upd ?s1)) (upd ?s1) = Some (s2, m)"
    using assms(3) [of "upd ?s1"] assms(2) [of ?s1] by auto
  have busy: "sm_phase s2 \<noteq> SimIdle"
    using answered_last [OF a] assms(2) [of ?s1] by auto
  have m: "length m = 1" by (rule answered_calls [OF a busy])
  have rank: "phase_rank (sm_phase s2) \<le> 2" using answered_descends [OF a] assms(2) [of ?s1] by simp
  from drive_idle [OF assms(2,3) rank, of "[tokenize_call cx s] @ m"] obtain s3 rest where
    r: "sim_drive cx upd ans 2 (s2, [tokenize_call cx s] @ m) = (s3, ([tokenize_call cx s] @ m) @ rest)"
      "sm_phase s3 = SimIdle" "length rest < max 1 (phase_rank (sm_phase s2))" by blast
  have "sim_drive cx upd ans (Suc 2) (?s1, [tokenize_call cx s]) = sim_drive cx upd ans 2 (s2, [tokenize_call cx s] @ m)"
    unfolding sim_drive.simps(2) a by simp
  then have "sim_drive cx upd ans 3 (sim_handle cx RunAll s) = sim_drive cx upd ans 2 (s2, [tokenize_call cx s] @ m)"
    unfolding start by simp
  with r assms(4) have idle: "s' = s3" "calls = [tokenize_call cx s] @ m @ rest" by auto
  have "RunAll \<in> offers (SimulatorPage cx s')"
    using r(2) assms(1) idle(1)
    by (simp add: SimulatorPage_def request_card_def Let_def sim_running_def)
  moreover have "length rest < 2" using r(3) rank by linarith
  then have "length calls \<in> {2, 3}" using idle(2) m by (cases "length rest") auto
  ultimately show ?thesis using idle r(2) by simp
qed

definition sim_sample :: sim_ctx where
  "sim_sample = \<lparr>sx_cluster = ''hkg'', sx_multi = True,
     sx_profiles = \<lparr>q_data = None, q_isLoading = True, q_isError = False, q_error = None\<rparr>,
     sx_base = ''/api/kvi'', sx_t = (\<lambda>k p. k)\<rparr>"

definition all_fail :: "sim_state \<Rightarrow> sim_answer" where
  "all_fail s = (case sm_phase s of RunQuery \<Rightarrow> Queried (Inl ''down'') | RunJudge \<Rightarrow> Judged (Inl ''down'')
     | _ \<Rightarrow> Tokenized (Inl ''down''))"

theorem runs_finish_witness:
  "\<exists>s' calls. sim_drive sim_sample (\<lambda>s. s\<lparr>sm_text := ''x''\<rparr>) all_fail 3 (sim_handle sim_sample RunAll sim_init)
       = (s', calls) \<and> sm_phase s' = SimIdle \<and> length calls \<in> {2, 3}"
proof -
  obtain s' calls where d: "sim_drive sim_sample (\<lambda>s. s\<lparr>sm_text := ''x''\<rparr>) all_fail 3
      (sim_handle sim_sample RunAll sim_init) = (s', calls)" by fastforce
  have need: "\<not> needsCluster sim_sample" by (simp add: needsCluster_def sim_sample_def)
  have awaited: "sim_answered sim_sample (all_fail s) s \<noteq> None" if "sm_phase s \<noteq> SimIdle" for s
    using that by (cases "sm_phase s") (simp_all add: all_fail_def Let_def)
  have "sm_phase (s\<lparr>sm_text := ''x''\<rparr>) = sm_phase s" for s :: sim_state by simp
  from runs_finish [OF need this awaited d] d show ?thesis by blast
qed

section \<open>What a failed step leaves behind\<close>

text \<open>
  A failed lookup or tokenization is not visible after the run: when the decision that follows
  succeeds, its answer clears the message, and after a failed lookup the cached prefixes of
  an earlier run stay on the screen beside the new decision.
\<close>

theorem failed_step_is_hidden:
  assumes "sm_phase s = RunQuery" "sm_hits s = Some old"
    and "sim_answered cx (Queried (Inl e)) s = Some (s1, calls1)"
    and "sim_answered cx (Judged (Inr d)) s1 = Some (s2, calls2)"
    and "sm_phase u = RunTokenize False" "sim_answered cx (Tokenized (Inl e)) u = Some (u1, calls3)"
    and "sim_answered cx (Judged (Inr d)) u1 = Some (u2, calls4)"
  shows "sm_err s1 = e \<and> sm_err s2 = [] \<and> sm_hits s2 = Some old \<and> sm_route s2 = Some d
    \<and> hits_card (sx_t cx) old \<in> set (opt_card (hits_card (sx_t cx)) (sm_hits s2))
    \<and> sm_err u1 = e \<and> sm_err u2 = [] \<and> sm_tok u2 = None \<and> sm_route u2 = Some d"
  using assms
  by (auto simp: to_judge_def queried_def judged_def tokenized_def Let_def opt_card_def)

definition old_hits :: query_prefix_response where
  "old_hits = \<lparr>qp_model_name = ''old'', qp_block_size = 16, qp_namespace = ''old/v1'', qp_hash_profile = [],
     qp_fresh = True, qp_instances = []\<rparr>"

definition new_decision :: route_response where
  "new_decision = \<lparr>rs_decision = ''reject'', rs_reason = [], rs_http_status = 429, rs_target = None,
     rs_config = \<lparr>rg_model_profile_version = 1, rg_namespace = [], rg_evaluated_rule_ids = None,
       rg_matched_rule_id = None, rg_matched_rule_name = None, rg_matched_rule_priority = None, rg_config_version = 1\<rparr>,
     rs_cache = \<lparr>rh_instance_id = None, rh_input_tokens = 0, rh_best_hit_tokens = 0, rh_hit_ratio = Dec 0 0,
       rh_gpu_tokens = 0, rh_cpu_tokens = 0, rh_disk_tokens = 0, rh_effective_cached_tokens = 0\<rparr>,
     rs_fallback = False, rs_protocol = [], rs_error = None\<rparr>"

theorem failed_step_is_hidden_witness:
  "\<exists>s2 :: sim_state. sm_err s2 = [] \<and> sm_hits s2 = Some old_hits \<and> sm_route s2 = Some new_decision"
proof -
  let ?s = "sim_init\<lparr>sm_phase := RunQuery, sm_hits := Some old_hits\<rparr>"
  let ?u = "sim_init\<lparr>sm_phase := RunTokenize False\<rparr>"
  have s: "sm_phase ?s = RunQuery" "sm_hits ?s = Some old_hits" "sm_phase ?u = RunTokenize False" by simp_all
  obtain s1 c1 where s1: "sim_answered sim_sample (Queried (Inl ''down'')) ?s = Some (s1, c1)"
    by (simp add: to_judge_def)
  then have "sm_phase s1 = RunJudge" by (auto simp: to_judge_def)
  then obtain s2 c2 where s2: "sim_answered sim_sample (Judged (Inr new_decision)) s1 = Some (s2, c2)" by simp
  obtain u1 c3 where u1: "sim_answered sim_sample (Tokenized (Inl ''down'')) ?u = Some (u1, c3)"
    by (simp add: to_judge_def Let_def)
  then have "sm_phase u1 = RunJudge" by (auto simp: to_judge_def Let_def)
  then obtain u2 c4 where u2: "sim_answered sim_sample (Judged (Inr new_decision)) u1 = Some (u2, c4)" by simp
  from failed_step_is_hidden [OF s(1,2) s1 s2 s(3) u1 u2] show ?thesis by blast
qed

text \<open>
  A model that is chosen while the tokens are awaited is asked about the tokens of the other
  one: the lookup takes the model of the moment it is sent.
\<close>

theorem lookup_mixes_models:
  assumes "sm_phase s = RunTokenize False" "sim_profileIDs cx = ids" "m \<in> set ids"
    and "s1 = fst (sim_handle cx (SetSimModel m) s)"
    and "sim_answered cx (Tokenized (Inr tk)) s1 = Some (s2, calls)"
  shows "calls = [query_call cx (s1\<lparr>sm_tok := Some tk, sm_err := []\<rparr>) (tp_tokens tk)] \<and> sm_model s1 = m
    \<and> sm_tok s2 = Some tk"
proof -
  have "s1 = s\<lparr>sm_model := m\<rparr>"
    using assms(2,3) by (auto simp: assms(4) sim_effect_def split: list.splits)
  with assms(1,5) show ?thesis by (auto simp: tokenized_def Let_def)
qed

end
