(* ===== verification/Chart.thy ===== *)
theory Chart
  imports Chrome Api
begin

text \<open>
  The chart components, \<open>web/components/ui/chart.tsx\<close>: the configuration of the series, the style
  sheet with their colours, the content of a tooltip and the legend.  The drawing itself is the
  library's (recharts), which calls the content with the items of a point: objects whose members
  the code looks up by computed keys, so they are JSON values.  Names that every JavaScript object
  inherits are no keys of a configuration.
\<close>

section \<open>The configuration\<close>

record chart_entry =
  ch_label :: "string option"
  ch_icon :: "string option"
  ch_color :: "string option"
  ch_theme :: "string obj option"

type_synonym chart_config = "chart_entry obj"

definition THEMES :: "(string \<times> string) list" where
  "THEMES = [(''light'', ''''), (''dark'', ''.dark'')]"

definition useChart :: "chart_config option \<Rightarrow> string + chart_config" where
  "useChart context = (case context of
     None \<Rightarrow> Inl ''useChart must be used within a <ChartContainer />'' | Some config \<Rightarrow> Inr config)"

section \<open>The style sheet\<close>

definition nl :: string where
  "nl = [CHR 0x0A]"

text \<open>The entries with a theme or a colour; \<open>theme ?? color\<close> is truthy.\<close>

definition colored :: "chart_entry \<Rightarrow> bool" where
  "colored c \<longleftrightarrow> ch_theme c \<noteq> None \<or> truthy (ch_color c)"

definition theme_color :: "string \<Rightarrow> chart_entry \<Rightarrow> string option" where
  "theme_color theme c = (case Option.bind (ch_theme c) (\<lambda>th. map_of th theme) of
     Some col \<Rightarrow> Some col | None \<Rightarrow> ch_color c)"

definition color_line :: "string \<Rightarrow> string \<times> chart_entry \<Rightarrow> string" where
  "color_line theme kc = (let color = theme_color theme (snd kc) in
     if truthy color then ''  --color-'' @ fst kc @ '': '' @ nullish color [] @ '';'' else [])"

definition theme_block :: "string \<Rightarrow> chart_config \<Rightarrow> string \<times> string \<Rightarrow> string" where
  "theme_block i colorConfig th = nl @ snd th @ '' [data-chart='' @ i @ ''] {'' @ nl
     @ join nl (map (color_line (fst th)) colorConfig) @ nl @ ''}'' @ nl"

definition ChartStyle :: "string \<Rightarrow> chart_config \<Rightarrow> string option" where
  "ChartStyle i config = (let colorConfig = filter (colored \<circ> snd) config in
     if colorConfig = [] then None else Some (join nl (map (theme_block i colorConfig) THEMES)))"

definition chart_id :: "string option \<Rightarrow> string \<Rightarrow> string" where
  "chart_id i uniqueId = ''chart-'' @ nullish i (filter (\<lambda>c. c \<noteq> CHR '':'') uniqueId)"

definition ChartContainer :: "string option \<Rightarrow> string \<Rightarrow> chart_config \<Rightarrow> 'e node list \<Rightarrow> 'e node" where
  "ChartContainer i uniqueId config ks = (let cid = chart_id i uniqueId in
     Elem ''div'' [Prop ''data-chart'' cid]
       ((case ChartStyle cid config of None \<Rightarrow> [] | Some css \<Rightarrow> [tx ''style'' css])
        @ [el ''ResponsiveContainer'' ks]))"

section \<open>The items of a point\<close>

text \<open>\<open>o.k ?? ...\<close>: a member that is there and not null.\<close>

definition member_of :: "json \<Rightarrow> string \<Rightarrow> json option" where
  "member_of j k = (case get_prop j k of Some JNull \<Rightarrow> None | v \<Rightarrow> v)"

fun first_of :: "json option list \<Rightarrow> json option" where
  "first_of [] = None"
| "first_of (None # vs) = first_of vs"
| "first_of (Some v # vs) = Some v"

definition text_of :: "json option \<Rightarrow> string option" where
  "text_of v = (case v of Some (JStr s) \<Rightarrow> Some s | _ \<Rightarrow> None)"

definition is_obj :: "json option \<Rightarrow> bool" where
  "is_obj v \<longleftrightarrow> (case v of Some (JObj _) \<Rightarrow> True | Some (JArr _) \<Rightarrow> True | _ \<Rightarrow> False)"

definition getPayloadConfigFromPayload :: "chart_config \<Rightarrow> json option \<Rightarrow> string \<Rightarrow> chart_entry option" where
  "getPayloadConfigFromPayload config payload key =
     (if \<not> is_obj payload then None
      else let entry = nullish payload JNull;
        inner = (if is_obj (get_prop entry ''payload'') then get_prop entry ''payload'' else None);
        configLabelKey = (case text_of (get_prop entry key) of Some s \<Rightarrow> s
          | None \<Rightarrow> nullish (text_of (Option.bind inner (\<lambda>p. get_prop p key))) key)
      in case map_of config configLabelKey of Some c \<Rightarrow> Some c | None \<Rightarrow> map_of config key)"

section \<open>The tooltip\<close>

record 'e tooltip_props =
  tt_active :: bool
  tt_payload :: "json list option"
  tt_indicator :: string
  tt_hideLabel :: bool
  tt_hideIndicator :: bool
  tt_label :: "json option"
  tt_labelFormatter :: "(string option \<Rightarrow> json list \<Rightarrow> 'e node) option"
  tt_formatter :: "(json \<Rightarrow> json \<Rightarrow> json \<Rightarrow> nat \<Rightarrow> json option \<Rightarrow> 'e node) option"
  tt_color :: "string option"
  tt_nameKey :: "string option"
  tt_labelKey :: "string option"

definition tooltip_defaults :: "'e tooltip_props" where
  "tooltip_defaults = \<lparr>tt_active = False, tt_payload = None, tt_indicator = ''dot'', tt_hideLabel = False,
     tt_hideIndicator = False, tt_label = None, tt_labelFormatter = None, tt_formatter = None, tt_color = None,
     tt_nameKey = None, tt_labelKey = None\<rparr>"

definition item_key :: "string option \<Rightarrow> json option list \<Rightarrow> string" where
  "item_key given vs = json_string (nullish (first_of (map_option JStr given # vs)) (JStr ''value''))"

definition label_value :: "chart_config \<Rightarrow> 'e tooltip_props \<Rightarrow> json \<Rightarrow> string option" where
  "label_value config p entry =
     (let key = item_key (tt_labelKey p) [member_of entry ''dataKey'', member_of entry ''name''];
          itemConfig = getPayloadConfigFromPayload config (Some entry) key
      in case (truthy (tt_labelKey p), tt_label p) of
           (False, Some (JStr l)) \<Rightarrow> Some (nullish (Option.bind (map_of config l) ch_label) l)
         | _ \<Rightarrow> Option.bind itemConfig ch_label)"

definition tooltipLabel :: "chart_config \<Rightarrow> 'e tooltip_props \<Rightarrow> 'e node list" where
  "tooltipLabel config p = (case tt_payload p of
     None \<Rightarrow> [] | Some [] \<Rightarrow> []
   | Some (entry # items) \<Rightarrow>
       if tt_hideLabel p then []
       else let value = label_value config p entry in
         case tt_labelFormatter p of
           Some f \<Rightarrow> [el ''div'' [f value (entry # items)]]
         | None \<Rightarrow> if truthy value then [tx ''div'' (nullish value [])] else [])"

definition visible_items :: "json list \<Rightarrow> json list" where
  "visible_items = filter (\<lambda>entry. get_prop entry ''type'' \<noteq> Some (JStr ''none''))"

definition item_value :: "(num \<Rightarrow> string) \<Rightarrow> json \<Rightarrow> 'e node list" where
  "item_value locale entry = (case member_of entry ''value'' of
     None \<Rightarrow> [] | Some (JNum x) \<Rightarrow> [tx ''span'' (locale x)] | Some v \<Rightarrow> [tx ''span'' (json_string v)])"

definition indicator_color :: "'e tooltip_props \<Rightarrow> json \<Rightarrow> string" where
  "indicator_color p entry = json_string (nullish (first_of
     [map_option JStr (tt_color p), Option.bind (member_of entry ''payload'') (\<lambda>d. member_of d ''fill''), member_of entry ''color''])
     (JStr []))"

definition tooltip_item :: "(num \<Rightarrow> string) \<Rightarrow> chart_config \<Rightarrow> 'e tooltip_props \<Rightarrow> bool \<Rightarrow> nat \<times> json \<Rightarrow> 'e node" where
  "tooltip_item locale config p nestLabel ix =
     (let (n, entry) = ix;
          key = item_key (tt_nameKey p) [member_of entry ''name'', member_of entry ''dataKey''];
          itemConfig = getPayloadConfigFromPayload config (Some entry) key;
          mark = (case Option.bind itemConfig ch_icon of
             Some icon \<Rightarrow> [Elem ''icon'' [Prop ''name'' icon] []]
           | None \<Rightarrow> shown (\<not> tt_hideIndicator p) [Elem ''div'' [Prop ''color'' (indicator_color p entry)] []]);
          name = (case Option.bind itemConfig ch_label of Some l \<Rightarrow> [Txt l]
             | None \<Rightarrow> (case member_of entry ''name'' of None \<Rightarrow> [] | Some v \<Rightarrow> [Txt (json_string v)]));
          plain = mark @ [el ''div'' (el ''div'' (shown nestLabel (tooltipLabel config p) @ [el ''span'' name]) # item_value locale entry)]
      in el ''div'' (case (tt_formatter p, get_prop entry ''value'') of
           (Some f, Some v) \<Rightarrow> if json_truthy (get_prop entry ''name'')
              then [f v (nullish (get_prop entry ''name'') JNull) entry n (get_prop entry ''payload'')] else plain
         | _ \<Rightarrow> plain))"

definition ChartTooltipContent :: "(num \<Rightarrow> string) \<Rightarrow> chart_config \<Rightarrow> 'e tooltip_props \<Rightarrow> 'e node option" where
  "ChartTooltipContent locale config p = (let items = nullish (tt_payload p) [] in
     if \<not> tt_active p \<or> items = [] then None
     else let nestLabel = (length items = 1 \<and> tt_indicator p \<noteq> ''dot'') in
       Some (el ''div'' (shown (\<not> nestLabel) (tooltipLabel config p)
         @ [el ''div'' (map (tooltip_item locale config p nestLabel) (enumerate 0 (visible_items items)))])))"

section \<open>The legend\<close>

definition legend_item :: "chart_config \<Rightarrow> bool \<Rightarrow> string option \<Rightarrow> json \<Rightarrow> 'e node" where
  "legend_item config hideIcon nameKey entry =
     (let key = item_key nameKey [member_of entry ''dataKey''];
          itemConfig = getPayloadConfigFromPayload config (Some entry) key
      in el ''div'' ((case (Option.bind itemConfig ch_icon, hideIcon) of
            (Some icon, False) \<Rightarrow> Elem ''icon'' [Prop ''name'' icon] []
          | _ \<Rightarrow> Elem ''div'' [Prop ''color'' (json_string (nullish (member_of entry ''color'') (JStr [])))] [])
          # (case Option.bind itemConfig ch_label of None \<Rightarrow> [] | Some l \<Rightarrow> [Txt l])))"

definition ChartLegendContent :: "chart_config \<Rightarrow> bool \<Rightarrow> string option \<Rightarrow> json list option \<Rightarrow> 'e node option" where
  "ChartLegendContent config hideIcon nameKey payload = (let items = nullish payload [] in
     if items = [] then None else Some (el ''div'' (map (legend_item config hideIcon nameKey) (visible_items items))))"

end
