(* ===== verification/Records.thy ===== *)
theory Records
  imports Simulator Chart
begin

text \<open>
  The pages that show records: the overview (\<open>web/app/page.tsx\<close>), the decisions
  (\<open>web/app/decisions/page.tsx\<close>) and the audit log (\<open>web/app/audit/page.tsx\<close>).  The texts of
  instants (\<open>toLocaleTimeString\<close>, \<open>toLocaleString\<close>) depend on the browser and are arguments; the
  drawing of the chart is the library's, its data, style and tooltip are modelled.
\<close>

section \<open>Decisions\<close>

text \<open>A page of the decisions sees the cluster's records, newest first, filtered.\<close>

definition decision_filter :: "string \<Rightarrow> route_record \<Rightarrow> bool" where
  "decision_filter f r =
     (if f = ''all'' then True
      else if f = ''fallback'' then rr_fallback r
      else if f = ''reject'' then rr_decision r = ''reject''
      else rr_decision r \<noteq> ''reject'' \<and> \<not> rr_fallback r)"

definition decisions_all :: "route_record list query \<Rightarrow> route_record list" where
  "decisions_all q = rev (q_list q)"

definition decisions_shown :: "string \<Rightarrow> route_record list query \<Rightarrow> route_record list" where
  "decisions_shown f q = filter (decision_filter f) (decisions_all q)"

datatype records_event = PickFilter string | RetryRecords

definition decision_filters :: "tr \<Rightarrow> (string \<times> string) list" where
  "decision_filters t =
     [(''all'', t ''decisions.filter.all'' []), (''accept'', t ''decisions.filter.accept'' []),
      (''reject'', t ''decisions.filter.reject'' []), (''fallback'', t ''decisions.filter.fallback'' [])]"

definition decision_heads :: "tr \<Rightarrow> bool \<Rightarrow> 'e node list" where
  "decision_heads t multi =
     [head (t ''decisions.col.time'' [])] @ shown multi [head (t ''cluster.col'' [])]
     @ map (\<lambda>k. head (t k []))
         [''decisions.col.protocol'', ''decisions.col.model'', ''decisions.col.tenant'', ''decisions.col.decision'',
          ''decisions.col.reason'', ''decisions.col.input'', ''decisions.col.hit'', ''decisions.col.target'',
          ''decisions.col.cfg'']"

definition cluster_cell :: "bool \<Rightarrow> string option \<Rightarrow> 'e node list" where
  "cluster_cell multi c = shown multi [el ''TableCell'' [badge ''outline'' (nullish c dash_text)]]"

definition decision_row :: "tr \<Rightarrow> (string \<Rightarrow> string) \<Rightarrow> bool \<Rightarrow> route_record \<Rightarrow> 'e node" where
  "decision_row t time_text multi r = el ''TableRow''
     ([cell (time_text (rr_timestamp r))] @ cluster_cell multi (rr_cluster r)
      @ [cell (replace_first ''openai.'' ''oai.'' (rr_protocol r)), cell (rr_model r),
         cell (or_str (rr_tenant_id r) (t ''common.default'' [])),
         el ''TableCell'' [badge (route_badge (rr_decision r) (rr_fallback r)) (rr_decision r)],
         cell (rr_reason r), cell (int_text (rr_input_tokens r)), cell (percent_fixed 1 (rr_hit_ratio r) @ ''%''),
         cell (or_opt (rr_target_engine r) dash_text), cell (''#'' @ int_text (rr_config_version r))])"

definition DecisionsPage ::
  "tr \<Rightarrow> (string \<Rightarrow> string) \<Rightarrow> bool \<Rightarrow> string \<Rightarrow> route_record list query \<Rightarrow> records_event node" where
  "DecisionsPage t time_text multi f q =
     (let recs = decisions_shown f q; rows_all = decisions_all q in el ''div''
       [PageHeader (t ''decisions.title'' []) (Some (t ''decisions.subtitle'' []))
          (Some (el ''div''
            [tx ''span'' (t ''decisions.count''
               [(''shown'', int_text (int (length recs))), (''total'', int_text (int (length rows_all)))]),
             select False f PickFilter (decision_filters t)])),
        el ''Card'' [el ''CardContent'' (query_state (plain_t t) q RetryRecords 3
          ([table_of (decision_heads t multi) (map (decision_row t time_text multi) recs)]
           @ shown (length recs = 0)
               [EmptyState [Txt (if length rows_all = 0 then t ''decisions.empty'' []
                                 else t ''decisions.filter.none'' [])]]))]])"

section \<open>Audit\<close>

definition audit_heads :: "tr \<Rightarrow> bool \<Rightarrow> 'e node list" where
  "audit_heads t multi =
     [head (t ''audit.col.version'' [])] @ shown multi [head (t ''cluster.col'' [])]
     @ map (\<lambda>k. head (t k []))
         [''audit.col.time'', ''audit.col.action'', ''audit.col.entity'', ''audit.col.id'', ''audit.col.detail'',
          ''audit.col.flag'']"

definition action_badge :: "string \<Rightarrow> string" where
  "action_badge a = (if a = ''remove'' then ''destructive'' else if a = ''patch'' then ''warning'' else ''secondary'')"

definition audit_entry_row :: "tr \<Rightarrow> (string \<Rightarrow> string) \<Rightarrow> bool \<Rightarrow> audit_entry \<Rightarrow> 'e node" where
  "audit_entry_row t instant_text multi a = el ''TableRow''
     ([cell (''#'' @ int_text (ae_version a))] @ cluster_cell multi (ae_cluster a)
      @ [cell (instant_text (ae_timestamp a)),
         el ''TableCell'' [badge (action_badge (ae_action a)) (ae_action a)],
         cell (ae_entity a), cell (ae_entity_id a), cell (or_opt (ae_detail a) dash_text),
         el ''TableCell'' (shown (ae_version_bump a) [badge ''warning'' (t ''audit.bump_badge'' [])])])"

definition AuditPage ::
  "tr \<Rightarrow> (string \<Rightarrow> string) \<Rightarrow> bool \<Rightarrow> audit_entry list query \<Rightarrow> records_event node" where
  "AuditPage t instant_text multi q =
     (let entries = rev (q_list q) in el ''div''
       [PageHeader (t ''audit.title'' []) (Some (t ''audit.subtitle'' [])) None,
        el ''Card'' [el ''CardContent'' (query_state (plain_t t) q RetryRecords 3
          ([table_of (audit_heads t multi) (map (audit_entry_row t instant_text multi) entries)]
           @ shown (length entries = 0) [EmptyState [Txt (t ''audit.empty'' [])]]))]])"

section \<open>Overview\<close>

record overview_ctx =
  ov_multi :: bool
  ov_clusterList :: "cluster_info list"
  ov_clusters :: "cluster list query"
  ov_engines :: "engine list query"
  ov_profiles :: "model_profile list query"
  ov_streams :: "stream_health list query"
  ov_decisions :: "route_record list query"
  ov_stats :: "index_stat list query"
  ov_now :: int
  ov_t :: tr
  ov_time :: "string \<Rightarrow> string"
  ov_chart_id :: string

definition rejects_of :: "route_record list \<Rightarrow> nat" where
  "rejects_of recs = length (filter (\<lambda>r. rr_decision r = ''reject'') recs)"

definition fallbacks_of :: "route_record list \<Rightarrow> nat" where
  "fallbacks_of recs = length (filter rr_fallback recs)"

text \<open>\<open>((k / total) * 100).toFixed(1)\<close>, in doubles.\<close>

definition rate_text :: "nat \<Rightarrow> nat \<Rightarrow> string" where
  "rate_text k n =
     (if n \<noteq> 0 then to_fixed 1 (mul_double (div_double (int k, 1) (int n, 1)) (100, 1)) else ''0.0'')"

definition staleAfterMs :: int where
  "staleAfterMs = 60000"

definition stream_of :: "overview_ctx \<Rightarrow> stream_health \<Rightarrow> stream_status" where
  "stream_of cx s = streamStatus s (ov_now cx) staleAfterMs"

definition healthyStreams :: "overview_ctx \<Rightarrow> nat" where
  "healthyStreams cx = length (filter (\<lambda>s. stream_of cx s = Healthy) (q_list (ov_streams cx)))"

definition badStreams :: "overview_ctx \<Rightarrow> nat" where
  "badStreams cx = length (filter (\<lambda>s. stream_of cx s \<in> {Stale, Down, Degraded}) (q_list (ov_streams cx)))"

definition totalReqKeys :: "index_stat list \<Rightarrow> int" where
  "totalReqKeys xs = fold (\<lambda>s a. a + is_request_keys s) xs 0"

text \<open>A row of the chart: its index and the ratio in percent, rounded as text and read back.\<close>

definition chartData :: "route_record list \<Rightarrow> (nat \<times> num) list" where
  "chartData recs = (let last40 = slice_last 40 recs in
     zip [0..<length last40] (map (\<lambda>r. to_number (percent_fixed 1 (rr_hit_ratio r))) last40))"

definition count_or_dash :: "'a list query \<Rightarrow> string" where
  "count_or_dash q = (case q_data q of Some xs \<Rightarrow> int_text (int (length xs)) | None \<Rightarrow> dash_text)"

definition stream_tone :: "overview_ctx \<Rightarrow> tone" where
  "stream_tone cx =
     (if 0 < length (q_list (ov_streams cx)) \<and> healthyStreams cx = length (q_list (ov_streams cx)) then ToneSuccess
      else if 0 < badStreams cx then ToneDestructive else ToneWarning)"

definition stat_cards :: "overview_ctx \<Rightarrow> 'e node list" where
  "stat_cards cx =
     (let t = plain_t (ov_t cx); recs = q_list (ov_decisions cx); n = length recs in
      shown (ov_multi cx)
        [StatCard (t ''overview.stat.clusters_count'') (Txt (int_text (int (length (ov_clusterList cx))))) None None]
      @ [StatCard (t ''overview.stat.clusters'') (Txt (count_or_dash (ov_clusters cx))) None None,
         StatCard (t ''overview.stat.engines'') (Txt (count_or_dash (ov_engines cx))) None None,
         StatCard (t ''overview.stat.profiles'') (Txt (count_or_dash (ov_profiles cx))) None None,
         StatCard (t ''overview.stat.healthy_streams'')
           (Txt (int_text (int (healthyStreams cx)) @ ''/'' @ int_text (int (length (q_list (ov_streams cx))))))
           (if 0 < badStreams cx then Some (t ''overview.stat.stale_streams'' @ '': '' @ int_text (int (badStreams cx)))
            else None)
           (Some (stream_tone cx)),
         StatCard (t ''overview.stat.indexed_blocks'') (Txt (int_text (totalReqKeys (q_list (ov_stats cx))))) None None,
         StatCard (t ''overview.stat.reject_rate'') (Txt (rate_text (rejects_of recs) n @ ''%'')) None
           (Some (if 0 < rejects_of recs then ToneDestructive else ToneMuted)),
         StatCard (t ''overview.stat.fallback_rate'') (Txt (rate_text (fallbacks_of recs) n @ ''%'')) None
           (Some (if 0 < fallbacks_of recs then ToneWarning else ToneMuted)),
         StatCard (t ''overview.stat.decisions'') (Txt (int_text (int n))) None None])"

definition ratio_config :: "tr \<Rightarrow> chart_config" where
  "ratio_config t = [(''ratio'', \<lparr>ch_label = Some (t ''overview.col.hit'' [] @ '' (%)''), ch_icon = None,
     ch_color = Some ''var(--chart-1)'', ch_theme = None\<rparr>)]"

text \<open>The content of the tooltip, which the library calls with the point under the pointer.\<close>

definition ratio_tooltip ::
  "(num \<Rightarrow> string) \<Rightarrow> tr \<Rightarrow> bool \<Rightarrow> json list option \<Rightarrow> json option \<Rightarrow> 'e node option" where
  "ratio_tooltip locale t active payload label = ChartTooltipContent locale (ratio_config t)
     (tooltip_defaults\<lparr>tt_active := active, tt_payload := payload, tt_label := label, tt_indicator := ''line''\<rparr>)"

definition ratio_chart :: "(nat \<times> num) list \<Rightarrow> 'e node" where
  "ratio_chart cd = el ''AreaChart''
     [Elem ''stop'' [Prop ''offset'' ''5%'', Prop ''stopColor'' ''var(--color-ratio)''] [],
      Elem ''stop'' [Prop ''offset'' ''95%'', Prop ''stopColor'' ''var(--color-ratio)''] [],
      Elem ''XAxis'' [Prop ''dataKey'' ''i'', Flag ''hide'' True] [],
      Elem ''YAxis'' [Prop ''domain'' ''0,100''] [],
      Elem ''Area'' [Prop ''dataKey'' ''ratio'', Prop ''stroke'' ''var(--color-ratio)'']
        (map (\<lambda>(i, r). tx ''point'' (num_to_string r)) cd)]"

definition chart_card :: "overview_ctx \<Rightarrow> 'e node" where
  "chart_card cx =
     (let t = ov_t cx; cd = chartData (q_list (ov_decisions cx)) in el ''Card''
       [tx ''CardTitle'' (t ''overview.recent.title'' []),
        tx ''CardDescription'' (t ''overview.recent.desc'' [(''n'', int_text (int (length cd)))]),
        el ''CardContent''
          [if length cd = 0 then EmptyState [Txt (t ''overview.recent.empty'' [])]
           else ChartContainer None (ov_chart_id cx) (ratio_config t) [ratio_chart cd]]])"

definition cluster_badge :: "(string \<Rightarrow> string) \<Rightarrow> cluster \<Rightarrow> 'e node" where
  "cluster_badge t c =
     badge (if cl_maintenance_mode c then ''warning'' else if cl_enabled c then ''success'' else ''outline'')
       (if cl_maintenance_mode c then t ''overview.cluster.maintenance''
        else if cl_enabled c then t ''common.enabled'' else t ''common.disabled'')"

definition cluster_entry :: "(string \<Rightarrow> string) \<Rightarrow> bool \<Rightarrow> cluster \<Rightarrow> 'e node" where
  "cluster_entry t multi c = el ''div''
     [el ''div''
        [el ''div'' (Txt (cl_display_name c)
           # shown (multi \<and> truthy (cl_cluster c)) [badge ''outline'' (nullish (cl_cluster c) [])]),
         tx ''div'' (nullish (cl_region c) dash_text @ '' '' @ dot_text @ '' '' @ nullish (cl_environment c) dash_text)],
      cluster_badge t c]"

definition clusters_card :: "overview_ctx \<Rightarrow> 'e node" where
  "clusters_card cx =
     (let t = plain_t (ov_t cx); cs = q_list (ov_clusters cx) in el ''Card''
       [tx ''CardTitle'' (t ''overview.clusters.title''), tx ''CardDescription'' (t ''overview.clusters.desc''),
        el ''CardContent'' (map (cluster_entry t (ov_multi cx)) cs
          @ shown (length cs = 0) [EmptyState [Txt (t ''overview.clusters.empty'')]])])"

definition latest_row :: "(string \<Rightarrow> string) \<Rightarrow> route_record \<Rightarrow> 'e node" where
  "latest_row time_text r = el ''TableRow''
     [cell (time_text (rr_timestamp r)),
      cell (replace_first ''anthropic.'' [] (replace_first ''openai.'' [] (rr_protocol r))),
      cell (rr_model r), el ''TableCell'' [badge (route_badge (rr_decision r) (rr_fallback r)) (rr_decision r)],
      cell (rr_reason r), cell (int_text (rr_input_tokens r)), cell (percent_fixed 0 (rr_hit_ratio r) @ ''%'')]"

definition latest_records :: "route_record list \<Rightarrow> route_record list" where
  "latest_records recs = rev (slice_last 8 recs)"

definition latest_card :: "overview_ctx \<Rightarrow> records_event node" where
  "latest_card cx =
     (let t = plain_t (ov_t cx); recs = q_list (ov_decisions cx) in el ''Card''
       [tx ''CardTitle'' (t ''overview.latest.title''), tx ''CardDescription'' (t ''overview.latest.desc''),
        el ''CardContent'' (query_state t (ov_decisions cx) RetryRecords 3
          ([table_of (map (\<lambda>k. head (t k))
              [''overview.col.time'', ''overview.col.protocol'', ''overview.col.model'', ''overview.col.decision'',
               ''overview.col.reason'', ''overview.col.tokens'', ''overview.col.hit''])
              (map (latest_row (ov_time cx)) (latest_records recs))]
           @ shown (length recs = 0) [EmptyState [Txt (t ''overview.latest.empty'')]]))])"

definition Overview :: "overview_ctx \<Rightarrow> records_event node" where
  "Overview cx =
     (let t = plain_t (ov_t cx) in el ''div''
       [PageHeader (t ''overview.title'') (Some (t ''overview.subtitle'')) None,
        el ''div'' (stat_cards cx), el ''div'' [chart_card cx, clusters_card cx], latest_card cx])"

end
