(* ===== verification/Records_Props.thy ===== *)
theory Records_Props
  imports Records
begin

text \<open>
  The overview and the decisions page agree on the records they are given, and the figures of
  the overview add up.
\<close>

lemma filter_lengths:
  "length xs + length (filter (\<lambda>r. P r \<and> Q r) xs) =
     length (filter (\<lambda>r. \<not> P r \<and> \<not> Q r) xs) + length (filter P xs) + length (filter Q xs)"
  by (induction xs) auto

lemma decision_filter_simps:
  "decision_filter ''all'' = (\<lambda>r. True)" "decision_filter ''reject'' = (\<lambda>r. rr_decision r = ''reject'')"
  "decision_filter ''fallback'' = rr_fallback"
  "decision_filter ''accept'' = (\<lambda>r. rr_decision r \<noteq> ''reject'' \<and> \<not> rr_fallback r)"
  by (simp_all add: fun_eq_iff decision_filter_def)

lemma shown_lengths:
  "length (decisions_shown ''reject'' q) = rejects_of (q_list q)"
  "length (decisions_shown ''fallback'' q) = fallbacks_of (q_list q)"
  "length (decisions_shown ''all'' q) = length (q_list q)"
  "length (decisions_shown ''accept'' q) =
     length (filter (\<lambda>r. \<not> rr_decision r = ''reject'' \<and> \<not> rr_fallback r) (q_list q))"
  by (simp_all add: decisions_shown_def decisions_all_def rejects_of_def fallbacks_of_def decision_filter_simps
      flip: rev_filter)

lemma filter_full: "length (filter P xs) = length xs \<longleftrightarrow> (\<forall>x \<in> set xs. P x)"
proof
  assume full: "length (filter P xs) = length xs"
  show "\<forall>x \<in> set xs. P x"
  proof (rule ballI, rule ccontr)
    fix x assume "x \<in> set xs" "\<not> P x"
    with full length_filter_less [of x xs P] show False by simp
  qed
qed simp

lemma status_split:
  "length xs = length (filter (\<lambda>s. f s = Healthy) xs) + length (filter (\<lambda>s. f s \<in> {Stale, Down, Degraded}) xs)
     + length (filter (\<lambda>s. f s = Idle) xs)"
proof (induction xs)
  case (Cons s xs)
  then show ?case by (cases "f s") simp_all
qed simp

text \<open>The rate of all is a hundred percent, in doubles as well.\<close>

lemma double_one: "0 < n \<Longrightarrow> to_double (n, n) = (2 ^ 52, 2 ^ 52)"
proof -
  assume n: "0 < n"
  have "frac_exp n n = 0" by (simp add: frac_exp_def Let_def)
  moreover have "round_even (n * 2 ^ 52) n = 2 ^ 52" using n by (simp add: round_even_def Let_def)
  ultimately show ?thesis using n by (simp add: to_double_def Let_def)
qed

lemma hundred_fixed: "to_fixed 1 (mul_double (2 ^ 52, 2 ^ 52) (100, 1)) = ''100.0''"
  by code_simp

lemma zero_fixed: "to_fixed 1 (mul_double (0, 1) (100, 1)) = ''0.0''"
  by code_simp

lemma rate_ends: "rate_text 0 n = ''0.0''" "n \<noteq> 0 \<Longrightarrow> rate_text n n = ''100.0''"
proof -
  have "to_double (0, q) = (0, 1)" for q by (simp add: to_double_def)
  then show "rate_text 0 n = ''0.0''" using zero_fixed by (simp add: rate_text_def div_double_def)
  assume "n \<noteq> 0"
  then show "rate_text n n = ''100.0''" using double_one [of "int n"] hundred_fixed
    by (simp add: rate_text_def div_double_def)
qed


definition two_decisions :: "route_record list query" where
  "two_decisions = \<lparr>q_data = Some [], q_isLoading = False, q_isError = False, q_error = None\<rparr>"


end
