(* ===== verification/Chart_Props.thy ===== *)
theory Chart_Props
  imports Records
begin

text \<open>
  The chart of the overview: its colours are defined in both themes, and what its tooltip tells
  of a decision.
\<close>

section \<open>Colours\<close>

lemma includes_middle: "str_includes (u @ x @ v) x"
  unfolding str_includes_iff by blast

lemma join_part: "x \<in> set xs \<Longrightarrow> str_includes (join sep xs) x"
proof (induction xs rule: induct_list012)
  case (3 x' y zs)
  then consider "x = x'" | "str_includes (join sep (y # zs)) x" by auto
  then show ?case
  proof cases
    case 1
    then have "join sep (x' # y # zs) = [] @ x @ (sep @ join sep (y # zs))" by simp
    then show ?thesis unfolding str_includes_iff by blast
  next
    case 2
    then obtain u v where "join sep (y # zs) = u @ x @ v" by (auto simp: str_includes_iff)
    then have "join sep (x' # y # zs) = (x' @ sep @ u) @ x @ v" by simp
    then show ?thesis unfolding str_includes_iff by blast
  qed
qed (use includes_middle [of "[]" _ "[]"] in auto)

lemma includes_trans: "str_includes a b \<Longrightarrow> str_includes b c \<Longrightarrow> str_includes a c"
  unfolding str_includes_iff by (metis append.assoc)

text \<open>Every entry with a colour defines its variable in the block of each theme.\<close>

lemma style_defines:
  assumes "(k, c) \<in> set config" "(theme, sel) \<in> set THEMES" "theme_color theme c = Some col" "col \<noteq> []"
  obtains css block where "ChartStyle i config = Some css" "str_includes css block"
    "prefix (nl @ sel @ '' [data-chart='' @ i @ ''] {'' @ nl) block" "str_includes block (''  --color-'' @ k @ '': '' @ col @ '';'')"
proof -
  let ?cc = "filter (colored \<circ> snd) config"
  have "colored c" using assms(3,4) by (auto simp: colored_def theme_color_def truthy_def split: option.splits bind_splits)
  with assms(1) have c: "(k, c) \<in> set ?cc" by simp
  have "?cc \<noteq> []" by (metis c empty_iff list.set(1))
  then have some: "ChartStyle i config = Some (join nl (map (theme_block i ?cc) THEMES))" by (simp only: ChartStyle_def Let_def if_False)
  have "color_line theme (k, c) = ''  --color-'' @ k @ '': '' @ col @ '';''"
    using assms(3,4) by (simp add: color_line_def truthy_def)
  then have "''  --color-'' @ k @ '': '' @ col @ '';'' \<in> set (map (color_line theme) ?cc)" using c by force
  from join_part [OF this, of nl] have line: "str_includes (join nl (map (color_line theme) ?cc)) (''  --color-'' @ k @ '': '' @ col @ '';'')" .
  have "theme_block i ?cc (theme, sel) = (nl @ sel @ '' [data-chart='' @ i @ ''] {'' @ nl) @ join nl (map (color_line theme) ?cc) @ (nl @ ''}'' @ nl)"
    by (simp only: theme_block_def fst_conv snd_conv append_assoc)
  then have "str_includes (theme_block i ?cc (theme, sel)) (join nl (map (color_line theme) ?cc))"
    using includes_middle by metis
  from includes_trans [OF this line]
  have "str_includes (theme_block i ?cc (theme, sel)) (''  --color-'' @ k @ '': '' @ col @ '';'')" .
  moreover have "prefix (nl @ sel @ '' [data-chart='' @ i @ ''] {'' @ nl) (theme_block i ?cc (theme, sel))"
    by (simp add: theme_block_def prefix_def)
  moreover have "str_includes (join nl (map (theme_block i ?cc) THEMES)) (theme_block i ?cc (theme, sel))"
    using assms(2) by (intro join_part) simp
  ultimately show thesis using that some by blast
qed

section \<open>The overview\<close>

text \<open>
  What the library gives for the point of a decision: an object of the series \<open>ratio\<close> with the
  row of the data, that is a JSON object of the index and the ratio.
\<close>

definition point_of :: "nat \<Rightarrow> num \<Rightarrow> json \<Rightarrow> bool" where
  "point_of i r pt \<longleftrightarrow> (\<exists>ps. pt = JObj ps) \<and> get_prop pt ''dataKey'' = Some (JStr ''ratio'')
     \<and> get_prop pt ''name'' = Some (JStr ''ratio'') \<and> get_prop pt ''value'' = Some (JNum r)
     \<and> get_prop pt ''ratio'' = None \<and> get_prop pt ''type'' = None
     \<and> get_prop pt ''payload'' = Some (JObj [(''i'', JNum (of_int_num (int i))), (''ratio'', JNum r)])"

lemma zip_snds: "map (\<lambda>(i, r). g r) (zip [0..<length ys] ys) = map g ys"
  by (rule nth_equalityI) auto

lemma ratio_tooltip_texts:
  assumes "point_of i r pt" "t ''overview.col.hit'' [] @ '' (%)'' = label"
  shows "map_option (texts :: records_event node \<Rightarrow> _) (ratio_tooltip locale t True (Some [pt]) (Some (JNum n))) = Some [label, label, locale r]"
proof -
  have label: "label \<noteq> []" using assms(2) by auto
  have entry: "getPayloadConfigFromPayload (ratio_config t) (Some pt) ''ratio''
      = Some \<lparr>ch_label = Some label, ch_icon = None, ch_color = Some ''var(--chart-1)'', ch_theme = None\<rparr>"
    using assms by (auto simp: point_of_def getPayloadConfigFromPayload_def is_obj_def text_of_def ratio_config_def Let_def)
  have pt: "member_of pt ''dataKey'' = Some (JStr ''ratio'')" "member_of pt ''name'' = Some (JStr ''ratio'')"
    "member_of pt ''value'' = Some (JNum r)" "get_prop pt ''type'' = None"
    using assms(1) by (simp_all add: point_of_def member_of_def)
  show ?thesis
    using label
    by (simp add: ratio_tooltip_def tooltip_defaults_def ChartTooltipContent_def Let_def visible_items_def pt tooltip_item_def
        item_key_def entry shown_def tooltipLabel_def label_value_def truthy_def item_value_def)
qed

lemma chart_card_parts:
  assumes "chartData (q_list (ov_decisions cx)) \<noteq> []"
  obtains css where "ChartStyle (chart_id None (ov_chart_id cx)) (ratio_config (ov_t cx)) = Some css"
    "elems ''style'' (chart_card cx :: records_event node) = [tx ''style'' css]"
    "elems ''point'' (chart_card cx :: records_event node) = map (\<lambda>(i, r). tx ''point'' (num_to_string r)) (chartData (q_list (ov_decisions cx)))"
proof -
  have points: "concat (map (elems ''point'') (map (\<lambda>(i, r). tx ''point'' (num_to_string r)) cd))
      = map (\<lambda>(i, r). tx ''point'' (num_to_string r)) cd"
    "concat (map (elems ''style'') (map (\<lambda>(i, r). tx ''point'' (num_to_string r)) cd)) = []"
    for cd :: "(nat \<times> num) list"
    by (induction cd) auto
  obtain css where css: "ChartStyle (chart_id None (ov_chart_id cx)) (ratio_config (ov_t cx)) = Some css"
    by (simp add: ChartStyle_def ratio_config_def colored_def truthy_def)
  moreover have "elems ''style'' (chart_card cx :: records_event node) = [tx ''style'' css]"
    "elems ''point'' (chart_card cx :: records_event node) = map (\<lambda>(i, r). tx ''point'' (num_to_string r)) (chartData (q_list (ov_decisions cx)))"
    using assms points by (simp_all add: chart_card_def Let_def ChartContainer_def css ratio_chart_def)
  ultimately show thesis using that by blast
qed

text \<open>
  C39: the chart of the overview tells the ratios of the last forty decisions.  Its card has one
  point for each of them, in their order; the colour of its line is defined for the light and
  for the dark theme, under the identity of this chart; and the tooltip of a point tells the
  ratio of its decision under the translated label.  The label is shown twice: the axis gives a
  number, so the heading of the tooltip falls back to the label of the series, which the line of
  the series repeats.
\<close>

theorem overview_chart_tells_ratios:
  assumes "q_list (ov_decisions cx) \<noteq> []"
  shows "let recs = slice_last 40 (q_list (ov_decisions cx)); t = ov_t cx; label = t ''overview.col.hit'' [] @ '' (%)'';
      ratio = (\<lambda>r. to_number (percent_fixed 1 (rr_hit_ratio r))); cid = chart_id None (ov_chart_id cx) in
    elems ''point'' (chart_card cx :: records_event node) = map (\<lambda>r. tx ''point'' (num_to_string (ratio r))) recs
    \<and> (\<forall>sel \<in> {[], ''.dark''}. \<exists>css block. elems ''style'' (chart_card cx :: records_event node) = [tx ''style'' css] \<and> str_includes css block
        \<and> prefix (nl @ sel @ '' [data-chart='' @ cid @ ''] {'' @ nl) block \<and> str_includes block ''  --color-ratio: var(--chart-1);'')
    \<and> (\<forall>i < length recs. \<forall>pt. point_of i (ratio (recs ! i)) pt \<longrightarrow>
        map_option (texts :: records_event node \<Rightarrow> _) (ratio_tooltip locale t True (Some [pt]) (Some (JNum (of_int_num (int i)))))
          = Some [label, label, locale (ratio (recs ! i))])"
proof -
  let ?recs = "slice_last 40 (q_list (ov_decisions cx))" and ?cid = "chart_id None (ov_chart_id cx)"
  let ?ratio = "\<lambda>r. to_number (percent_fixed 1 (rr_hit_ratio r))"
  have "0 < length (q_list (ov_decisions cx))" using assms by simp
  then have "length (q_list (ov_decisions cx)) - 40 < length (q_list (ov_decisions cx))" by (rule diff_less [rotated]) simp
  then have "?recs \<noteq> []" by (simp add: slice_last_def)
  then have "chartData (q_list (ov_decisions cx)) \<noteq> []" by (auto simp: chartData_def Let_def zip_eq_Nil_iff slice_last_def)
  then obtain css where css: "ChartStyle ?cid (ratio_config (ov_t cx)) = Some css"
    "elems ''style'' (chart_card cx :: records_event node) = [tx ''style'' css]"
    "elems ''point'' (chart_card cx :: records_event node) = map (\<lambda>(i, r). tx ''point'' (num_to_string r)) (chartData (q_list (ov_decisions cx)))"
    by (rule chart_card_parts)
  have points: "elems ''point'' (chart_card cx :: records_event node) = map (\<lambda>r. tx ''point'' (num_to_string (?ratio r))) ?recs"
    unfolding css(3) chartData_def Let_def zip_snds [of _ "map ?ratio ?recs", unfolded length_map] map_map comp_def ..
  have colours: "\<exists>css block. elems ''style'' (chart_card cx :: records_event node) = [tx ''style'' css] \<and> str_includes css block
        \<and> prefix (nl @ sel @ '' [data-chart='' @ ?cid @ ''] {'' @ nl) block \<and> str_includes block ''  --color-ratio: var(--chart-1);''"
    if "sel \<in> {[], ''.dark''}" for sel
  proof -
    from that obtain theme where "(theme, sel) \<in> set THEMES" by (auto simp: THEMES_def)
    then obtain block where "str_includes css block" "prefix (nl @ sel @ '' [data-chart='' @ ?cid @ ''] {'' @ nl) block"
      "str_includes block (''  --color-'' @ ''ratio'' @ '': '' @ ''var(--chart-1)'' @ '';'')"
      using css(1) style_defines [of "''ratio''" _ "ratio_config (ov_t cx)" theme sel "''var(--chart-1)''" ?cid]
      by (auto simp: ratio_config_def theme_color_def)
    with css(2) show ?thesis by auto
  qed
  show ?thesis
    unfolding Let_def
    by (intro conjI allI impI ballI points colours) (assumption | rule ratio_tooltip_texts refl)+
qed

definition waiting :: "'a query" where
  "waiting = \<lparr>q_data = None, q_isLoading = True, q_isError = False, q_error = None\<rparr>"

definition one_miss :: route_record where
  "one_miss = \<lparr>rr_timestamp = [], rr_protocol = ''openai.chat'', rr_model = ''m'', rr_tenant_id = ''default'',
     rr_decision = ''accept'', rr_reason = [], rr_http_status = 200, rr_input_tokens = 64, rr_hit_ratio = Dec 0 0,
     rr_best_hit_tokens = 0, rr_target_engine = None, rr_fallback = False, rr_config_version = 1, rr_namespace = [],
     rr_cluster = None, rr_backend = None\<rparr>"

definition one_decision :: overview_ctx where
  "one_decision = \<lparr>ov_multi = False, ov_clusterList = [], ov_clusters = waiting, ov_engines = waiting,
     ov_profiles = waiting, ov_streams = waiting,
     ov_decisions = \<lparr>q_data = Some [one_miss], q_isLoading = False, q_isError = False, q_error = None\<rparr>,
     ov_stats = waiting, ov_now = 0, ov_t = (\<lambda>k _. k), ov_time = id, ov_chart_id = '':r1:''\<rparr>"

definition miss_point :: json where
  "miss_point = JObj [(''dataKey'', JStr ''ratio''), (''name'', JStr ''ratio''), (''value'', JNum (Dec 0 0)),
     (''payload'', JObj [(''i'', JNum (of_int_num 0)), (''ratio'', JNum (Dec 0 0))])]"

theorem overview_chart_tells_ratios_witness:
  "map_option (texts :: records_event node \<Rightarrow> _) (ratio_tooltip num_to_string (ov_t one_decision) True (Some [miss_point]) (Some (JNum (of_int_num 0))))
     = Some [''overview.col.hit (%)'', ''overview.col.hit (%)'', ''0'']"
proof -
  have q: "q_list (ov_decisions one_decision) = [one_miss]" by (simp add: one_decision_def q_list_def)
  have r: "to_number (percent_fixed 1 (rr_hit_ratio one_miss)) = Dec 0 0" by code_simp
  have point: "point_of 0 (Dec 0 0) miss_point" by (simp add: point_of_def miss_point_def)
  have last: "slice_last 40 [one_miss] = [one_miss]" by (simp add: slice_last_def)
  have zero: "num_to_string (Dec 0 0) = ''0''" by code_simp
  have keys: "ov_t one_decision k ps = k" for k ps by (simp add: one_decision_def)
  have "\<forall>pt. point_of 0 (Dec 0 0) pt \<longrightarrow> map_option (texts :: records_event node \<Rightarrow> _) (ratio_tooltip num_to_string (ov_t one_decision) True (Some [pt])
      (Some (JNum (of_int_num 0)))) = Some [''overview.col.hit (%)'', ''overview.col.hit (%)'', ''0'']"
    using overview_chart_tells_ratios [of one_decision num_to_string] r by (simp add: q Let_def last zero keys)
  with point show ?thesis by blast
qed

end
