(* ===== verification/Api_Docs.thy ===== *)
theory Api_Docs
  imports Chrome Cluster Stream_Status Api "HOL-Library.Multiset"
begin

text \<open>
  The API reference of \<open>web/app/api-docs/page.tsx\<close>: the part of an OpenAPI document it reads, the
  list of its operations, their grouping by tag, and the fields it shows for parameters and
  bodies.
\<close>

section \<open>The document\<close>

datatype schema = Schema
  (so_type: "string option")
  (so_format: "string option")
  (so_description: "string option")
  (so_required: "string list option")
  (so_properties: "(string \<times> schema) list option")
  (so_items: "schema option")
  (so_additional: "(bool + schema) option")

record parameter =
  op_name :: "string option"
  op_in :: "string option"
  op_required :: "bool option"
  op_description :: "string option"
  op_schema :: "schema option"

datatype param_or_ref = Ref string | Param parameter

record request_body =
  rq_description :: "string option"
  rq_content :: "schema option obj option"

record operation =
  oo_tags :: "string list option"
  oo_summary :: "string option"
  oo_description :: "string option"
  oo_parameters :: "param_or_ref list option"
  oo_requestBody :: "request_body option"

record openapi_spec =
  os_openapi :: string
  os_title :: string
  os_version :: string
  os_description :: "string option"
  os_paths :: "operation obj obj option"
  os_parameters :: "parameter obj option"

record endpoint =
  ep_tag :: string
  ep_method :: string
  ep_path :: string
  ep_op :: operation

section \<open>Operations\<close>

definition methodOrder :: "string list" where
  "methodOrder = [''get'', ''post'', ''patch'', ''delete'']"

definition endpoint_of :: "string \<Rightarrow> string \<Rightarrow> operation \<Rightarrow> endpoint" where
  "endpoint_of path meth opn =
     \<lparr>ep_tag = (case nullish (oo_tags opn) [] of [] \<Rightarrow> ''Other'' | tg # _ \<Rightarrow> tg),
      ep_method = upper meth, ep_path = path, ep_op = opn\<rparr>"

definition endpoints_at :: "string \<Rightarrow> operation obj \<Rightarrow> endpoint list" where
  "endpoints_at path methods = concat (map (\<lambda>meth. case map_of methods meth of
     None \<Rightarrow> [] | Some opn \<Rightarrow> [endpoint_of path meth opn]) methodOrder)"

definition flatten :: "openapi_spec option \<Rightarrow> endpoint list" where
  "flatten spec = (case Option.bind spec os_paths of
     None \<Rightarrow> [] | Some paths \<Rightarrow> concat (map (\<lambda>(path, methods). endpoints_at path methods) paths))"

definition grouped :: "endpoint list \<Rightarrow> (string \<times> endpoint list) list" where
  "grouped endpoints =
     fold (\<lambda>e m. obj_set (ep_tag e) (nullish (map_of m (ep_tag e)) [] @ [e]) m) endpoints []"

definition methodTone :: "string \<Rightarrow> string" where
  "methodTone m =
     (if m = ''GET'' then ''success'' else if m = ''POST'' then ''default'' else if m = ''PATCH'' then ''warning''
      else if m = ''DELETE'' then ''destructive'' else ''outline'')"

section \<open>Fields\<close>

definition resolveParam :: "openapi_spec option \<Rightarrow> param_or_ref \<Rightarrow> parameter" where
  "resolveParam spec p = (case p of
     Param q \<Rightarrow> q
   | Ref r \<Rightarrow> let name = last (split_on (CHR ''/'') r) in
       (case Option.bind (Option.bind spec os_parameters) (\<lambda>ps. map_of ps name) of
          Some q \<Rightarrow> q
        | None \<Rightarrow> \<lparr>op_name = Some name, op_in = None, op_required = None, op_description = None, op_schema = None\<rparr>))"

definition schemaType :: "schema option \<Rightarrow> string" where
  "schemaType s = (case s of
     None \<Rightarrow> ''any''
   | Some sc \<Rightarrow>
       if so_type sc = Some ''array'' then nullish (Option.bind (so_items sc) so_type) ''any'' @ ''[]''
       else nullish (so_type sc) ''object'')"

record field_info =
  fi_name :: string
  fi_location :: "string option"
  fi_type :: string
  fi_required :: bool
  fi_description :: "string option"

definition paramList :: "openapi_spec option \<Rightarrow> operation \<Rightarrow> field_info list" where
  "paramList spec opn = map (\<lambda>p. let q = resolveParam spec p in
     \<lparr>fi_name = nullish (op_name q) ''param'', fi_location = Some (nullish (op_in q) ''query''),
      fi_type = schemaType (op_schema q), fi_required = nullish (op_required q) False,
      fi_description = op_description q\<rparr>) (nullish (oo_parameters opn) [])"

definition requestSchema :: "operation \<Rightarrow> schema option" where
  "requestSchema opn = Option.bind (oo_requestBody opn) (\<lambda>b. Option.bind (rq_content b)
     (\<lambda>c. case map_of c ''application/json'' of Some s \<Rightarrow> s | None \<Rightarrow> None))"

definition bodyFields :: "operation \<Rightarrow> field_info list" where
  "bodyFields opn =
     (let sc = requestSchema opn; props = nullish (Option.bind sc so_properties) [];
          required = nullish (Option.bind sc so_required) []
      in map (\<lambda>(name, prop).
        \<lparr>fi_name = name, fi_location = None, fi_type = schemaType (Some prop),
         fi_required = List.member required name, fi_description = so_description prop\<rparr>) props)"

section \<open>The screen\<close>

definition FieldChips :: "field_info list \<Rightarrow> string \<Rightarrow> 'e node" where
  "FieldChips flds blank_text =
     (if flds = [] then tx ''span'' blank_text
      else el ''div'' (map (\<lambda>f. Elem ''span'' [Prop ''title'' (nullish (fi_description f) [])]
        (shown (truthy (fi_location f)) [tx ''span'' (nullish (fi_location f) [])]
         @ [tx ''span'' (fi_name f), tx ''span'' ('':'' @ fi_type f)]
         @ shown (fi_required f) [tx ''span'' ''*''])) flds))"

datatype docs_event = RefreshDocs | OpenRaw

definition endpoint_row :: "tr \<Rightarrow> openapi_spec option \<Rightarrow> endpoint \<Rightarrow> 'e node" where
  "endpoint_row t spec e = el ''TableRow''
     [el ''TableCell'' [badge (methodTone (ep_method e)) (ep_method e)],
      cell (ep_path e),
      el ''TableCell'' [tx ''div'' (nullish (oo_summary (ep_op e)) []), tx ''div'' (nullish (oo_description (ep_op e)) [])],
      el ''TableCell'' [FieldChips (paramList spec (ep_op e)) dash_text],
      el ''TableCell'' [FieldChips (bodyFields (ep_op e)) (t ''common.no'' [])]]"

definition group_card :: "tr \<Rightarrow> openapi_spec option \<Rightarrow> string \<times> endpoint list \<Rightarrow> 'e node" where
  "group_card t spec g = el ''Card''
     [el ''CardTitle'' [Txt (fst g), badge ''outline'' (int_text (int (length (snd g))))],
      el ''CardContent'' [table_of
        (map (\<lambda>k. head (t k [])) [''docs.col.method'', ''docs.col.path'', ''docs.col.summary'', ''docs.col.params'', ''docs.col.body''])
        (map (endpoint_row t spec) (snd g))]]"

definition docs_card :: "tr \<Rightarrow> openapi_spec \<Rightarrow> nat \<Rightarrow> 'e node" where
  "docs_card t spec n = el ''Card''
     [tx ''CardTitle'' (os_title spec), tx ''CardDescription'' (nullish (os_description spec) []),
      badge ''outline'' (''OpenAPI '' @ os_openapi spec), badge ''secondary'' (''v'' @ os_version spec),
      tx ''CardContent'' (t ''docs.count'' [(''n'', int_text (int n))])]"

definition ApiDocsPage :: "tr \<Rightarrow> openapi_spec query \<Rightarrow> bool \<Rightarrow> docs_event node" where
  "ApiDocsPage t q isFetching =
     (let endpoints = flatten (q_data q); groups = grouped endpoints in el ''div''
       (PageHeader (t ''docs.title'' []) (Some (t ''docs.subtitle'' []))
          (Some (el ''div'' [button isFetching RefreshDocs (t ''common.refresh'' []),
                             button False OpenRaw (t ''docs.raw'' [])]))
        # query_state (plain_t t) q RefreshDocs 3
            ((case q_data q of None \<Rightarrow> [] | Some spec \<Rightarrow> [docs_card t spec (length endpoints)])
             @ map (group_card t (q_data q)) groups
             @ shown (length groups = 0) [EmptyState [Txt (t ''docs.empty'' [])]])))"

section \<open>Nothing is lost\<close>

lemma grouped_snoc:
  "grouped (es @ [e]) = obj_set (ep_tag e) (nullish (map_of (grouped es) (ep_tag e)) [] @ [e]) (grouped es)"
  by (simp add: grouped_def)

lemma grouped_distinct: "distinct (map fst (grouped es))"
  by (induction es rule: rev_induct) (simp_all add: grouped_snoc distinct_obj_set, simp add: grouped_def)

lemma grouped_lookup:
  "nullish (map_of (grouped es) tg) [] = filter (\<lambda>e. ep_tag e = tg) es"
  by (induction es rule: rev_induct) (auto simp: grouped_snoc, simp add: grouped_def)

lemma grouped_keys: "fst ` set (grouped es) = ep_tag ` set es"
  by (induction es rule: rev_induct) (auto simp: grouped_snoc keys_obj_set, simp_all add: grouped_def)

lemma group_items:
  assumes "(tg, items) \<in> set (grouped es)"
  shows "items = filter (\<lambda>e. ep_tag e = tg) es"
  using grouped_lookup [of es tg] map_of_is_SomeI [OF grouped_distinct assms] by simp

lemma mset_obj_set_concat:
  "distinct (map fst m) \<Longrightarrow>
     mset (concat (map snd (obj_set k (nullish (map_of m k) [] @ [e]) m))) = add_mset e (mset (concat (map snd m)))"
  by (induction m) auto

lemma grouped_mset: "mset (concat (map snd (grouped es))) = mset es"
  by (induction es rule: rev_induct)
    (simp_all add: grouped_snoc mset_obj_set_concat [OF grouped_distinct] del: map_concat, simp add: grouped_def)

lemma endpoints_at_iff:
  "e \<in> set (endpoints_at path ms) \<longleftrightarrow>
     (\<exists>meth \<in> set methodOrder. \<exists>opn. map_of ms meth = Some opn \<and> e = endpoint_of path meth opn)"
proof -
  have one: "e \<in> set (case x of None \<Rightarrow> [] | Some opn \<Rightarrow> [f opn]) \<longleftrightarrow> (\<exists>opn. x = Some opn \<and> e = f opn)"
    for x :: "operation option" and f by (cases x) auto
  show ?thesis by (simp add: endpoints_at_def one eq_commute [of "Some _"])
qed

lemma flatten_iff:
  "e \<in> set (flatten (Some spec)) \<longleftrightarrow> (\<exists>paths path methods. os_paths spec = Some paths
     \<and> (path, methods) \<in> set paths \<and> e \<in> set (endpoints_at path methods))"
  by (cases "os_paths spec") (auto simp: flatten_def)

text \<open>
  The reference shows every operation of the document that has one of the four methods, exactly
  once, in the group of its first tag: the groups have distinct tags and partition the
  operations, and within a group they keep the order of the document.
\<close>

theorem reference_is_complete:
  assumes "q_data q = Some spec"
  shows "mset (concat (map snd (grouped (flatten (q_data q))))) = mset (flatten (q_data q))
    \<and> distinct (map fst (grouped (flatten (q_data q))))
    \<and> (\<forall>(tg, items) \<in> set (grouped (flatten (q_data q))).
         items \<noteq> [] \<and> items = filter (\<lambda>e. ep_tag e = tg) (flatten (q_data q)))
    \<and> (\<forall>paths path methods meth op. os_paths spec = Some paths \<and> (path, methods) \<in> set paths
         \<and> meth \<in> set methodOrder \<and> map_of methods meth = Some opn \<longrightarrow>
         (\<exists>(tg, items) \<in> set (grouped (flatten (q_data q))). endpoint_of path meth opn \<in> set items))"
proof -
  let ?es = "flatten (q_data q)"
  have items: "items \<noteq> [] \<and> items = filter (\<lambda>e. ep_tag e = tg) ?es" if "(tg, items) \<in> set (grouped ?es)" for tg items
  proof -
    from that have "tg \<in> ep_tag ` set ?es" using grouped_keys [of ?es] by force
    with group_items [OF that] show ?thesis by (auto simp: filter_empty_conv)
  qed
  have "\<exists>(tg, items) \<in> set (grouped ?es). e \<in> set items" if "e \<in> set ?es" for e
  proof -
    from that have "e \<in># mset (concat (map snd (grouped ?es)))" by (simp add: grouped_mset del: mset_concat)
    then show ?thesis by auto
  qed
  moreover have "endpoint_of path meth opn \<in> set ?es"
    if "os_paths spec = Some paths" "(path, methods) \<in> set paths" "meth \<in> set methodOrder"
      "map_of methods meth = Some opn" for paths path methods meth opn
    using that unfolding assms flatten_iff endpoints_at_iff by blast
  ultimately show ?thesis using items grouped_mset grouped_distinct by blast
qed

definition sample_spec :: openapi_spec where
  "sample_spec = \<lparr>os_openapi = ''3.0.3'', os_title = ''KV'', os_version = ''1'', os_description = None,
     os_paths = Some [(''/clusters'', [(''get'', \<lparr>oo_tags = None, oo_summary = None, oo_description = None,
       oo_parameters = None, oo_requestBody = None\<rparr>)])], os_parameters = None\<rparr>"

theorem reference_is_complete_witness:
  "distinct (map fst (grouped (flatten (Some sample_spec))))
   \<and> mset (concat (map snd (grouped (flatten (Some sample_spec))))) = mset (flatten (Some sample_spec))"
  using reference_is_complete [of "\<lparr>q_data = Some sample_spec, q_isLoading = False, q_isError = False, q_error = None\<rparr>"
      sample_spec] by simp

end
