(* ===== verification/Sidebar.thy ===== *)
theory Sidebar
  imports Chrome Js_Float
begin

text \<open>
  The sidebar of \<open>web/components/ui/sidebar.tsx\<close>: the provider with its open state on a desktop,
  its open state on a phone and the cookie it writes, the keyboard shortcut, the ways the
  sidebar is laid out, and the parts a menu is built of.  A document's cookies are the last
  text assigned for this name; styling is not modelled.
\<close>

section \<open>The provider\<close>

definition SIDEBAR_COOKIE_NAME :: string where
  "SIDEBAR_COOKIE_NAME = ''sidebar_state''"

definition SIDEBAR_COOKIE_MAX_AGE :: int where
  "SIDEBAR_COOKIE_MAX_AGE = 60 * 60 * 24 * 7"

definition SIDEBAR_KEYBOARD_SHORTCUT :: string where
  "SIDEBAR_KEYBOARD_SHORTCUT = ''b''"

text \<open>
  \<open>open\<close> and \<open>onOpenChange\<close> let a parent control the sidebar; of the callback the model keeps
  whether there is one, and \<open>setOpen\<close> returns the value it is called with.
\<close>

record sidebar_props =
  sp_defaultOpen :: bool
  sp_open :: "bool option"
  sp_onOpenChange :: bool

definition default_props :: sidebar_props where
  "default_props = \<lparr>sp_defaultOpen = True, sp_open = None, sp_onOpenChange = False\<rparr>"

record sidebar_state =
  sb_open :: bool
  sb_openMobile :: bool
  sb_screen :: "int \<times> bool option"
  sb_cookie :: "string option"

definition sidebar_init :: "sidebar_props \<Rightarrow> int \<Rightarrow> string option \<Rightarrow> sidebar_state" where
  "sidebar_init p width cookie =
     \<lparr>sb_open = sp_defaultOpen p, sb_openMobile = False, sb_screen = (width, None), sb_cookie = cookie\<rparr>"

text \<open>The first effect of \<open>useIsMobile\<close>, and a later change of the window.\<close>

definition sidebar_mount :: "sidebar_state \<Rightarrow> sidebar_state" where
  "sidebar_mount s = s\<lparr>sb_screen := (fst (sb_screen s), mobile_onChange (fst (sb_screen s)))\<rparr>"

definition sidebar_resize :: "int \<Rightarrow> sidebar_state \<Rightarrow> sidebar_state" where
  "sidebar_resize width s = s\<lparr>sb_screen := mobile_resize (sb_screen s) width\<rparr>"

record sidebar_ctx =
  sc_state :: string
  sc_open :: bool
  sc_isMobile :: bool
  sc_openMobile :: bool

definition open_now :: "sidebar_props \<Rightarrow> sidebar_state \<Rightarrow> bool" where
  "open_now p s = nullish (sp_open p) (sb_open s)"

definition contextValue :: "sidebar_props \<Rightarrow> sidebar_state \<Rightarrow> sidebar_ctx" where
  "contextValue p s =
     \<lparr>sc_state = (if open_now p s then ''expanded'' else ''collapsed''), sc_open = open_now p s,
      sc_isMobile = useIsMobile (snd (sb_screen s)), sc_openMobile = sb_openMobile s\<rparr>"

definition useSidebar :: "'c option \<Rightarrow> string + 'c" where
  "useSidebar ctx = (case ctx of
     None \<Rightarrow> Inl ''useSidebar must be used within a SidebarProvider.'' | Some c \<Rightarrow> Inr c)"

definition cookie_text :: "bool \<Rightarrow> string" where
  "cookie_text v = SIDEBAR_COOKIE_NAME @ ''='' @ (if v then ''true'' else ''false'')
     @ ''; path=/; max-age='' @ int_text SIDEBAR_COOKIE_MAX_AGE"

definition setOpen :: "sidebar_props \<Rightarrow> (bool \<Rightarrow> bool) \<Rightarrow> sidebar_state \<Rightarrow> sidebar_state \<times> bool option" where
  "setOpen p value s =
     (let openState = value (open_now p s);
          s1 = (if sp_onOpenChange p then s else s\<lparr>sb_open := openState\<rparr>)
      in (s1\<lparr>sb_cookie := Some (cookie_text openState)\<rparr>,
          if sp_onOpenChange p then Some openState else None))"

definition setOpenMobile :: "bool \<Rightarrow> sidebar_state \<Rightarrow> sidebar_state" where
  "setOpenMobile b s = s\<lparr>sb_openMobile := b\<rparr>"

definition toggleSidebar :: "sidebar_props \<Rightarrow> sidebar_state \<Rightarrow> sidebar_state \<times> bool option" where
  "toggleSidebar p s =
     (if sc_isMobile (contextValue p s) then (setOpenMobile (\<not> sb_openMobile s) s, None)
      else setOpen p Not s)"

text \<open>The listener on the window; the second part tells whether it prevents the default.\<close>

definition handleKeyDown ::
  "sidebar_props \<Rightarrow> string \<Rightarrow> bool \<Rightarrow> bool \<Rightarrow> sidebar_state \<Rightarrow> (sidebar_state \<times> bool option) \<times> bool" where
  "handleKeyDown p key meta ctrl s =
     (if key = SIDEBAR_KEYBOARD_SHORTCUT \<and> (meta \<or> ctrl) then (toggleSidebar p s, True)
      else ((s, None), False))"

section \<open>The sidebar\<close>

definition Sidebar ::
  "sidebar_ctx \<Rightarrow> (bool \<Rightarrow> 'e) \<Rightarrow> string \<Rightarrow> string \<Rightarrow> string \<Rightarrow> 'e node list \<Rightarrow> 'e node" where
  "Sidebar cx setMobile side variant collapsible children =
     (if collapsible = ''none'' then Elem ''div'' [Prop ''data-slot'' ''sidebar''] children
      else if sc_isMobile cx then
        Elem ''Sheet'' [Flag ''open'' (sc_openMobile cx), OnToggle setMobile]
          (shown (sc_openMobile cx)
            [Elem ''SheetContent'' [Prop ''data-mobile'' ''true'', Prop ''side'' side]
               [el ''SheetHeader'' [tx ''SheetTitle'' ''Sidebar'',
                                tx ''SheetDescription'' ''Displays the mobile sidebar.''],
                el ''div'' children]])
      else Elem ''div''
        [Prop ''data-state'' (sc_state cx),
         Prop ''data-collapsible'' (if sc_state cx = ''collapsed'' then collapsible else []),
         Prop ''data-variant'' variant, Prop ''data-side'' side, Prop ''data-slot'' ''sidebar'']
        [Elem ''div'' [Prop ''data-slot'' ''sidebar-gap''] [],
         Elem ''div'' [Prop ''data-slot'' ''sidebar-container'']
           [Elem ''div'' [Prop ''data-slot'' ''sidebar-inner''] children]])"

definition SidebarTrigger :: "'e \<Rightarrow> 'e node" where
  "SidebarTrigger toggle =
     Elem ''Button'' [Prop ''data-sidebar'' ''trigger'', OnClick toggle] [tx ''span'' ''Toggle Sidebar'']"

definition SidebarRail :: "'e \<Rightarrow> 'e node" where
  "SidebarRail toggle =
     Elem ''button'' [Prop ''data-sidebar'' ''rail'', Prop ''aria-label'' ''Toggle Sidebar'',
       OnClick toggle, Prop ''title'' ''Toggle Sidebar''] []"

text \<open>
  A button of the menu, with a tooltip that only a collapsed sidebar on a desktop shows.
\<close>

definition SidebarMenuButton ::
  "sidebar_ctx \<Rightarrow> bool \<Rightarrow> string \<Rightarrow> bool \<Rightarrow> string option \<Rightarrow> 'e attr list \<Rightarrow> 'e node list \<Rightarrow> 'e node" where
  "SidebarMenuButton cx asChild sz active tooltip attrs children =
     (let btn = Elem (if asChild then ''Slot'' else ''button'')
            ([Prop ''data-slot'' ''sidebar-menu-button'', Prop ''data-size'' sz,
              Flag ''data-active'' active] @ attrs) children
      in if \<not> truthy tooltip then btn
         else el ''Tooltip''
           [el ''TooltipTrigger'' [btn],
            Elem ''TooltipContent''
              [Prop ''side'' ''right'', Prop ''align'' ''center'',
               Flag ''hidden'' (sc_state cx \<noteq> ''collapsed'' \<or> sc_isMobile cx)]
              [Txt (nullish tooltip [])]])"

definition SidebarMenuSubButton :: "bool \<Rightarrow> string \<Rightarrow> bool \<Rightarrow> 'e attr list \<Rightarrow> 'e node list \<Rightarrow> 'e node" where
  "SidebarMenuSubButton asChild sz active attrs children =
     Elem (if asChild then ''Slot'' else ''a'')
       ([Prop ''data-slot'' ''sidebar-menu-sub-button'', Prop ''data-size'' sz,
         Flag ''data-active'' active] @ attrs) children"

text \<open>The width of a skeleton, from the random number, a double.\<close>

definition skeleton_width :: "frac \<Rightarrow> string" where
  "skeleton_width r = (let w = mul_double r (40, 1) in int_text (fst w div snd w + 50) @ ''%'')"

section \<open>Laws\<close>

lemma offers_trigger [simp]: "offers (SidebarTrigger e) = {e}" "offers (SidebarRail e) = {e}"
  by (auto simp: SidebarTrigger_def SidebarRail_def attr_offers_def)

lemma offers_Sidebar:
  "offers (Sidebar cx setMobile side variant collapsible children) =
     (if collapsible = ''none'' \<or> \<not> sc_isMobile cx then \<Union> (offers ` set children)
      else range setMobile \<union> (if sc_openMobile cx then \<Union> (offers ` set children) else {}))"
  by (simp add: Sidebar_def attr_offers_def shown_def)

lemma menu_button_offers:
  "offers (SidebarMenuButton cx asChild sz active tooltip [] children) = \<Union> (offers ` set children)"
  by (simp add: SidebarMenuButton_def Let_def attr_offers_def)

text \<open>
  A cookie that the provider writes tells its open state apart, so that it could be restored
  from it.
\<close>

lemma cookie_text_inject [simp]: "cookie_text a = cookie_text b \<longleftrightarrow> a = b"
  by (simp add: cookie_text_def)

lemma mount_screen:
  "sb_screen s = (w, m) \<Longrightarrow> snd (sb_screen (sidebar_mount s)) = mobile_onChange w"
  by (simp add: sidebar_mount_def)

text \<open>
  The screen is known right after the first effect and every resize: what the sidebar takes
  for a phone is a window narrower than the breakpoint.
\<close>

definition screen_known :: "sidebar_state \<Rightarrow> bool" where
  "screen_known s \<longleftrightarrow> snd (sb_screen s) = mobile_onChange (fst (sb_screen s))"

lemma screen_known_preserved:
  "screen_known (sidebar_mount s)"
  "screen_known s \<Longrightarrow> screen_known (sidebar_resize w s)"
  "screen_known s \<Longrightarrow> screen_known (fst (toggleSidebar p s))"
  "screen_known s \<Longrightarrow> screen_known (setOpenMobile b s)"
  by (auto simp: screen_known_def sidebar_mount_def sidebar_resize_def mobile_resize_def mobile_onChange_def
      media_matches_def toggleSidebar_def setOpenMobile_def setOpen_def Let_def)

lemma is_mobile_width:
  "screen_known s \<Longrightarrow> sc_isMobile (contextValue p s) \<longleftrightarrow> fst (sb_screen s) < MOBILE_BREAKPOINT"
  by (simp add: screen_known_def contextValue_def useIsMobile_def mobile_onChange_def)

text \<open>
  The two toggles do not mix: on a phone nothing of the desktop changes, and on a desktop the
  sheet of the phone does not.  Twice the same gives the state back, but for the cookie.
\<close>

lemma toggle_simps:
  "sc_isMobile (contextValue p s) \<Longrightarrow> toggleSidebar p s = (s\<lparr>sb_openMobile := \<not> sb_openMobile s\<rparr>, None)"
  "\<not> sc_isMobile (contextValue default_props s) \<Longrightarrow> toggleSidebar default_props s
     = (s\<lparr>sb_open := \<not> sb_open s, sb_cookie := Some (cookie_text (\<not> sb_open s))\<rparr>, None)"
  by (simp_all add: toggleSidebar_def setOpenMobile_def setOpen_def open_now_def default_props_def Let_def)

lemma toggle_keeps_screen [simp]: "sb_screen (fst (toggleSidebar p s)) = sb_screen s"
  by (simp add: toggleSidebar_def setOpenMobile_def setOpen_def Let_def)

lemma toggle_and_back:
  "fst (toggleSidebar default_props (fst (toggleSidebar default_props s)))
     = (if sc_isMobile (contextValue default_props s) then s
        else s\<lparr>sb_cookie := Some (cookie_text (sb_open s))\<rparr>)"
proof (cases "sc_isMobile (contextValue default_props s)")
  case True
  then have "sc_isMobile (contextValue default_props (fst (toggleSidebar default_props s)))"
    by (simp add: contextValue_def)
  with True show ?thesis by (simp add: toggle_simps(1))
next
  case False
  then have "\<not> sc_isMobile (contextValue default_props (fst (toggleSidebar default_props s)))"
    by (simp add: contextValue_def)
  with False show ?thesis by (simp add: toggle_simps(2))
qed

end
