(* ===== verification/I18n_En.thy ===== *)
theory I18n_En
  imports Uri
begin

text \<open>
  The English dictionary of \<open>web/lib/i18n.tsx\<close>, in the order of the source and cut into parts.  A
  text with characters outside printable ASCII is written percent-encoded and decoded.
\<close>

definition en_1 :: "(string \<times> string) list" where
  "en_1 =
    [(''app.brand'', ''kv-indexer''),
     (''app.brand.subtitle'', ''admission console''),
     (''app.section.platform'', ''Platform''),
     (''app.section.tools'', ''Tools''),
     (''app.section.observability'', ''Observability''),
     (''app.locale.toggle'', ''Language''),
     (''app.theme.toggle'', ''Toggle theme''),
     (''app.theme.light'', ''Light''),
     (''app.theme.dark'', ''Dark''),
     (''app.theme.system'', ''System''),
     (''app.user.account'', ''Account''),
     (''app.user.notifications'', ''Notifications''),
     (''app.user.logout'', ''Log out''),
     (''common.cancel'', ''Cancel''),
     (''common.save'', ''Save''),
     (''common.edit'', ''Edit''),
     (''common.delete'', ''Delete''),
     (''common.enabled'', ''enabled''),
     (''common.disabled'', ''disabled''),
     (''common.on'', ''on''),
     (''common.off'', ''off''),
     (''common.yes'', ''yes''),
     (''common.no'', ''no''),
     (''common.up'', ''up''),
     (''common.down'', ''down''),
     (''common.fresh'', ''fresh''),
     (''common.stale'', ''stale''),
     (''common.default'', ''default''),
     (''common.any'', ''any''),
     (''common.global'', ''global''),
     (''common.none'', decode ''%E2%80%94''),
     (''common.loading'', decode ''Loading%E2%80%A6''),
     (''common.error'', ''Failed to load''),
     (''common.retry'', ''Retry''),
     (''common.refresh'', ''Refresh''),
     (''common.prev'', ''Prev''),
     (''common.next'', ''Next''),
     (''common.details'', ''Details''),
     (''common.never'', ''never''),
     (''common.ago'', ''{n} ago''),
     (''common.justnow'', ''just now''),
     (''common.copied'', ''Copied''),
     (''stream.status.healthy'', ''healthy''),
     (''stream.status.stale'', ''stale''),
     (''stream.status.idle'', ''idle''),
     (''stream.status.down'', ''down''),
     (''stream.status.degraded'', ''degraded''),
     (''stream.status.tip.healthy'', ''Connected and receiving events.''),
     (''stream.status.tip.stale'', decode ''Connected but no events recently %E2%80%94 admission may treat residency as stale.''),
     (''stream.status.tip.idle'', ''Connected, no events yet (cold listener).''),
     (''stream.status.tip.down'', ''Listener is not connected to the engine.''),
     (''stream.status.tip.degraded'', ''Receiving events but gaps or decode errors detected.''),
     (''streams.col.status'', ''Status''),
     (''streams.col.skipped'', ''Skipped''),
     (''streams.col.last_event'', ''Last event''),
     (''overview.stat.stale_streams'', ''Stale / down streams''),
     (''cluster.label'', ''Cluster''),
     (''cluster.all'', ''All clusters''),
     (''cluster.col'', ''Cluster''),
     (''cluster.backend'', ''Backend''),
     (''overview.stat.clusters_count'', ''Clusters''),
     (''nav.overview'', ''Overview''),
     (''nav.engines'', ''Engines''),
     (''nav.profiles'', ''Model Profiles''),
     (''nav.policies'', ''Admission Policies''),
     (''nav.streams'', ''KV Event Streams''),
     (''nav.simulator'', ''Prefix Simulator''),
     (''nav.decisions'', ''Live Decisions''),
     (''nav.audit'', ''Config Audit''),
     (''nav.api_docs'', ''API Docs''),
     (''docs.title'', ''API Docs''),
     (''docs.subtitle'', ''OpenAPI view of the kv-indexer and gateway HTTP surface.''),
     (''docs.raw'', ''Open JSON''),
     (''docs.count'', ''{n} operations''),
     (''docs.col.method'', ''Method''),
     (''docs.col.path'', ''Path''),
     (''docs.col.summary'', ''Summary''),
     (''docs.col.params'', ''Parameters''),
     (''docs.col.body'', ''Body''),
     (''docs.empty'', ''No OpenAPI operations found.''),
     (''overview.title'', ''Cluster Overview''),
     (''overview.subtitle'', ''Length + cache-hit-rate admission judgment across inference clusters''),
     (''overview.stat.clusters'', ''Clusters''),
     (''overview.stat.engines'', ''Engines''),
     (''overview.stat.profiles'', ''Model profiles''),
     (''overview.stat.healthy_streams'', ''Healthy streams''),
     (''overview.stat.indexed_blocks'', ''Indexed prefix blocks''),
     (''overview.stat.reject_rate'', ''429 reject rate''),
     (''overview.stat.fallback_rate'', ''Fallback rate''),
     (''overview.stat.decisions'', ''Decisions logged''),
     (''overview.recent.title'', ''Recent hit ratio''),
     (''overview.recent.desc'', ''Last {n} admission decisions, prefix-cache hit ratio in percent.''),
     (''overview.recent.empty'', decode ''No decisions yet %E2%80%94 try the Prefix Simulator or send a request.''),
     (''overview.clusters.title'', ''Clusters''),
     (''overview.clusters.desc'', decode ''Region %C2%B7 environment %C2%B7 state''),
     (''overview.clusters.empty'', ''No clusters.''),
     (''overview.cluster.maintenance'', ''maintenance''),
     (''overview.latest.title'', ''Latest decisions''),
     (''overview.latest.desc'', ''Most recent admission verdicts across all protocols.''),
     (''overview.latest.empty'', ''No decisions logged yet.''),
     (''overview.col.time'', ''Time''),
     (''overview.col.protocol'', ''Protocol''),
     (''overview.col.model'', ''Model''),
     (''overview.col.decision'', ''Decision''),
     (''overview.col.reason'', ''Reason''),
     (''overview.col.tokens'', ''Tokens''),
     (''overview.col.hit'', ''Hit''),
     (''engines.title'', ''Engine Registry''),
     (''engines.subtitle'', ''vLLM/SGLang workers. Hot-toggle enabled / draining / health without losing the index.''),
     (''engines.btn.register'', ''Register engine''),
     (''engines.sheet.title'', ''Register engine''),
     (''engines.sheet.desc'', ''Connect a vLLM or SGLang worker. The KV event endpoint is required for prefix-cache awareness.''),
     (''engines.col.engine'', ''Engine''),
     (''engines.col.cluster'', ''Cluster''),
     (''engines.col.framework'', ''Framework''),
     (''engines.col.models'', ''Models''),
     (''engines.col.endpoint'', ''Endpoint''),
     (''engines.col.kv_stream'', ''KV stream''),
     (''engines.col.indexer'', ''Indexer''),
     (''engines.col.state'', ''State''),
     (''engines.col.actions'', ''Actions'')]"

definition en_2 :: "(string \<times> string) list" where
  "en_2 =
    [(''engines.empty'', ''No engines registered.''),
     (''engines.status.draining'', ''draining''),
     (''engines.status.unhealthy'', ''unhealthy''),
     (''engines.action.disable'', ''Disable''),
     (''engines.action.enable'', ''Enable''),
     (''engines.action.drain'', ''Drain''),
     (''engines.action.undrain'', ''Undrain''),
     (''engines.field.engine_id'', ''Engine ID''),
     (''engines.field.cluster'', ''Cluster''),
     (''engines.field.framework'', ''Framework''),
     (''engines.field.served'', ''Served models (comma-separated)''),
     (''engines.field.api'', ''API endpoint''),
     (''engines.field.tokenizer'', ''Tokenizer endpoint''),
     (''engines.field.kv'', ''KV event endpoint (ZMQ)''),
     (''engines.field.replay'', ''Replay endpoint''),
     (''engines.field.target_backend'', ''Target indexer''),
     (''engines.no_indexers'', ''Add and enable an indexer connection before registering an engine.''),
     (''engines.error.no_indexer'', ''Select an indexer first.''),
     (''engines.error.no_cluster'', ''Select or enter the engine cluster.''),
     (''engines.toast.update_failed'', ''Update failed''),
     (''indexers.title'', ''Indexer Connections''),
     (''indexers.desc'', ''Gateway-owned registry stored in MongoDB. Each row is one kvindexer backend the gateway can federate.''),
     (''indexers.btn.add'', ''Add indexer''),
     (''indexers.btn.check'', ''Check''),
     (''indexers.sheet.new'', ''Add indexer''),
     (''indexers.sheet.edit'', ''Edit indexer: {id}''),
     (''indexers.sheet.desc'', ''Register the kvindexer HTTP endpoint for one region or cluster. Inference engines are added through the selected indexer.''),
     (''indexers.field.id'', ''Indexer ID''),
     (''indexers.field.kind'', ''Type''),
     (''indexers.field.cluster'', ''Cluster''),
     (''indexers.field.display_name'', ''Display name''),
     (''indexers.field.display_name_ph'', ''Local tokenizer''),
     (''indexers.field.url'', ''Indexer URL''),
     (''indexers.field.token'', ''Bearer token''),
     (''indexers.field.token_keep'', ''Leave empty to keep existing token''),
     (''indexers.field.token_optional'', ''Optional''),
     (''indexers.field.enabled'', ''Enabled''),
     (''indexers.field.enabled_hint'', ''Only enabled indexers receive fan-out reads and targeted writes.''),
     (''indexers.kind.backend'', ''Real indexer''),
     (''indexers.kind.virtual'', ''Virtual''),
     (''indexers.col.id'', ''Indexer''),
     (''indexers.col.cluster'', ''Cluster''),
     (''indexers.col.url'', ''URL''),
     (''indexers.col.token'', ''Token''),
     (''indexers.col.state'', ''State''),
     (''indexers.col.health'', ''Health''),
     (''indexers.col.actions'', ''Actions''),
     (''indexers.empty'', ''No indexer connections yet.''),
     (''indexers.token.set'', ''set''),
     (''indexers.token.none'', ''none''),
     (''indexers.health.unknown'', ''not checked''),
     (''indexers.health.ok'', ''healthy''),
     (''indexers.health.failed'', ''failed''),
     (''indexers.health.missing'', ''Indexer is not present in /clusters-health.''),
     (''indexers.health.unhealthy'', ''Gateway reported this indexer as unhealthy.''),
     (''indexers.health.ok_detail'', ''Reachable at {url}''),
     (''indexers.health.virtual_detail'', ''Gateway-local virtual indexer''),
     (''indexers.health.ok_toast'', ''Indexer {id} is healthy''),
     (''indexers.health.fail_toast'', ''Indexer {id} health check failed''),
     (''indexers.confirm.delete'', ''Delete indexer connection {id}?''),
     (''indexers.toast.saved'', ''Indexer saved''),
     (''indexers.toast.deleted'', ''Indexer deleted''),
     (''indexers.toast.update_failed'', ''Indexer update failed''),
     (''indexers.toast.delete_failed'', ''Indexer delete failed''),
     (''profiles.title'', ''Model Profiles''),
     (''profiles.subtitle'', ''Tokenization + hash semantics. Changing block size / hash profile / tokenizer bumps the version and isolates the request-key namespace.''),
     (''profiles.btn.new'', ''New profile''),
     (''profiles.col.model'', ''Model''),
     (''profiles.col.framework'', ''Framework''),
     (''profiles.col.tokenizer_source'', ''Tokenizer''),
     (''profiles.col.version'', ''Version''),
     (''profiles.col.hash'', ''Hash profile''),
     (''profiles.col.block'', ''Block size''),
     (''profiles.col.namespace'', ''Namespace''),
     (''profiles.col.features'', ''Features''),
     (''profiles.empty'', ''No profiles.''),
     (''profiles.text_only'', ''text-only''),
     (''profiles.sheet.new'', ''New profile''),
     (''profiles.sheet.edit'', ''Edit {id}''),
     (''profiles.sheet.desc'', ''Tokenizer, hash, and block-size choices namespace the request-key index. Mutating any of them bumps the profile version.''),
     (''profiles.field.model'', ''Model ID''),
     (''profiles.field.framework'', ''Framework''),
     (''profiles.field.hash'', ''Hash profile''),
     (''profiles.field.block'', ''Block size''),
     (''profiles.field.block_hint'', ''qwen3.5-4b full_attention group = 528''),
     (''profiles.field.tokenizer'', ''Tokenizer endpoint''),
     (''profiles.field.tokenizer_ph'', ''inherit from engine''),
     (''profiles.field.target_backend'', ''Target indexer / cluster''),
     (''profiles.field.tokenizer_mode'', ''Tokenizer source''),
     (''profiles.tokenizer_mode.remote'', ''Remote engine''),
     (''profiles.tokenizer_mode.local'', ''Local sidecar''),
     (''profiles.field.tokenizer_zip'', ''Tokenizer zip''),
     (''profiles.field.template_file'', ''Chat template file''),
     (''profiles.field.template'', ''Chat template''),
     (''profiles.error.empty_template_file'', ''Chat template file is empty.''),
     (''profiles.error.empty_tokenizer_zip'', ''Tokenizer zip is empty.''),
     (''profiles.field.seed'', ''Hash seed (namespace)''),
     (''profiles.feature.lora'', ''LoRA''),
     (''profiles.feature.mm'', ''Multimodal''),
     (''profiles.feature.salt'', ''Cache salt''),
     (''profiles.bump.title'', ''Saving will create v{n}''),
     (''profiles.bump.desc'', ''This change affects tokenization or hashing. A fresh request-key namespace will be allocated; old residency will TTL out, not corrupt new queries.''),
     (''profiles.btn.save_new'', ''Save as new version''),
     (''profiles.btn.move'', ''Save and move''),
     (''policies.title'', ''Admission Policies''),
     (''policies.subtitle'', ''Priority rules for cache-aware admission. Conditions inside one rule are AND; rules are matched by priority.''),
     (''policies.btn.new'', ''New rule''),
     (''policies.btn.test'', ''Test rule''),
     (''policies.sheet.title'', ''New rule''),
     (''policies.sheet.edit'', ''Edit rule: {id}''),
     (''policies.confirm.delete'', ''Delete rule {id}?''),
     (''policies.sheet.desc'', ''Build one admission rule from AND conditions, then choose the action to run when it matches.''),
     (''policies.test.title'', ''Test rule matching''),
     (''policies.test.desc'', ''Simulate a request shape, match rules by priority, and inspect the first rule that wins.''),
     (''policies.list.title'', ''Policy rules''),
     (''policies.list.desc'', ''Rules are evaluated by priority. The first enabled rule whose conditions all match wins.''),
     (''policies.list.empty'', ''No policy rules. Requests are accepted when no rule matches.''),
     (''policies.col.policy'', ''Rule ID''),
     (''policies.col.scope'', ''Applies to''),
     (''policies.col.long'', ''Check after''),
     (''policies.col.hard'', ''Reject after''),
     (''policies.col.minhit'', ''Required hit''),
     (''policies.col.ttl'', ''Event age''),
     (''policies.col.enabled'', ''Status''),
     (''policies.col.priority'', ''Priority'')]"

definition en_3 :: "(string \<times> string) list" where
  "en_3 =
    [(''policies.col.name'', ''Name''),
     (''policies.col.scope_cluster'', ''Applies to cluster''),
     (''policies.col.conditions'', ''Conditions''),
     (''policies.col.action'', ''Action''),
     (''policies.col.uncertain'', ''Uncertain''),
     (''policies.preview.title'', ''Rule preview''),
     (''policies.preview.desc'', ''Test which rule would match a request shape before sending traffic.''),
     (''policies.preview.btn'', ''Preview''),
     (''policies.preview.merge'', ''applied rules''),
     (''policies.preview.long'', ''Check-after threshold''),
     (''policies.preview.hard'', ''Reject-after threshold''),
     (''policies.preview.minhit'', ''Required hit rate''),
     (''policies.preview.ttl'', ''KV event max age''),
     (''policies.preview.stale'', ''Stale-stream behavior''),
     (''policies.preview.weights'', ''GPU / CPU / disk weights''),
     (''policies.preview.enabled'', ''Final status''),
     (''policies.preview.matched'', ''Matched rule''),
     (''policies.preview.no_match'', ''No matching rule''),
     (''policies.preview.evaluated'', ''Evaluated''),
     (''policies.field.id'', ''Rule ID''),
     (''policies.field.id_ph'', ''tenant-a-qwen''),
     (''policies.field.name'', ''Display name''),
     (''policies.field.name_ph'', ''256+ tokens require KV hit''),
     (''policies.field.priority'', ''Priority''),
     (''policies.field.scope_model'', ''Model match''),
     (''policies.field.scope_tenant'', ''Tenant match''),
     (''policies.field.scope_cluster'', ''Cluster match''),
     (''policies.field.model'', ''Model''),
     (''policies.field.tenant'', ''Tenant''),
     (''policies.field.cluster'', ''Cluster''),
     (''policies.field.ph_any'', ''All''),
     (''policies.field.long'', ''Start checking after tokens''),
     (''policies.field.hard'', ''Reject immediately above tokens''),
     (''policies.field.input_tokens'', ''Input tokens''),
     (''policies.field.preview_hit_ratio'', ''Assumed KV hit rate''),
     (''policies.field.action'', ''Matched action''),
     (''policies.field.low_hit'', ''Low-hit outcome''),
     (''policies.field.uncertain'', ''Uncertain-signal outcome''),
     (''policies.field.reject_status'', ''Reject HTTP status''),
     (''policies.field.minhit'', ''Required KV hit rate''),
     (''policies.field.ttl'', ''KV event max age (ms)''),
     (''policies.btn.save'', ''Save rule''),
     (''policies.btn.add_condition'', ''Add condition''),
     (''policies.storage_cluster'', ''stored on {cluster}''),
     (''policies.scope_cluster.desc'', ''Choosing a cluster writes a cluster_id = value condition. Any means this rule has no cluster condition.''),
     (''policies.error.target_cluster_required'', ''Choose an applicable cluster, or switch the top-right cluster selector to one concrete cluster before saving.''),
     (''policies.help.rule_id'', ''A stable id for this rule. It is used in audit records, API responses, and update/delete paths.''),
     (''policies.help.name'', ''A readable label for operators. If empty, the rule id is shown.''),
     (''policies.help.priority'', ''Higher priority rules run first. Once a rule matches, lower-priority rules are not evaluated.''),
     (''policies.help.cluster'', ''The request cluster_id this rule matches. Choosing local-vllm means only local-vllm admission requests can match this rule; Any leaves the rule unscoped by cluster.''),
     (''policies.help.scope'', ''Which requests this rule matches. Empty model, tenant, and cluster means the global default rule.''),
     (''policies.help.model'', ''The request model name, usually the same value clients send in the OpenAI or Anthropic model field.''),
     (''policies.help.tenant'', decode ''Your application%27s tenant, customer, or workspace ID. kv-indexer only uses it when callers pass tenant_id or equivalent metadata; otherwise leave it empty.''),
     (''policies.help.check_after'', ''Below this input-token count, the request is accepted without enforcing cache-hit rate. At or above it, KV hit rate is checked.''),
     (''policies.help.reject_after'', ''At or above this input-token count, the request can be rejected immediately if the policy gate fails. Keep it below the model context limit.''),
     (''policies.help.required_hit'', decode ''Minimum fraction of prompt tokens that must already be resident in KV cache for long prompts. 0.5 means 50%25.''),
     (''policies.help.event_age'', ''Maximum age of KV-cache events before the listener is treated as stale. Stale streams avoid strict rejection because residency data may be incomplete.''),
     (''policies.help.status'', ''Disabled rules are ignored. If no enabled rule matches, the request is accepted.''),
     (''policies.help.enabled'', ''Turn this rule on or off without deleting it.''),
     (''policies.help.stale_behavior'', ''How admission behaves when KV events are too old or the listener is stale. The current backend value is shown here.''),
     (''policies.help.weights'', ''Relative credit assigned to KV hits found on GPU, CPU, and disk tiers. Higher weight means that tier contributes more to the hit score.''),
     (''policies.help.applied_rules'', ''Rules that were merged to produce the final policy, ordered from broader defaults to more specific matches.''),
     (''policies.help.conditions'', ''Every condition in one rule must be true. Leave the list empty to match every request.''),
     (''policies.help.action'', ''The operation to run after a rule matches: accept, reject, or require a minimum KV hit rate.''),
     (''policies.help.input_tokens'', ''Request prompt length after tokenization. This is the common field for starting cache-hit checks at a token threshold.''),
     (''policies.help.preview_hit_ratio'', ''Synthetic hit ratio used only by this preview. Real admission still queries the live prefix index.''),
     (''policies.help.low_hit'', ''What to do when the KV hit ratio is below the required threshold.''),
     (''policies.help.uncertain'', ''What to do when the cache signal cannot be trusted, for example tokenizer failure, unsupported hash features, no serving engine, or an unhealthy KV event stream.''),
     (''policies.help.reject_status'', ''HTTP status returned when the rule rejects. 429 is recommended for admission backpressure.''),
     (''policies.help.matched_rule'', ''The first enabled rule whose AND conditions all matched this preview request.''),
     (''policies.help.result_reason'', ''Backend reason code explaining why the preview accepted, rejected, or fell back.''),
     (''policies.help.evaluated_rules'', ''Rules considered in priority order until the first match.''),
     (''policies.form.conditions'', ''Match conditions''),
     (''policies.form.conditions_desc'', ''These conditions are ANDed with the cluster scope above. Separate rules are OR by priority.''),
     (''policies.form.action'', ''Action''),
     (''policies.conditions.all'', ''all requests''),
     (''policies.conditions.all_desc'', ''No conditions means this rule matches every request.''),
     (''policies.condition.field'', ''Field''),
     (''policies.condition.op'', ''Operator''),
     (''policies.condition.value'', ''Value''),
     (''policies.placeholder.list'', ''value1, value2''),
     (''policies.condition.field.cluster_id'', ''cluster''),
     (''policies.condition.field.model_id'', ''model''),
     (''policies.condition.field.tenant_id'', ''tenant''),
     (''policies.condition.field.input_tokens'', ''input tokens''),
     (''policies.condition.field.hit_ratio'', ''hit ratio''),
     (''policies.condition.field.best_hit_tokens'', ''best hit tokens''),
     (''policies.condition.field.effective_cached_tokens'', ''effective cached tokens''),
     (''policies.condition.field.kv_event_state'', ''KV event state''),
     (''policies.condition.field.tokenized'', ''tokenized''),
     (''policies.condition.field.hash_supported'', ''hash supported''),
     (''policies.condition.field.has_candidates'', ''has candidates''),
     (''policies.condition.op.eq'', ''=''),
     (''policies.condition.op.neq'', ''!=''),
     (''policies.condition.op.in'', ''in''),
     (''policies.condition.op.not_in'', ''not in''),
     (''policies.condition.op.gt'', ''>''),
     (''policies.condition.op.gte'', ''>=''),
     (''policies.condition.op.lt'', ''<''),
     (''policies.condition.op.lte'', ''<=''),
     (''policies.condition.op.contains'', ''contains''),
     (''policies.action.accept'', ''Accept''),
     (''policies.action.reject'', ''Reject''),
     (''policies.action.require_cache_hit'', ''Require KV hit''),
     (''policies.action.require_hit'', ''Require KV hit''),
     (''policies.outcome.accept'', ''Accept''),
     (''policies.outcome.reject'', ''Reject''),
     (''policies.outcome.fallback_accept'', ''Fallback accept'')]"

definition en_4 :: "(string \<times> string) list" where
  "en_4 =
    [(''streams.title'', ''KV Event Streams''),
     (''streams.subtitle'', ''Per-engine ZMQ listener health: connection, sequence, gaps, decode errors. Freshness for admission is derived from this.''),
     (''streams.listeners.title'', ''Listeners''),
     (''streams.listeners.desc'', ''Connection state and event throughput per engine.''),
     (''streams.col.engine'', ''Engine''),
     (''streams.col.endpoint'', ''Endpoint''),
     (''streams.col.topic'', ''Topic''),
     (''streams.col.connected'', ''Connected''),
     (''streams.col.last_seq'', ''Last seq''),
     (''streams.col.events'', ''Events''),
     (''streams.col.gaps'', ''Gaps''),
     (''streams.col.decode'', ''Decode errs''),
     (''streams.col.queue'', ''Queue''),
     (''streams.col.last_err'', ''Last error''),
     (''streams.empty.listeners'', ''No listeners.''),
     (''streams.events.title'', ''Live KV events''),
     (''streams.events.desc'', ''Decoded ZMQ events as they arrive. Recent events are loaded first; live streaming follows the selected cluster.''),
     (''streams.events.live'', ''live''),
     (''streams.events.connecting'', ''connecting''),
     (''streams.events.select_cluster'', ''select cluster''),
     (''streams.events.query'', ''Query KV events''),
     (''streams.events.detail'', ''KV event details''),
     (''streams.events.empty'', ''No KV events observed yet.''),
     (''streams.events.empty_filtered'', ''No KV events match the current filter.''),
     (''streams.events.filter.indexed'', ''Indexed''),
     (''streams.events.filter.all'', ''All''),
     (''streams.events.page_info'', decode ''Page {page}/{pages} %C2%B7 {total} events %C2%B7 10 per page''),
     (''streams.events.col.time'', ''Observed''),
     (''streams.events.col.kind'', ''Kind''),
     (''streams.events.col.model'', ''Model''),
     (''streams.events.col.tier'', ''Tier''),
     (''streams.events.col.indexed'', ''Indexed''),
     (''streams.events.col.tokens'', ''Tokens''),
     (''streams.events.col.keys'', ''Req keys''),
     (''streams.events.col.skip'', ''Skip reason''),
     (''streams.events.col.detail'', ''Detail''),
     (''streams.events.raw_json'', ''Raw JSON''),
     (''streams.index.title'', ''Residency index''),
     (''streams.index.desc'', ''Prefix-block counts per profile namespace.''),
     (''streams.col.namespace'', ''Namespace''),
     (''streams.col.req_keys'', ''Prefix blocks''),
     (''streams.col.bridges'', ''Engine bridges''),
     (''streams.col.engines'', ''Engines''),
     (''streams.empty.index'', decode ''Index empty %E2%80%94 no events ingested yet.''),
     (''decisions.title'', ''Live Decisions''),
     (''decisions.subtitle'', ''Recent admission verdicts with reason, hit ratio, target, and config version.''),
     (''decisions.col.time'', ''Time''),
     (''decisions.col.protocol'', ''Protocol''),
     (''decisions.col.model'', ''Model''),
     (''decisions.col.tenant'', ''Tenant''),
     (''decisions.col.decision'', ''Decision''),
     (''decisions.col.reason'', ''Reason''),
     (''decisions.col.input'', ''Input''),
     (''decisions.col.hit'', ''Hit ratio''),
     (''decisions.col.target'', ''Target''),
     (''decisions.col.cfg'', ''Cfg''),
     (''decisions.empty'', ''No decisions yet. Use the Prefix Simulator or POST to /v1/chat/completions, /v1/responses, /v1/messages.''),
     (''decisions.filter.all'', ''All decisions''),
     (''decisions.filter.accept'', ''Accepted''),
     (''decisions.filter.reject'', ''Rejected (429)''),
     (''decisions.filter.fallback'', ''Fallback''),
     (''decisions.filter.none'', ''No decisions match this filter.''),
     (''decisions.count'', ''{shown} of {total}''),
     (''audit.title'', ''Config Audit''),
     (''audit.subtitle'', ''Every configuration mutation bumps the global version. Profile version bumps (which isolate the request-key namespace) are flagged.''),
     (''audit.col.version'', ''Version''),
     (''audit.col.time'', ''Time''),
     (''audit.col.action'', ''Action''),
     (''audit.col.entity'', ''Entity''),
     (''audit.col.id'', ''ID''),
     (''audit.col.detail'', ''Detail''),
     (''audit.col.flag'', ''Flag''),
     (''audit.bump_badge'', ''profile version bump''),
     (''audit.empty'', ''No config changes recorded.''),
     (''sim.title'', ''Prefix Query Simulator''),
     (''sim.subtitle'', decode ''Tokenize via the engine, compute request-keys, query residency, and run the admission judgment %E2%80%94 across all three protocols.''),
     (''sim.req.title'', ''Request''),
     (''sim.req.desc'', ''Construct a prompt and pick a protocol to simulate.''),
     (''sim.field.model'', ''Model''),
     (''sim.field.protocol'', ''Protocol''),
     (''sim.field.text'', ''Prompt / message text''),
     (''sim.btn.run'', ''Run full pipeline''),
     (''sim.btn.tokenize'', ''Tokenize only''),
     (''sim.btn.running'', decode ''Running%E2%80%A6''),
     (''sim.raw.title'', ''Request body''),
     (''sim.raw.desc'', ''Exact JSON sent to {path}.''),
     (''sim.needs_cluster'', decode ''Pick a specific cluster in the top-right switcher %E2%80%94 the simulator runs against one backend.''),
     (''sim.tok.title'', ''Tokenization''),
     (''sim.tok.tokens'', ''{n} tokens''),
     (''sim.tok.blocks'', ''{n} prefix blocks''),
     (''sim.tok.block_size'', ''block_size {n}''),
     (''sim.tok.namespace'', ''namespace''),
     (''sim.tok.req_keys'', ''request keys''),
     (''sim.hits.title'', ''Per-instance prefix hits''),
     (''sim.hits.empty'', ''No residency match (cold prefix).''),
     (''sim.hits.matched'', ''matched {n}''),
     (''sim.dec.reject'', ''429 Reject''),
     (''sim.dec.accept'', ''Accept''),
     (''sim.dec.input'', ''input''),
     (''sim.dec.tok'', ''tok''),
     (''sim.dec.best'', ''best hit''),
     (''sim.dec.ratio'', ''ratio''),
     (''sim.dec.fallback'', ''fallback''),
     (''sim.dec.target'', ''suggested target:''),
     (''sim.dec.min'', decode ''min required ratio: {min} %C2%B7 got {got}%25''),
     (''sim.dec.profile'', decode ''profile v{p} %C2%B7 config #{c} %C2%B7 rule: {ids}''),
     (''protocol.openai.chat'', ''OpenAI Chat''),
     (''protocol.openai.responses'', ''OpenAI Responses''),
     (''protocol.anthropic.messages'', ''Anthropic Messages'')]"

definition en_dict :: "(string \<times> string) list" where
  "en_dict = en_1 @ en_2 @ en_3 @ en_4"

lemmas en_defs = en_1_def en_2_def en_3_def en_4_def

end
