(* ===== verification/I18n_Zh.thy ===== *)
theory I18n_Zh
  imports Uri
begin

text \<open>
  The Chinese dictionary of \<open>web/lib/i18n.tsx\<close>, in the order of the source and cut at the same
  keys as the English one.  The texts are the percent-encoded UTF-8 of the source's.
\<close>

definition zh_1 :: "(string \<times> string) list" where
  "zh_1 =
    [(''app.brand'', ''kv-indexer''),
     (''app.section.platform'', decode ''%E5%B9%B3%E5%8F%B0''),
     (''app.section.tools'', decode ''%E5%B7%A5%E5%85%B7''),
     (''app.section.observability'', decode ''%E8%A7%82%E6%B5%8B''),
     (''app.locale.toggle'', decode ''%E8%AF%AD%E8%A8%80''),
     (''app.theme.toggle'', decode ''%E5%88%87%E6%8D%A2%E4%B8%BB%E9%A2%98''),
     (''app.theme.light'', decode ''%E6%B5%85%E8%89%B2''),
     (''app.theme.dark'', decode ''%E6%B7%B1%E8%89%B2''),
     (''app.theme.system'', decode ''%E8%B7%9F%E9%9A%8F%E7%B3%BB%E7%BB%9F''),
     (''app.user.account'', decode ''%E8%B4%A6%E6%88%B7''),
     (''app.user.notifications'', decode ''%E9%80%9A%E7%9F%A5''),
     (''app.user.logout'', decode ''%E9%80%80%E5%87%BA%E7%99%BB%E5%BD%95''),
     (''common.cancel'', decode ''%E5%8F%96%E6%B6%88''),
     (''common.save'', decode ''%E4%BF%9D%E5%AD%98''),
     (''common.edit'', decode ''%E7%BC%96%E8%BE%91''),
     (''common.delete'', decode ''%E5%88%A0%E9%99%A4''),
     (''common.enabled'', decode ''%E5%B7%B2%E5%90%AF%E7%94%A8''),
     (''common.disabled'', decode ''%E5%B7%B2%E5%81%9C%E7%94%A8''),
     (''common.on'', decode ''%E5%BC%80%E5%90%AF''),
     (''common.off'', decode ''%E5%85%B3%E9%97%AD''),
     (''common.yes'', decode ''%E6%98%AF''),
     (''common.no'', decode ''%E5%90%A6''),
     (''common.up'', decode ''%E5%9C%A8%E7%BA%BF''),
     (''common.down'', decode ''%E7%A6%BB%E7%BA%BF''),
     (''common.fresh'', decode ''%E6%9C%89%E6%95%88''),
     (''common.stale'', decode ''%E8%BF%87%E6%9C%9F''),
     (''common.default'', decode ''%E9%BB%98%E8%AE%A4''),
     (''common.any'', decode ''%E4%BB%BB%E6%84%8F''),
     (''common.global'', decode ''%E5%85%A8%E5%B1%80''),
     (''common.none'', decode ''%E2%80%94''),
     (''common.loading'', decode ''%E5%8A%A0%E8%BD%BD%E4%B8%AD%E2%80%A6''),
     (''common.error'', decode ''%E5%8A%A0%E8%BD%BD%E5%A4%B1%E8%B4%A5''),
     (''common.retry'', decode ''%E9%87%8D%E8%AF%95''),
     (''common.refresh'', decode ''%E5%88%B7%E6%96%B0''),
     (''common.prev'', decode ''%E4%B8%8A%E4%B8%80%E9%A1%B5''),
     (''common.next'', decode ''%E4%B8%8B%E4%B8%80%E9%A1%B5''),
     (''common.details'', decode ''%E8%AF%A6%E6%83%85''),
     (''common.never'', decode ''%E4%BB%8E%E6%9C%AA''),
     (''common.ago'', decode ''{n}%E5%89%8D''),
     (''common.justnow'', decode ''%E5%88%9A%E5%88%9A''),
     (''common.copied'', decode ''%E5%B7%B2%E5%A4%8D%E5%88%B6''),
     (''stream.status.healthy'', decode ''%E6%AD%A3%E5%B8%B8''),
     (''stream.status.stale'', decode ''%E8%BF%87%E6%9C%9F''),
     (''stream.status.idle'', decode ''%E5%BE%85%E4%BA%8B%E4%BB%B6''),
     (''stream.status.down'', decode ''%E6%96%AD%E5%BC%80''),
     (''stream.status.degraded'', decode ''%E5%BC%82%E5%B8%B8''),
     (''stream.status.tip.healthy'', decode ''%E5%B7%B2%E8%BF%9E%E6%8E%A5%E4%B8%94%E6%8C%81%E7%BB%AD%E6%8E%A5%E6%94%B6%E4%BA%8B%E4%BB%B6%E3%80%82''),
     (''stream.status.tip.stale'', decode ''%E5%B7%B2%E8%BF%9E%E6%8E%A5%E4%BD%86%E8%BF%91%E6%9C%9F%E6%97%A0%E4%BA%8B%E4%BB%B6 %E2%80%94 %E5%87%86%E5%85%A5%E5%8F%AF%E8%83%BD%E5%B0%86%E9%A9%BB%E7%95%99%E8%A7%86%E4%B8%BA%E8%BF%87%E6%9C%9F%E3%80%82''),
     (''stream.status.tip.idle'', decode ''%E5%B7%B2%E8%BF%9E%E6%8E%A5%EF%BC%8C%E4%BD%86%E5%B0%9A%E6%9C%AA%E6%94%B6%E5%88%B0%E4%BA%8B%E4%BB%B6%EF%BC%88%E5%86%B7%E5%90%AF%E5%8A%A8%E7%9B%91%E5%90%AC%E5%99%A8%EF%BC%89%E3%80%82''),
     (''stream.status.tip.down'', decode ''%E7%9B%91%E5%90%AC%E5%99%A8%E6%9C%AA%E8%BF%9E%E6%8E%A5%E5%88%B0%E5%BC%95%E6%93%8E%E3%80%82''),
     (''stream.status.tip.degraded'', decode ''%E6%AD%A3%E5%9C%A8%E6%8E%A5%E6%94%B6%E4%BA%8B%E4%BB%B6%EF%BC%8C%E4%BD%86%E6%A3%80%E6%B5%8B%E5%88%B0%E5%BA%8F%E5%88%97%E7%BC%BA%E5%8F%A3%E6%88%96%E8%A7%A3%E7%A0%81%E9%94%99%E8%AF%AF%E3%80%82''),
     (''streams.col.status'', decode ''%E7%8A%B6%E6%80%81''),
     (''streams.col.skipped'', decode ''%E8%B7%B3%E8%BF%87''),
     (''streams.col.last_event'', decode ''%E6%9C%80%E8%BF%91%E4%BA%8B%E4%BB%B6''),
     (''overview.stat.stale_streams'', decode ''%E8%BF%87%E6%9C%9F / %E6%96%AD%E5%BC%80%E4%BA%8B%E4%BB%B6%E6%B5%81''),
     (''cluster.label'', decode ''%E9%9B%86%E7%BE%A4''),
     (''cluster.all'', decode ''%E5%85%A8%E9%83%A8%E9%9B%86%E7%BE%A4''),
     (''cluster.col'', decode ''%E9%9B%86%E7%BE%A4''),
     (''cluster.backend'', decode ''%E5%90%8E%E7%AB%AF''),
     (''overview.stat.clusters_count'', decode ''%E9%9B%86%E7%BE%A4%E6%95%B0''),
     (''nav.overview'', decode ''%E6%80%BB%E8%A7%88''),
     (''nav.engines'', decode ''%E6%8E%A8%E7%90%86%E5%BC%95%E6%93%8E''),
     (''nav.profiles'', decode ''%E6%A8%A1%E5%9E%8B%E9%85%8D%E7%BD%AE''),
     (''nav.policies'', decode ''%E5%87%86%E5%85%A5%E7%AD%96%E7%95%A5''),
     (''nav.streams'', decode ''KV %E4%BA%8B%E4%BB%B6%E6%B5%81''),
     (''nav.simulator'', decode ''%E5%89%8D%E7%BC%80%E5%91%BD%E4%B8%AD%E6%A8%A1%E6%8B%9F%E5%99%A8''),
     (''nav.decisions'', decode ''%E5%AE%9E%E6%97%B6%E5%87%86%E5%85%A5%E5%86%B3%E7%AD%96''),
     (''nav.audit'', decode ''%E9%85%8D%E7%BD%AE%E5%AE%A1%E8%AE%A1''),
     (''nav.api_docs'', decode ''API %E6%96%87%E6%A1%A3''),
     (''docs.title'', decode ''API %E6%96%87%E6%A1%A3''),
     (''docs.subtitle'', decode ''%E5%9F%BA%E4%BA%8E OpenAPI %E5%B1%95%E7%A4%BA kv-indexer %E5%92%8C%E7%BD%91%E5%85%B3%E7%9A%84 HTTP %E6%8E%A5%E5%8F%A3%E3%80%82''),
     (''docs.raw'', decode ''%E6%89%93%E5%BC%80 JSON''),
     (''docs.count'', decode ''{n} %E4%B8%AA%E6%8E%A5%E5%8F%A3''),
     (''docs.col.method'', decode ''%E6%96%B9%E6%B3%95''),
     (''docs.col.path'', decode ''%E8%B7%AF%E5%BE%84''),
     (''docs.col.summary'', decode ''%E8%AF%B4%E6%98%8E''),
     (''docs.col.params'', decode ''%E5%8F%82%E6%95%B0''),
     (''docs.col.body'', decode ''%E8%AF%B7%E6%B1%82%E4%BD%93''),
     (''docs.empty'', decode ''%E6%9C%AA%E5%8F%91%E7%8E%B0 OpenAPI %E6%8E%A5%E5%8F%A3%E3%80%82''),
     (''overview.title'', decode ''%E9%9B%86%E7%BE%A4%E6%80%BB%E8%A7%88''),
     (''overview.subtitle'', decode ''%E6%8C%89%E8%BE%93%E5%85%A5%E9%95%BF%E5%BA%A6%E5%92%8C%E7%BC%93%E5%AD%98%E5%91%BD%E4%B8%AD%E7%8E%87%E5%81%9A%E8%B7%A8%E6%8E%A8%E7%90%86%E9%9B%86%E7%BE%A4%E5%87%86%E5%85%A5%E5%88%A4%E5%AE%9A''),
     (''overview.stat.clusters'', decode ''%E9%9B%86%E7%BE%A4%E6%95%B0''),
     (''overview.stat.engines'', decode ''%E5%BC%95%E6%93%8E%E6%95%B0''),
     (''overview.stat.profiles'', decode ''%E6%A8%A1%E5%9E%8B%E9%85%8D%E7%BD%AE''),
     (''overview.stat.healthy_streams'', decode ''%E6%AD%A3%E5%B8%B8%E4%BA%8B%E4%BB%B6%E6%B5%81''),
     (''overview.stat.indexed_blocks'', decode ''%E5%B7%B2%E7%B4%A2%E5%BC%95%E5%89%8D%E7%BC%80%E5%9D%97''),
     (''overview.stat.reject_rate'', decode ''429 %E6%8B%92%E7%BB%9D%E7%8E%87''),
     (''overview.stat.fallback_rate'', decode ''%E4%BF%9D%E5%AE%88%E6%94%BE%E8%A1%8C%E7%8E%87''),
     (''overview.stat.decisions'', decode ''%E5%86%B3%E7%AD%96%E8%AE%B0%E5%BD%95%E6%95%B0''),
     (''overview.recent.title'', decode ''%E8%BF%91%E6%9C%9F%E5%91%BD%E4%B8%AD%E7%8E%87''),
     (''overview.recent.desc'', decode ''%E6%9C%80%E8%BF%91 {n} %E6%9D%A1%E5%87%86%E5%85%A5%E5%86%B3%E7%AD%96%E7%9A%84%E5%89%8D%E7%BC%80%E7%BC%93%E5%AD%98%E5%91%BD%E4%B8%AD%E7%8E%87(%25)%E3%80%82''),
     (''overview.recent.empty'', decode ''%E6%9A%82%E6%97%A0%E5%86%B3%E7%AD%96 %E2%80%94 %E8%AF%B7%E4%BD%BF%E7%94%A8%E5%89%8D%E7%BC%80%E6%A8%A1%E6%8B%9F%E5%99%A8%E6%88%96%E5%8F%91%E9%80%81%E8%AF%B7%E6%B1%82%E3%80%82''),
     (''overview.clusters.title'', decode ''%E9%9B%86%E7%BE%A4''),
     (''overview.clusters.desc'', decode ''%E5%8C%BA%E5%9F%9F %C2%B7 %E7%8E%AF%E5%A2%83 %C2%B7 %E7%8A%B6%E6%80%81''),
     (''overview.clusters.empty'', decode ''%E6%9A%82%E6%97%A0%E9%9B%86%E7%BE%A4%E3%80%82''),
     (''overview.cluster.maintenance'', decode ''%E7%BB%B4%E6%8A%A4%E4%B8%AD''),
     (''overview.latest.title'', decode ''%E6%9C%80%E6%96%B0%E5%86%B3%E7%AD%96''),
     (''overview.latest.desc'', decode ''%E8%B7%A8%E5%8D%8F%E8%AE%AE%E7%9A%84%E6%9C%80%E6%96%B0%E5%87%86%E5%85%A5%E5%88%A4%E5%AE%9A%E3%80%82''),
     (''overview.latest.empty'', decode ''%E5%B0%9A%E6%97%A0%E5%86%B3%E7%AD%96%E8%AE%B0%E5%BD%95%E3%80%82''),
     (''overview.col.time'', decode ''%E6%97%B6%E9%97%B4''),
     (''overview.col.protocol'', decode ''%E5%8D%8F%E8%AE%AE''),
     (''overview.col.model'', decode ''%E6%A8%A1%E5%9E%8B''),
     (''overview.col.decision'', decode ''%E5%86%B3%E7%AD%96''),
     (''overview.col.reason'', decode ''%E5%8E%9F%E5%9B%A0''),
     (''overview.col.tokens'', decode ''Token %E6%95%B0''),
     (''overview.col.hit'', decode ''%E5%91%BD%E4%B8%AD%E7%8E%87''),
     (''engines.title'', decode ''%E5%BC%95%E6%93%8E%E6%B3%A8%E5%86%8C%E8%A1%A8''),
     (''engines.subtitle'', decode ''vLLM/SGLang %E5%B7%A5%E4%BD%9C%E8%8A%82%E7%82%B9%E3%80%82%E5%8F%AF%E7%83%AD%E5%88%87%E6%8D%A2%E5%90%AF%E7%94%A8%E3%80%81%E6%8E%92%E7%A9%BA%E3%80%81%E5%81%A5%E5%BA%B7%E7%8A%B6%E6%80%81%EF%BC%8C%E4%B8%8D%E4%B8%A2%E5%A4%B1%E7%B4%A2%E5%BC%95%E3%80%82''),
     (''engines.btn.register'', decode ''%E6%B3%A8%E5%86%8C%E5%BC%95%E6%93%8E''),
     (''engines.sheet.title'', decode ''%E6%B3%A8%E5%86%8C%E5%BC%95%E6%93%8E''),
     (''engines.sheet.desc'', decode ''%E6%8E%A5%E5%85%A5%E4%B8%80%E4%B8%AA vLLM %E6%88%96 SGLang %E5%B7%A5%E4%BD%9C%E8%8A%82%E7%82%B9%E3%80%82%E5%89%8D%E7%BC%80%E7%BC%93%E5%AD%98%E6%84%9F%E7%9F%A5%E9%9C%80%E8%A6%81 KV %E4%BA%8B%E4%BB%B6%E7%AB%AF%E7%82%B9%E3%80%82''),
     (''engines.col.engine'', decode ''%E5%BC%95%E6%93%8E''),
     (''engines.col.cluster'', decode ''%E9%9B%86%E7%BE%A4''),
     (''engines.col.framework'', decode ''%E6%A1%86%E6%9E%B6''),
     (''engines.col.models'', decode ''%E6%8F%90%E4%BE%9B%E6%A8%A1%E5%9E%8B''),
     (''engines.col.endpoint'', decode ''%E6%9C%8D%E5%8A%A1%E7%AB%AF%E7%82%B9''),
     (''engines.col.kv_stream'', decode ''KV %E4%BA%8B%E4%BB%B6''),
     (''engines.col.indexer'', ''Indexer''),
     (''engines.col.state'', decode ''%E7%8A%B6%E6%80%81''),
     (''engines.col.actions'', decode ''%E6%93%8D%E4%BD%9C'')]"

definition zh_2 :: "(string \<times> string) list" where
  "zh_2 =
    [(''engines.empty'', decode ''%E5%B0%9A%E6%9C%AA%E6%B3%A8%E5%86%8C%E5%BC%95%E6%93%8E%E3%80%82''),
     (''engines.status.draining'', decode ''%E6%8E%92%E7%A9%BA%E4%B8%AD''),
     (''engines.status.unhealthy'', decode ''%E5%BC%82%E5%B8%B8''),
     (''engines.action.disable'', decode ''%E5%81%9C%E7%94%A8''),
     (''engines.action.enable'', decode ''%E5%90%AF%E7%94%A8''),
     (''engines.action.drain'', decode ''%E6%8E%92%E7%A9%BA''),
     (''engines.action.undrain'', decode ''%E5%8F%96%E6%B6%88%E6%8E%92%E7%A9%BA''),
     (''engines.field.engine_id'', decode ''%E5%BC%95%E6%93%8E ID''),
     (''engines.field.cluster'', decode ''%E9%9B%86%E7%BE%A4''),
     (''engines.field.framework'', decode ''%E6%A1%86%E6%9E%B6''),
     (''engines.field.served'', decode ''%E6%8F%90%E4%BE%9B%E7%9A%84%E6%A8%A1%E5%9E%8B%EF%BC%88%E9%80%97%E5%8F%B7%E5%88%86%E9%9A%94%EF%BC%89''),
     (''engines.field.api'', decode ''API %E7%AB%AF%E7%82%B9''),
     (''engines.field.tokenizer'', decode ''%E5%88%86%E8%AF%8D%E5%99%A8%E7%AB%AF%E7%82%B9''),
     (''engines.field.kv'', decode ''KV %E4%BA%8B%E4%BB%B6%E7%AB%AF%E7%82%B9 (ZMQ)''),
     (''engines.field.replay'', decode ''%E5%9B%9E%E6%94%BE%E7%AB%AF%E7%82%B9''),
     (''engines.field.target_backend'', decode ''%E7%9B%AE%E6%A0%87 Indexer''),
     (''engines.no_indexers'', decode ''%E8%AF%B7%E5%85%88%E6%B7%BB%E5%8A%A0%E5%B9%B6%E5%90%AF%E7%94%A8%E4%B8%80%E4%B8%AA Indexer %E8%BF%9E%E6%8E%A5%EF%BC%8C%E5%86%8D%E6%B3%A8%E5%86%8C%E6%8E%A8%E7%90%86%E5%BC%95%E6%93%8E%E3%80%82''),
     (''engines.error.no_indexer'', decode ''%E8%AF%B7%E5%85%88%E9%80%89%E6%8B%A9%E7%9B%AE%E6%A0%87 Indexer%E3%80%82''),
     (''engines.error.no_cluster'', decode ''%E8%AF%B7%E9%80%89%E6%8B%A9%E6%88%96%E5%A1%AB%E5%86%99%E5%BC%95%E6%93%8E%E6%89%80%E5%B1%9E%E9%9B%86%E7%BE%A4%E3%80%82''),
     (''engines.toast.update_failed'', decode ''%E6%9B%B4%E6%96%B0%E5%A4%B1%E8%B4%A5''),
     (''indexers.title'', decode ''Indexer %E8%BF%9E%E6%8E%A5''),
     (''indexers.desc'', decode ''%E7%94%B1 kvgateway %E7%AE%A1%E7%90%86%E5%B9%B6%E5%AD%98%E5%85%A5 MongoDB %E7%9A%84%E8%BF%9E%E6%8E%A5%E6%B3%A8%E5%86%8C%E8%A1%A8%E3%80%82%E6%AF%8F%E4%B8%80%E8%A1%8C%E9%83%BD%E6%98%AF%E4%B8%80%E4%B8%AA%E5%8F%AF%E8%A2%AB%E7%BD%91%E5%85%B3%E8%AE%BF%E9%97%AE%E7%9A%84 kvindexer %E5%90%8E%E7%AB%AF%E3%80%82''),
     (''indexers.btn.add'', decode ''%E6%B7%BB%E5%8A%A0 Indexer''),
     (''indexers.btn.check'', decode ''%E6%A3%80%E6%9F%A5''),
     (''indexers.sheet.new'', decode ''%E6%B7%BB%E5%8A%A0 Indexer''),
     (''indexers.sheet.edit'', decode ''%E7%BC%96%E8%BE%91 Indexer: {id}''),
     (''indexers.sheet.desc'', decode ''%E5%A1%AB%E5%86%99%E6%9F%90%E4%B8%AA%E5%9C%B0%E5%9F%9F%E6%88%96%E9%9B%86%E7%BE%A4%E9%87%8C%E7%9A%84 kvindexer HTTP %E5%9C%B0%E5%9D%80%E3%80%82%E6%8E%A8%E7%90%86%E5%BC%95%E6%93%8E%E4%BC%9A%E6%B3%A8%E5%86%8C%E5%88%B0%E4%BD%A0%E9%80%89%E6%8B%A9%E7%9A%84%E8%BF%99%E4%B8%AA Indexer %E5%86%85%E3%80%82''),
     (''indexers.field.id'', ''Indexer ID''),
     (''indexers.field.kind'', decode ''%E7%B1%BB%E5%9E%8B''),
     (''indexers.field.cluster'', decode ''%E5%BD%92%E5%B1%9E%E9%9B%86%E7%BE%A4''),
     (''indexers.field.display_name'', decode ''%E6%98%BE%E7%A4%BA%E5%90%8D%E7%A7%B0''),
     (''indexers.field.display_name_ph'', decode ''%E6%9C%AC%E5%9C%B0%E5%88%86%E8%AF%8D%E5%99%A8''),
     (''indexers.field.url'', decode ''Indexer %E5%9C%B0%E5%9D%80''),
     (''indexers.field.token'', decode ''%E8%AE%BF%E9%97%AE Token''),
     (''indexers.field.token_keep'', decode ''%E7%95%99%E7%A9%BA%E5%88%99%E4%BF%9D%E7%95%99%E5%B7%B2%E6%9C%89 Token''),
     (''indexers.field.token_optional'', decode ''%E5%8F%AF%E9%80%89''),
     (''indexers.field.enabled'', decode ''%E5%90%AF%E7%94%A8''),
     (''indexers.field.enabled_hint'', decode ''%E5%8F%AA%E6%9C%89%E5%90%AF%E7%94%A8%E7%9A%84 Indexer %E4%BC%9A%E5%8F%82%E4%B8%8E%E8%81%9A%E5%90%88%E6%9F%A5%E8%AF%A2%E5%92%8C%E5%AE%9A%E5%90%91%E5%86%99%E5%85%A5%E3%80%82''),
     (''indexers.kind.backend'', decode ''%E7%9C%9F%E5%AE%9E Indexer''),
     (''indexers.kind.virtual'', decode ''%E8%99%9A%E6%8B%9F''),
     (''indexers.col.id'', ''Indexer''),
     (''indexers.col.cluster'', decode ''%E5%BD%92%E5%B1%9E%E9%9B%86%E7%BE%A4''),
     (''indexers.col.url'', decode ''%E5%9C%B0%E5%9D%80''),
     (''indexers.col.token'', ''Token''),
     (''indexers.col.state'', decode ''%E7%8A%B6%E6%80%81''),
     (''indexers.col.health'', decode ''%E5%81%A5%E5%BA%B7%E6%A3%80%E6%9F%A5''),
     (''indexers.col.actions'', decode ''%E6%93%8D%E4%BD%9C''),
     (''indexers.empty'', decode ''%E5%B0%9A%E6%9C%AA%E6%B7%BB%E5%8A%A0 Indexer %E8%BF%9E%E6%8E%A5%E3%80%82''),
     (''indexers.token.set'', decode ''%E5%B7%B2%E8%AE%BE%E7%BD%AE''),
     (''indexers.token.none'', decode ''%E6%9C%AA%E8%AE%BE%E7%BD%AE''),
     (''indexers.health.unknown'', decode ''%E6%9C%AA%E6%A3%80%E6%9F%A5''),
     (''indexers.health.ok'', decode ''%E6%AD%A3%E5%B8%B8''),
     (''indexers.health.failed'', decode ''%E5%A4%B1%E8%B4%A5''),
     (''indexers.health.missing'', decode ''/clusters-health %E4%B8%AD%E6%B2%A1%E6%9C%89%E8%BF%99%E4%B8%AA Indexer%E3%80%82''),
     (''indexers.health.unhealthy'', decode ''Gateway %E8%BF%94%E5%9B%9E%E8%AF%A5 Indexer %E4%B8%8D%E5%81%A5%E5%BA%B7%E3%80%82''),
     (''indexers.health.ok_detail'', decode ''%E5%8F%AF%E8%AE%BF%E9%97%AE: {url}''),
     (''indexers.health.virtual_detail'', decode ''%E7%BD%91%E5%85%B3%E6%9C%AC%E5%9C%B0%E8%99%9A%E6%8B%9F Indexer''),
     (''indexers.health.ok_toast'', decode ''Indexer {id} %E5%81%A5%E5%BA%B7%E6%A3%80%E6%9F%A5%E9%80%9A%E8%BF%87''),
     (''indexers.health.fail_toast'', decode ''Indexer {id} %E5%81%A5%E5%BA%B7%E6%A3%80%E6%9F%A5%E5%A4%B1%E8%B4%A5''),
     (''indexers.confirm.delete'', decode ''%E5%88%A0%E9%99%A4 Indexer %E8%BF%9E%E6%8E%A5 {id}%EF%BC%9F''),
     (''indexers.toast.saved'', decode ''Indexer %E5%B7%B2%E4%BF%9D%E5%AD%98''),
     (''indexers.toast.deleted'', decode ''Indexer %E5%B7%B2%E5%88%A0%E9%99%A4''),
     (''indexers.toast.update_failed'', decode ''Indexer %E6%9B%B4%E6%96%B0%E5%A4%B1%E8%B4%A5''),
     (''indexers.toast.delete_failed'', decode ''Indexer %E5%88%A0%E9%99%A4%E5%A4%B1%E8%B4%A5''),
     (''profiles.title'', decode ''%E6%A8%A1%E5%9E%8B%E9%85%8D%E7%BD%AE''),
     (''profiles.subtitle'', decode ''%E5%88%86%E8%AF%8D%E4%B8%8E%E5%93%88%E5%B8%8C%E8%A7%84%E5%88%99%E3%80%82%E4%BF%AE%E6%94%B9%E5%9D%97%E5%A4%A7%E5%B0%8F%E3%80%81%E5%93%88%E5%B8%8C%E6%96%B9%E6%A1%88%E6%88%96%E5%88%86%E8%AF%8D%E5%99%A8%E4%BC%9A%E6%8F%90%E5%8D%87%E7%89%88%E6%9C%AC%E5%8F%B7%EF%BC%8C%E5%B9%B6%E9%9A%94%E7%A6%BB request_key %E5%91%BD%E5%90%8D%E7%A9%BA%E9%97%B4%E3%80%82''),
     (''profiles.btn.new'', decode ''%E6%96%B0%E5%BB%BA%E6%A8%A1%E5%9E%8B%E9%85%8D%E7%BD%AE''),
     (''profiles.col.model'', decode ''%E6%A8%A1%E5%9E%8B''),
     (''profiles.col.framework'', decode ''%E6%A1%86%E6%9E%B6''),
     (''profiles.col.tokenizer_source'', decode ''%E5%88%86%E8%AF%8D%E6%9D%A5%E6%BA%90''),
     (''profiles.col.version'', decode ''%E7%89%88%E6%9C%AC''),
     (''profiles.col.hash'', decode ''%E5%93%88%E5%B8%8C%E6%96%B9%E6%A1%88''),
     (''profiles.col.block'', decode ''%E5%9D%97%E5%A4%A7%E5%B0%8F''),
     (''profiles.col.namespace'', decode ''%E5%91%BD%E5%90%8D%E7%A9%BA%E9%97%B4''),
     (''profiles.col.features'', decode ''%E7%89%B9%E6%80%A7''),
     (''profiles.empty'', decode ''%E6%9A%82%E6%97%A0%E6%A8%A1%E5%9E%8B%E9%85%8D%E7%BD%AE%E3%80%82''),
     (''profiles.text_only'', decode ''%E7%BA%AF%E6%96%87%E6%9C%AC''),
     (''profiles.sheet.new'', decode ''%E6%96%B0%E5%BB%BA%E6%A8%A1%E5%9E%8B%E9%85%8D%E7%BD%AE''),
     (''profiles.sheet.edit'', decode ''%E7%BC%96%E8%BE%91 {id}''),
     (''profiles.sheet.desc'', decode ''%E5%88%86%E8%AF%8D%E5%99%A8%E3%80%81%E5%93%88%E5%B8%8C%E8%A7%84%E5%88%99%E4%B8%8E%E5%9D%97%E5%A4%A7%E5%B0%8F%E5%86%B3%E5%AE%9A request_key %E7%9A%84%E5%91%BD%E5%90%8D%E7%A9%BA%E9%97%B4%E3%80%82%E4%BB%BB%E4%B8%80%E5%8F%98%E5%8C%96%E9%83%BD%E4%BC%9A%E6%8F%90%E5%8D%87%E6%A8%A1%E5%9E%8B%E9%85%8D%E7%BD%AE%E7%89%88%E6%9C%AC%E3%80%82''),
     (''profiles.field.model'', decode ''%E6%A8%A1%E5%9E%8B ID''),
     (''profiles.field.framework'', decode ''%E6%A1%86%E6%9E%B6''),
     (''profiles.field.hash'', decode ''%E5%93%88%E5%B8%8C%E6%96%B9%E6%A1%88''),
     (''profiles.field.block'', decode ''%E5%9D%97%E5%A4%A7%E5%B0%8F''),
     (''profiles.field.block_hint'', decode ''qwen3.5-4b full_attention %E7%BB%84 = 528''),
     (''profiles.field.tokenizer'', decode ''%E5%88%86%E8%AF%8D%E5%99%A8%E7%AB%AF%E7%82%B9''),
     (''profiles.field.tokenizer_ph'', decode ''%E7%BB%A7%E6%89%BF%E8%87%AA%E5%BC%95%E6%93%8E''),
     (''profiles.field.target_backend'', decode ''%E7%9B%AE%E6%A0%87 Indexer / Cluster''),
     (''profiles.field.tokenizer_mode'', decode ''%E5%88%86%E8%AF%8D%E6%9D%A5%E6%BA%90''),
     (''profiles.tokenizer_mode.remote'', decode ''%E8%BF%9C%E7%AB%AF%E5%BC%95%E6%93%8E''),
     (''profiles.tokenizer_mode.local'', decode ''%E6%9C%AC%E5%9C%B0 sidecar''),
     (''profiles.field.tokenizer_zip'', ''Tokenizer zip''),
     (''profiles.field.template_file'', decode ''Chat template %E6%96%87%E4%BB%B6''),
     (''profiles.field.template'', ''Chat template''),
     (''profiles.error.empty_template_file'', decode ''Chat template %E6%96%87%E4%BB%B6%E4%B8%BA%E7%A9%BA%E3%80%82''),
     (''profiles.error.empty_tokenizer_zip'', decode ''Tokenizer zip %E4%B8%BA%E7%A9%BA%E3%80%82''),
     (''profiles.field.seed'', decode ''%E5%93%88%E5%B8%8C%E7%A7%8D%E5%AD%90%EF%BC%88%E5%91%BD%E5%90%8D%E7%A9%BA%E9%97%B4%EF%BC%89''),
     (''profiles.feature.lora'', ''LoRA''),
     (''profiles.feature.mm'', decode ''%E5%A4%9A%E6%A8%A1%E6%80%81''),
     (''profiles.feature.salt'', decode ''%E7%BC%93%E5%AD%98%E7%9B%90%E5%80%BC''),
     (''profiles.bump.title'', decode ''%E4%BF%9D%E5%AD%98%E5%B0%86%E5%88%9B%E5%BB%BA v{n}''),
     (''profiles.bump.desc'', decode ''%E6%9C%AC%E6%AC%A1%E4%BF%AE%E6%94%B9%E4%BC%9A%E5%BD%B1%E5%93%8D%E5%88%86%E8%AF%8D%E6%88%96%E5%93%88%E5%B8%8C%E8%A7%84%E5%88%99%EF%BC%8C%E5%B0%86%E5%88%86%E9%85%8D%E6%96%B0%E7%9A%84 request_key %E5%91%BD%E5%90%8D%E7%A9%BA%E9%97%B4%EF%BC%9B%E6%97%A7%E7%BC%93%E5%AD%98%E9%A9%BB%E7%95%99%E4%BC%9A%E6%8C%89 TTL %E5%A4%B1%E6%95%88%EF%BC%8C%E4%B8%8D%E4%BC%9A%E6%B1%A1%E6%9F%93%E6%96%B0%E6%9F%A5%E8%AF%A2%E3%80%82''),
     (''profiles.btn.save_new'', decode ''%E5%8F%A6%E5%AD%98%E4%B8%BA%E6%96%B0%E7%89%88%E6%9C%AC''),
     (''profiles.btn.move'', decode ''%E4%BF%9D%E5%AD%98%E5%B9%B6%E7%A7%BB%E5%8A%A8''),
     (''policies.title'', decode ''%E5%87%86%E5%85%A5%E4%B8%8E%E5%91%BD%E4%B8%AD%E7%AD%96%E7%95%A5''),
     (''policies.subtitle'', decode ''%E6%8C%89%E4%BC%98%E5%85%88%E7%BA%A7%E9%85%8D%E7%BD%AE%E5%87%86%E5%85%A5%E8%A7%84%E5%88%99%E3%80%82%E5%8D%95%E6%9D%A1%E8%A7%84%E5%88%99%E5%86%85%E6%9D%A1%E4%BB%B6%E6%98%AF AND%EF%BC%8C%E8%A7%84%E5%88%99%E4%B9%8B%E9%97%B4%E6%8C%89%E4%BC%98%E5%85%88%E7%BA%A7%E5%91%BD%E4%B8%AD%E7%AC%AC%E4%B8%80%E6%9D%A1%E3%80%82''),
     (''policies.btn.new'', decode ''%E6%96%B0%E5%BB%BA%E8%A7%84%E5%88%99''),
     (''policies.btn.test'', decode ''%E6%B5%8B%E8%AF%95%E8%A7%84%E5%88%99''),
     (''policies.sheet.title'', decode ''%E6%96%B0%E5%BB%BA%E7%AD%96%E7%95%A5%E8%A7%84%E5%88%99''),
     (''policies.sheet.edit'', decode ''%E7%BC%96%E8%BE%91%E7%AD%96%E7%95%A5%EF%BC%9A{id}''),
     (''policies.confirm.delete'', decode ''%E5%88%A0%E9%99%A4%E7%AD%96%E7%95%A5 {id}%EF%BC%9F''),
     (''policies.sheet.desc'', decode ''%E7%94%A8 AND %E6%9D%A1%E4%BB%B6%E6%8F%8F%E8%BF%B0%E8%A6%81%E5%8C%B9%E9%85%8D%E7%9A%84%E8%AF%B7%E6%B1%82%EF%BC%8C%E5%86%8D%E8%AE%BE%E7%BD%AE%E5%91%BD%E4%B8%AD%E5%90%8E%E6%89%A7%E8%A1%8C%E7%9A%84%E5%8A%A8%E4%BD%9C%E3%80%82''),
     (''policies.test.title'', decode ''%E6%B5%8B%E8%AF%95%E8%A7%84%E5%88%99%E5%91%BD%E4%B8%AD''),
     (''policies.test.desc'', decode ''%E6%A8%A1%E6%8B%9F%E4%B8%80%E6%AC%A1%E8%AF%B7%E6%B1%82%E5%BD%A2%E6%80%81%EF%BC%8C%E6%8C%89%E4%BC%98%E5%85%88%E7%BA%A7%E5%8C%B9%E9%85%8D%E8%A7%84%E5%88%99%EF%BC%8C%E5%B9%B6%E6%9F%A5%E7%9C%8B%E7%AC%AC%E4%B8%80%E6%9D%A1%E5%91%BD%E4%B8%AD%E7%9A%84%E8%A7%84%E5%88%99%E3%80%82''),
     (''policies.list.title'', decode ''%E7%AD%96%E7%95%A5%E8%A7%84%E5%88%99''),
     (''policies.list.desc'', decode ''%E8%A7%84%E5%88%99%E6%8C%89%E4%BC%98%E5%85%88%E7%BA%A7%E4%BB%8E%E9%AB%98%E5%88%B0%E4%BD%8E%E6%89%A7%E8%A1%8C%E3%80%82%E7%AC%AC%E4%B8%80%E6%9D%A1%E5%85%A8%E9%83%A8%E6%9D%A1%E4%BB%B6%E9%83%BD%E6%BB%A1%E8%B6%B3%E7%9A%84%E5%90%AF%E7%94%A8%E8%A7%84%E5%88%99%E4%BC%9A%E7%94%9F%E6%95%88%E3%80%82''),
     (''policies.list.empty'', decode ''%E6%9A%82%E6%97%A0%E7%AD%96%E7%95%A5%E8%A7%84%E5%88%99%E3%80%82%E6%B2%A1%E6%9C%89%E8%A7%84%E5%88%99%E5%91%BD%E4%B8%AD%E6%97%B6%EF%BC%8C%E8%AF%B7%E6%B1%82%E9%BB%98%E8%AE%A4%E6%94%BE%E8%A1%8C%E3%80%82''),
     (''policies.col.policy'', decode ''%E8%A7%84%E5%88%99 ID''),
     (''policies.col.scope'', decode ''%E9%80%82%E7%94%A8%E8%8C%83%E5%9B%B4''),
     (''policies.col.long'', decode ''%E5%BC%80%E5%A7%8B%E6%A3%80%E6%9F%A5''),
     (''policies.col.hard'', decode ''%E7%9B%B4%E6%8E%A5%E6%8B%92%E7%BB%9D''),
     (''policies.col.minhit'', decode ''%E6%9C%80%E4%BD%8E%E5%91%BD%E4%B8%AD%E7%8E%87''),
     (''policies.col.ttl'', decode ''%E4%BA%8B%E4%BB%B6%E6%9C%89%E6%95%88%E6%9C%9F''),
     (''policies.col.enabled'', decode ''%E7%8A%B6%E6%80%81''),
     (''policies.col.priority'', decode ''%E4%BC%98%E5%85%88%E7%BA%A7'')]"

definition zh_3 :: "(string \<times> string) list" where
  "zh_3 =
    [(''policies.col.name'', decode ''%E5%90%8D%E7%A7%B0''),
     (''policies.col.scope_cluster'', decode ''%E9%80%82%E7%94%A8%E9%9B%86%E7%BE%A4''),
     (''policies.col.conditions'', decode ''%E5%8C%B9%E9%85%8D%E6%9D%A1%E4%BB%B6''),
     (''policies.col.action'', decode ''%E5%8A%A8%E4%BD%9C''),
     (''policies.col.uncertain'', decode ''%E4%BF%A1%E5%8F%B7%E4%B8%8D%E7%A1%AE%E5%AE%9A''),
     (''policies.preview.title'', decode ''%E8%A7%84%E5%88%99%E5%91%BD%E4%B8%AD%E9%A2%84%E8%A7%88''),
     (''policies.preview.desc'', decode ''%E6%8C%89%E8%AF%B7%E6%B1%82%E5%BD%A2%E6%80%81%E6%B5%8B%E8%AF%95%E4%BC%9A%E5%91%BD%E4%B8%AD%E5%93%AA%E6%9D%A1%E8%A7%84%E5%88%99%EF%BC%8C%E5%86%8D%E7%9C%9F%E5%AE%9E%E5%8F%91%E6%B5%81%E9%87%8F%E3%80%82''),
     (''policies.preview.btn'', decode ''%E9%A2%84%E8%A7%88''),
     (''policies.preview.merge'', decode ''%E5%BA%94%E7%94%A8%E8%A7%84%E5%88%99''),
     (''policies.preview.long'', decode ''%E5%BC%80%E5%A7%8B%E6%A3%80%E6%9F%A5%E9%98%88%E5%80%BC''),
     (''policies.preview.hard'', decode ''%E7%9B%B4%E6%8E%A5%E6%8B%92%E7%BB%9D%E9%98%88%E5%80%BC''),
     (''policies.preview.minhit'', decode ''%E6%9C%80%E4%BD%8E%E5%91%BD%E4%B8%AD%E7%8E%87''),
     (''policies.preview.ttl'', decode ''KV %E4%BA%8B%E4%BB%B6%E6%9C%89%E6%95%88%E6%9C%9F''),
     (''policies.preview.stale'', decode ''%E4%BA%8B%E4%BB%B6%E8%BF%87%E6%9C%9F%E5%A4%84%E7%90%86''),
     (''policies.preview.weights'', decode ''GPU / CPU / %E7%A3%81%E7%9B%98%E6%9D%83%E9%87%8D''),
     (''policies.preview.enabled'', decode ''%E6%9C%80%E7%BB%88%E7%8A%B6%E6%80%81''),
     (''policies.preview.matched'', decode ''%E5%91%BD%E4%B8%AD%E8%A7%84%E5%88%99''),
     (''policies.preview.no_match'', decode ''%E6%B2%A1%E6%9C%89%E5%91%BD%E4%B8%AD%E8%A7%84%E5%88%99''),
     (''policies.preview.evaluated'', decode ''%E5%B7%B2%E6%A3%80%E6%9F%A5%E8%A7%84%E5%88%99''),
     (''policies.field.id'', decode ''%E8%A7%84%E5%88%99 ID''),
     (''policies.field.id_ph'', ''tenant-a-qwen''),
     (''policies.field.name'', decode ''%E6%98%BE%E7%A4%BA%E5%90%8D%E7%A7%B0''),
     (''policies.field.name_ph'', decode ''256 Token %E4%BB%A5%E4%B8%8A%E8%A6%81%E6%B1%82 KV %E5%91%BD%E4%B8%AD''),
     (''policies.field.priority'', decode ''%E4%BC%98%E5%85%88%E7%BA%A7''),
     (''policies.field.scope_model'', decode ''%E9%80%82%E7%94%A8%E6%A8%A1%E5%9E%8B''),
     (''policies.field.scope_tenant'', decode ''%E7%A7%9F%E6%88%B7''),
     (''policies.field.scope_cluster'', decode ''%E9%80%82%E7%94%A8%E9%9B%86%E7%BE%A4''),
     (''policies.field.model'', decode ''%E6%A8%A1%E5%9E%8B''),
     (''policies.field.tenant'', decode ''%E7%A7%9F%E6%88%B7''),
     (''policies.field.cluster'', decode ''%E9%9B%86%E7%BE%A4''),
     (''policies.field.ph_any'', decode ''%E5%85%A8%E9%83%A8''),
     (''policies.field.long'', decode ''%E8%BE%93%E5%85%A5%E8%BE%BE%E5%88%B0%E5%A4%9A%E5%B0%91 Token %E5%90%8E%E6%A3%80%E6%9F%A5''),
     (''policies.field.hard'', decode ''%E8%BE%93%E5%85%A5%E8%BE%BE%E5%88%B0%E5%A4%9A%E5%B0%91 Token %E5%90%8E%E7%9B%B4%E6%8E%A5%E6%8B%92%E7%BB%9D''),
     (''policies.field.input_tokens'', decode ''%E8%BE%93%E5%85%A5 Token %E6%95%B0''),
     (''policies.field.preview_hit_ratio'', decode ''%E5%81%87%E8%AE%BE KV %E5%91%BD%E4%B8%AD%E7%8E%87''),
     (''policies.field.action'', decode ''%E5%91%BD%E4%B8%AD%E5%90%8E%E5%8A%A8%E4%BD%9C''),
     (''policies.field.low_hit'', decode ''%E5%91%BD%E4%B8%AD%E7%8E%87%E4%B8%8D%E8%B6%B3%E6%97%B6''),
     (''policies.field.uncertain'', decode ''%E4%BF%A1%E5%8F%B7%E4%B8%8D%E7%A1%AE%E5%AE%9A%E6%97%B6''),
     (''policies.field.reject_status'', decode ''%E6%8B%92%E7%BB%9D%E7%8A%B6%E6%80%81%E7%A0%81''),
     (''policies.field.minhit'', decode ''%E8%A6%81%E6%B1%82%E7%9A%84 KV %E6%9C%80%E4%BD%8E%E5%91%BD%E4%B8%AD%E7%8E%87''),
     (''policies.field.ttl'', decode ''KV %E4%BA%8B%E4%BB%B6%E6%9C%89%E6%95%88%E6%9C%9F (ms)''),
     (''policies.btn.save'', decode ''%E4%BF%9D%E5%AD%98%E8%A7%84%E5%88%99''),
     (''policies.btn.add_condition'', decode ''%E6%B7%BB%E5%8A%A0%E6%9D%A1%E4%BB%B6''),
     (''policies.storage_cluster'', decode ''%E5%AD%98%E5%82%A8: {cluster}''),
     (''policies.scope_cluster.desc'', decode ''%E9%80%89%E6%8B%A9%E9%9B%86%E7%BE%A4%E4%BC%9A%E5%86%99%E5%85%A5 cluster_id = %E5%BD%93%E5%89%8D%E5%80%BC%E7%9A%84%E5%8C%B9%E9%85%8D%E6%9D%A1%E4%BB%B6%EF%BC%9B%E9%80%89%E6%8B%A9%E4%BB%BB%E6%84%8F%E5%88%99%E4%B8%8D%E6%8C%89%E9%9B%86%E7%BE%A4%E9%99%90%E5%88%B6%E3%80%82''),
     (''policies.error.target_cluster_required'', decode ''%E8%AF%B7%E5%85%88%E9%80%89%E6%8B%A9%E9%80%82%E7%94%A8%E9%9B%86%E7%BE%A4%EF%BC%8C%E6%88%96%E6%8A%8A%E5%8F%B3%E4%B8%8A%E8%A7%92%E9%9B%86%E7%BE%A4%E5%88%87%E6%8D%A2%E5%88%B0%E6%9F%90%E4%B8%80%E4%B8%AA%E5%85%B7%E4%BD%93%E9%9B%86%E7%BE%A4%E5%90%8E%E5%86%8D%E4%BF%9D%E5%AD%98%E3%80%82''),
     (''policies.help.rule_id'', decode ''%E8%BF%99%E6%9D%A1%E8%A7%84%E5%88%99%E7%9A%84%E7%A8%B3%E5%AE%9A ID%EF%BC%8C%E7%94%A8%E4%BA%8E%E9%85%8D%E7%BD%AE%E5%AE%A1%E8%AE%A1%E3%80%81API %E5%93%8D%E5%BA%94%E4%BB%A5%E5%8F%8A%E6%9B%B4%E6%96%B0/%E5%88%A0%E9%99%A4%E8%B7%AF%E5%BE%84%E3%80%82''),
     (''policies.help.name'', decode ''%E7%BB%99%E8%BF%90%E7%BB%B4%E7%9C%8B%E7%9A%84%E5%8F%AF%E8%AF%BB%E5%90%8D%E7%A7%B0%E3%80%82%E7%95%99%E7%A9%BA%E6%97%B6%E9%A1%B5%E9%9D%A2%E4%BC%9A%E6%98%BE%E7%A4%BA%E8%A7%84%E5%88%99 ID%E3%80%82''),
     (''policies.help.priority'', decode ''%E6%95%B0%E5%80%BC%E8%B6%8A%E5%A4%A7%E8%B6%8A%E5%85%88%E6%89%A7%E8%A1%8C%E3%80%82%E4%B8%80%E6%9D%A1%E8%A7%84%E5%88%99%E5%91%BD%E4%B8%AD%E5%90%8E%EF%BC%8C%E5%90%8E%E7%BB%AD%E4%BD%8E%E4%BC%98%E5%85%88%E7%BA%A7%E8%A7%84%E5%88%99%E4%B8%8D%E4%BC%9A%E5%86%8D%E5%88%A4%E6%96%AD%E3%80%82''),
     (''policies.help.cluster'', decode ''%E8%BF%99%E6%9D%A1%E8%A7%84%E5%88%99%E5%8C%B9%E9%85%8D%E8%AF%B7%E6%B1%82%E9%87%8C%E7%9A%84 cluster_id%E3%80%82%E9%80%89%E6%8B%A9 local-vllm %E5%B0%B1%E5%8F%AA%E6%9C%89 local-vllm %E7%9A%84%E5%87%86%E5%85%A5%E8%AF%B7%E6%B1%82%E8%83%BD%E5%91%BD%E4%B8%AD%EF%BC%9B%E9%80%89%E6%8B%A9%E4%BB%BB%E6%84%8F%E5%88%99%E4%B8%8D%E6%8C%89%E9%9B%86%E7%BE%A4%E9%99%90%E5%88%B6%E3%80%82''),
     (''policies.help.scope'', decode ''%E8%BF%99%E6%9D%A1%E8%A7%84%E5%88%99%E5%8C%B9%E9%85%8D%E5%93%AA%E4%BA%9B%E8%AF%B7%E6%B1%82%E3%80%82%E6%A8%A1%E5%9E%8B%E3%80%81%E7%A7%9F%E6%88%B7%E5%92%8C%E9%9B%86%E7%BE%A4%E9%83%BD%E7%95%99%E7%A9%BA%E6%97%B6%EF%BC%8C%E5%B0%B1%E6%98%AF%E5%85%A8%E5%B1%80%E9%BB%98%E8%AE%A4%E8%A7%84%E5%88%99%E3%80%82''),
     (''policies.help.model'', decode ''%E8%AF%B7%E6%B1%82%E9%87%8C%E7%9A%84%E6%A8%A1%E5%9E%8B%E5%90%8D%EF%BC%8C%E9%80%9A%E5%B8%B8%E5%B0%B1%E6%98%AF%E5%AE%A2%E6%88%B7%E7%AB%AF%E5%8F%91%E7%BB%99 OpenAI %E6%88%96 Anthropic %E6%8E%A5%E5%8F%A3%E7%9A%84 model %E5%AD%97%E6%AE%B5%E3%80%82''),
     (''policies.help.tenant'', decode ''%E4%B8%9A%E5%8A%A1%E4%BE%A7%E4%BC%A0%E5%85%A5%E7%9A%84%E7%A7%9F%E6%88%B7%E3%80%81%E5%AE%A2%E6%88%B7%E6%88%96%E5%B7%A5%E4%BD%9C%E7%A9%BA%E9%97%B4 ID%E3%80%82kv-indexer %E4%B8%8D%E4%BC%9A%E8%87%AA%E5%B7%B1%E8%AF%86%E5%88%AB%E7%A7%9F%E6%88%B7%EF%BC%8C%E5%8F%AA%E6%9C%89%E8%AF%B7%E6%B1%82%E9%87%8C%E5%B8%A6 tenant_id %E6%88%96%E7%AD%89%E4%BB%B7%E5%85%83%E6%95%B0%E6%8D%AE%E6%97%B6%E6%89%8D%E4%BC%9A%E7%94%A8%E4%BA%8E%E5%8C%B9%E9%85%8D%EF%BC%9B%E6%B2%A1%E6%9C%89%E5%A4%9A%E7%A7%9F%E6%88%B7%E5%B0%B1%E7%95%99%E7%A9%BA%E3%80%82''),
     (''policies.help.check_after'', decode ''%E8%BE%93%E5%85%A5 Token %E6%95%B0%E4%BD%8E%E4%BA%8E%E8%BF%99%E4%B8%AA%E5%80%BC%E6%97%B6%EF%BC%8C%E4%B8%8D%E5%BC%BA%E5%88%B6%E6%A3%80%E6%9F%A5 KV %E5%91%BD%E4%B8%AD%E7%8E%87%EF%BC%9B%E8%BE%BE%E5%88%B0%E6%88%96%E8%B6%85%E8%BF%87%E8%BF%99%E4%B8%AA%E5%80%BC%E5%90%8E%EF%BC%8C%E4%BC%9A%E6%8C%89%E6%9C%80%E4%BD%8E%E5%91%BD%E4%B8%AD%E7%8E%87%E5%81%9A%E5%87%86%E5%85%A5%E5%88%A4%E6%96%AD%E3%80%82''),
     (''policies.help.reject_after'', decode ''%E8%BE%93%E5%85%A5 Token %E6%95%B0%E8%BE%BE%E5%88%B0%E6%88%96%E8%B6%85%E8%BF%87%E8%BF%99%E4%B8%AA%E5%80%BC%E5%90%8E%EF%BC%8C%E5%A6%82%E6%9E%9C%E5%87%86%E5%85%A5%E8%A7%84%E5%88%99%E4%B8%8D%E9%80%9A%E8%BF%87%EF%BC%8C%E5%8F%AF%E4%BB%A5%E7%9B%B4%E6%8E%A5%E6%8B%92%E7%BB%9D%E8%AF%B7%E6%B1%82%E3%80%82%E8%BF%99%E4%B8%AA%E5%80%BC%E5%BA%94%E4%BD%8E%E4%BA%8E%E6%A8%A1%E5%9E%8B%E4%B8%8A%E4%B8%8B%E6%96%87%E9%95%BF%E5%BA%A6%E4%B8%8A%E9%99%90%E3%80%82''),
     (''policies.help.required_hit'', decode ''%E9%95%BF%E8%AF%B7%E6%B1%82%E5%BF%85%E9%A1%BB%E5%B7%B2%E6%9C%89%E5%A4%9A%E5%B0%91%E6%AF%94%E4%BE%8B%E7%9A%84%E6%8F%90%E7%A4%BA%E8%AF%8D Token %E5%91%BD%E4%B8%AD KV Cache%E3%80%820.5 %E8%A1%A8%E7%A4%BA%E8%87%B3%E5%B0%91 50%25 %E5%91%BD%E4%B8%AD%E3%80%82''),
     (''policies.help.event_age'', decode ''KV %E4%BA%8B%E4%BB%B6%E8%B6%85%E8%BF%87%E8%BF%99%E4%B8%AA%E6%97%B6%E9%97%B4%E6%9C%AA%E6%9B%B4%E6%96%B0%E6%97%B6%EF%BC%8C%E7%9B%91%E5%90%AC%E5%99%A8%E4%BC%9A%E8%A2%AB%E8%A7%86%E4%B8%BA%E8%BF%87%E6%9C%9F%E3%80%82%E8%BF%87%E6%9C%9F%E4%BA%8B%E4%BB%B6%E6%B5%81%E9%80%9A%E5%B8%B8%E4%B8%8D%E5%81%9A%E4%B8%A5%E6%A0%BC%E6%8B%92%E7%BB%9D%EF%BC%8C%E5%9B%A0%E4%B8%BA%E9%A9%BB%E7%95%99%E6%95%B0%E6%8D%AE%E5%8F%AF%E8%83%BD%E4%B8%8D%E5%AE%8C%E6%95%B4%E3%80%82''),
     (''policies.help.status'', decode ''%E5%81%9C%E7%94%A8%E7%9A%84%E8%A7%84%E5%88%99%E4%BC%9A%E8%A2%AB%E5%BF%BD%E7%95%A5%E3%80%82%E6%B2%A1%E6%9C%89%E4%BB%BB%E4%BD%95%E5%90%AF%E7%94%A8%E8%A7%84%E5%88%99%E5%91%BD%E4%B8%AD%E6%97%B6%EF%BC%8C%E8%AF%B7%E6%B1%82%E9%BB%98%E8%AE%A4%E6%94%BE%E8%A1%8C%E3%80%82''),
     (''policies.help.enabled'', decode ''%E4%B8%B4%E6%97%B6%E5%90%AF%E7%94%A8%E6%88%96%E5%81%9C%E7%94%A8%E8%BF%99%E6%9D%A1%E8%A7%84%E5%88%99%EF%BC%8C%E4%B8%8D%E9%9C%80%E8%A6%81%E5%88%A0%E9%99%A4%E8%A7%84%E5%88%99%E6%9C%AC%E8%BA%AB%E3%80%82''),
     (''policies.help.stale_behavior'', decode ''%E5%BD%93 KV %E4%BA%8B%E4%BB%B6%E5%A4%AA%E6%97%A7%E6%88%96%E7%9B%91%E5%90%AC%E5%99%A8%E8%BF%87%E6%9C%9F%E6%97%B6%EF%BC%8C%E5%87%86%E5%85%A5%E9%80%BB%E8%BE%91%E5%A6%82%E4%BD%95%E5%A4%84%E7%90%86%E3%80%82%E8%BF%99%E9%87%8C%E5%B1%95%E7%A4%BA%E5%90%8E%E7%AB%AF%E5%BD%93%E5%89%8D%E7%94%9F%E6%95%88%E5%80%BC%E3%80%82''),
     (''policies.help.weights'', decode ''GPU%E3%80%81CPU%E3%80%81%E7%A3%81%E7%9B%98%E4%B8%89%E7%A7%8D KV %E9%A9%BB%E7%95%99%E5%B1%82%E7%BA%A7%E7%9A%84%E5%91%BD%E4%B8%AD%E8%AE%A1%E5%88%86%E6%9D%83%E9%87%8D%E3%80%82%E6%9D%83%E9%87%8D%E8%B6%8A%E9%AB%98%EF%BC%8C%E8%AF%A5%E5%B1%82%E7%BA%A7%E5%AF%B9%E5%91%BD%E4%B8%AD%E5%88%86%E6%95%B0%E8%B4%A1%E7%8C%AE%E8%B6%8A%E5%A4%A7%E3%80%82''),
     (''policies.help.applied_rules'', decode ''%E7%94%9F%E6%88%90%E6%9C%80%E7%BB%88%E7%AD%96%E7%95%A5%E6%97%B6%E5%8F%82%E4%B8%8E%E5%90%88%E5%B9%B6%E7%9A%84%E8%A7%84%E5%88%99%EF%BC%8C%E9%A1%BA%E5%BA%8F%E4%BB%8E%E6%9B%B4%E5%AE%BD%E6%B3%9B%E7%9A%84%E9%BB%98%E8%AE%A4%E8%A7%84%E5%88%99%E5%88%B0%E6%9B%B4%E5%85%B7%E4%BD%93%E7%9A%84%E5%8C%B9%E9%85%8D%E8%A7%84%E5%88%99%E3%80%82''),
     (''policies.help.conditions'', decode ''%E5%90%8C%E4%B8%80%E6%9D%A1%E8%A7%84%E5%88%99%E5%86%85%E7%9A%84%E6%89%80%E6%9C%89%E6%9D%A1%E4%BB%B6%E5%BF%85%E9%A1%BB%E5%90%8C%E6%97%B6%E6%BB%A1%E8%B6%B3%E3%80%82%E6%9D%A1%E4%BB%B6%E5%88%97%E8%A1%A8%E4%B8%BA%E7%A9%BA%E8%A1%A8%E7%A4%BA%E5%8C%B9%E9%85%8D%E6%89%80%E6%9C%89%E8%AF%B7%E6%B1%82%E3%80%82''),
     (''policies.help.action'', decode ''%E8%A7%84%E5%88%99%E5%91%BD%E4%B8%AD%E5%90%8E%E6%89%A7%E8%A1%8C%E7%9A%84%E5%8A%A8%E4%BD%9C%EF%BC%9A%E6%94%BE%E8%A1%8C%E3%80%81%E6%8B%92%E7%BB%9D%EF%BC%8C%E6%88%96%E8%A6%81%E6%B1%82 KV %E5%91%BD%E4%B8%AD%E7%8E%87%E8%BE%BE%E5%88%B0%E9%98%88%E5%80%BC%E3%80%82''),
     (''policies.help.input_tokens'', decode ''%E8%AF%B7%E6%B1%82%E5%AE%8C%E6%88%90%E5%88%86%E8%AF%8D%E5%90%8E%E7%9A%84%E8%BE%93%E5%85%A5%E9%95%BF%E5%BA%A6%E3%80%82%E9%80%9A%E5%B8%B8%E7%94%A8%E5%AE%83%E6%9D%A5%E9%85%8D%E7%BD%AE%E2%80%9C%E8%BE%BE%E5%88%B0%E5%A4%9A%E5%B0%91 Token %E5%90%8E%E5%BC%80%E5%A7%8B%E8%A6%81%E6%B1%82%E7%BC%93%E5%AD%98%E5%91%BD%E4%B8%AD%E7%8E%87%E2%80%9D%E3%80%82''),
     (''policies.help.preview_hit_ratio'', decode ''%E4%BB%85%E7%94%A8%E4%BA%8E%E8%A7%84%E5%88%99%E9%A2%84%E8%A7%88%E7%9A%84%E5%81%87%E8%AE%BE%E5%91%BD%E4%B8%AD%E7%8E%87%E3%80%82%E7%9C%9F%E5%AE%9E%E5%87%86%E5%85%A5%E4%BB%8D%E4%BC%9A%E6%9F%A5%E8%AF%A2%E5%AE%9E%E6%97%B6 prefix index%E3%80%82''),
     (''policies.help.low_hit'', decode ''KV %E5%91%BD%E4%B8%AD%E7%8E%87%E4%BD%8E%E4%BA%8E%E6%9C%80%E4%BD%8E%E8%A6%81%E6%B1%82%E6%97%B6%E6%80%8E%E4%B9%88%E5%A4%84%E7%90%86%E3%80%82''),
     (''policies.help.uncertain'', decode ''%E5%BD%93%E7%BC%93%E5%AD%98%E4%BF%A1%E5%8F%B7%E4%B8%8D%E5%8F%AF%E4%BF%A1%E6%97%B6%E6%80%8E%E4%B9%88%E5%A4%84%E7%90%86%EF%BC%8C%E4%BE%8B%E5%A6%82%E5%88%86%E8%AF%8D%E5%A4%B1%E8%B4%A5%E3%80%81hash %E7%89%B9%E6%80%A7%E4%B8%8D%E6%94%AF%E6%8C%81%E3%80%81%E6%B2%A1%E6%9C%89%E5%8F%AF%E7%94%A8%E5%BC%95%E6%93%8E%EF%BC%8C%E6%88%96 KV %E4%BA%8B%E4%BB%B6%E6%B5%81%E4%B8%8D%E5%8F%AF%E7%94%A8%E3%80%82''),
     (''policies.help.reject_status'', decode ''%E8%A7%84%E5%88%99%E6%8B%92%E7%BB%9D%E8%AF%B7%E6%B1%82%E6%97%B6%E8%BF%94%E5%9B%9E%E7%9A%84 HTTP %E7%8A%B6%E6%80%81%E7%A0%81%E3%80%82%E5%87%86%E5%85%A5%E9%99%90%E6%B5%81%E5%BB%BA%E8%AE%AE%E4%BD%BF%E7%94%A8 429%E3%80%82''),
     (''policies.help.matched_rule'', decode ''%E8%BF%99%E6%AC%A1%E9%A2%84%E8%A7%88%E4%B8%AD%E7%AC%AC%E4%B8%80%E6%9D%A1%E5%85%A8%E9%83%A8 AND %E6%9D%A1%E4%BB%B6%E9%83%BD%E6%BB%A1%E8%B6%B3%E7%9A%84%E5%90%AF%E7%94%A8%E8%A7%84%E5%88%99%E3%80%82''),
     (''policies.help.result_reason'', decode ''%E5%90%8E%E7%AB%AF%E8%BF%94%E5%9B%9E%E7%9A%84%E5%8E%9F%E5%9B%A0%E7%A0%81%EF%BC%8C%E8%AF%B4%E6%98%8E%E4%B8%BA%E4%BB%80%E4%B9%88%E6%94%BE%E8%A1%8C%E3%80%81%E6%8B%92%E7%BB%9D%E6%88%96%E4%BF%9D%E5%AE%88%E6%94%BE%E8%A1%8C%E3%80%82''),
     (''policies.help.evaluated_rules'', decode ''%E6%8C%89%E4%BC%98%E5%85%88%E7%BA%A7%E4%BE%9D%E6%AC%A1%E6%A3%80%E6%9F%A5%E8%BF%87%E7%9A%84%E8%A7%84%E5%88%99%EF%BC%8C%E7%9B%B4%E5%88%B0%E5%91%BD%E4%B8%AD%E7%AC%AC%E4%B8%80%E6%9D%A1%E4%B8%BA%E6%AD%A2%E3%80%82''),
     (''policies.form.conditions'', decode ''%E5%8C%B9%E9%85%8D%E6%9D%A1%E4%BB%B6''),
     (''policies.form.conditions_desc'', decode ''%E8%BF%99%E4%BA%9B%E6%9D%A1%E4%BB%B6%E4%BC%9A%E5%92%8C%E4%B8%8A%E9%9D%A2%E7%9A%84%E9%80%82%E7%94%A8%E9%9B%86%E7%BE%A4%E4%B8%80%E8%B5%B7%E6%8C%89 AND %E5%8C%B9%E9%85%8D%E3%80%82%E4%B8%8D%E5%90%8C%E8%A7%84%E5%88%99%E4%B9%8B%E9%97%B4%E6%8C%89%E4%BC%98%E5%85%88%E7%BA%A7 OR %E5%91%BD%E4%B8%AD%E3%80%82''),
     (''policies.form.action'', decode ''%E6%89%A7%E8%A1%8C%E5%8A%A8%E4%BD%9C''),
     (''policies.conditions.all'', decode ''%E5%85%A8%E9%83%A8%E8%AF%B7%E6%B1%82''),
     (''policies.conditions.all_desc'', decode ''%E6%B2%A1%E6%9C%89%E6%9D%A1%E4%BB%B6%E6%97%B6%EF%BC%8C%E8%BF%99%E6%9D%A1%E8%A7%84%E5%88%99%E4%BC%9A%E5%8C%B9%E9%85%8D%E6%89%80%E6%9C%89%E8%AF%B7%E6%B1%82%E3%80%82''),
     (''policies.condition.field'', decode ''%E5%AD%97%E6%AE%B5''),
     (''policies.condition.op'', decode ''%E5%85%B3%E7%B3%BB''),
     (''policies.condition.value'', decode ''%E5%80%BC''),
     (''policies.placeholder.list'', decode ''%E5%80%BC1, %E5%80%BC2''),
     (''policies.condition.field.cluster_id'', decode ''%E9%9B%86%E7%BE%A4''),
     (''policies.condition.field.model_id'', decode ''%E6%A8%A1%E5%9E%8B''),
     (''policies.condition.field.tenant_id'', decode ''%E4%B8%9A%E5%8A%A1%E7%A7%9F%E6%88%B7''),
     (''policies.condition.field.input_tokens'', decode ''%E8%BE%93%E5%85%A5 Token %E6%95%B0''),
     (''policies.condition.field.hit_ratio'', decode ''KV %E5%91%BD%E4%B8%AD%E7%8E%87''),
     (''policies.condition.field.best_hit_tokens'', decode ''%E6%9C%80%E9%95%BF%E5%91%BD%E4%B8%AD Token''),
     (''policies.condition.field.effective_cached_tokens'', decode ''%E6%9C%89%E6%95%88%E5%91%BD%E4%B8%AD Token''),
     (''policies.condition.field.kv_event_state'', decode ''KV %E4%BA%8B%E4%BB%B6%E7%8A%B6%E6%80%81''),
     (''policies.condition.field.tokenized'', decode ''%E5%B7%B2%E5%88%86%E8%AF%8D''),
     (''policies.condition.field.hash_supported'', decode ''Hash %E7%89%B9%E6%80%A7%E6%94%AF%E6%8C%81''),
     (''policies.condition.field.has_candidates'', decode ''%E5%AD%98%E5%9C%A8%E5%8F%AF%E7%94%A8%E5%BC%95%E6%93%8E''),
     (''policies.condition.op.eq'', ''=''),
     (''policies.condition.op.neq'', ''!=''),
     (''policies.condition.op.in'', decode ''%E5%B1%9E%E4%BA%8E''),
     (''policies.condition.op.not_in'', decode ''%E4%B8%8D%E5%B1%9E%E4%BA%8E''),
     (''policies.condition.op.gt'', ''>''),
     (''policies.condition.op.gte'', ''>=''),
     (''policies.condition.op.lt'', ''<''),
     (''policies.condition.op.lte'', ''<=''),
     (''policies.condition.op.contains'', decode ''%E5%8C%85%E5%90%AB''),
     (''policies.action.accept'', decode ''%E6%94%BE%E8%A1%8C''),
     (''policies.action.reject'', decode ''%E6%8B%92%E7%BB%9D''),
     (''policies.action.require_cache_hit'', decode ''%E8%A6%81%E6%B1%82 KV %E5%91%BD%E4%B8%AD''),
     (''policies.action.require_hit'', decode ''%E8%A6%81%E6%B1%82 KV %E5%91%BD%E4%B8%AD''),
     (''policies.outcome.accept'', decode ''%E6%94%BE%E8%A1%8C''),
     (''policies.outcome.reject'', decode ''%E6%8B%92%E7%BB%9D''),
     (''policies.outcome.fallback_accept'', decode ''%E4%BF%9D%E5%AE%88%E6%94%BE%E8%A1%8C'')]"

definition zh_4 :: "(string \<times> string) list" where
  "zh_4 =
    [(''streams.title'', decode ''KV %E4%BA%8B%E4%BB%B6%E6%B5%81''),
     (''streams.subtitle'', decode ''%E6%AF%8F%E4%B8%AA%E5%BC%95%E6%93%8E%E7%9A%84 ZMQ %E7%9B%91%E5%90%AC%E7%8A%B6%E6%80%81%EF%BC%9A%E8%BF%9E%E6%8E%A5%E3%80%81%E5%BA%8F%E5%88%97%E3%80%81%E5%BA%8F%E5%88%97%E7%BC%BA%E5%8F%A3%E3%80%81%E8%A7%A3%E7%A0%81%E9%94%99%E8%AF%AF%E3%80%82%E5%87%86%E5%85%A5%E6%89%80%E9%9C%80%E7%9A%84%E4%BA%8B%E4%BB%B6%E6%9C%89%E6%95%88%E6%80%A7%E6%8D%AE%E6%AD%A4%E6%8E%A8%E5%AF%BC%E3%80%82''),
     (''streams.listeners.title'', decode ''%E7%9B%91%E5%90%AC%E5%99%A8''),
     (''streams.listeners.desc'', decode ''%E6%AF%8F%E4%B8%AA%E5%BC%95%E6%93%8E%E7%9A%84%E8%BF%9E%E6%8E%A5%E7%8A%B6%E6%80%81%E4%B8%8E%E4%BA%8B%E4%BB%B6%E5%90%9E%E5%90%90%E3%80%82''),
     (''streams.col.engine'', decode ''%E5%BC%95%E6%93%8E''),
     (''streams.col.endpoint'', decode ''%E7%9B%91%E5%90%AC%E7%AB%AF%E7%82%B9''),
     (''streams.col.topic'', decode ''%E4%B8%BB%E9%A2%98''),
     (''streams.col.connected'', decode ''%E8%BF%9E%E6%8E%A5''),
     (''streams.col.last_seq'', decode ''%E6%9C%80%E5%90%8E%E5%BA%8F%E5%88%97''),
     (''streams.col.events'', decode ''%E4%BA%8B%E4%BB%B6''),
     (''streams.col.gaps'', decode ''%E5%BA%8F%E5%88%97%E7%BC%BA%E5%8F%A3''),
     (''streams.col.decode'', decode ''%E8%A7%A3%E7%A0%81%E9%94%99%E8%AF%AF''),
     (''streams.col.queue'', decode ''%E7%A7%AF%E5%8E%8B%E9%98%9F%E5%88%97''),
     (''streams.col.last_err'', decode ''%E6%9C%80%E8%BF%91%E9%94%99%E8%AF%AF''),
     (''streams.empty.listeners'', decode ''%E6%9A%82%E6%97%A0%E7%9B%91%E5%90%AC%E5%99%A8%E3%80%82''),
     (''streams.events.title'', decode ''%E5%AE%9E%E6%97%B6 KV %E4%BA%8B%E4%BB%B6''),
     (''streams.events.desc'', decode ''%E5%B1%95%E7%A4%BA%E5%B7%B2%E8%A7%A3%E7%A0%81%E7%9A%84 ZMQ %E4%BA%8B%E4%BB%B6%E3%80%82%E5%85%88%E5%8A%A0%E8%BD%BD%E8%BF%91%E6%9C%9F%E4%BA%8B%E4%BB%B6%EF%BC%8C%E5%86%8D%E8%B7%9F%E9%9A%8F%E5%BD%93%E5%89%8D%E9%80%89%E4%B8%AD%E9%9B%86%E7%BE%A4%E5%AE%9E%E6%97%B6%E8%BF%BD%E5%8A%A0%E3%80%82''),
     (''streams.events.live'', decode ''%E5%AE%9E%E6%97%B6''),
     (''streams.events.connecting'', decode ''%E8%BF%9E%E6%8E%A5%E4%B8%AD''),
     (''streams.events.select_cluster'', decode ''%E8%AF%B7%E9%80%89%E6%8B%A9%E9%9B%86%E7%BE%A4''),
     (''streams.events.query'', decode ''%E6%9F%A5%E8%AF%A2 KV %E4%BA%8B%E4%BB%B6''),
     (''streams.events.detail'', decode ''KV %E4%BA%8B%E4%BB%B6%E8%AF%A6%E6%83%85''),
     (''streams.events.empty'', decode ''%E5%B0%9A%E6%9C%AA%E8%A7%82%E5%AF%9F%E5%88%B0 KV %E4%BA%8B%E4%BB%B6%E3%80%82''),
     (''streams.events.empty_filtered'', decode ''%E5%BD%93%E5%89%8D%E7%AD%9B%E9%80%89%E6%9D%A1%E4%BB%B6%E4%B8%8B%E6%B2%A1%E6%9C%89 KV %E4%BA%8B%E4%BB%B6%E3%80%82''),
     (''streams.events.filter.indexed'', decode ''%E5%B7%B2%E5%85%A5%E7%B4%A2%E5%BC%95''),
     (''streams.events.filter.all'', decode ''%E5%85%A8%E9%83%A8''),
     (''streams.events.page_info'', decode ''%E7%AC%AC {page}/{pages} %E9%A1%B5 %C2%B7 %E5%85%B1 {total} %E6%9D%A1 %C2%B7 %E6%AF%8F%E9%A1%B5 10 %E6%9D%A1''),
     (''streams.events.col.time'', decode ''%E6%8E%A5%E6%94%B6%E6%97%B6%E9%97%B4''),
     (''streams.events.col.kind'', decode ''%E7%B1%BB%E5%9E%8B''),
     (''streams.events.col.model'', decode ''%E6%A8%A1%E5%9E%8B''),
     (''streams.events.col.tier'', decode ''%E9%A9%BB%E7%95%99%E5%B1%82%E7%BA%A7''),
     (''streams.events.col.indexed'', decode ''%E5%B7%B2%E5%85%A5%E7%B4%A2%E5%BC%95''),
     (''streams.events.col.tokens'', decode ''Token %E6%95%B0''),
     (''streams.events.col.keys'', ''request_key''),
     (''streams.events.col.skip'', decode ''%E8%B7%B3%E8%BF%87%E5%8E%9F%E5%9B%A0''),
     (''streams.events.col.detail'', decode ''%E8%AF%A6%E6%83%85''),
     (''streams.events.raw_json'', decode ''%E5%8E%9F%E5%A7%8B JSON''),
     (''streams.index.title'', decode ''%E7%BC%93%E5%AD%98%E9%A9%BB%E7%95%99%E7%B4%A2%E5%BC%95''),
     (''streams.index.desc'', decode ''%E6%AF%8F%E4%B8%AA%E6%A8%A1%E5%9E%8B%E9%85%8D%E7%BD%AE%E5%91%BD%E5%90%8D%E7%A9%BA%E9%97%B4%E7%9A%84%E5%89%8D%E7%BC%80%E5%9D%97%E8%AE%A1%E6%95%B0%E3%80%82''),
     (''streams.col.namespace'', decode ''%E5%91%BD%E5%90%8D%E7%A9%BA%E9%97%B4''),
     (''streams.col.req_keys'', decode ''%E5%89%8D%E7%BC%80%E9%94%AE''),
     (''streams.col.bridges'', decode ''%E5%BC%95%E6%93%8E%E6%98%A0%E5%B0%84''),
     (''streams.col.engines'', decode ''%E5%BC%95%E6%93%8E%E6%95%B0''),
     (''streams.empty.index'', decode ''%E7%B4%A2%E5%BC%95%E4%B8%BA%E7%A9%BA %E2%80%94 %E5%B0%9A%E6%9C%AA%E6%91%84%E5%85%A5%E4%BA%8B%E4%BB%B6%E3%80%82''),
     (''decisions.title'', decode ''%E5%AE%9E%E6%97%B6%E5%87%86%E5%85%A5%E5%86%B3%E7%AD%96''),
     (''decisions.subtitle'', decode ''%E8%BF%91%E6%9C%9F%E5%87%86%E5%85%A5%E5%88%A4%E5%AE%9A%EF%BC%9A%E5%8E%9F%E5%9B%A0%E3%80%81%E5%91%BD%E4%B8%AD%E7%8E%87%E3%80%81%E7%9B%AE%E6%A0%87%E5%BC%95%E6%93%8E%E4%B8%8E%E9%85%8D%E7%BD%AE%E7%89%88%E6%9C%AC%E3%80%82''),
     (''decisions.col.time'', decode ''%E6%97%B6%E9%97%B4''),
     (''decisions.col.protocol'', decode ''%E5%8D%8F%E8%AE%AE''),
     (''decisions.col.model'', decode ''%E6%A8%A1%E5%9E%8B''),
     (''decisions.col.tenant'', decode ''%E7%A7%9F%E6%88%B7''),
     (''decisions.col.decision'', decode ''%E5%86%B3%E7%AD%96''),
     (''decisions.col.reason'', decode ''%E5%8E%9F%E5%9B%A0''),
     (''decisions.col.input'', decode ''%E8%BE%93%E5%85%A5 Token''),
     (''decisions.col.hit'', decode ''%E5%91%BD%E4%B8%AD%E7%8E%87''),
     (''decisions.col.target'', decode ''%E7%9B%AE%E6%A0%87%E5%BC%95%E6%93%8E''),
     (''decisions.col.cfg'', decode ''%E9%85%8D%E7%BD%AE''),
     (''decisions.empty'', decode ''%E6%9A%82%E6%97%A0%E5%86%B3%E7%AD%96%E3%80%82%E8%AF%B7%E4%BD%BF%E7%94%A8%E5%89%8D%E7%BC%80%E5%91%BD%E4%B8%AD%E6%A8%A1%E6%8B%9F%E5%99%A8%EF%BC%8C%E6%88%96%E5%90%91 /v1/chat/completions%E3%80%81/v1/responses%E3%80%81/v1/messages %E5%8F%91%E9%80%81%E8%AF%B7%E6%B1%82%E3%80%82''),
     (''decisions.filter.all'', decode ''%E5%85%A8%E9%83%A8%E5%86%B3%E7%AD%96''),
     (''decisions.filter.accept'', decode ''%E5%B7%B2%E6%8E%A5%E5%8F%97''),
     (''decisions.filter.reject'', decode ''%E5%B7%B2%E6%8B%92%E7%BB%9D%EF%BC%88429%EF%BC%89''),
     (''decisions.filter.fallback'', decode ''%E4%BF%9D%E5%AE%88%E6%94%BE%E8%A1%8C''),
     (''decisions.filter.none'', decode ''%E6%B2%A1%E6%9C%89%E7%AC%A6%E5%90%88%E8%AF%A5%E7%AD%9B%E9%80%89%E6%9D%A1%E4%BB%B6%E7%9A%84%E5%86%B3%E7%AD%96%E3%80%82''),
     (''decisions.count'', decode ''%E6%98%BE%E7%A4%BA {shown}/{total} %E6%9D%A1''),
     (''audit.title'', decode ''%E9%85%8D%E7%BD%AE%E5%AE%A1%E8%AE%A1''),
     (''audit.subtitle'', decode ''%E6%AF%8F%E6%AC%A1%E9%85%8D%E7%BD%AE%E5%8F%98%E6%9B%B4%E9%83%BD%E4%BC%9A%E6%8F%90%E5%8D%87%E5%85%A8%E5%B1%80%E7%89%88%E6%9C%AC%E5%8F%B7%E3%80%82%E6%A8%A1%E5%9E%8B%E9%85%8D%E7%BD%AE%E7%89%88%E6%9C%AC%EF%BC%88%E9%9A%94%E7%A6%BB request_key %E5%91%BD%E5%90%8D%E7%A9%BA%E9%97%B4%EF%BC%89%E7%9A%84%E6%8F%90%E5%8D%87%E4%BC%9A%E8%A2%AB%E6%A0%87%E8%AE%B0%E3%80%82''),
     (''audit.col.version'', decode ''%E7%89%88%E6%9C%AC''),
     (''audit.col.time'', decode ''%E6%97%B6%E9%97%B4''),
     (''audit.col.action'', decode ''%E6%93%8D%E4%BD%9C''),
     (''audit.col.entity'', decode ''%E5%AF%B9%E8%B1%A1''),
     (''audit.col.id'', ''ID''),
     (''audit.col.detail'', decode ''%E8%AF%A6%E6%83%85''),
     (''audit.col.flag'', decode ''%E6%8F%90%E7%A4%BA''),
     (''audit.bump_badge'', decode ''%E6%A8%A1%E5%9E%8B%E9%85%8D%E7%BD%AE%E7%89%88%E6%9C%AC%E6%8F%90%E5%8D%87''),
     (''audit.empty'', decode ''%E6%9A%82%E6%97%A0%E9%85%8D%E7%BD%AE%E5%8F%98%E6%9B%B4%E8%AE%B0%E5%BD%95%E3%80%82''),
     (''sim.title'', decode ''%E5%89%8D%E7%BC%80%E5%91%BD%E4%B8%AD%E6%A8%A1%E6%8B%9F%E5%99%A8''),
     (''sim.subtitle'', decode ''%E9%80%9A%E8%BF%87%E5%BC%95%E6%93%8E%E5%88%86%E8%AF%8D%E3%80%81%E8%AE%A1%E7%AE%97 request_key%E3%80%81%E6%9F%A5%E8%AF%A2%E7%BC%93%E5%AD%98%E9%A9%BB%E7%95%99%E6%83%85%E5%86%B5%EF%BC%8C%E5%B9%B6%E8%BF%90%E8%A1%8C%E5%87%86%E5%85%A5%E5%88%A4%E5%AE%9A %E2%80%94 %E8%A6%86%E7%9B%96%E4%B8%89%E7%A7%8D%E5%8D%8F%E8%AE%AE%E3%80%82''),
     (''sim.req.title'', decode ''%E8%AF%B7%E6%B1%82''),
     (''sim.req.desc'', decode ''%E6%9E%84%E9%80%A0%E6%8F%90%E7%A4%BA%E8%AF%8D%E5%B9%B6%E9%80%89%E6%8B%A9%E8%A6%81%E6%A8%A1%E6%8B%9F%E7%9A%84%E5%8D%8F%E8%AE%AE%E3%80%82''),
     (''sim.field.model'', decode ''%E6%A8%A1%E5%9E%8B''),
     (''sim.field.protocol'', decode ''%E5%8D%8F%E8%AE%AE''),
     (''sim.field.text'', decode ''%E6%8F%90%E7%A4%BA%E8%AF%8D / %E6%B6%88%E6%81%AF%E6%96%87%E6%9C%AC''),
     (''sim.btn.run'', decode ''%E8%BF%90%E8%A1%8C%E5%AE%8C%E6%95%B4%E6%B5%81%E6%B0%B4%E7%BA%BF''),
     (''sim.btn.tokenize'', decode ''%E4%BB%85%E5%88%86%E8%AF%8D''),
     (''sim.btn.running'', decode ''%E8%BF%90%E8%A1%8C%E4%B8%AD%E2%80%A6''),
     (''sim.raw.title'', decode ''%E8%AF%B7%E6%B1%82%E4%BD%93''),
     (''sim.raw.desc'', decode ''%E5%8F%91%E9%80%81%E5%88%B0 {path} %E7%9A%84%E5%AE%9E%E9%99%85 JSON%E3%80%82''),
     (''sim.needs_cluster'', decode ''%E8%AF%B7%E5%85%88%E5%9C%A8%E5%8F%B3%E4%B8%8A%E8%A7%92%E5%88%87%E6%8D%A2%E5%88%B0%E5%85%B7%E4%BD%93%E9%9B%86%E7%BE%A4 %E2%80%94 %E6%A8%A1%E6%8B%9F%E5%99%A8%E9%92%88%E5%AF%B9%E5%8D%95%E4%B8%AA%E5%90%8E%E7%AB%AF%E8%BF%90%E8%A1%8C%E3%80%82''),
     (''sim.tok.title'', decode ''%E5%88%86%E8%AF%8D%E7%BB%93%E6%9E%9C''),
     (''sim.tok.tokens'', decode ''{n} %E4%B8%AA Token''),
     (''sim.tok.blocks'', decode ''{n} %E4%B8%AA%E5%89%8D%E7%BC%80%E5%9D%97''),
     (''sim.tok.block_size'', ''block_size {n}''),
     (''sim.tok.namespace'', decode ''%E5%91%BD%E5%90%8D%E7%A9%BA%E9%97%B4''),
     (''sim.tok.req_keys'', ''request_key''),
     (''sim.hits.title'', decode ''%E5%90%84%E5%AE%9E%E4%BE%8B%E5%89%8D%E7%BC%80%E5%91%BD%E4%B8%AD''),
     (''sim.hits.empty'', decode ''%E6%97%A0%E7%BC%93%E5%AD%98%E9%A9%BB%E7%95%99%E5%8C%B9%E9%85%8D%EF%BC%88%E5%86%B7%E5%89%8D%E7%BC%80%EF%BC%89%E3%80%82''),
     (''sim.hits.matched'', decode ''%E5%B7%B2%E5%8C%B9%E9%85%8D {n}''),
     (''sim.dec.reject'', decode ''429 %E6%8B%92%E7%BB%9D''),
     (''sim.dec.accept'', decode ''%E6%8E%A5%E5%8F%97''),
     (''sim.dec.input'', decode ''%E8%BE%93%E5%85%A5''),
     (''sim.dec.tok'', ''Token''),
     (''sim.dec.best'', decode ''%E6%9C%80%E4%BD%B3%E5%91%BD%E4%B8%AD''),
     (''sim.dec.ratio'', decode ''%E5%91%BD%E4%B8%AD%E7%8E%87''),
     (''sim.dec.fallback'', decode ''%E4%BF%9D%E5%AE%88%E6%94%BE%E8%A1%8C''),
     (''sim.dec.target'', decode ''%E5%BB%BA%E8%AE%AE%E7%9B%AE%E6%A0%87%EF%BC%9A''),
     (''sim.dec.min'', decode ''%E6%9C%80%E4%BD%8E%E8%A6%81%E6%B1%82%E5%91%BD%E4%B8%AD%E7%8E%87: {min} %C2%B7 %E5%AE%9E%E9%99%85 {got}%25''),
     (''sim.dec.profile'', decode ''%E6%A8%A1%E5%9E%8B%E9%85%8D%E7%BD%AE v{p} %C2%B7 %E9%85%8D%E7%BD%AE #{c} %C2%B7 %E8%A7%84%E5%88%99: {ids}''),
     (''protocol.openai.chat'', ''OpenAI Chat''),
     (''protocol.openai.responses'', ''OpenAI Responses''),
     (''protocol.anthropic.messages'', ''Anthropic Messages'')]"

definition zh_dict :: "(string \<times> string) list" where
  "zh_dict = zh_1 @ zh_2 @ zh_3 @ zh_4"

lemmas zh_defs = zh_1_def zh_2_def zh_3_def zh_4_def

end
