(* ===== verification/Placeholders.thy ===== *)
theory Placeholders
  imports Prelude
begin

text \<open>
  The placeholders of a translated text and how \<open>t\<close> of \<open>web/lib/i18n.tsx\<close> fills them in, one
  \<open>replace\<close> per variable, with the proof that this is a simultaneous substitution for values
  without braces and dollar signs.
\<close>

section \<open>Filling placeholders\<close>

text \<open>
  One variable: every \<open>{k}\<close> is replaced by the value, which is a template of \<open>replace\<close> (the
  names \<open>k\<close> of the source are words, so the expression \<open>\{k\}\<close> matches just that text).
\<close>

definition hole :: "string \<Rightarrow> string" where
  "hole k = ''{'' @ k @ ''}''"

definition fill_one :: "string \<times> string \<Rightarrow> string \<Rightarrow> string" where
  "fill_one kv s = replace_all (hole (fst kv)) (snd kv) s"

definition fill :: "string obj \<Rightarrow> string \<Rightarrow> string" where
  "fill vars s = fold fill_one vars s"

section \<open>Texts as literals and placeholders\<close>

text \<open>
  A text with placeholders, as literals (\<open>Inl\<close>) and placeholders (\<open>Inr\<close>), and what it should
  become: every placeholder that has a value is replaced by it.
\<close>

type_synonym pieces = "(string + string) list"

definition piece_text :: "string + string \<Rightarrow> string" where
  "piece_text p = (case p of Inl s \<Rightarrow> s | Inr k \<Rightarrow> hole k)"

definition pieces_text :: "pieces \<Rightarrow> string" where
  "pieces_text ps = concat (map piece_text ps)"

definition piece_ok :: "string + string \<Rightarrow> bool" where
  "piece_ok p = (case p of
     Inl s \<Rightarrow> CHR ''{'' \<notin> set s | Inr k \<Rightarrow> CHR ''{'' \<notin> set k \<and> CHR ''}'' \<notin> set k)"

definition pieces_ok :: "pieces \<Rightarrow> bool" where
  "pieces_ok ps = list_all piece_ok ps"

definition put :: "string \<Rightarrow> string \<Rightarrow> string + string \<Rightarrow> string + string" where
  "put k v p = (if p = Inr k then Inl v else p)"

definition filled :: "string obj \<Rightarrow> string + string \<Rightarrow> string" where
  "filled vars p = (case p of Inl s \<Rightarrow> s
     | Inr k \<Rightarrow> (case map_of vars k of Some v \<Rightarrow> v | None \<Rightarrow> hole k))"

lemma pieces_simps [simp]:
  "pieces_text [] = []" "pieces_text (p # ps) = piece_text p @ pieces_text ps"
  "piece_text (Inl s) = s" "piece_text (Inr k) = hole k"
  by (simp_all add: pieces_text_def piece_text_def)

lemma pieces_ok_simps [simp]:
  "pieces_ok []" "pieces_ok (p # ps) \<longleftrightarrow> piece_ok p \<and> pieces_ok ps"
  "piece_ok (Inl s) \<longleftrightarrow> CHR ''{'' \<notin> set s"
  "piece_ok (Inr k) \<longleftrightarrow> CHR ''{'' \<notin> set k \<and> CHR ''}'' \<notin> set k"
  by (simp_all add: pieces_ok_def piece_ok_def)

lemma hole_prefix:
  assumes "CHR ''}'' \<notin> set k" "CHR ''}'' \<notin> set k'"
  shows "prefix (hole k) (hole k' @ r) \<longleftrightarrow> k = k'"
proof -
  have cut: "k = k'" if "k @ CHR ''}'' # a = k' @ CHR ''}'' # b" for a b :: string
    using assms that by (metis split_on_append list.inject)
  have "k = k'" if "prefix (hole k) (hole k' @ r)"
  proof -
    obtain z where "hole k' @ r = hole k @ z" using \<open>prefix (hole k) (hole k' @ r)\<close> by (rule prefixE)
    then have "k @ CHR ''}'' # z = k' @ CHR ''}'' # r" by (simp add: hole_def)
    then show ?thesis by (rule cut)
  qed
  then show ?thesis by auto
qed

lemma find_sub_skip:
  assumes "CHR ''{'' \<notin> set u"
  shows "find_sub (hole k) (u @ s) = map_option (\<lambda>(b, a). (u @ b, a)) (find_sub (hole k) s)"
  using assms
proof (induction u)
  case Nil
  show ?case by (cases "find_sub (hole k) s") auto
next
  case (Cons c u)
  then have "\<not> prefix (hole k) (c # u @ s)" by (auto simp: hole_def)
  with Cons show ?case by (cases "find_sub (hole k) s") (auto simp: hole_def)
qed

lemma find_sub_hole: "find_sub (hole k) (hole k @ s) = Some ([], s)"
  by (simp add: hole_def)

lemma find_sub_other_hole:
  assumes "piece_ok (Inr k)" "piece_ok (Inr k')" "k \<noteq> k'"
  shows "find_sub (hole k) (hole k' @ s) = map_option (\<lambda>(b, a). (hole k' @ b, a)) (find_sub (hole k) s)"
proof -
  have "\<not> prefix (hole k) (hole k' @ s)" using assms by (simp add: hole_prefix)
  moreover have "find_sub (hole k) ((k' @ ''}'') @ s)
      = map_option (\<lambda>(b, a). ((k' @ ''}'') @ b, a)) (find_sub (hole k) s)"
    using assms by (intro find_sub_skip) auto
  moreover have "hole k' @ s = CHR ''{'' # (k' @ ''}'') @ s" by (simp add: hole_def)
  ultimately show ?thesis
    by (cases "find_sub (hole k) s") (simp_all add: hole_def [of k'] split: prod.split)
qed

lemma replace_from_skip:
  assumes "find_sub pat (u @ s) = map_option (\<lambda>(b, a). (u @ b, a)) (find_sub pat s)"
    and "pat \<noteq> []" "CHR ''$'' \<notin> set v"
  shows "replace_from pat v passed (u @ s) = u @ replace_from pat v passed' s"
proof -
  have free: "replace_from pat v p s = replace_from pat v q s" for p q s
    using assms(2,3)
  proof (induction "length s" arbitrary: s p q rule: less_induct)
    case less
    show ?case
    proof (cases "find_sub pat s")
      case None
      then show ?thesis by (simp add: replace_from.simps [of pat v _ s])
    next
      case (Some ba)
      obtain b a where ba: "ba = (b, a)" by (cases ba)
      with Some less.prems have "length a < length s" by (auto dest!: find_sub_Some)
      from less.hyps [OF this less.prems] show ?thesis
        using Some ba less.prems by (simp add: replace_from.simps [of pat v _ s] expand_plain)
    qed
  qed
  show ?thesis
  proof (cases "find_sub pat s")
    case None
    with assms show ?thesis by (simp add: replace_from.simps [of pat v _ "u @ s"] replace_from.simps [of pat v _ s])
  next
    case (Some ba)
    obtain b a where ba: "ba = (b, a)" by (cases ba)
    show ?thesis
      using assms Some ba free [of "passed @ (u @ b) @ pat" a "passed' @ b @ pat"]
      by (simp add: replace_from.simps [of pat v _ "u @ s"] replace_from.simps [of pat v _ s] expand_plain)
  qed
qed

lemma fill_one_pieces:
  assumes "pieces_ok ps" "piece_ok (Inr k)" "CHR ''$'' \<notin> set v"
  shows "fill_one (k, v) (pieces_text ps) = pieces_text (map (put k v) ps)"
proof -
  have "replace_from (hole k) v [] (pieces_text ps) = pieces_text (map (put k v) ps)"
    using assms(1)
  proof (induction ps)
    case Nil
    show ?case by (simp add: replace_from.simps [of "hole k" v "[]" "[]"]) (simp add: hole_def)?
  next
    case (Cons p ps)
    have ne: "hole k \<noteq> []" by (simp add: hole_def)
    consider (lit) s where "p = Inl s" | (same) "p = Inr k" | (other) k' where "p = Inr k'" "k' \<noteq> k"
      by (cases p) auto
    then show ?case
    proof cases
      case lit
      with Cons replace_from_skip [OF find_sub_skip ne assms(3), of s "[]" _ "[]"]
      show ?thesis by (simp add: put_def)
    next
      case same
      have "replace_from (hole k) v (hole k) s = replace_from (hole k) v [] s" for s
        using replace_from_skip [of "hole k" "[]" s v] ne assms(3)
        by (cases "find_sub (hole k) s") auto
      moreover have "replace_from (hole k) v [] (hole k @ s) = v @ replace_from (hole k) v (hole k) s" for s
        by (simp add: replace_from.simps [of "hole k" v "[]" "hole k @ s"] find_sub_hole ne
            expand_plain assms(3))
      ultimately show ?thesis using same Cons by (simp add: put_def)
    next
      case other
      with Cons assms(2) replace_from_skip [OF find_sub_other_hole ne assms(3), of k' "[]" _ "[]"]
      show ?thesis by (simp add: put_def)
    qed
  qed
  then show ?thesis by (simp add: fill_one_def replace_all_def)
qed

lemma fill_pieces:
  assumes "pieces_ok ps" "\<forall>(k, v) \<in> set vars. piece_ok (Inl v) \<and> piece_ok (Inr k) \<and> CHR ''$'' \<notin> set v"
  shows "fill vars (pieces_text ps) = concat (map (filled vars) ps)"
  using assms
proof (induction vars arbitrary: ps)
  case Nil
  have "filled [] p = piece_text p" for p by (simp add: filled_def piece_text_def split: sum.split)
  then show ?case by (simp add: fill_def pieces_text_def)
next
  case (Cons kv vars)
  obtain k v where kv: "kv = (k, v)" by (cases kv)
  have "pieces_ok (map (put k v) ps)"
    using Cons.prems kv by (auto simp: pieces_ok_def list_all_iff put_def)
  with Cons.IH [of "map (put k v) ps"] Cons.prems kv
  have "fill vars (pieces_text (map (put k v) ps)) = concat (map (filled vars) (map (put k v) ps))" by simp
  moreover have "filled vars (put k v p) = filled (kv # vars) p" for p
    by (auto simp: filled_def put_def kv split: sum.split)
  ultimately show ?case
    using fill_one_pieces [of ps k v] Cons.prems kv by (simp add: fill_def comp_def)
qed

text \<open>A value is a template of \<open>replace\<close>: one that contains \<open>$&\<close> puts the placeholder back.\<close>

lemma value_template: "fill [(''model'', ''a$&b'')] ''run {model}'' = ''run a{model}b''"
  by code_simp

end
