(* ===== verification/I18n.thy ===== *)
theory I18n
  imports I18n_En I18n_Zh Placeholders React
begin

text \<open>
  The translations of \<open>web/lib/i18n.tsx\<close>: the lookup \<open>t\<close> with its fallbacks and the values it
  fills in (\<open>Placeholders\<close>), the detection of the locale, and the provider's state with the copy of the
  choice in the browser's local storage.  \<open>I18n_En\<close> and \<open>I18n_Zh\<close> hold the dictionaries.
\<close>

datatype lang = En | Zh

instantiation lang :: linorder
begin

definition less_eq_lang :: "lang \<Rightarrow> lang \<Rightarrow> bool" where
  "less_eq_lang a b \<longleftrightarrow> a = En \<or> b = Zh"

definition less_lang :: "lang \<Rightarrow> lang \<Rightarrow> bool" where
  "less_lang a b \<longleftrightarrow> a = En \<and> b = Zh"

instance
proof
  fix a b c :: lang
  show "(a < b) = (a \<le> b \<and> \<not> b \<le> a)"
    by (cases a; cases b) (simp_all add: less_eq_lang_def less_lang_def)
  show "a \<le> a" by (cases a) (simp_all add: less_eq_lang_def)
  show "a \<le> b \<Longrightarrow> b \<le> c \<Longrightarrow> a \<le> c" by (cases b) (simp_all add: less_eq_lang_def)
  show "a \<le> b \<Longrightarrow> b \<le> a \<Longrightarrow> a = b" by (cases a; cases b) (simp_all add: less_eq_lang_def)
  show "a \<le> b \<or> b \<le> a" by (cases a) (simp_all add: less_eq_lang_def)
qed

end

definition dicts :: "lang \<Rightarrow> (string \<times> string) list" where
  "dicts l = (case l of En \<Rightarrow> en_dict | Zh \<Rightarrow> zh_dict)"

section \<open>Lookup\<close>

text \<open>\<open>dict[key] ?? dicts.en[key] ?? key\<close>\<close>

definition lookup_text :: "lang \<Rightarrow> string \<Rightarrow> string" where
  "lookup_text l key =
     (case map_of (dicts l) key of Some s \<Rightarrow> s
      | None \<Rightarrow> (case map_of (dicts En) key of Some s \<Rightarrow> s | None \<Rightarrow> key))"

definition t_fun :: "lang \<Rightarrow> string \<Rightarrow> string obj \<Rightarrow> string" where
  "t_fun l key vars = fill vars (lookup_text l key)"

section \<open>The locale of the page\<close>

text \<open>
  \<open>detect()\<close>: the saved choice if it is a locale, else the browser's language.  The first
  argument tells whether there is a \<open>window\<close>.
\<close>

definition lang_code :: "lang \<Rightarrow> string" where
  "lang_code l = (case l of En \<Rightarrow> ''en'' | Zh \<Rightarrow> ''zh'')"

definition detect :: "bool \<Rightarrow> string option \<Rightarrow> string \<Rightarrow> lang" where
  "detect has_window saved navigator_language =
     (if \<not> has_window then En
      else if saved = Some ''en'' then En
      else if saved = Some ''zh'' then Zh
      else if prefix ''zh'' (lower navigator_language) then Zh else En)"

record i18n_state =
  is_locale :: lang
  is_storage :: "string option"
  is_doc_lang :: string

definition i18n_init :: "string option \<Rightarrow> i18n_state" where
  "i18n_init saved = \<lparr>is_locale = En, is_storage = saved, is_doc_lang = ''en''\<rparr>"

definition doc_effect :: "i18n_state \<Rightarrow> i18n_state" where
  "doc_effect s = s\<lparr>is_doc_lang := (if is_locale s = Zh then ''zh-CN'' else ''en'')\<rparr>"

definition i18n_mount :: "string \<Rightarrow> i18n_state \<Rightarrow> i18n_state" where
  "i18n_mount navigator_language s =
     doc_effect (s\<lparr>is_locale := detect True (is_storage s) navigator_language\<rparr>)"

definition setLocale :: "lang \<Rightarrow> i18n_state \<Rightarrow> i18n_state" where
  "setLocale l s = doc_effect (s\<lparr>is_locale := l, is_storage := Some (lang_code l)\<rparr>)"

definition useI18n :: "'c option \<Rightarrow> string + 'c" where
  "useI18n ctx = (case ctx of
     None \<Rightarrow> Inl ''useI18n must be used inside I18nProvider'' | Some c \<Rightarrow> Inr c)"

interpretation doc: settling doc_effect 1
  by unfold_locales (simp add: doc_effect_def)

definition LocaleToggle :: "(string \<Rightarrow> string) \<Rightarrow> lang \<Rightarrow> lang node" where
  "LocaleToggle t l =
     el ''DropdownMenu''
       [el ''DropdownMenuTrigger'' [Elem ''Button'' [Prop ''aria-label'' (t ''app.locale.toggle'')] []],
        el ''DropdownMenuContent''
          [Elem ''DropdownMenuCheckboxItem'' [Flag ''checked'' (l = En), OnClick En] [Txt ''English''],
           Elem ''DropdownMenuCheckboxItem'' [Flag ''checked'' (l = Zh), OnClick Zh]
             [Txt (decode ''%E4%B8%AD%E6%96%87'')]]]"

section \<open>The two dictionaries\<close>

lemma keys_1: "map fst zh_1 = remove1 ''app.brand.subtitle'' (map fst en_1)"
  by (simp only: zh_1_def en_1_def list.map fst_conv) simp

lemma keys_2: "map fst zh_2 = map fst en_2"
  by (simp only: zh_2_def en_2_def list.map fst_conv)

lemma keys_3: "map fst zh_3 = map fst en_3"
  by (simp only: zh_3_def en_3_def list.map fst_conv)

lemma keys_4: "map fst zh_4 = map fst en_4"
  by (simp only: zh_4_def en_4_def list.map fst_conv)

lemma subtitle_key: "''app.brand.subtitle'' \<in> set (map fst en_1)"
  by (simp add: en_1_def)

text \<open>
  The Chinese dictionary has a text for every key of the English one except the product's
  subtitle, in the same order, and no other key, so that a Chinese page falls back to English
  for that one key only and no key of the dictionaries is ever shown raw.
\<close>

theorem dictionaries_agree:
  "map fst zh_dict = remove1 ''app.brand.subtitle'' (map fst en_dict)"
  unfolding zh_dict_def en_dict_def map_append remove1_append keys_1 keys_2 keys_3 keys_4
  using subtitle_key by (simp only: if_True append_assoc)

section \<open>What a lookup shows\<close>

text \<open>A key that neither dictionary has is shown itself; that is how a missing text looks.\<close>

lemma lookup_unknown: "key \<notin> fst ` set (dicts l) \<Longrightarrow> key \<notin> fst ` set (dicts En) \<Longrightarrow> lookup_text l key = key"
  by (simp add: lookup_text_def map_of_eq_None_iff [THEN iffD2])

lemma lookup_own: "map_of (dicts l) key = Some s \<Longrightarrow> lookup_text l key = s"
  by (simp add: lookup_text_def)

text \<open>
  C37: \<open>t\<close> puts the values in the placeholders of the text it finds: for every text of the
  dictionaries, seen as literals and placeholders, and values without braces and dollar
  signs, the result is the text with every placeholder that has a value replaced by it, and
  the others left as they are, whatever the order in which the values come.
\<close>

theorem t_fills_placeholders:
  assumes "lookup_text l key = pieces_text ps" "pieces_ok ps"
    and "\<forall>(k, v) \<in> set vars. piece_ok (Inl v) \<and> piece_ok (Inr k) \<and> CHR ''$'' \<notin> set v"
  shows "t_fun l key vars = concat (map (filled vars) ps)"
  using fill_pieces [OF assms(2,3)] assms(1) by (simp add: t_fun_def)

theorem t_fills_placeholders_witness:
  "t_fun En ''common.ago'' [(''n'', ''5m'')] = ''5m ago''"
proof -
  let ?ps = "[Inr ''n'', Inl '' ago''] :: pieces"
  have "map_of (dicts En) ''common.ago'' = Some ''{n} ago''"
    by (simp add: dicts_def en_dict_def en_1_def)
  then have "lookup_text En ''common.ago'' = pieces_text ?ps"
    by (simp add: lookup_own hole_def)
  moreover have "pieces_ok ?ps" by simp
  ultimately show ?thesis
    using t_fills_placeholders [of En "''common.ago''" ?ps "[(''n'', ''5m'')]"]
    by (simp add: filled_def)
qed

section \<open>The choice of the locale\<close>

text \<open>
  The choice of the locale survives a reload whatever the browser's language is, the
  document's language follows it, and a value in the storage that is no locale is ignored
  in favour of the browser's language.
\<close>

theorem locale_persists:
  "is_locale (i18n_mount nav (i18n_init (is_storage (setLocale l s)))) = l
   \<and> is_doc_lang (setLocale l s) = is_doc_lang (i18n_mount nav (setLocale l s))
   \<and> (saved \<notin> Some ` lang_code ` {En, Zh} \<longrightarrow>
        is_locale (i18n_mount nav (i18n_init saved)) = detect True None nav)"
  by (cases l) (auto simp: i18n_mount_def i18n_init_def setLocale_def doc_effect_def detect_def lang_code_def)

theorem locale_persists_witness:
  "is_locale (i18n_mount ''zh-TW'' (i18n_init (Some ''fr''))) = Zh"
  using locale_persists [of "''zh-TW''" En "i18n_init None" "Some ''fr''"]
  by (simp add: lang_code_def detect_def lower_def)

end
