(* ===== verification/Layout.thy ===== *)
theory Layout
  imports Sidebar Cluster I18n
begin

text \<open>
  The frame that every page stands in: \<open>web/app/layout.tsx\<close> with its header
  (\<open>web/components/site-header.tsx\<close>), the providers of \<open>web/components/providers.tsx\<close>, and the
  sidebar.  The state joins those of the sidebar, the cluster selection and the locale with
  the path; the page itself is an argument, and what the theme library does with a choice is
  the choice.
\<close>

section \<open>The tree\<close>

datatype 'e layout_event =
    ToggleSidebar
  | MobileOpen bool
  | Navigate string
  | ChooseCluster string
  | ChooseLocale lang
  | ChooseTheme string
  | OnPage 'e

record layout_state =
  ly_sidebar :: sidebar_state
  ly_path :: string
  ly_clusters :: cluster_state
  ly_i18n :: i18n_state
  ly_theme :: string

definition SiteHeader ::
  "(string \<Rightarrow> string) \<Rightarrow> string \<Rightarrow> cluster_ctx \<Rightarrow> lang \<Rightarrow> 'e layout_event node" where
  "SiteHeader t path cx l =
     el ''header''
       [SidebarTrigger ToggleSidebar, el ''Separator'' [], tx ''h1'' (t (header_label path)),
        el ''div''
          ((case ClusterSwitcher t cx of None \<Rightarrow> [] | Some n \<Rightarrow> [map_node ChooseCluster n])
           @ [map_node ChooseLocale (LocaleToggle t l), map_node ChooseTheme (ThemeToggle t)])]"

definition Providers :: "'e node list \<Rightarrow> 'e node" where
  "Providers children =
     Elem ''ThemeProvider'' [Prop ''attribute'' ''class'', Prop ''defaultTheme'' ''system'', Flag ''enableSystem'' True]
       [el ''I18nProvider''
         [Elem ''QueryClientProvider'' [Prop ''refetchInterval'' ''4000'', Prop ''staleTime'' ''2000'']
           [el ''ClusterProvider''
             [Elem ''TooltipProvider'' [Prop ''delayDuration'' ''150''] children,
              Elem ''Toaster'' [Flag ''richColors'' True, Flag ''closeButton'' True] []]]]]"

abbreviation layout_t :: "layout_state \<Rightarrow> string \<Rightarrow> string" where
  "layout_t s k \<equiv> t_fun (is_locale (ly_i18n s)) k []"

definition layout_sidebar :: "layout_state \<Rightarrow> 'e layout_event node" where
  "layout_sidebar s =
     (let cx = contextValue default_props (ly_sidebar s)
      in Sidebar cx MobileOpen ''left'' ''inset'' ''offcanvas''
           (kids (map_node Navigate (AppSidebar (layout_t s) (sc_isMobile cx) (ly_path s)))))"

definition RootLayout :: "layout_state \<Rightarrow> 'e node list \<Rightarrow> 'e layout_event node" where
  "RootLayout s children =
     el ''body'' [Providers
       [el ''SidebarProvider''
         [layout_sidebar s,
          el ''SidebarInset''
            [SiteHeader (layout_t s) (ly_path s) (cluster_value (ly_clusters s)) (is_locale (ly_i18n s)),
             el ''div'' (map (map_node OnPage) children)]]]]"

section \<open>What happens\<close>

text \<open>
  The effects of the cluster provider come to rest after one round (\<open>fb.settle_eq\<close>), so a
  render's effects are one application.
\<close>

fun layout_handle :: "'e layout_event \<Rightarrow> layout_state \<Rightarrow> layout_state" where
  "layout_handle ToggleSidebar s = s\<lparr>ly_sidebar := fst (toggleSidebar default_props (ly_sidebar s))\<rparr>"
| "layout_handle (MobileOpen b) s = s\<lparr>ly_sidebar := setOpenMobile b (ly_sidebar s)\<rparr>"
| "layout_handle (Navigate href) s = s\<lparr>ly_path := href\<rparr>"
| "layout_handle (ChooseCluster c) s = s\<lparr>ly_clusters := cluster_fallback (setCluster c (ly_clusters s))\<rparr>"
| "layout_handle (ChooseLocale l) s = s\<lparr>ly_i18n := setLocale l (ly_i18n s)\<rparr>"
| "layout_handle (ChooseTheme th) s = s\<lparr>ly_theme := th\<rparr>"
| "layout_handle (OnPage e) s = s"

definition layout_key :: "string \<Rightarrow> bool \<Rightarrow> bool \<Rightarrow> layout_state \<Rightarrow> layout_state" where
  "layout_key key meta ctrl s =
     s\<lparr>ly_sidebar := fst (fst (handleKeyDown default_props key meta ctrl (ly_sidebar s)))\<rparr>"

text \<open>
  A visit: what the last one left in the browser (the cookie, the two entries of the local
  storage), the width of the window, the browser's language, the path.
\<close>

definition layout_load ::
  "string option \<Rightarrow> string option \<Rightarrow> string option \<Rightarrow> int \<Rightarrow> string \<Rightarrow> string \<Rightarrow> layout_state" where
  "layout_load cookie saved_cluster saved_locale width language path =
     \<lparr>ly_sidebar = sidebar_mount (sidebar_init default_props width cookie), ly_path = path,
      ly_clusters = cluster_fallback (cluster_mount (cluster_init saved_cluster)),
      ly_i18n = i18n_mount language (i18n_init saved_locale), ly_theme = ''system''\<rparr>"

inductive layout_reachable :: "string option \<Rightarrow> layout_state \<Rightarrow> bool" for cookie where
  load: "layout_reachable cookie (layout_load cookie sc sl width language path)"
| act: "layout_reachable cookie s \<Longrightarrow> e \<in> offers (RootLayout s (children :: string node list)) \<Longrightarrow>
    layout_reachable cookie (layout_handle e s)"
| key: "layout_reachable cookie s \<Longrightarrow> layout_reachable cookie (layout_key key meta ctrl s)"
| resize: "layout_reachable cookie s \<Longrightarrow>
    layout_reachable cookie (s\<lparr>ly_sidebar := sidebar_resize width (ly_sidebar s)\<rparr>)"
| fetched: "layout_reachable cookie s \<Longrightarrow>
    layout_reachable cookie (s\<lparr>ly_clusters := cluster_fallback ((ly_clusters s)\<lparr>cs_query := q\<rparr>)\<rparr>)"

section \<open>What the frame offers\<close>

lemma providers_offers [simp]: "offers (Providers ks) = \<Union> (offers ` set ks)"
  by (simp add: Providers_def attr_offers_def)

lemma app_sidebar_offers:
  "\<Union> (offers ` set (kids (map_node Navigate (AppSidebar t m path)))) = Navigate ` (insert ''/'' (fst ` set nav_all))"
proof -
  have "\<Union> (offers ` set (kids (AppSidebar t m path))) = insert ''/'' (fst ` set nav_all)"
    by (auto simp: AppSidebar_def NavSection_offers NavUser_def Let_def attr_offers_def nav_all_def shown_def image_Un)
  moreover have "kids (map_node f n) = map (map_node f) (kids n)" for f :: "string \<Rightarrow> 'a layout_event" and n
    by (cases n) auto
  ultimately show ?thesis by (simp add: offers_map image_UN [symmetric])
qed

lemma sidebar_offers:
  "Navigate href \<in> offers (layout_sidebar s) \<longleftrightarrow>
     href \<in> insert ''/'' (fst ` set nav_all)
     \<and> (\<not> useIsMobile (snd (sb_screen (ly_sidebar s))) \<or> sb_openMobile (ly_sidebar s))"
  by (auto simp: layout_sidebar_def Let_def offers_Sidebar app_sidebar_offers contextValue_def
      simp del: insert_iff)

lemma layout_offers:
  fixes children :: "'e node list"
  shows "ToggleSidebar \<in> offers (RootLayout s children)"
    and "(Navigate href :: 'e layout_event) \<in> offers (layout_sidebar s) \<Longrightarrow>
      Navigate href \<in> offers (RootLayout s children)"
  by (auto simp: RootLayout_def SiteHeader_def)


definition phone_visit :: layout_state where
  "phone_visit = layout_load None None None 390 ''en-US'' ''/''"


section \<open>What a visit leaves behind\<close>

definition layout_ok :: "string option \<Rightarrow> layout_state \<Rightarrow> bool" where
  "layout_ok cookie s \<longleftrightarrow>
     screen_known (ly_sidebar s) \<and> cluster_ok (ly_clusters s)
     \<and> doc_effect (ly_i18n s) = ly_i18n s
     \<and> (sb_cookie (ly_sidebar s) = Some (cookie_text (sb_open (ly_sidebar s)))
        \<or> sb_cookie (ly_sidebar s) = cookie \<and> sb_open (ly_sidebar s))"

lemma fallback_ok: "cluster_ok (cluster_fallback s)"
  by (rule fallback_fixpoint_ok) (use fb.settles [of s] in simp)

lemma layout_ok_toggle:
  assumes "layout_ok cookie s"
  shows "layout_ok cookie (s\<lparr>ly_sidebar := fst (toggleSidebar default_props (ly_sidebar s))\<rparr>)"
  using assms screen_known_preserved(3) [of "ly_sidebar s" default_props]
  by (cases "sc_isMobile (contextValue default_props (ly_sidebar s))") (auto simp: layout_ok_def toggle_simps)

lemma layout_ok_load: "layout_ok cookie (layout_load cookie sc sl width language path)"
  by (simp add: layout_ok_def layout_load_def fallback_ok screen_known_def i18n_mount_def
      doc_effect_def sidebar_init_def sidebar_mount_def default_props_def)

lemma layout_ok_handle:
  assumes "layout_ok cookie s"
  shows "layout_ok cookie (layout_handle e s)"
proof (cases e)
  case ToggleSidebar
  with layout_ok_toggle [OF assms] show ?thesis by simp
qed (use assms in \<open>auto simp: layout_ok_def fallback_ok setLocale_def doc_effect_def setOpenMobile_def screen_known_def\<close>)

lemma layout_reachable_ok: "layout_reachable cookie s \<Longrightarrow> layout_ok cookie s"
proof (induction rule: layout_reachable.induct)
  case (key s key meta ctrl)
  then show ?case
    using layout_ok_toggle by (cases "key = SIDEBAR_KEYBOARD_SHORTCUT \<and> (meta \<or> ctrl)")
      (auto simp: layout_key_def handleKeyDown_def)
next
  case (resize s width)
  then show ?case
    using screen_known_preserved(2) by (auto simp: layout_ok_def sidebar_resize_def)
next
  case (act s e children)
  then show ?case by (intro layout_ok_handle)
qed (simp_all add: layout_ok_load, simp add: layout_ok_def fallback_ok)

text \<open>
  The cookie is right but nobody reads it: whatever the user does, once the sidebar was
  toggled on a desktop the cookie says whether it is open, and before that it is the one of
  the last visit; yet a visit always starts with the sidebar open, also when the cookie says
  it was closed.
\<close>

theorem sidebar_choice_forgotten:
  assumes "layout_reachable cookie s"
  shows "(sb_cookie (ly_sidebar s) = Some (cookie_text (sb_open (ly_sidebar s)))
      \<or> sb_cookie (ly_sidebar s) = cookie \<and> sb_open (ly_sidebar s))
    \<and> sb_open (ly_sidebar (layout_load (sb_cookie (ly_sidebar s)) sc sl width language path))
    \<and> (\<not> sb_open (ly_sidebar s) \<longrightarrow> sb_cookie (ly_sidebar s) = Some (cookie_text False))"
  using layout_reachable_ok [OF assms]
  by (auto simp: layout_ok_def layout_load_def sidebar_mount_def sidebar_init_def default_props_def)

theorem sidebar_choice_forgotten_witness:
  "\<exists>s. layout_reachable None s \<and> \<not> sb_open (ly_sidebar s)
     \<and> sb_cookie (ly_sidebar s) = Some (cookie_text False)
     \<and> sb_open (ly_sidebar (layout_load (sb_cookie (ly_sidebar s)) None None 1280 ''en'' ''/''))"
proof -
  let ?s = "layout_load None None None 1280 ''en'' ''/''"
  have "ToggleSidebar \<in> offers (RootLayout ?s ([] :: string node list))" by (rule layout_offers)
  then have r: "layout_reachable None (layout_handle (ToggleSidebar :: string layout_event) ?s)"
    by (rule layout_reachable.act [OF layout_reachable.load])
  have "\<not> sc_isMobile (contextValue default_props (ly_sidebar ?s))"
    by (simp add: layout_load_def sidebar_mount_def sidebar_init_def contextValue_def useIsMobile_def
        mobile_onChange_def MOBILE_BREAKPOINT_def)
  then have "\<not> sb_open (ly_sidebar (layout_handle (ToggleSidebar :: string layout_event) ?s))"
    by (simp add: toggle_simps(2)) (simp add: layout_load_def sidebar_mount_def sidebar_init_def default_props_def)
  with r sidebar_choice_forgotten [OF r, of None None 1280 "''en''" "''/''"] show ?thesis by blast
qed

end
