(* ===== verification/Labels.thy ===== *)
theory Labels
  imports Layout Policy_View Simulator
begin

text \<open>
  The texts whose keys the console puts together at run time: the labels of the parts of a
  rule, of the states of a stream, of the menu, the header and the protocols.  That both
  dictionaries have them is not visible in the source, where only a stem is written.
\<close>

definition keys_of :: "lang \<Rightarrow> string list" where
  "keys_of l = map fst (dicts l)"

text \<open>What the dictionaries hold under each stem.\<close>

definition stream_names :: "string list" where
  "stream_names = [''healthy'', ''stale'', ''idle'', ''down'', ''degraded'']"

lemmas label_lists = conditionFields_def conditionOps_def stream_names_def

lemma field_keys:
  "filter (prefix ''policies.condition.field.'') (map fst en_dict)
     = map ((@) ''policies.condition.field.'') conditionFields"
  by (simp only: en_dict_def map_append filter_append)
    (simp only: en_1_def en_2_def en_3_def en_4_def list.map fst_conv, simp add: label_lists)

lemma op_keys:
  "filter (prefix ''policies.condition.op.'') (map fst en_dict) = map ((@) ''policies.condition.op.'') conditionOps"
  by (simp only: en_dict_def map_append filter_append)
    (simp only: en_1_def en_2_def en_3_def en_4_def list.map fst_conv, simp add: label_lists)

lemma action_keys:
  "filter (prefix ''policies.action.'') (map fst en_dict)
     = map ((@) ''policies.action.'') [''accept'', ''reject'', ''require_cache_hit'', ''require_hit'']"
  by (simp only: en_dict_def map_append filter_append)
    (simp only: en_1_def en_2_def en_3_def en_4_def list.map fst_conv, simp add: label_lists)

lemma outcome_keys:
  "filter (prefix ''policies.outcome.'') (map fst en_dict)
     = map ((@) ''policies.outcome.'') [''accept'', ''reject'', ''fallback_accept'']"
  by (simp only: en_dict_def map_append filter_append)
    (simp only: en_1_def en_2_def en_3_def en_4_def list.map fst_conv, simp add: label_lists)

lemma stream_keys:
  "filter (prefix ''stream.status.'') (map fst en_dict)
     = map ((@) ''stream.status.'') (stream_names @ map ((@) ''tip.'') stream_names)"
  by (simp only: en_dict_def map_append filter_append)
    (simp only: en_1_def en_2_def en_3_def en_4_def list.map fst_conv, simp add: label_lists)

lemma nav_keys: "filter (prefix ''nav.'') (map fst en_dict)
     = map ((@) ''nav.'') [''overview'', ''engines'', ''profiles'', ''policies'', ''streams'', ''simulator'',
         ''decisions'', ''audit'', ''api_docs'']"
  by (simp only: en_dict_def map_append filter_append)
    (simp only: en_1_def en_2_def en_3_def en_4_def list.map fst_conv, simp add: label_lists)

lemma protocol_keys:
  "filter (prefix ''protocol.'') (map fst en_dict)
     = map ((@) ''protocol.'') [''openai.chat'', ''openai.responses'', ''anthropic.messages'']"
  by (simp only: en_dict_def map_append filter_append)
    (simp only: en_1_def en_2_def en_3_def en_4_def list.map fst_conv, simp add: label_lists)

text \<open>The Chinese dictionary has the same keys under each of these stems.\<close>

lemma filter_remove1: "\<not> P x \<Longrightarrow> filter P (remove1 x xs) = filter P xs"
  by (induction xs) auto

lemma same_keys:
  assumes "\<not> prefix stem ''app.brand.subtitle''"
  shows "filter (prefix stem) (keys_of l) = filter (prefix stem) (map fst en_dict)"
proof (cases l)
  case Zh
  have "map fst zh_dict = remove1 ''app.brand.subtitle'' (map fst en_1) @ map fst en_2 @ map fst en_3 @ map fst en_4"
    by (simp add: zh_dict_def keys_1 keys_2 keys_3 keys_4)
  with Zh assms show ?thesis by (simp add: keys_of_def dicts_def en_dict_def filter_remove1)
qed (simp add: keys_of_def dicts_def)

lemma key_iff:
  assumes "filter (prefix stem) (map fst en_dict) = map ((@) stem) xs" "\<not> prefix stem ''app.brand.subtitle''"
  shows "stem @ x \<in> set (keys_of l) \<longleftrightarrow> x \<in> set xs"
proof -
  have "stem @ x \<in> set (keys_of l) \<longleftrightarrow> stem @ x \<in> set (filter (prefix stem) (keys_of l))" by simp
  also have "\<dots> \<longleftrightarrow> x \<in> set xs" using same_keys [OF assms(2), of l] assms(1) by auto
  finally show ?thesis .
qed

lemmas label_keys = key_iff [OF field_keys] key_iff [OF op_keys] key_iff [OF action_keys]
  key_iff [OF outcome_keys] key_iff [OF stream_keys] key_iff [OF nav_keys] key_iff [OF protocol_keys]

text \<open>A key without a text is shown itself.\<close>

lemma untranslated:
  assumes "stem @ x \<notin> set (keys_of l)" "stem @ x \<notin> set (keys_of En)"
  shows "lookup_text l (stem @ x) = stem @ x"
  using assms lookup_unknown by (auto simp: keys_of_def)

section \<open>The labels\<close>

lemma menu_keys: "set (map snd nav_all) = (@) ''nav.'' ` {''overview'', ''engines'', ''profiles'', ''policies'',
    ''streams'', ''decisions'', ''audit'', ''simulator'', ''api_docs''}"
  by (simp add: nav_defs)

lemma header_keys: "header_label path \<in> set (map snd nav_all)"
proof (cases "path = ''/''")
  case False
  show ?thesis
  proof (cases "find (\<lambda>h. h \<noteq> ''/'' \<and> prefix h path) (map fst NAV_LABEL)")
    case (Some h)
    then have "h \<in> set (map fst NAV_LABEL)" by (auto simp: find_Some_iff)
    moreover have "list_all (\<lambda>h. h \<noteq> [] \<and> nullish (map_of NAV_LABEL h) [] \<in> set (map snd nav_all)) (map fst NAV_LABEL)"
      by (simp add: nav_defs)
    ultimately show ?thesis using Some False by (auto simp: header_label_def list_all_iff simp del: set_map)
  qed (use False in \<open>simp add: header_label_def nav_defs\<close>)
qed (simp add: header_label_def nav_defs)

text \<open>
  Every label whose key is put together at run time has a text in both languages: a label of
  a condition's field or operator, of an action or of an outcome for exactly the values the
  form knows (and one more action the list names itself), and the label and the tip of every
  state of a stream, the entries of the menu, the header of every path and the protocols for
  all of them.  A field the form does not know is shown as its key.
\<close>

theorem labels_translated:
  "(''policies.condition.field.'' @ f \<in> set (keys_of l) \<longleftrightarrow> f \<in> set conditionFields)
   \<and> (''policies.condition.op.'' @ f \<in> set (keys_of l) \<longleftrightarrow> f \<in> set conditionOps)
   \<and> (''policies.outcome.'' @ f \<in> set (keys_of l) \<longleftrightarrow> f \<in> set outcomes)
   \<and> (''policies.action.'' @ f \<in> set (keys_of l) \<longleftrightarrow> f \<in> set actionTypes \<or> f = ''require_hit'')
   \<and> (fieldLabel f (\<lambda>k. t_fun l k []) = ''policies.condition.field.'' @ f \<or> f \<in> set conditionFields)
   \<and> ''stream.status.'' @ status_name st \<in> set (keys_of l)
   \<and> ''stream.status.tip.'' @ status_name st \<in> set (keys_of l)
   \<and> header_label path \<in> set (keys_of l) \<and> set (map snd nav_all) \<subseteq> set (keys_of l)
   \<and> set (map pl_labelKey PROTOCOLS) \<subseteq> set (keys_of l)"
proof -
  have tip: "''stream.status.tip.'' @ x = ''stream.status.'' @ (''tip.'' @ x)" for x by simp
  have status: "status_name st \<in> set stream_names" by (cases st) (simp_all add: status_name_def stream_names_def)
  have nav: "set (map snd nav_all) \<subseteq> set (keys_of l)"
    unfolding menu_keys using label_keys(6) [of _ l] by (simp del: append_Cons append_Nil)
  have protocols: "set (map pl_labelKey PROTOCOLS) = (@) ''protocol.'' ` {''openai.chat'', ''openai.responses'', ''anthropic.messages''}"
    by (simp add: PROTOCOLS_def)
  have raw: "fieldLabel f (\<lambda>k. t_fun l k []) = ''policies.condition.field.'' @ f" if "f \<notin> set conditionFields"
    using that label_keys(1) [of f] untranslated [of "''policies.condition.field.''" f l]
    by (simp add: fieldLabel_def t_fun_def fill_def del: append_Cons append_Nil)
  show ?thesis
    unfolding tip protocols using nav header_keys [of path] status raw label_keys
    by (auto simp del: append_Cons append_Nil simp: outcomes_def actionTypes_def)
qed

theorem labels_translated_witness:
  "fieldLabel ''region'' (\<lambda>k. t_fun Zh k []) = ''policies.condition.field.region''"
  using labels_translated [of "''region''" Zh] by (simp add: conditionFields_def)

end
