(* ===== verification/Go_Value.thy ===== *)
theory Go_Value
  imports Js_Float Js_Json
begin

text \<open>
  The dynamic values of the Go services, as far as a rule's condition can hold one: what
  \<open>encoding/json\<close> decodes into an \<open>any\<close>, the conversions \<open>strconv.ParseFloat\<close> and
  \<open>strconv.ParseBool\<close>, and the text \<open>fmt.Sprint\<close> gives.  A \<open>float64\<close> is the fraction it equals,
  an infinity or the value that is no number.
\<close>

section \<open>Floating point\<close>

datatype f64 = Fin frac | Inf bool | NotNum

fun f64_eq :: "f64 \<Rightarrow> f64 \<Rightarrow> bool" where
  "f64_eq (Fin x) (Fin y) \<longleftrightarrow> fst x * snd y = fst y * snd x"
| "f64_eq (Inf n) (Inf m) \<longleftrightarrow> n = m"
| "f64_eq _ _ \<longleftrightarrow> False"

fun f64_less :: "f64 \<Rightarrow> f64 \<Rightarrow> bool" where
  "f64_less (Fin x) (Fin y) \<longleftrightarrow> fst x * snd y < fst y * snd x"
| "f64_less (Inf n) (Inf m) \<longleftrightarrow> n \<and> \<not> m"
| "f64_less (Inf n) (Fin y) \<longleftrightarrow> n"
| "f64_less (Fin x) (Inf n) \<longleftrightarrow> \<not> n"
| "f64_less _ _ \<longleftrightarrow> False"

definition f64_le :: "f64 \<Rightarrow> f64 \<Rightarrow> bool" where
  "f64_le x y \<longleftrightarrow> f64_less x y \<or> f64_eq x y"

text \<open>
  The nearest double of a fraction; none when it is beyond the largest one.  The limit is the
  middle between the largest double and the next power of two.
\<close>

definition f64_limit :: int where
  "f64_limit = 179769313486231580793728971405303415079934132710037826936173778980444968292764750946649017977587207096330286416692887910946555547851940402630657488671505820681908902000708383676273854845817711531764475730270069855571366959622842914819860834936475292719074168444365510704342711559699508093042880177904174497792"

lemma f64_limit_eq: "f64_limit = 2 ^ 1024 - 2 ^ 970"
  by (simp add: f64_limit_def)

definition f64_of :: "frac \<Rightarrow> f64 option" where
  "f64_of x = (if f64_limit * snd x \<le> \<bar>fst x\<bar> then None else Some (Fin (to_double x)))"

section \<open>Texts as numbers\<close>

text \<open>The infinities and the value that is no number, in any mixture of cases.\<close>

definition go_special :: "string \<Rightarrow> f64 option" where
  "go_special s = (let l = lower s in
     if l \<in> {''inf'', ''infinity'', ''+inf'', ''+infinity''} then Some (Inf False)
     else if l \<in> {''-inf'', ''-infinity''} then Some (Inf True)
     else if l = ''nan'' then Some NotNum else None)"

definition hex_prefix :: "string \<Rightarrow> bool" where
  "hex_prefix s \<longleftrightarrow> 2 < length s \<and> lower (take 2 s) = ''0x''"

definition strip_sign :: "string \<Rightarrow> bool \<times> string" where
  "strip_sign s = (case s of c # r \<Rightarrow>
     if c = CHR ''-'' then (True, r) else if c = CHR ''+'' then (False, r) else (False, s) | [] \<Rightarrow> (False, []))"

text \<open>
  \<open>underscoreOK\<close>: an underscore stands between digits, or between the base prefix and a digit.
  The kind of the last character is a digit, an underscore, or neither.
\<close>

datatype mark = MDigit | MUnder | MOther

fun underscores_from :: "bool \<Rightarrow> mark \<Rightarrow> string \<Rightarrow> bool" where
  "underscores_from hex i [] \<longleftrightarrow> i \<noteq> MUnder"
| "underscores_from hex i (c # s) \<longleftrightarrow>
     (if is_digit c \<or> hex \<and> radix_digit 16 c \<noteq> None then underscores_from hex MDigit s
      else if c = CHR ''_'' then i = MDigit \<and> underscores_from hex MUnder s
      else i \<noteq> MUnder \<and> underscores_from hex MOther s)"

definition underscoreOK :: "string \<Rightarrow> bool" where
  "underscoreOK s = (let t = snd (strip_sign s) in
     if 2 \<le> length t \<and> lower (take 2 t) \<in> {''0b'', ''0o'', ''0x''}
     then underscores_from (lower (take 2 t) = ''0x'') MDigit (drop 2 t)
     else underscores_from False MOther t)"

definition no_under :: "string \<Rightarrow> string" where
  "no_under s = filter (\<lambda>c. c \<noteq> CHR ''_'') s"

text \<open>The exponent, which a decimal may leave out and a hexadecimal number may not.\<close>

definition go_exponent :: "bool \<Rightarrow> string \<Rightarrow> int option" where
  "go_exponent hex r = (case r of
     [] \<Rightarrow> if hex then None else Some 0
   | c # t \<Rightarrow> if lower [c] \<noteq> (if hex then ''p'' else ''e'') then None
       else let (neg, u) = strip_sign t in
         if u = [] \<or> \<not> is_digit (hd u) \<or> \<not> list_all (\<lambda>d. is_digit d \<or> d = CHR ''_'') u then None
         else Some ((if neg then - 1 else 1) * int (nat_of (no_under u))))"

definition go_number :: "string \<Rightarrow> frac option" where
  "go_number s = (let (neg, t) = strip_sign s; hex = hex_prefix t;
      body = (if hex then drop 2 t else t);
      mant_char = (\<lambda>c. c = CHR ''.'' \<or> c = CHR ''_'' \<or> (if hex then radix_digit 16 c \<noteq> None else is_digit c));
      mant = no_under (takeWhile mant_char body);
      int_part = takeWhile (\<lambda>c. c \<noteq> CHR ''.'') mant;
      frac_part = drop 1 (dropWhile (\<lambda>c. c \<noteq> CHR ''.'') mant)
    in if CHR ''.'' \<in> set frac_part \<or> int_part @ frac_part = []
          \<or> (CHR ''_'' \<in> set s \<and> \<not> underscoreOK s) then None
       else case go_exponent hex (dropWhile mant_char body) of
         None \<Rightarrow> None
       | Some e \<Rightarrow>
           (let sgn = (if neg then - 1 else 1); n = int (length frac_part) in
            if hex then map_option (\<lambda>m. let x = e - 4 * n in
                (if 0 \<le> x then (sgn * int m * 2 ^ nat x, 1) else (sgn * int m, 2 ^ nat (- x))))
              (radix_nat 16 0 (int_part @ frac_part))
            else Some (frac_of (sgn * int (nat_of (int_part @ frac_part))) (e - n))))"

definition ParseFloat :: "string \<Rightarrow> f64 option" where
  "ParseFloat s = (case go_special s of Some x \<Rightarrow> Some x
   | None \<Rightarrow> Option.bind (go_number s) f64_of)"

definition ParseBool :: "string \<Rightarrow> bool option" where
  "ParseBool s =
     (if s \<in> {''1'', ''t'', ''T'', ''TRUE'', ''true'', ''True''} then Some True
      else if s \<in> {''0'', ''f'', ''F'', ''FALSE'', ''false'', ''False''} then Some False else None)"

section \<open>Dynamic values\<close>

datatype go_any = GNil | GBool bool | GStr string | GInt int | GFloat f64 | GList "go_any list"
  | GMap "(string \<times> go_any) list"

text \<open>What \<open>json.Unmarshal\<close> puts into an \<open>any\<close>; a number beyond the doubles is an error.\<close>

fun go_of_json :: "json \<Rightarrow> go_any option" where
  "go_of_json JNull = Some GNil"
| "go_of_json (JBool b) = Some (GBool b)"
| "go_of_json (JStr s) = Some (GStr s)"
| "go_of_json (JNum x) = (case x of
     Dec m e \<Rightarrow> map_option GFloat (f64_of (frac_of m e)) | _ \<Rightarrow> None)"
| "go_of_json (JArr vs) = map_option GList (those (map go_of_json vs))"
| "go_of_json (JObj ps) = map_option (\<lambda>vs. GMap (zip (map fst ps) vs)) (those (map (\<lambda>p. go_of_json (snd p)) ps))"

section \<open>Texts of values\<close>

text \<open>
  The shortest decimal that reads back as a positive double, the nearer of two: for each number
  of digits the two neighbours of the value are tried.
\<close>

definition dec_exp :: "frac \<Rightarrow> int" where
  "dec_exp x = (let e = int (length (digits (nat (fst x)))) - int (length (digits (nat (snd x)))) in
     if (if 0 \<le> e then snd x * 10 ^ nat e \<le> fst x else snd x \<le> fst x * 10 ^ nat (- e)) then e else e - 1)"

definition neighbours :: "frac \<Rightarrow> nat \<Rightarrow> num list" where
  "neighbours x k = (let s = int k - 1 - dec_exp x;
      lo = (if 0 \<le> s then fst x * 10 ^ nat s div snd x else fst x div (snd x * 10 ^ nat (- s)));
      good = (\<lambda>c. let d = to_double (frac_of c (- s)) in fst d * snd x = fst x * snd d);
      far = (\<lambda>c. if 0 \<le> s then \<bar>c * snd x - fst x * 10 ^ nat s\<bar> else \<bar>c * snd x * 10 ^ nat (- s) - fst x\<bar>)
    in map (\<lambda>c. mk_dec c (- s))
         (if good lo \<and> good (lo + 1) then [if far lo \<le> far (lo + 1) then lo else lo + 1]
          else filter good [lo, lo + 1]))"

definition shortest :: "frac \<Rightarrow> num" where
  "shortest x = (case concat (map (neighbours x) [1..<18]) of [] \<Rightarrow> Dec 0 0 | d # _ \<Rightarrow> d)"

definition two_digits :: "int \<Rightarrow> string" where
  "two_digits n = (if n < 0 then ''-'' else ''+'') @ (if \<bar>n\<bar> < 10 then ''0'' else []) @ digits (nat \<bar>n\<bar>)"

text \<open>\<open>%v\<close> of a \<open>float64\<close>: an exponent is written below -4 and from 6 on.\<close>

definition go_layout :: "int \<Rightarrow> int \<Rightarrow> string" where
  "go_layout m e = (let ds = digits (nat \<bar>m\<bar>); n = int (length ds) + e; x = n - 1 in
     (if m < 0 then ''-'' else [])
     @ (if m = 0 then ''0''
        else if x < - 4 \<or> 6 \<le> x
        then hd ds # (if tl ds = [] then [] else CHR ''.'' # tl ds) @ ''e'' @ two_digits x
        else if n \<le> 0 then ''0.'' @ replicate (nat (- n)) (CHR ''0'') @ ds
        else if int (length ds) \<le> n then ds @ replicate (nat (n - int (length ds))) (CHR ''0'')
        else take (nat n) ds @ ''.'' @ drop (nat n) ds))"

fun Sprint_f64 :: "f64 \<Rightarrow> string" where
  "Sprint_f64 (Fin x) =
     (if fst x = 0 then ''0''
      else case shortest (\<bar>fst x\<bar>, snd x) of
        Dec m e \<Rightarrow> go_layout (if fst x < 0 then - m else m) e | _ \<Rightarrow> [])"
| "Sprint_f64 (Inf n) = (if n then ''-Inf'' else ''+Inf'')"
| "Sprint_f64 NotNum = ''NaN''"

text \<open>A map is printed in the order of its keys.\<close>

fun Sprint :: "go_any \<Rightarrow> string" where
  "Sprint GNil = ''<nil>''"
| "Sprint (GBool b) = (if b then ''true'' else ''false'')"
| "Sprint (GStr s) = s"
| "Sprint (GInt i) = (if i < 0 then ''-'' else []) @ digits (nat \<bar>i\<bar>)"
| "Sprint (GFloat x) = Sprint_f64 x"
| "Sprint (GList vs) = ''['' @ join '' '' (map Sprint vs) @ '']''"
| "Sprint (GMap ps) = ''map['' @ join '' '' (map (\<lambda>(k, v). k @ '':'' @ v)
     (sort_key fst (map (\<lambda>p. (fst p, Sprint (snd p))) ps))) @ '']''"

section \<open>Laws\<close>

lemma f64_eq_refl [simp]: "f64_eq (Fin x) (Fin x)"
  by simp

lemma f64_sym: "f64_eq x y \<longleftrightarrow> f64_eq y x"
  by (cases x; cases y) auto

lemma no_self_eq: "f64_eq x x \<longleftrightarrow> x \<noteq> NotNum"
  by (cases x) auto

text \<open>A double is written with a positive denominator, so that the comparisons are those of the fractions.\<close>

definition positive :: "frac \<Rightarrow> bool" where
  "positive x \<longleftrightarrow> 0 < snd x"

lemma to_double_positive: "positive (to_double x)"
  by (cases x) (auto simp: positive_def to_double_def Let_def)

lemma frac_of_positive: "positive (frac_of m e)"
  by (simp add: positive_def frac_of_def)

lemma f64_trichotomy:
  assumes "positive x" "positive y"
  shows "f64_le (Fin x) (Fin y) \<longleftrightarrow> \<not> f64_less (Fin y) (Fin x)"
  by (auto simp: f64_le_def)

text \<open>How texts are read as numbers.\<close>

lemma ParseFloat_examples:
  "ParseFloat ''1e1'' = ParseFloat ''10'' \<and> ParseFloat ''1_000'' = ParseFloat ''1000'' \<and> ParseFloat ''0x1p-2'' = ParseFloat ''.25''
    \<and> ParseFloat ''vllm-0'' = None \<and> ParseFloat ''1_'' = None \<and> ParseFloat ''0x'' = None
    \<and> ParseFloat ''Nan'' = Some NotNum \<and> ParseFloat ''-INF'' = Some (Inf True)"
  by code_simp

lemma Sprint_examples:
  "Sprint (GInt (- 12)) = ''-12'' \<and> Sprint (GList [GStr ''a'', GBool True]) = ''[a true]''"
  by code_simp

end
