(* ===== verification/Residency.thy ===== *)
theory Residency
  imports Prelude "HOL-Library.Word" "HOL-Library.AList"
begin

text \<open>
  The index of cached prefix blocks, \<open>internal/residency/index.go\<close>: the chained hash of the blocks
  of a prompt, the residents of each block, the bridge from an engine's own block hashes, the
  events that change them, and the query for the longest cached prefix.  A Go map is an
  association list; an iteration visits it in the order of the list, on which no theorem
  depends.  Locks serialise the operations and are left out.
\<close>

unbundle bit_operations_syntax

section \<open>Request keys\<close>

type_synonym request_key = "64 word"
type_synonym engine_key = "64 word"

text \<open>\<open>hash/fnv\<close>: the 64-bit FNV-1a hash of a list of bytes.\<close>

definition fnv64a :: "64 word \<Rightarrow> 8 word list \<Rightarrow> 64 word" where
  "fnv64a = foldl (\<lambda>h b. (h XOR ucast b) * 0x100000001b3)"

definition fnv_offset :: "64 word" where
  "fnv_offset = 0xcbf29ce484222325"

definition le_bytes :: "nat \<Rightarrow> 'a::len word \<Rightarrow> 8 word list" where
  "le_bytes n w = map (\<lambda>i. ucast (drop_bit (8 * i) w)) [0..<n]"

definition SeedNamespace :: "string \<Rightarrow> 64 word" where
  "SeedNamespace namespace = fnv64a fnv_offset (map of_char namespace)"

text \<open>A token is an \<open>int32\<close>, kept as its 32 bits.\<close>

definition hashBlock :: "64 word \<Rightarrow> 32 word list \<Rightarrow> 64 word" where
  "hashBlock parent chunk = fnv64a fnv_offset (le_bytes 8 parent @ concat (map (le_bytes 4) chunk))"

definition ChunkTokens :: "32 word list \<Rightarrow> int \<Rightarrow> 32 word list list" where
  "ChunkTokens tokens blockSize =
     (if blockSize \<le> 0 then []
      else let n = nat blockSize in map (\<lambda>i. take n (drop (i * n) tokens)) [0..<length tokens div n])"

fun chain :: "64 word \<Rightarrow> 32 word list list \<Rightarrow> request_key list" where
  "chain parent [] = []"
| "chain parent (c # cs) = (let k = hashBlock parent c in k # chain k cs)"

definition RequestKeysFromTokens :: "64 word \<Rightarrow> 32 word list \<Rightarrow> int \<Rightarrow> request_key list" where
  "RequestKeysFromTokens seed tokens blockSize = chain seed (ChunkTokens tokens blockSize)"

section \<open>The index\<close>

record resident =
  rs_engine :: string
  rs_dp :: int
  rs_tier :: string

type_synonym holders = "(resident \<times> int) list"

record index =
  ix_byRequestKey :: "(request_key \<times> holders) list"
  ix_bridge :: "((string \<times> engine_key) \<times> request_key) list"
  ix_byEngine :: "(string \<times> request_key list) list"

definition NewIndex :: index where
  "NewIndex = \<lparr>ix_byRequestKey = [], ix_bridge = [], ix_byEngine = []\<rparr>"

definition holders_of :: "index \<Rightarrow> request_key \<Rightarrow> holders" where
  "holders_of ix rk = nullish (map_of (ix_byRequestKey ix) rk) []"

definition engine_keys_of :: "index \<Rightarrow> string \<Rightarrow> request_key list" where
  "engine_keys_of ix e = nullish (map_of (ix_byEngine ix) e) []"

definition hasEngine :: "holders \<Rightarrow> string \<Rightarrow> bool" where
  "hasEngine hs e \<longleftrightarrow> list_ex (\<lambda>h. rs_engine (fst h) = e) hs"

definition store_key :: "int \<Rightarrow> resident \<Rightarrow> index \<Rightarrow> request_key \<Rightarrow> index" where
  "store_key ts r ix rk =
     ix\<lparr>ix_byRequestKey := AList.update rk (AList.update r ts (holders_of ix rk)) (ix_byRequestKey ix),
        ix_byEngine := AList.update (rs_engine r) (List.insert rk (engine_keys_of ix (rs_engine r))) (ix_byEngine ix)\<rparr>"

definition storeRequestKeysLocked :: "int \<Rightarrow> resident \<Rightarrow> request_key list \<Rightarrow> index \<Rightarrow> index" where
  "storeRequestKeysLocked ts r rks ix =
     foldl (store_key ts r)
       (ix\<lparr>ix_byEngine := AList.update (rs_engine r) (engine_keys_of ix (rs_engine r)) (ix_byEngine ix)\<rparr>) rks"

text \<open>The two lists are aligned at their ends.\<close>

definition tail_pairs :: "engine_key list \<Rightarrow> request_key list \<Rightarrow> (engine_key \<times> request_key) list" where
  "tail_pairs eks rks = (let k = min (length eks) (length rks)
     in zip (drop (length eks - k) eks) (drop (length rks - k) rks))"

definition StoreEvent :: "int \<Rightarrow> resident \<Rightarrow> engine_key list \<Rightarrow> request_key list \<Rightarrow> index \<Rightarrow> index" where
  "StoreEvent ts r eks rks ix =
     (if rks = [] then ix
      else let ix = storeRequestKeysLocked ts r rks ix in
        ix\<lparr>ix_bridge := foldl (\<lambda>b (ek, rk). AList.update (rs_engine r, ek) rk b) (ix_bridge ix) (tail_pairs eks rks)\<rparr>)"

definition LookupBridge :: "index \<Rightarrow> string \<Rightarrow> engine_key \<Rightarrow> request_key option" where
  "LookupBridge ix e ek = map_of (ix_bridge ix) (e, ek)"

definition StoreEventByEngineKeys ::
  "int \<Rightarrow> resident \<Rightarrow> engine_key list \<Rightarrow> index \<Rightarrow> (request_key list \<times> index) option" where
  "StoreEventByEngineKeys ts r eks ix =
     (if eks = [] then None
      else case those (map (LookupBridge ix (rs_engine r)) eks) of
        None \<Rightarrow> None | Some rks \<Rightarrow> Some (rks, storeRequestKeysLocked ts r rks ix))"

definition drop_engine_key :: "string \<Rightarrow> request_key \<Rightarrow> index \<Rightarrow> index" where
  "drop_engine_key e rk ix =
     (case map_of (ix_byEngine ix) e of None \<Rightarrow> ix
      | Some ks \<Rightarrow> ix\<lparr>ix_byEngine := AList.update e (removeAll rk ks) (ix_byEngine ix)\<rparr>)"

definition remove_key :: "resident \<Rightarrow> index \<Rightarrow> engine_key \<Rightarrow> index" where
  "remove_key r ix ek =
     (case LookupBridge ix (rs_engine r) ek of None \<Rightarrow> ix
      | Some rk \<Rightarrow>
        (let e = rs_engine r;
             ix1 = (case map_of (ix_byRequestKey ix) rk of None \<Rightarrow> ix
               | Some hs \<Rightarrow>
                 (let hs' = AList.delete r hs in
                  if hs' = []
                  then ix\<lparr>ix_byRequestKey := AList.delete rk (ix_byRequestKey ix),
                          ix_bridge := AList.delete (e, ek) (ix_bridge ix)\<rparr>
                  else let ix' = ix\<lparr>ix_byRequestKey := AList.update rk hs' (ix_byRequestKey ix)\<rparr> in
                    if hasEngine hs' e then ix'
                    else drop_engine_key e rk (ix'\<lparr>ix_bridge := AList.delete (e, ek) (ix_bridge ix')\<rparr>)))
         in if hasEngine (holders_of ix1 rk) e then ix1 else drop_engine_key e rk ix1))"

definition RemoveEvent :: "resident \<Rightarrow> engine_key list \<Rightarrow> index \<Rightarrow> index" where
  "RemoveEvent r eks ix = foldl (remove_key r) ix eks"

text \<open>Whether the clearing of an engine, or of one tier of it, takes a resident away.\<close>

definition cleared :: "string \<Rightarrow> string \<Rightarrow> resident \<Rightarrow> bool" where
  "cleared e tier r \<longleftrightarrow> rs_engine r = e \<and> (tier = [] \<or> rs_tier r = tier)"

definition clear_key :: "string \<Rightarrow> string \<Rightarrow> index \<Rightarrow> request_key \<Rightarrow> index" where
  "clear_key e tier ix rk =
     (case map_of (ix_byRequestKey ix) rk of None \<Rightarrow> ix
      | Some hs \<Rightarrow>
        (let hs' = filter (\<lambda>h. \<not> cleared e tier (fst h)) hs in
         if hs' = [] then ix\<lparr>ix_byRequestKey := AList.delete rk (ix_byRequestKey ix)\<rparr>
         else ix\<lparr>ix_byRequestKey := AList.update rk hs' (ix_byRequestKey ix)\<rparr>))"

definition ClearEngine :: "string \<Rightarrow> string \<Rightarrow> index \<Rightarrow> index" where
  "ClearEngine e tier ix =
     (case map_of (ix_byEngine ix) e of None \<Rightarrow> ix
      | Some ks \<Rightarrow>
        (let ix1 = foldl (clear_key e tier) ix ks in
         if tier = []
         then ix1\<lparr>ix_bridge := filter (\<lambda>b. fst (fst b) \<noteq> e) (ix_bridge ix1),
                  ix_byEngine := AList.delete e (ix_byEngine ix1)\<rparr>
         else ix1))"

section \<open>The query\<close>

record InstanceHit =
  ih_longest :: int
  ih_gpu :: int
  ih_cpu :: int
  ih_disk :: int
  ih_dp :: "(int \<times> int) list"

record query_result =
  qr_instances :: "(string \<times> InstanceHit) list"
  qr_last_seen :: int

definition no_instance :: InstanceHit where
  "no_instance = \<lparr>ih_longest = 0, ih_gpu = 0, ih_cpu = 0, ih_disk = 0, ih_dp = []\<rparr>"

definition in_tier :: "holders \<Rightarrow> string \<Rightarrow> string \<Rightarrow> bool" where
  "in_tier hs e tier \<longleftrightarrow> list_ex (\<lambda>h. rs_engine (fst h) = e \<and> rs_tier (fst h) = tier) hs"

text \<open>\<open>bi.dp[rank] += blockSize\<close> for every holder of the engine, then added to the instance's.\<close>

definition add_dp :: "int \<Rightarrow> (int \<times> int) list \<Rightarrow> int \<Rightarrow> (int \<times> int) list" where
  "add_dp bs dp rank = AList.update rank (nullish (map_of dp rank) 0 + bs) dp"

definition add_block :: "int \<Rightarrow> holders \<Rightarrow> string \<Rightarrow> InstanceHit \<Rightarrow> InstanceHit" where
  "add_block bs hs e ih =
     \<lparr>ih_longest = ih_longest ih + bs,
      ih_gpu = ih_gpu ih + (if in_tier hs e ''gpu'' then bs else 0),
      ih_cpu = ih_cpu ih + (if in_tier hs e ''gpu'' \<or> in_tier hs e ''cpu'' then bs else 0),
      ih_disk = ih_disk ih + bs,
      ih_dp = foldl (add_dp bs) (ih_dp ih) (map (rs_dp \<circ> fst) (filter (\<lambda>h. rs_engine (fst h) = e) hs))\<rparr>"

definition instances_with ::
  "int \<Rightarrow> holders \<Rightarrow> string list \<Rightarrow> (string \<times> InstanceHit) list \<Rightarrow> (string \<times> InstanceHit) list" where
  "instances_with bs hs active res =
     foldl (\<lambda>res e. AList.update e (add_block bs hs e (nullish (map_of res e) no_instance)) res) res active"

definition saw :: "holders \<Rightarrow> int \<Rightarrow> int" where
  "saw hs n = foldl (\<lambda>n h. if n < snd h then snd h else n) n hs"

fun query_from :: "index \<Rightarrow> int \<Rightarrow> string list \<Rightarrow> query_result \<Rightarrow> request_key list \<Rightarrow> query_result" where
  "query_from ix bs active res [] = res"
| "query_from ix bs active res (rk # rks) =
     (let hs = holders_of ix rk; res1 = res\<lparr>qr_last_seen := saw hs (qr_last_seen res)\<rparr>;
          active' = filter (hasEngine hs) active in
      if active' = [] then res1
      else query_from ix bs active'
             (res1\<lparr>qr_instances := instances_with bs hs active' (qr_instances res1)\<rparr>) rks)"

text \<open>The engines of the first block are the ones on a run; no other can join later.\<close>

definition Query :: "index \<Rightarrow> request_key list \<Rightarrow> int \<Rightarrow> query_result" where
  "Query ix rks bs = (let res = \<lparr>qr_instances = [], qr_last_seen = 0\<rparr> in case rks of [] \<Rightarrow> res
     | rk # _ \<Rightarrow> query_from ix bs (remdups (map (rs_engine \<circ> fst) (holders_of ix rk))) res rks)"

end
