(* ===== verification/Admission.thy ===== *)
theory Admission
  imports Go_Value Residency "HOL-Library.Product_Lexorder"
begin

text \<open>
  The admission judgement of the indexers, \<open>internal/admission/admission.go\<close>, on the rules of
  \<open>internal/config/model.go\<close>: the best cached prefix among the engines, the conditions, and the
  first match in the order of the priorities.  Token counts are integers (they are below \<open>2 ^ 50\<close>,
  so the sums of the tier credits are exact in a \<open>float64\<close>).
\<close>

section \<open>Rules\<close>

record go_condition =
  gn_field :: string
  gn_op :: string
  gn_value :: go_any

record go_action =
  ga_type :: string
  ga_min_hit_ratio :: "f64 option"
  ga_on_low_hit :: string
  ga_on_uncertain :: string
  ga_reject_status :: int

record go_rule =
  gr_rule_id :: string
  gr_name :: string
  gr_priority :: int
  gr_conditions :: "go_condition list"
  gr_action :: go_action
  gr_enabled :: "bool option"

definition IsEnabled :: "go_rule \<Rightarrow> bool" where
  "IsEnabled r = nullish (gr_enabled r) True"

definition DisplayName :: "go_rule \<Rightarrow> string" where
  "DisplayName r = (if gr_name r \<noteq> [] then gr_name r else gr_rule_id r)"

definition TypeOrDefault :: "go_action \<Rightarrow> string" where
  "TypeOrDefault a = (if ga_type a = [] then ''accept'' else ga_type a)"

definition RejectStatusOrDefault :: "go_action \<Rightarrow> int" where
  "RejectStatusOrDefault a = (if 0 < ga_reject_status a then ga_reject_status a else 429)"

definition MinHitRatioOrDefault :: "go_action \<Rightarrow> f64" where
  "MinHitRatioOrDefault a = nullish (ga_min_hit_ratio a) (Fin (0, 1))"

definition OnLowHitOrDefault :: "go_action \<Rightarrow> string" where
  "OnLowHitOrDefault a = (if ga_on_low_hit a \<noteq> [] then ga_on_low_hit a else ''reject'')"

definition OnUncertainOrDefault :: "go_action \<Rightarrow> string" where
  "OnUncertainOrDefault a = (if ga_on_uncertain a \<noteq> [] then ga_on_uncertain a else ''fallback_accept'')"

section \<open>The request\<close>

text \<open>
  The hits of an engine are cumulative over its tiers.  The result of the query is a map of
  engines; the order of the list is the order the loop visits them in, which Go leaves open.
\<close>

record hit_info =
  hi_instance_id :: string
  hi_input_tokens :: int
  hi_best_hit_tokens :: int
  hi_hit_ratio :: f64
  hi_gpu_tokens :: int
  hi_cpu_tokens :: int
  hi_disk_tokens :: int
  hi_effective :: int

record adm_input =
  in_cluster_id :: string
  in_model_id :: string
  in_tenant_id :: string
  in_input_tokens :: int
  in_rules :: "go_rule list"
  in_query :: "(string \<times> InstanceHit) list option"
  in_override :: "hit_info option"
  in_fresh :: bool
  in_tokenized :: bool
  in_hash_supported :: bool
  in_has_candidates :: bool

definition no_hit :: "int \<Rightarrow> hit_info" where
  "no_hit n = \<lparr>hi_instance_id = [], hi_input_tokens = n, hi_best_hit_tokens = 0, hi_hit_ratio = Fin (0, 1),
     hi_gpu_tokens = 0, hi_cpu_tokens = 0, hi_disk_tokens = 0, hi_effective = 0\<rparr>"

text \<open>The credit of an instance, in quarters of a token: the tiers weigh 1, 3/4 and 1/4.\<close>

definition credit :: "InstanceHit \<Rightarrow> int" where
  "credit i = (let cpuOnly = max 0 (ih_cpu i - ih_gpu i); diskOnly = max 0 (ih_disk i - ih_cpu i)
     in 4 * ih_gpu i + 3 * cpuOnly + diskOnly)"

definition take_hit :: "string \<times> InstanceHit \<Rightarrow> hit_info \<Rightarrow> hit_info" where
  "take_hit e h = h\<lparr>hi_instance_id := fst e, hi_best_hit_tokens := ih_longest (snd e),
     hi_gpu_tokens := ih_gpu (snd e), hi_cpu_tokens := ih_cpu (snd e), hi_disk_tokens := ih_disk (snd e),
     hi_effective := credit (snd e) div 4\<rparr>"

fun best_from :: "int \<Rightarrow> hit_info \<Rightarrow> (string \<times> InstanceHit) list \<Rightarrow> hit_info" where
  "best_from best h [] = h"
| "best_from best h (e # es) =
     (if best < credit (snd e) then best_from (credit (snd e)) (take_hit e h) es
      else best_from best h es)"

definition with_ratio :: "int \<Rightarrow> hit_info \<Rightarrow> hit_info" where
  "with_ratio n h = (if 0 < n then h\<lparr>hi_hit_ratio :=
       Fin (div_double (to_double (min (hi_effective h) n, 1)) (to_double (n, 1)))\<rparr> else h)"

definition bestHit :: "adm_input \<Rightarrow> hit_info" where
  "bestHit inp = (case in_override inp of
     Some h \<Rightarrow> if hi_input_tokens h = 0 then h\<lparr>hi_input_tokens := in_input_tokens inp\<rparr> else h
   | None \<Rightarrow> (case in_query inp of
       None \<Rightarrow> no_hit (in_input_tokens inp)
     | Some es \<Rightarrow> with_ratio (in_input_tokens inp) (best_from (- 4) (no_hit (in_input_tokens inp)) es)))"

section \<open>Conditions\<close>

definition conditionValue :: "adm_input \<Rightarrow> hit_info \<Rightarrow> string \<Rightarrow> go_any option" where
  "conditionValue inp h field =
     (if field = ''cluster_id'' then Some (GStr (in_cluster_id inp))
      else if field = ''model_id'' then Some (GStr (in_model_id inp))
      else if field = ''tenant_id'' then Some (GStr (in_tenant_id inp))
      else if field = ''input_tokens'' then Some (GInt (in_input_tokens inp))
      else if field = ''hit_ratio'' then Some (GFloat (hi_hit_ratio h))
      else if field = ''best_hit_tokens'' then Some (GInt (hi_best_hit_tokens h))
      else if field = ''effective_cached_tokens'' then Some (GInt (hi_effective h))
      else if field = ''kv_event_state'' then Some (GStr (if in_fresh inp then ''available'' else ''stale''))
      else if field = ''tokenized'' then Some (GBool (in_tokenized inp))
      else if field = ''hash_supported'' then Some (GBool (in_hash_supported inp))
      else if field = ''has_candidates'' then Some (GBool (in_has_candidates inp))
      else None)"

fun toFloat :: "go_any \<Rightarrow> f64 option" where
  "toFloat (GInt i) = Some (Fin (to_double (i, 1)))"
| "toFloat (GFloat x) = Some x"
| "toFloat (GStr s) = ParseFloat s"
| "toFloat _ = None"

fun toBool :: "go_any \<Rightarrow> bool option" where
  "toBool (GBool b) = Some b"
| "toBool (GStr s) = ParseBool s"
| "toBool _ = None"

definition valuesEqual :: "go_any \<Rightarrow> go_any \<Rightarrow> bool" where
  "valuesEqual a b = (case (toFloat a, toFloat b) of
     (Some x, Some y) \<Rightarrow> f64_eq x y
   | _ \<Rightarrow> (case (toBool a, toBool b) of
       (Some x, Some y) \<Rightarrow> x = y
     | _ \<Rightarrow> Sprint a = Sprint b))"

definition compareNumeric :: "go_any \<Rightarrow> go_any \<Rightarrow> string \<Rightarrow> bool" where
  "compareNumeric actual expected opn = (case (toFloat actual, toFloat expected) of
     (Some a, Some b) \<Rightarrow>
       if opn = ''gt'' then f64_less b a else if opn = ''gte'' then f64_le b a
       else if opn = ''lt'' then f64_less a b else if opn = ''lte'' then f64_le a b else False
   | _ \<Rightarrow> False)"

definition listContains :: "go_any \<Rightarrow> go_any \<Rightarrow> bool" where
  "listContains l actual = (case l of
     GList vs \<Rightarrow> list_ex (valuesEqual actual) vs | _ \<Rightarrow> valuesEqual actual l)"

definition matchesCondition :: "go_any \<Rightarrow> go_condition \<Rightarrow> bool" where
  "matchesCondition actual c = (let opn = gn_op c in
     if opn = [] \<or> opn = ''eq'' then valuesEqual actual (gn_value c)
     else if opn = ''neq'' then \<not> valuesEqual actual (gn_value c)
     else if opn = ''in'' then listContains (gn_value c) actual
     else if opn = ''not_in'' then \<not> listContains (gn_value c) actual
     else if opn \<in> {''gt'', ''gte'', ''lt'', ''lte''} then compareNumeric actual (gn_value c) opn
     else if opn = ''contains'' then str_includes (Sprint actual) (Sprint (gn_value c))
     else False)"

definition matchesRule :: "adm_input \<Rightarrow> hit_info \<Rightarrow> go_rule \<Rightarrow> bool" where
  "matchesRule inp h r = list_all (\<lambda>c. case conditionValue inp h (gn_field c) of
     None \<Rightarrow> False | Some actual \<Rightarrow> matchesCondition actual c) (gr_conditions r)"

section \<open>The verdict\<close>

record adm_result =
  re_decision :: string
  re_reason :: string
  re_http_status :: int
  re_fallback :: bool
  re_hit :: hit_info
  re_min_ratio :: f64
  re_matched_id :: string
  re_matched_name :: string
  re_matched_priority :: int
  re_evaluated :: "string list"

definition blank_result :: "hit_info \<Rightarrow> adm_result" where
  "blank_result h = \<lparr>re_decision = [], re_reason = [], re_http_status = 0, re_fallback = False, re_hit = h,
     re_min_ratio = Fin (0, 1), re_matched_id = [], re_matched_name = [], re_matched_priority = 0,
     re_evaluated = []\<rparr>"

definition accept :: "adm_result \<Rightarrow> string \<Rightarrow> bool \<Rightarrow> adm_result" where
  "accept res reason fallback = res\<lparr>re_decision := ''accept'', re_reason := reason,
     re_http_status := 200, re_fallback := fallback\<rparr>"

definition reject :: "adm_result \<Rightarrow> string \<Rightarrow> int \<Rightarrow> adm_result" where
  "reject res reason status = res\<lparr>re_decision := ''reject'', re_reason := reason,
     re_http_status := (if status \<le> 0 then 429 else status)\<rparr>"

definition uncertaintyReason :: "adm_input \<Rightarrow> string option" where
  "uncertaintyReason inp =
     (if \<not> in_tokenized inp then Some ''fallback_tokenization_unavailable''
      else if \<not> in_hash_supported inp then Some ''fallback_hash_feature_unsupported''
      else if \<not> in_has_candidates inp then Some ''no_eligible_candidates''
      else if \<not> in_fresh inp then Some ''fallback_stale_events'' else None)"

definition applyOutcome :: "adm_result \<Rightarrow> string \<Rightarrow> string \<Rightarrow> int \<Rightarrow> bool \<Rightarrow> adm_result" where
  "applyOutcome res outcome reason status uncertainty =
     (if outcome = ''accept'' then accept res reason False
      else if outcome = ''fallback_accept'' then accept res reason True
      else if outcome = ''reject'' then reject res reason status
      else if uncertainty then accept res reason True else reject res reason status)"

definition applyAction :: "adm_input \<Rightarrow> adm_result \<Rightarrow> go_action \<Rightarrow> adm_result" where
  "applyAction inp res a =
     (if TypeOrDefault a = ''accept'' then accept res ''policy_rule_accept'' False
      else if TypeOrDefault a = ''reject'' then reject res ''policy_rule_reject'' (RejectStatusOrDefault a)
      else if TypeOrDefault a = ''require_cache_hit'' then
        (let res = res\<lparr>re_min_ratio := MinHitRatioOrDefault a\<rparr> in
         case uncertaintyReason inp of
           Some reason \<Rightarrow> applyOutcome res (OnUncertainOrDefault a) reason (RejectStatusOrDefault a) True
         | None \<Rightarrow>
             if f64_less (hi_hit_ratio (re_hit res)) (re_min_ratio res)
             then applyOutcome res (OnLowHitOrDefault a) ''kv_cache_hit_requirement_failed''
                    (RejectStatusOrDefault a) False
             else accept res ''kv_cache_hit_requirement_met'' False)
      else reject res ''unknown_policy_action'' (RejectStatusOrDefault a))"

definition rule_rank :: "go_rule \<Rightarrow> int \<times> string" where
  "rule_rank r = (- gr_priority r, gr_rule_id r)"

fun eval_rules :: "adm_input \<Rightarrow> hit_info \<Rightarrow> adm_result \<Rightarrow> go_rule list \<Rightarrow> adm_result" where
  "eval_rules inp h res [] = accept res ''no_matching_policy_rule'' False"
| "eval_rules inp h res (r # rs) =
     (let res = (if gr_rule_id r \<noteq> [] then res\<lparr>re_evaluated := re_evaluated res @ [gr_rule_id r]\<rparr> else res) in
      if \<not> IsEnabled r \<or> gr_rule_id r = [] then eval_rules inp h res rs
      else if \<not> matchesRule inp h r then eval_rules inp h res rs
      else applyAction inp (res\<lparr>re_matched_id := gr_rule_id r, re_matched_name := DisplayName r,
             re_matched_priority := gr_priority r\<rparr>) (gr_action r))"

definition Evaluate :: "adm_input \<Rightarrow> adm_result" where
  "Evaluate inp = (let h = bestHit inp in
     eval_rules inp h (blank_result h) (sort_key rule_rank (in_rules inp)))"

section \<open>The preview\<close>

record preview_request =
  pq_cluster_id :: string
  pq_model_id :: string
  pq_tenant_id :: string
  pq_input_tokens :: int
  pq_hit_ratio :: "frac option"
  pq_fresh :: "bool option"
  pq_tokenized :: "bool option"
  pq_hash_supported :: "bool option"
  pq_has_candidates :: "bool option"

definition clamp01 :: "frac \<Rightarrow> frac" where
  "clamp01 x = (if fst x < 0 then (0, 1) else if snd x < fst x then (1, 1) else x)"

text \<open>\<open>int(float64(tokens) * ratio)\<close> cuts towards zero.\<close>

definition trunc :: "frac \<Rightarrow> int" where
  "trunc x = (if fst x < 0 then - ((- fst x) div snd x) else fst x div snd x)"

definition preview_hit :: "preview_request \<Rightarrow> hit_info option" where
  "preview_hit q = map_option (\<lambda>x. let ratio = clamp01 x;
       eff = trunc (mul_double (to_double (pq_input_tokens q, 1)) ratio)
     in (no_hit (pq_input_tokens q))\<lparr>hi_best_hit_tokens := eff, hi_hit_ratio := Fin ratio, hi_effective := eff\<rparr>)
     (pq_hit_ratio q)"

definition evaluateEffectivePolicyPreview :: "preview_request \<Rightarrow> go_rule list \<Rightarrow> adm_result" where
  "evaluateEffectivePolicyPreview q rules = Evaluate
     \<lparr>in_cluster_id = pq_cluster_id q, in_model_id = pq_model_id q, in_tenant_id = pq_tenant_id q,
      in_input_tokens = pq_input_tokens q, in_rules = rules, in_query = None, in_override = preview_hit q,
      in_fresh = nullish (pq_fresh q) True, in_tokenized = nullish (pq_tokenized q) True,
      in_hash_supported = nullish (pq_hash_supported q) True,
      in_has_candidates = nullish (pq_has_candidates q) True\<rparr>"

end
