(* ===== verification/Admission_Props.thy ===== *)
theory Admission_Props
  imports Admission "HOL-Library.Multiset"
begin

text \<open>
  What the admission judgement promises: the first rule in the order of the priorities decides,
  whatever order the rules come in and whichever sorting algorithm is used; what a required
  cache hit decides; and the bounds of the best hit.
\<close>

section \<open>The order of the rules\<close>

text \<open>
  \<open>sort.Slice\<close> gives some sorted permutation, not a particular one.  For rules with different
  identities, which the stores keep, there is only one.
\<close>

locale rule_sort =
  fixes srt :: "go_rule list \<Rightarrow> go_rule list"
  assumes mset_srt: "mset (srt rs) = mset rs"
    and sorted_srt: "sorted (map rule_rank (srt rs))"
begin

lemma set_srt [simp]: "set (srt rs) = set rs"
  using mset_srt by (metis set_mset_mset)

lemma distinct_rank: "distinct (map gr_rule_id rs) \<Longrightarrow> distinct (map rule_rank rs)"
  by (auto simp: distinct_map rule_rank_def inj_on_def)

lemma srt_unique:
  assumes "distinct (map gr_rule_id rs)" "mset ys = mset rs" "sorted (map rule_rank ys)"
  shows "srt rs = ys"
proof (rule map_sorted_distinct_set_unique [where f = rule_rank])
  have rank: "distinct (map rule_rank rs)" by (rule distinct_rank [OF assms(1)])
  have same: "set (srt rs) = set rs" "set ys = set rs" using mset_eq_setD assms(2) by auto
  show "inj_on rule_rank (set (srt rs) \<union> set ys)" using rank same by (simp add: distinct_map)
  have "mset (map rule_rank (srt rs)) = mset (map rule_rank rs)"
    "mset (map rule_rank ys) = mset (map rule_rank rs)" using mset_srt assms(2) by simp_all
  with rank show "distinct (map rule_rank (srt rs))" "distinct (map rule_rank ys)"
    using mset_eq_imp_distinct_iff by blast+
qed (use sorted_srt assms mset_eq_setD in auto)

lemma same_rules: "distinct (map gr_rule_id rs) \<Longrightarrow> mset rs' = mset rs \<Longrightarrow> srt rs' = srt rs"
  using srt_unique [of rs "srt rs'"] mset_srt [of rs'] sorted_srt by simp

end

interpretation go_sort: rule_sort "sort_key rule_rank"
  by unfold_locales simp_all

section \<open>The first match\<close>

definition applies :: "adm_input \<Rightarrow> go_rule \<Rightarrow> bool" where
  "applies inp r \<longleftrightarrow> IsEnabled r \<and> gr_rule_id r \<noteq> [] \<and> matchesRule inp (bestHit inp) r"

text \<open>The rule that decides: one that applies, and no other that applies ranks before it.\<close>

definition decides :: "adm_input \<Rightarrow> go_rule \<Rightarrow> bool" where
  "decides inp r \<longleftrightarrow> r \<in> set (in_rules inp) \<and> applies inp r
     \<and> (\<forall>r' \<in> set (in_rules inp). applies inp r' \<longrightarrow> rule_rank r \<le> rule_rank r')"

definition seen :: "go_rule list \<Rightarrow> string list" where
  "seen rs = filter (\<lambda>x. x \<noteq> []) (map gr_rule_id rs)"

definition matched :: "go_rule list \<Rightarrow> go_rule \<Rightarrow> adm_result \<Rightarrow> adm_result" where
  "matched before r res = res\<lparr>re_evaluated := re_evaluated res @ seen (before @ [r]),
     re_matched_id := gr_rule_id r, re_matched_name := DisplayName r, re_matched_priority := gr_priority r\<rparr>"

lemma eval_none:
  "\<forall>r \<in> set rs. \<not> applies inp r \<Longrightarrow> eval_rules inp (bestHit inp) res rs
     = accept (res\<lparr>re_evaluated := re_evaluated res @ seen rs\<rparr>) ''no_matching_policy_rule'' False"
  by (induction rs arbitrary: res) (auto simp: seen_def applies_def Let_def)

lemma eval_first:
  "\<forall>r' \<in> set before. \<not> applies inp r' \<Longrightarrow> applies inp r \<Longrightarrow>
   eval_rules inp (bestHit inp) res (before @ r # after) = applyAction inp (matched before r res) (gr_action r)"
proof (induction before arbitrary: res)
  case Nil
  then show ?case by (simp add: applies_def matched_def seen_def Let_def)
next
  case (Cons b before)
  then show ?case by (auto simp: applies_def matched_def seen_def Let_def)
qed

lemma first_split:
  assumes "\<exists>r \<in> set rs. applies inp r"
  obtains before r after where "rs = before @ r # after" "applies inp r" "\<forall>r' \<in> set before. \<not> applies inp r'"
  using split_list_first_prop [OF assms] by blast

lemma rank_unique:
  "distinct (map gr_rule_id rs) \<Longrightarrow> r \<in> set rs \<Longrightarrow> r' \<in> set rs \<Longrightarrow> rule_rank r = rule_rank r' \<Longrightarrow> r = r'"
  by (auto simp: rule_rank_def distinct_map inj_on_def)

lemma decides_unique:
  "distinct (map gr_rule_id (in_rules inp)) \<Longrightarrow> decides inp r \<Longrightarrow> decides inp r' \<Longrightarrow> r = r'"
  unfolding decides_def using rank_unique by (metis order_antisym)

lemma evaluate_cases:
  assumes "distinct (map gr_rule_id (in_rules inp))"
  obtains (none) "\<forall>r \<in> set (in_rules inp). \<not> applies inp r"
      "Evaluate inp = accept ((blank_result (bestHit inp))\<lparr>re_evaluated := seen (sort_key rule_rank (in_rules inp))\<rparr>)
         ''no_matching_policy_rule'' False"
  | (rule) r before after where "sort_key rule_rank (in_rules inp) = before @ r # after" "decides inp r"
      "\<forall>r' \<in> set before. \<not> applies inp r'"
      "Evaluate inp = applyAction inp (matched before r (blank_result (bestHit inp))) (gr_action r)"
proof (cases "\<exists>r \<in> set (in_rules inp). applies inp r")
  case False
  then show ?thesis
    using none eval_none [of "sort_key rule_rank (in_rules inp)" inp "blank_result (bestHit inp)"]
    by (simp add: Evaluate_def Let_def blank_result_def)
next
  case True
  let ?rs = "sort_key rule_rank (in_rules inp)"
  from True obtain before r after where split: "?rs = before @ r # after" "applies inp r"
    "\<forall>r' \<in> set before. \<not> applies inp r'"
    using first_split [of ?rs inp] by auto
  have "sorted (map rule_rank ?rs)" by simp
  then have later: "\<forall>r' \<in> set after. rule_rank r \<le> rule_rank r'"
    unfolding split(1) by (simp add: sorted_append)
  have members: "set (in_rules inp) = set before \<union> {r} \<union> set after"
    using split(1) go_sort.set_srt [of "in_rules inp"] by auto
  have "decides inp r" unfolding decides_def members using split(2,3) later by auto
  with split rule show ?thesis using eval_first [OF split(3,2)] by (simp add: Evaluate_def Let_def)
qed

text \<open>Of the request only the list of the rules changes with the rules.\<close>

lemma other_rules:
  "bestHit (inp\<lparr>in_rules := rules\<rparr>) = bestHit inp"
  "eval_rules (inp\<lparr>in_rules := rules\<rparr>) h res rs = eval_rules inp h res rs"
proof -
  have "conditionValue (inp\<lparr>in_rules := rules\<rparr>) = conditionValue inp" by (intro ext) (simp add: conditionValue_def)
  then have match: "matchesRule (inp\<lparr>in_rules := rules\<rparr>) = matchesRule inp" by (intro ext) (simp add: matchesRule_def)
  have "uncertaintyReason (inp\<lparr>in_rules := rules\<rparr>) = uncertaintyReason inp" by (simp add: uncertaintyReason_def)
  then have act: "applyAction (inp\<lparr>in_rules := rules\<rparr>) = applyAction inp" by (intro ext) (simp only: applyAction_def)
  show "eval_rules (inp\<lparr>in_rules := rules\<rparr>) h res rs = eval_rules inp h res rs"
    by (induction rs arbitrary: res) (simp_all only: eval_rules.simps match act)
  show "bestHit (inp\<lparr>in_rules := rules\<rparr>) = bestHit inp" 
    by (cases "in_override inp") (simp_all add: bestHit_def cong: option.case_cong)
qed

text \<open>
  C1: the judgement is the first match: when no enabled rule applies the request is accepted
  without a rule; otherwise there is just one rule that applies and ranks before all others
  that do, by its priority and then its identity, and its action is the verdict, with the rules
  before it listed as evaluated.  The order the rules are stored in does not matter, and neither
  does the sorting algorithm.
\<close>

theorem first_match_decides:
  assumes "distinct (map gr_rule_id (in_rules inp))"
  shows "((\<forall>r \<in> set (in_rules inp). \<not> applies inp r) \<longrightarrow>
            re_decision (Evaluate inp) = ''accept'' \<and> re_reason (Evaluate inp) = ''no_matching_policy_rule''
            \<and> re_matched_id (Evaluate inp) = [])
    \<and> ((\<exists>r \<in> set (in_rules inp). applies inp r) \<longrightarrow> (\<exists>!r. decides inp r))
    \<and> (\<forall>r. decides inp r \<longrightarrow> (\<exists>before after. sort_key rule_rank (in_rules inp) = before @ r # after
            \<and> (\<forall>r' \<in> set before. \<not> applies inp r')
            \<and> Evaluate inp = applyAction inp (matched before r (blank_result (bestHit inp))) (gr_action r)))
    \<and> (\<forall>rules. mset rules = mset (in_rules inp) \<longrightarrow> Evaluate (inp\<lparr>in_rules := rules\<rparr>) = Evaluate inp)
    \<and> (\<forall>srt. mset srt = mset (in_rules inp) \<and> sorted (map rule_rank srt) \<longrightarrow>
            Evaluate inp = eval_rules inp (bestHit inp) (blank_result (bestHit inp)) srt)"
proof -
  have perm: "Evaluate (inp\<lparr>in_rules := rules\<rparr>) = Evaluate inp" if "mset rules = mset (in_rules inp)" for rules
    using go_sort.same_rules [OF assms that] by (simp add: Evaluate_def Let_def other_rules)
  have any: "Evaluate inp = eval_rules inp (bestHit inp) (blank_result (bestHit inp)) srt"
    if "mset srt = mset (in_rules inp)" "sorted (map rule_rank srt)" for srt
    using go_sort.srt_unique [OF assms that] by (simp add: Evaluate_def Let_def)
  show ?thesis
    using assms
  proof (cases rule: evaluate_cases)
    case none
    then show ?thesis using perm any by (auto simp: decides_def accept_def blank_result_def)
  next
    case (rule r before after)
    from rule(2) have some: "\<exists>r \<in> set (in_rules inp). applies inp r" by (auto simp: decides_def)
    have only: "decides inp r' \<longleftrightarrow> r' = r" for r' using decides_unique [OF assms] rule(2) by blast
    have "\<exists>before after. sort_key rule_rank (in_rules inp) = before @ r # after
        \<and> (\<forall>r' \<in> set before. \<not> applies inp r')
        \<and> Evaluate inp = applyAction inp (matched before r (blank_result (bestHit inp))) (gr_action r)"
      using rule(1,3,4) by blast
    moreover from some have "\<not> (\<forall>r \<in> set (in_rules inp). \<not> applies inp r)" by blast
    ultimately show ?thesis using perm any some unfolding only by (intro conjI) blast+
  qed
qed

text \<open>Two rules on the length of a request, stored in the wrong order.\<close>

definition long_rule :: "string \<Rightarrow> int \<Rightarrow> go_action \<Rightarrow> go_rule" where
  "long_rule i prio a = \<lparr>gr_rule_id = i, gr_name = [], gr_priority = prio,
     gr_conditions = [\<lparr>gn_field = ''input_tokens'', gn_op = ''gte'', gn_value = GFloat (Fin (256, 1))\<rparr>],
     gr_action = a, gr_enabled = None\<rparr>"

definition hit_action :: go_action where
  "hit_action = \<lparr>ga_type = ''require_cache_hit'', ga_min_hit_ratio = Some (Fin (1, 2)), ga_on_low_hit = ''reject'',
     ga_on_uncertain = [], ga_reject_status = 429\<rparr>"

definition accept_action :: go_action where
  "accept_action = \<lparr>ga_type = ''accept'', ga_min_hit_ratio = None, ga_on_low_hit = [], ga_on_uncertain = [],
     ga_reject_status = 0\<rparr>"

definition long_request :: adm_input where
  "long_request = \<lparr>in_cluster_id = ''hkg'', in_model_id = ''qwen'', in_tenant_id = ''default'', in_input_tokens = 400,
     in_rules = [long_rule ''b'' 10 accept_action, long_rule ''a'' 20 hit_action],
     in_query = Some [(''vllm-0'', \<lparr>ih_longest = 64, ih_gpu = 64, ih_cpu = 64, ih_disk = 64, ih_dp = []\<rparr>)],
     in_override = None, in_fresh = True, in_tokenized = True, in_hash_supported = True, in_has_candidates = True\<rparr>"

lemma long_matches: "matchesRule long_request h (long_rule i prio a)"
proof -
  have "f64_le (Fin (256, 1)) (Fin (to_double (400, 1)))" by code_simp
  then show ?thesis
    by (simp add: matchesRule_def long_rule_def long_request_def conditionValue_def matchesCondition_def compareNumeric_def)
qed

lemma long_decides: "decides long_request (long_rule ''a'' 20 hit_action)"
proof -
  have "applies long_request (long_rule i prio a) \<longleftrightarrow> i \<noteq> []" for i prio a
    by (simp add: applies_def long_matches) (simp add: long_rule_def IsEnabled_def)
  moreover have "in_rules long_request = [long_rule ''b'' 10 accept_action, long_rule ''a'' 20 hit_action]"
    by (simp add: long_request_def)
  ultimately show ?thesis by (simp add: decides_def) (simp add: long_rule_def rule_rank_def)
qed

theorem first_match_decides_witness:
  "\<exists>before after. sort_key rule_rank (in_rules long_request) = before @ long_rule ''a'' 20 hit_action # after
     \<and> Evaluate long_request = applyAction long_request
         (matched before (long_rule ''a'' 20 hit_action) (blank_result (bestHit long_request))) hit_action"
proof -
  have "distinct (map gr_rule_id (in_rules long_request))" by (simp add: long_request_def long_rule_def)
  moreover have "gr_action (long_rule ''a'' 20 hit_action) = hit_action" by (simp add: long_rule_def)
  ultimately show ?thesis using first_match_decides [of long_request] long_decides by metis
qed

section \<open>A required cache hit\<close>

lemma applyOutcome_simps:
  "re_decision (applyOutcome res out reason status u) = ''reject''
     \<longleftrightarrow> out = ''reject'' \<or> (\<not> u \<and> out \<noteq> ''accept'' \<and> out \<noteq> ''fallback_accept'')"
  "re_decision (applyOutcome res out reason status u) = ''accept''
     \<longleftrightarrow> out \<noteq> ''reject'' \<and> (u \<or> out = ''accept'' \<or> out = ''fallback_accept'')"
  "\<not> re_fallback res \<Longrightarrow> re_fallback (applyOutcome res out reason status u)
     \<longleftrightarrow> out = ''fallback_accept'' \<or> (u \<and> out \<noteq> ''accept'' \<and> out \<noteq> ''reject'')"
  "0 < status \<Longrightarrow> re_http_status (applyOutcome res out reason status u)
     = (if re_decision (applyOutcome res out reason status u) = ''reject'' then status else 200)"
  by (simp_all add: applyOutcome_def accept_def reject_def)

lemma matched_simps [simp]:
  "re_hit (matched before r res) = re_hit res" "re_fallback (matched before r res) = re_fallback res"
  by (simp_all add: matched_def)

lemma decides_verdict:
  assumes "distinct (map gr_rule_id (in_rules inp))" "decides inp r"
  obtains before where "Evaluate inp = applyAction inp (matched before r (blank_result (bestHit inp))) (gr_action r)"
  using assms(1)
proof (cases rule: evaluate_cases)
  case none
  with assms(2) show thesis by (auto simp: decides_def)
next
  case (rule r' before after)
  with decides_unique [OF assms(1,2)] that show thesis by blast
qed

lemma cache_rule:
  assumes "distinct (map gr_rule_id (in_rules inp))" "decides inp r"
    and "TypeOrDefault (gr_action r) = ''require_cache_hit''"
  shows "(re_decision (Evaluate inp) = ''reject'' \<longleftrightarrow>
      (if uncertaintyReason inp = None
       then f64_less (hi_hit_ratio (bestHit inp)) (MinHitRatioOrDefault (gr_action r))
         \<and> ga_on_low_hit (gr_action r) \<notin> {''accept'', ''fallback_accept''}
       else ga_on_uncertain (gr_action r) = ''reject''))
    \<and> (uncertaintyReason inp \<noteq> None \<longrightarrow>
         re_reason (Evaluate inp) = nullish (uncertaintyReason inp) []
         \<and> (re_fallback (Evaluate inp) \<longleftrightarrow> ga_on_uncertain (gr_action r) \<notin> {''accept'', ''reject''}))
    \<and> re_decision (Evaluate inp) \<in> {''accept'', ''reject''}
    \<and> re_http_status (Evaluate inp)
        = (if re_decision (Evaluate inp) = ''reject'' then RejectStatusOrDefault (gr_action r) else 200)"
proof -
  let ?a = "gr_action r"
  from decides_verdict [OF assms(1,2)] obtain before where
    res: "Evaluate inp = applyAction inp (matched before r (blank_result (bestHit inp))) ?a" by blast
  have status: "0 < RejectStatusOrDefault ?a" by (simp add: RejectStatusOrDefault_def)
  show ?thesis
  proof (cases "uncertaintyReason inp")
    case None
    then have "Evaluate inp = (let res = (matched before r (blank_result (bestHit inp)))\<lparr>re_min_ratio := MinHitRatioOrDefault ?a\<rparr>
        in if f64_less (hi_hit_ratio (bestHit inp)) (MinHitRatioOrDefault ?a)
           then applyOutcome res (OnLowHitOrDefault ?a) ''kv_cache_hit_requirement_failed'' (RejectStatusOrDefault ?a) False
           else accept res ''kv_cache_hit_requirement_met'' False)"
      using assms(3) by (simp add: res applyAction_def Let_def blank_result_def)
    with None status show ?thesis
      by (auto simp: Let_def applyOutcome_simps OnLowHitOrDefault_def accept_def)
  next
    case (Some reason)
    then have "Evaluate inp = applyOutcome ((matched before r (blank_result (bestHit inp)))\<lparr>re_min_ratio := MinHitRatioOrDefault ?a\<rparr>)
        (OnUncertainOrDefault ?a) reason (RejectStatusOrDefault ?a) True"
      using assms(3) by (simp add: res applyAction_def Let_def)
    moreover have "re_reason (applyOutcome res' out reason status u) = reason" for res' out status u
      by (simp add: applyOutcome_def accept_def reject_def)
    ultimately show ?thesis
      using Some status by (auto simp: applyOutcome_simps OnUncertainOrDefault_def blank_result_def)
  qed
qed

text \<open>
  C22: what a rule that requires a cache hit decides.  While a signal is missing (no tokens, an
  unsupported hash, no engine, or stale events) the request is rejected only if the rule says
  so, and by default it is let through as a fallback; otherwise it is rejected just when the
  cached share is below the required one and the rule does not accept low hits.  A rejection
  has the rule's status, 429 by default, every acceptance has 200.
\<close>

theorem cache_requirement:
  assumes "distinct (map gr_rule_id (in_rules inp))" "decides inp r"
    and "TypeOrDefault (gr_action r) = ''require_cache_hit''"
  shows "(re_decision (Evaluate inp) = ''reject'' \<longleftrightarrow>
      (if uncertaintyReason inp = None
       then f64_less (hi_hit_ratio (bestHit inp)) (MinHitRatioOrDefault (gr_action r))
         \<and> ga_on_low_hit (gr_action r) \<notin> {''accept'', ''fallback_accept''}
       else ga_on_uncertain (gr_action r) = ''reject''))
    \<and> (uncertaintyReason inp \<noteq> None \<longrightarrow>
         re_reason (Evaluate inp) = nullish (uncertaintyReason inp) []
         \<and> (re_fallback (Evaluate inp) \<longleftrightarrow> ga_on_uncertain (gr_action r) \<notin> {''accept'', ''reject''}))
    \<and> re_decision (Evaluate inp) \<in> {''accept'', ''reject''}
    \<and> re_http_status (Evaluate inp)
        = (if re_decision (Evaluate inp) = ''reject'' then RejectStatusOrDefault (gr_action r) else 200)"
  using cache_rule [OF assms] .

theorem cache_requirement_witness:
  "re_decision (Evaluate long_request) = ''reject'' \<longleftrightarrow>
     f64_less (hi_hit_ratio (bestHit long_request)) (Fin (1, 2))"
proof -
  have d: "distinct (map gr_rule_id (in_rules long_request))" by (simp add: long_request_def long_rule_def)
  have a: "gr_action (long_rule ''a'' 20 hit_action) = hit_action" by (simp add: long_rule_def)
  have "TypeOrDefault hit_action = ''require_cache_hit''" by (simp add: TypeOrDefault_def hit_action_def)
  moreover have "uncertaintyReason long_request = None" by (simp add: uncertaintyReason_def long_request_def)
  ultimately show ?thesis
    using cache_requirement [OF d long_decides] unfolding a by (simp add: MinHitRatioOrDefault_def hit_action_def)
qed

end
