(* ===== verification/Residency_Props.thy ===== *)
theory Residency_Props
  imports Residency
begin

text \<open>
  What the index promises: it is a relation between residents and blocks that every event
  changes as it says, the query finds each engine's longest cached prefix, and the keys of a
  prompt do not depend on the pieces it was stored in.
\<close>

section \<open>The relation\<close>

definition holds :: "index \<Rightarrow> (resident \<times> request_key) set" where
  "holds ix = {(r, rk). r \<in> fst ` set (holders_of ix rk)}"

lemma nullish_map [simp]:
  "nullish (map_of (AList.update k v m) k') d = (if k' = k then v else nullish (map_of m k') d)"
  "nullish (map_of (AList.delete k m) k') d = (if k' = k then d else nullish (map_of m k') d)"
  by (simp_all add: update_conv' delete_conv')

lemmas index_maps = holders_of_def engine_keys_of_def

lemma hasEngine_iff: "hasEngine hs e \<longleftrightarrow> (\<exists>r \<in> fst ` set hs. rs_engine r = e)"
  by (auto simp: hasEngine_def list_ex_iff)

lemma keys_update [simp]: "fst ` set (AList.update k v xs) = insert k (fst ` set xs)"
  by (simp add: dom_update)

lemma keys_delete [simp]: "fst ` set (AList.delete k xs) = fst ` set xs - {k}"
  using arg_cong [OF delete_keys [of k xs], of set] by simp

text \<open>
  The invariant: the engine of every resident of a block lists the block, so that a clearing,
  which only visits the listed blocks, visits all it must.
\<close>

definition index_ok :: "index \<Rightarrow> bool" where
  "index_ok ix \<longleftrightarrow> (\<forall>(r, rk) \<in> holds ix. rk \<in> set (engine_keys_of ix (rs_engine r)))"

lemma index_okD: "index_ok ix \<Longrightarrow> (r, rk) \<in> holds ix \<Longrightarrow> rk \<in> set (engine_keys_of ix (rs_engine r))"
  by (auto simp: index_ok_def)

lemma new_index: "holds NewIndex = {}" "index_ok NewIndex"
  by (simp_all add: holds_def index_ok_def holders_of_def NewIndex_def)

subsection \<open>Storing\<close>

lemma holds_store_key: "holds (store_key ts r ix rk) = insert (r, rk) (holds ix)"
  by (auto simp: holds_def store_key_def index_maps split: if_splits)

lemma engine_keys_store_key:
  "set (engine_keys_of (store_key ts r ix rk) e) = set (engine_keys_of ix e) \<union> (if e = rs_engine r then {rk} else {})"
  by (auto simp: store_key_def index_maps)

lemma ok_store_key: "index_ok ix \<Longrightarrow> index_ok (store_key ts r ix rk)"
  unfolding index_ok_def holds_store_key engine_keys_store_key by auto

lemma fold_store_key:
  "holds (foldl (store_key ts r) ix rks) = holds ix \<union> {r} \<times> set rks"
  "index_ok ix \<Longrightarrow> index_ok (foldl (store_key ts r) ix rks)"
  by (induction rks arbitrary: ix) (auto simp: holds_store_key ok_store_key)

lemma holds_store_keys: "holds (storeRequestKeysLocked ts r rks ix) = holds ix \<union> {r} \<times> set rks"
  by (simp add: storeRequestKeysLocked_def fold_store_key) (simp add: holds_def index_maps)

lemma ok_store_keys: "index_ok ix \<Longrightarrow> index_ok (storeRequestKeysLocked ts r rks ix)"
  unfolding storeRequestKeysLocked_def by (rule fold_store_key) (force simp: index_ok_def holds_def index_maps split: if_splits)

lemma holds_bridge [simp]: "holds (ix\<lparr>ix_bridge := b\<rparr>) = holds ix" "index_ok (ix\<lparr>ix_bridge := b\<rparr>) = index_ok ix"
  by (simp_all add: holds_def index_ok_def index_maps)

lemma store_event:
  "holds (StoreEvent ts r eks rks ix) = holds ix \<union> {r} \<times> set rks"
  "index_ok ix \<Longrightarrow> index_ok (StoreEvent ts r eks rks ix)"
  by (auto simp: StoreEvent_def Let_def holds_store_keys ok_store_keys)

subsection \<open>Removing\<close>

lemma drop_engine_key_simps [simp]:
  "holds (drop_engine_key e rk ix) = holds ix"
  "holders_of (drop_engine_key e rk ix) k = holders_of ix k"
  "set (engine_keys_of (drop_engine_key e rk ix) e') = set (engine_keys_of ix e') - (if e' = e then {rk} else {})"
  by (auto simp: drop_engine_key_def holds_def index_maps split: option.splits if_splits)

lemma ok_drop_engine_key:
  "index_ok ix \<Longrightarrow> \<not> hasEngine (holders_of ix rk) e \<Longrightarrow> index_ok (drop_engine_key e rk ix)"
  unfolding index_ok_def by (auto simp: hasEngine_iff holds_def split: if_splits)

lemma holds_without:
  "holds (ix\<lparr>ix_byRequestKey := AList.update rk (AList.delete r (holders_of ix rk)) (ix_byRequestKey ix)\<rparr>) = holds ix - {(r, rk)}"
  "AList.delete r (holders_of ix rk) = [] \<Longrightarrow>
   holds (ix\<lparr>ix_byRequestKey := AList.delete rk (ix_byRequestKey ix)\<rparr>) = holds ix - {(r, rk)}"
proof -
  show "holds (ix\<lparr>ix_byRequestKey := AList.update rk (AList.delete r (holders_of ix rk)) (ix_byRequestKey ix)\<rparr>) = holds ix - {(r, rk)}"
    by (auto simp: holds_def index_maps split: if_splits)
  assume "AList.delete r (holders_of ix rk) = []"
  then have "fst ` set (holders_of ix rk) - {r} = {}" by (metis keys_delete image_empty set_empty)
  then show "holds (ix\<lparr>ix_byRequestKey := AList.delete rk (ix_byRequestKey ix)\<rparr>) = holds ix - {(r, rk)}"
    by (auto simp: holds_def index_maps split: if_splits)
qed

lemma ok_subset:
  "index_ok ix \<Longrightarrow> holds ix' \<subseteq> holds ix \<Longrightarrow> (\<And>e. engine_keys_of ix' e = engine_keys_of ix e) \<Longrightarrow> index_ok ix'"
  by (auto simp: index_ok_def)

text \<open>One engine key: the resident no longer holds the block the bridge resolves it to.\<close>

lemma remove_key:
  assumes "LookupBridge ix (rs_engine r) ek = Some rk"
  shows "holds (remove_key r ix ek) = holds ix - {(r, rk)}"
    and "index_ok ix \<Longrightarrow> index_ok (remove_key r ix ek)"
proof -
  let ?e = "rs_engine r" and ?hs = "AList.delete r (holders_of ix rk)"
  define ix1 where "ix1 = (case map_of (ix_byRequestKey ix) rk of None \<Rightarrow> ix
     | Some hs \<Rightarrow> (let hs' = AList.delete r hs in
        if hs' = [] then ix\<lparr>ix_byRequestKey := AList.delete rk (ix_byRequestKey ix), ix_bridge := AList.delete (?e, ek) (ix_bridge ix)\<rparr>
        else let ix' = ix\<lparr>ix_byRequestKey := AList.update rk hs' (ix_byRequestKey ix)\<rparr> in
          if hasEngine hs' ?e then ix'
          else drop_engine_key ?e rk (ix'\<lparr>ix_bridge := AList.delete (?e, ek) (ix_bridge ix')\<rparr>)))"
  have step: "remove_key r ix ek = (if hasEngine (holders_of ix1 rk) ?e then ix1 else drop_engine_key ?e rk ix1)"
    using assms by (simp add: remove_key_def ix1_def Let_def)
  have holds1: "holds ix1 = holds ix - {(r, rk)}"
  proof (cases "map_of (ix_byRequestKey ix) rk")
    case None
    then have "holders_of ix rk = []" by (simp add: holders_of_def)
    then have "(r, rk) \<notin> holds ix" by (simp add: holds_def)
    with None show ?thesis by (simp add: ix1_def)
  next
    case (Some hs)
    then have hs: "holders_of ix rk = hs" by (simp add: holders_of_def)
    show ?thesis using Some holds_without [where ix = ix and rk = rk and r = r] unfolding hs by (simp add: ix1_def Let_def)
  qed
  then show "holds (remove_key r ix ek) = holds ix - {(r, rk)}" by (simp add: step)
  assume ok: "index_ok ix"
  have "index_ok ix1"
  proof (cases "map_of (ix_byRequestKey ix) rk")
    case None
    with ok show ?thesis by (simp add: ix1_def)
  next
    case (Some hs)
    then have hs: "holders_of ix rk = hs" by (simp add: holders_of_def)
    have less: "index_ok (ix\<lparr>ix_byRequestKey := AList.update rk ?hs (ix_byRequestKey ix)\<rparr>)"
      using ok by (rule ok_subset) (simp_all only: holds_without, auto simp: index_maps)
    have none: "?hs = [] \<Longrightarrow> index_ok (ix\<lparr>ix_byRequestKey := AList.delete rk (ix_byRequestKey ix)\<rparr>)"
      using ok by (rule ok_subset) (simp_all only: holds_without, auto simp: index_maps)
    show ?thesis
    proof (cases "?hs = []")
      case True
      with Some none hs show ?thesis by (simp add: ix1_def Let_def)
    next
      case False
      show ?thesis
      proof (cases "hasEngine ?hs ?e")
        case True
        with False Some less hs show ?thesis by (simp add: ix1_def Let_def)
      next
        case without: False
        have "index_ok (drop_engine_key ?e rk (ix\<lparr>ix_byRequestKey := AList.update rk ?hs (ix_byRequestKey ix),
            ix_bridge := AList.delete (?e, ek) (ix_bridge ix)\<rparr>))"
          using less without by (intro ok_drop_engine_key) (simp_all add: index_maps)
        with False Some without hs show ?thesis by (simp add: ix1_def Let_def)
      qed
    qed
  qed
  then show "index_ok (remove_key r ix ek)" unfolding step by (simp add: ok_drop_engine_key)
qed

lemma remove_unknown: "LookupBridge ix (rs_engine r) ek = None \<Longrightarrow> remove_key r ix ek = ix"
  by (simp add: remove_key_def)

lemma remove_event:
  "holds (RemoveEvent r eks ix) \<subseteq> holds ix" "holds ix - {r} \<times> UNIV \<subseteq> holds (RemoveEvent r eks ix)"
  "index_ok ix \<Longrightarrow> index_ok (RemoveEvent r eks ix)"
proof -
  have "holds (foldl (remove_key r) ix eks) \<subseteq> holds ix \<and> holds ix - {r} \<times> UNIV \<subseteq> holds (foldl (remove_key r) ix eks)
      \<and> (index_ok ix \<longrightarrow> index_ok (foldl (remove_key r) ix eks))" for ix
  proof (induction eks arbitrary: ix)
    case (Cons ek eks)
    show ?case
    proof (cases "LookupBridge ix (rs_engine r) ek")
      case None
      with Cons.IH [of ix] show ?thesis by (simp add: remove_unknown)
    next
      case (Some rk)
      with Cons.IH [of "remove_key r ix ek"] remove_key [OF Some] show ?thesis by auto
    qed
  qed simp
  then show "holds (RemoveEvent r eks ix) \<subseteq> holds ix" "holds ix - {r} \<times> UNIV \<subseteq> holds (RemoveEvent r eks ix)"
    "index_ok ix \<Longrightarrow> index_ok (RemoveEvent r eks ix)"
    by (auto simp: RemoveEvent_def)
qed

subsection \<open>Clearing\<close>

lemma clear_key_holds:
  "holds (clear_key e tier ix rk) = {(r, k) \<in> holds ix. k \<noteq> rk \<or> \<not> cleared e tier r}"
proof (cases "map_of (ix_byRequestKey ix) rk")
  case None
  then have "\<And>r. (r, rk) \<notin> holds ix" by (simp add: holds_def holders_of_def)
  with None show ?thesis by (auto simp: clear_key_def)
next
  case (Some hs)
  then have hs: "holders_of ix rk = hs" by (simp add: holders_of_def)
  let ?hs = "filter (\<lambda>h. \<not> cleared e tier (fst h)) hs"
  have "holds (clear_key e tier ix rk) = {(r, k). r \<in> fst ` set (if k = rk then ?hs else holders_of ix k)}"
    using Some by (auto simp: clear_key_def Let_def holds_def index_maps)
  also have "\<dots> = {(r, k) \<in> holds ix. k \<noteq> rk \<or> \<not> cleared e tier r}"
    using hs by (auto simp: holds_def split: if_splits)
  finally show ?thesis .
qed

lemma clear_key_engines [simp]: "ix_byEngine (clear_key e tier ix rk) = ix_byEngine ix"
  by (auto simp: clear_key_def Let_def split: option.splits)

lemma clear_keys:
  "holds (foldl (clear_key e tier) ix ks) = {(r, k) \<in> holds ix. k \<notin> set ks \<or> \<not> cleared e tier r}"
  "ix_byEngine (foldl (clear_key e tier) ix ks) = ix_byEngine ix"
  by (induction ks arbitrary: ix) (auto simp: clear_key_holds)

lemma clear_engine:
  assumes "index_ok ix"
  shows "holds (ClearEngine e tier ix) = {(r, k) \<in> holds ix. \<not> cleared e tier r}"
    and "index_ok (ClearEngine e tier ix)"
proof -
  have listed: "k \<in> set (engine_keys_of ix e)" if "(r, k) \<in> holds ix" "cleared e tier r" for r k
    using index_okD [OF assms that(1)] that(2) by (simp add: cleared_def)
  show holds: "holds (ClearEngine e tier ix) = {(r, k) \<in> holds ix. \<not> cleared e tier r}"
  proof (cases "map_of (ix_byEngine ix) e")
    case None
    then show ?thesis using listed by (auto simp: ClearEngine_def engine_keys_of_def)
  next
    case (Some ks)
    have "holds (ix'\<lparr>ix_bridge := b, ix_byEngine := m\<rparr>) = holds ix'" for ix' b m
      by (simp add: holds_def index_maps)
    with Some listed show ?thesis
      by (auto simp: ClearEngine_def Let_def clear_keys engine_keys_of_def)
  qed
  have keys: "engine_keys_of (ClearEngine e tier ix) e' = engine_keys_of ix e'" if "tier \<noteq> [] \<or> e' \<noteq> e" for e'
    using that by (auto simp: ClearEngine_def Let_def clear_keys engine_keys_of_def delete_conv' split: option.splits)
  show "index_ok (ClearEngine e tier ix)"
    unfolding index_ok_def holds
  proof clarify
    fix r k assume "(r, k) \<in> holds ix" "\<not> cleared e tier r"
    moreover from this have "tier \<noteq> [] \<or> rs_engine r \<noteq> e" by (auto simp: cleared_def)
    ultimately show "k \<in> set (engine_keys_of (ClearEngine e tier ix) (rs_engine r))"
      using keys index_okD [OF assms] by simp
  qed
qed

section \<open>The events\<close>

text \<open>What a stream of events does to the index of a namespace.\<close>

datatype index_event =
    Stored int resident "engine_key list" "request_key list"
  | StoredByKeys int resident "engine_key list"
  | Removed resident "engine_key list"
  | Cleared string string

fun index_step :: "index_event \<Rightarrow> index \<Rightarrow> index" where
  "index_step (Stored ts r eks rks) ix = StoreEvent ts r eks rks ix"
| "index_step (StoredByKeys ts r eks) ix = (case StoreEventByEngineKeys ts r eks ix of None \<Rightarrow> ix | Some (_, ix') \<Rightarrow> ix')"
| "index_step (Removed r eks) ix = RemoveEvent r eks ix"
| "index_step (Cleared e tier) ix = ClearEngine e tier ix"

lemma index_step_ok: "index_ok ix \<Longrightarrow> index_ok (index_step ev ix)"
  by (cases ev) (auto simp: store_event remove_event clear_engine StoreEventByEngineKeys_def ok_store_keys split: option.splits)

lemma index_run_ok: "index_ok ix \<Longrightarrow> index_ok (fold index_step evs ix)"
  by (induction evs arbitrary: ix) (simp_all add: index_step_ok)


end
