(* ===== verification/Residency_Query.thy ===== *)
theory Residency_Query
  imports Residency_Props
begin

text \<open>
  The query of the index finds each engine's longest cached prefix and counts it by tier and by
  rank, and the keys of a prompt do not depend on the pieces it is hashed in.
\<close>

section \<open>The run of an engine\<close>

text \<open>The leading blocks that the engine holds.\<close>

definition cached_run :: "index \<Rightarrow> string \<Rightarrow> request_key list \<Rightarrow> request_key list" where
  "cached_run ix e rks = takeWhile (\<lambda>rk. hasEngine (holders_of ix rk) e) rks"

definition tally :: "index \<Rightarrow> int \<Rightarrow> string \<Rightarrow> request_key list \<Rightarrow> InstanceHit \<Rightarrow> InstanceHit" where
  "tally ix bs e rks ih = foldl (\<lambda>ih rk. add_block bs (holders_of ix rk) e ih) ih rks"

lemma cached_run_Cons [simp]:
  "cached_run ix e (rk # rks) = (if hasEngine (holders_of ix rk) e then rk # cached_run ix e rks else [])"
  by (simp add: cached_run_def)

lemma tally_Cons [simp]: "tally ix bs e (rk # rks) ih = tally ix bs e rks (add_block bs (holders_of ix rk) e ih)"
  by (simp add: tally_def)

lemma instances_with:
  "distinct active \<Longrightarrow> map_of (instances_with bs hs active res) e =
     (if e \<in> set active then Some (add_block bs hs e (nullish (map_of res e) no_instance)) else map_of res e)"
  unfolding instances_with_def
  by (induction active arbitrary: res) (auto simp: update_conv')

lemma query_from:
  "distinct active \<Longrightarrow> map_of (qr_instances (query_from ix bs active res rks)) e =
     (if e \<in> set active \<and> cached_run ix e rks \<noteq> []
      then Some (tally ix bs e (cached_run ix e rks) (nullish (map_of (qr_instances res) e) no_instance))
      else map_of (qr_instances res) e)"
proof (induction rks arbitrary: active res)
  case Nil
  then show ?case by (simp add: cached_run_def)
next
  case (Cons rk rks)
  let ?active = "filter (hasEngine (holders_of ix rk)) active"
  have "distinct ?active" using Cons.prems by simp
  note IH = Cons.IH [OF this] and inst = instances_with [OF this]
  show ?case
  proof (cases "?active = []")
    case True
    then have "\<forall>e \<in> set active. \<not> hasEngine (holders_of ix rk) e" by (simp add: filter_empty_conv)
    with True show ?thesis by (auto simp: Let_def)
  next
    case False
    then show ?thesis by (auto simp: Let_def IH inst cached_run_def tally_def)
  qed
qed

lemma query_instances:
  "map_of (qr_instances (Query ix rks bs)) e =
     (if cached_run ix e rks = [] then None else Some (tally ix bs e (cached_run ix e rks) no_instance))"
proof (cases rks)
  case (Cons rk rks')
  have "e \<in> set (remdups (map (rs_engine \<circ> fst) (holders_of ix rk))) \<longleftrightarrow> hasEngine (holders_of ix rk) e"
    by (auto simp: hasEngine_iff)
  then show ?thesis
    unfolding Query_def Let_def Cons list.case query_from [OF distinct_remdups] by simp
qed (simp add: Query_def Let_def cached_run_def)

subsection \<open>The counts\<close>

definition blocks_in :: "index \<Rightarrow> string \<Rightarrow> string set \<Rightarrow> request_key list \<Rightarrow> nat" where
  "blocks_in ix e tiers rks = length (filter (\<lambda>rk. \<exists>r \<in> fst ` set (holders_of ix rk). rs_engine r = e \<and> rs_tier r \<in> tiers) rks)"

definition copies :: "index \<Rightarrow> string \<Rightarrow> int \<Rightarrow> request_key \<Rightarrow> nat" where
  "copies ix e rank rk = length (filter (\<lambda>h. rs_engine (fst h) = e \<and> rs_dp (fst h) = rank) (holders_of ix rk))"

lemma in_tier_iff: "in_tier hs e tier \<longleftrightarrow> (\<exists>r \<in> fst ` set hs. rs_engine r = e \<and> rs_tier r = tier)"
  by (auto simp: in_tier_def list_ex_iff)

lemma tally_counts:
  "ih_longest (tally ix bs e rks ih) = ih_longest ih + bs * int (length rks)"
  "ih_disk (tally ix bs e rks ih) = ih_disk ih + bs * int (length rks)"
  "ih_gpu (tally ix bs e rks ih) = ih_gpu ih + bs * int (blocks_in ix e {''gpu''} rks)"
  "ih_cpu (tally ix bs e rks ih) = ih_cpu ih + bs * int (blocks_in ix e {''gpu'', ''cpu''} rks)"
proof -
  have tiers: "in_tier hs e ''gpu'' \<or> in_tier hs e ''cpu'' \<longleftrightarrow>
      (\<exists>r \<in> fst ` set hs. rs_engine r = e \<and> (rs_tier r = ''gpu'' \<or> rs_tier r = ''cpu''))" for hs
    by (auto simp: in_tier_iff)
  show "ih_longest (tally ix bs e rks ih) = ih_longest ih + bs * int (length rks)"
    "ih_disk (tally ix bs e rks ih) = ih_disk ih + bs * int (length rks)"
    by (induction rks arbitrary: ih) (simp_all add: tally_def add_block_def algebra_simps)
  show "ih_gpu (tally ix bs e rks ih) = ih_gpu ih + bs * int (blocks_in ix e {''gpu''} rks)"
    by (induction rks arbitrary: ih) (auto simp: tally_def add_block_def blocks_in_def in_tier_iff algebra_simps)
  show "ih_cpu (tally ix bs e rks ih) = ih_cpu ih + bs * int (blocks_in ix e {''gpu'', ''cpu''} rks)"
    by (induction rks arbitrary: ih) (auto simp: tally_def add_block_def blocks_in_def tiers algebra_simps)
qed

lemma add_dps:
  "nullish (map_of (foldl (add_dp bs) dp ranks) rank) 0 = nullish (map_of dp rank) 0 + bs * int (count_list ranks rank)"
  by (induction ranks arbitrary: dp) (simp_all add: add_dp_def algebra_simps)

lemma copies_count: "count_list (map (rs_dp \<circ> fst) (filter (\<lambda>h. rs_engine (fst h) = e) hs)) rank =
    length (filter (\<lambda>h. rs_engine (fst h) = e \<and> rs_dp (fst h) = rank) hs)"
  by (induction hs) auto

lemma tally_dp:
  "nullish (map_of (ih_dp (tally ix bs e rks ih)) rank) 0
     = nullish (map_of (ih_dp ih) rank) 0 + bs * int (\<Sum>rk\<leftarrow>rks. copies ix e rank rk)"
  by (induction rks arbitrary: ih)
    (simp_all add: tally_def add_block_def add_dps copies_count copies_def algebra_simps)

lemma length_filter_mono: "(\<And>x. P x \<Longrightarrow> Q x) \<Longrightarrow> length (filter P xs) \<le> length (filter Q xs)"
  by (induction xs) (auto simp: le_SucI)

text \<open>
  C11: the query finds the longest cached prefix.  An engine is in the result just when it holds
  the first block, and the length it is given is the one of the leading run of blocks it holds:
  every block of it is held and the next one is not.  Of the run, the device tier counts the
  blocks on the device, the host tier those on the device or the host, the last tier all, so
  that the three grow; a rank counts a block once for every tier it holds it in.
\<close>

theorem query_longest_prefix:
  fixes e :: string
  shows "(map_of (qr_instances (Query ix rks bs)) e = None \<longleftrightarrow> (\<forall>rk \<in> set (take 1 rks). \<not> hasEngine (holders_of ix rk) e))
    \<and> (\<forall>ih. map_of (qr_instances (Query ix rks bs)) e = Some ih \<longrightarrow> (\<exists>n. 0 < n \<and> n \<le> length rks
         \<and> (\<forall>i < n. hasEngine (holders_of ix (rks ! i)) e)
         \<and> (n < length rks \<longrightarrow> \<not> hasEngine (holders_of ix (rks ! n)) e)
         \<and> ih_longest ih = bs * int n \<and> ih_disk ih = bs * int n
         \<and> ih_gpu ih = bs * int (blocks_in ix e {''gpu''} (take n rks))
         \<and> ih_cpu ih = bs * int (blocks_in ix e {''gpu'', ''cpu''} (take n rks))
         \<and> (0 \<le> bs \<longrightarrow> ih_gpu ih \<le> ih_cpu ih \<and> ih_cpu ih \<le> ih_disk ih)
         \<and> (\<forall>rank. nullish (map_of (ih_dp ih) rank) 0 = bs * int (\<Sum>rk\<leftarrow>take n rks. copies ix e rank rk))))"
proof (intro conjI allI impI)
  show "map_of (qr_instances (Query ix rks bs)) e = None \<longleftrightarrow> (\<forall>rk \<in> set (take 1 rks). \<not> hasEngine (holders_of ix rk) e)"
    by (cases rks) (simp_all add: query_instances cached_run_def)
next
  fix ih assume "map_of (qr_instances (Query ix rks bs)) e = Some ih"
  then have ih: "cached_run ix e rks \<noteq> []" "ih = tally ix bs e (cached_run ix e rks) no_instance"
    by (auto simp: query_instances split: if_splits)
  let ?n = "length (cached_run ix e rks)"
  have run: "cached_run ix e rks = take ?n rks" by (simp add: cached_run_def takeWhile_eq_take [symmetric])
  have le: "?n \<le> length rks" by (simp add: cached_run_def length_takeWhile_le)
  have gpu: "blocks_in ix e {''gpu''} (take ?n rks) \<le> blocks_in ix e {''gpu'', ''cpu''} (take ?n rks)"
    unfolding blocks_in_def by (rule length_filter_mono) auto
  have cpu: "blocks_in ix e {''gpu'', ''cpu''} (take ?n rks) \<le> ?n"
    unfolding blocks_in_def using le length_filter_le [of _ "take ?n rks"] by (simp add: min_absorb2)
  have counts: "ih_gpu ih = bs * int (blocks_in ix e {''gpu''} (take ?n rks))"
    "ih_cpu ih = bs * int (blocks_in ix e {''gpu'', ''cpu''} (take ?n rks))"
    "ih_longest ih = bs * int ?n" "ih_disk ih = bs * int ?n"
    using run by (simp_all add: ih(2) tally_counts no_instance_def)
  have dp: "nullish (map_of (ih_dp ih) rank) 0 = bs * int (\<Sum>rk\<leftarrow>take ?n rks. copies ix e rank rk)" for rank
    using run by (simp add: ih(2) tally_dp no_instance_def)
  have hit: "hasEngine (holders_of ix (rks ! i)) e" if "i < ?n" for i
    using that set_takeWhileD [OF nth_mem] takeWhile_nth unfolding cached_run_def by metis
  have stop: "?n < length rks \<Longrightarrow> \<not> hasEngine (holders_of ix (rks ! ?n)) e"
    unfolding cached_run_def by (rule nth_length_takeWhile)
  have tiers: "ih_gpu ih \<le> ih_cpu ih \<and> ih_cpu ih \<le> ih_disk ih" if "0 \<le> bs"
    unfolding counts using that gpu cpu by (simp add: mult_left_mono)
  show "\<exists>n. 0 < n \<and> n \<le> length rks
         \<and> (\<forall>i < n. hasEngine (holders_of ix (rks ! i)) e)
         \<and> (n < length rks \<longrightarrow> \<not> hasEngine (holders_of ix (rks ! n)) e)
         \<and> ih_longest ih = bs * int n \<and> ih_disk ih = bs * int n
         \<and> ih_gpu ih = bs * int (blocks_in ix e {''gpu''} (take n rks))
         \<and> ih_cpu ih = bs * int (blocks_in ix e {''gpu'', ''cpu''} (take n rks))
         \<and> (0 \<le> bs \<longrightarrow> ih_gpu ih \<le> ih_cpu ih \<and> ih_cpu ih \<le> ih_disk ih)
         \<and> (\<forall>rank. nullish (map_of (ih_dp ih) rank) 0 = bs * int (\<Sum>rk\<leftarrow>take n rks. copies ix e rank rk))"
    using ih(1) le hit stop counts dp tiers by (intro exI [of _ ?n] conjI) auto
qed

text \<open>
  A block on the device and on the host of one engine, and one on the device only: the rank is
  given three blocks of tokens, the prefix has two.
\<close>

definition two_tiers :: index where
  "two_tiers = fold index_step
     [Stored 5 \<lparr>rs_engine = ''vllm-0'', rs_dp = 0, rs_tier = ''gpu''\<rparr> [11, 12] [1, 2],
      StoredByKeys 6 \<lparr>rs_engine = ''vllm-0'', rs_dp = 0, rs_tier = ''cpu''\<rparr> [11],
      Stored 7 \<lparr>rs_engine = ''vllm-1'', rs_dp = 0, rs_tier = ''gpu''\<rparr> [13] [3]] NewIndex"

theorem query_longest_prefix_witness:
  "\<exists>ih. map_of (qr_instances (Query two_tiers [1, 2, 3] 16)) ''vllm-0'' = Some ih
    \<and> (\<exists>n. 0 < n \<and> n \<le> 3 \<and> ih_longest ih = 16 * int n \<and> (\<forall>i < n. hasEngine (holders_of two_tiers ([1, 2, 3] ! i)) ''vllm-0''))
    \<and> ih_longest ih = 32 \<and> nullish (map_of (ih_dp ih) 0) 0 = 48"
proof -
  have "map_of (qr_instances (Query two_tiers [1, 2, 3] 16)) ''vllm-0'' =
      Some \<lparr>ih_longest = 32, ih_gpu = 32, ih_cpu = 32, ih_disk = 32, ih_dp = [(0, 48)]\<rparr>"
    by code_simp
  with query_longest_prefix [where e = "''vllm-0''" and ix = two_tiers and rks = "[1, 2, 3]" and bs = 16]
  show ?thesis by fastforce
qed

end
