(* ===== verification/Best_Hit.thy ===== *)
theory Best_Hit
  imports Admission_Props Residency_Query
begin

text \<open>
  The index and the judgement together: which engine the best hit is, and the bounds of what it
  is credited with.
\<close>

section \<open>Shares as doubles\<close>

lemma ilog2_mono: "a \<le> b \<Longrightarrow> ilog2 a \<le> ilog2 b"
proof (induction b arbitrary: a rule: ilog2.induct)
  case (1 n)
  have pos: "0 \<le> ilog2 m" for m by (induction m rule: ilog2.induct) (subst ilog2.simps, auto)
  show ?case
  proof (cases "a < 2")
    case True
    with pos show ?thesis by (subst (1) ilog2.simps) simp
  next
    case False
    moreover from this 1 have "ilog2 (a div 2) \<le> ilog2 (n div 2)" by (simp add: zdiv_mono1)
    ultimately show ?thesis using 1(2) by (subst (1 2) ilog2.simps) simp
  qed
qed

lemma round_even_bounds:
  assumes "0 < q" "0 \<le> p" "p \<le> q * m"
  shows "0 \<le> round_even p q" "round_even p q \<le> m"
proof -
  have "p div q \<le> m" using zdiv_mono1 [OF assms(3,1)] assms(1) by simp
  moreover have "p mod q = 0" if "p div q = m"
    using assms div_mult_mod_eq [of p q] that by (simp add: mult.commute) (smt (verit) pos_mod_sign)
  moreover have "0 \<le> p div q" using assms by (simp add: pos_imp_zdiv_nonneg_iff)
  ultimately show "round_even p q \<le> m" "0 \<le> round_even p q"
    using assms(1) by (cases "p div q = m"; simp add: round_even_def Let_def)+
qed

lemma frac_exp_le: "p \<le> q * 2 ^ k \<Longrightarrow> 0 < q \<Longrightarrow> k = 0 \<Longrightarrow> frac_exp p q \<le> 0"
  using ilog2_mono [of p q] by (simp add: frac_exp_def Let_def)

text \<open>The nearest double of a share is a share.\<close>

lemma share_to_double:
  assumes "0 \<le> p" "p \<le> q" "0 < q"
  shows "0 \<le> fst (to_double (p, q))" "fst (to_double (p, q)) \<le> snd (to_double (p, q))" "0 < snd (to_double (p, q))"
proof -
  have "frac_exp p q \<le> 0" using assms frac_exp_le [of p q 0] by simp
  then have u: "max (frac_exp \<bar>p\<bar> q - 52) (- 1074) < 0" using assms(1) by simp
  let ?k = "nat (- max (frac_exp \<bar>p\<bar> q - 52) (- 1074))"
  have "p * 2 ^ ?k \<le> q * 2 ^ ?k" using assms(2) by simp
  with round_even_bounds [of q "p * 2 ^ ?k" "2 ^ ?k"] assms
  have "0 \<le> round_even (p * 2 ^ ?k) q" "round_even (p * 2 ^ ?k) q \<le> 2 ^ ?k" by simp_all
  with u assms show "0 \<le> fst (to_double (p, q))" "fst (to_double (p, q)) \<le> snd (to_double (p, q))" "0 < snd (to_double (p, q))"
    by (auto simp: to_double_def Let_def)
qed

text \<open>An integer below \<open>2 ^ 53\<close> is a double.\<close>

lemma int_to_double:
  assumes "0 \<le> n" "n < 2 ^ 53"
  shows "fst (to_double (n, 1)) = n * snd (to_double (n, 1))" "0 < snd (to_double (n, 1))"
proof -
  have "ilog2 n \<le> ilog2 (2 ^ 53 - 1)" using assms(2) by (intro ilog2_mono) simp
  also have "ilog2 (2 ^ 53 - 1) = 52" by (simp add: ilog2.simps)
  finally have "ilog2 n \<le> 52" .
  moreover have "ilog2 1 = 0" by (simp add: ilog2.simps)
  ultimately have "frac_exp \<bar>n\<bar> 1 \<le> 52" using assms(1) by (simp add: frac_exp_def Let_def)
  then have u: "max (frac_exp \<bar>n\<bar> 1 - 52) (- 1074) \<le> 0" by simp
  have one: "round_even x 1 = x" for x by (simp add: round_even_def)
  show "fst (to_double (n, 1)) = n * snd (to_double (n, 1))" "0 < snd (to_double (n, 1))"
    using u assms(1) by (auto simp: to_double_def Let_def one)
qed

section \<open>The best hit\<close>

lemma take_hit_twice [simp]: "take_hit e (take_hit e' h) = take_hit e h"
  by (simp add: take_hit_def)

lemma best_from:
  "if \<forall>e \<in> set es. credit (snd e) \<le> b then best_from b h es = h
   else \<exists>e \<in> set es. best_from b h es = take_hit e h \<and> b < credit (snd e) \<and> (\<forall>e' \<in> set es. credit (snd e') \<le> credit (snd e))"
proof (induction es arbitrary: b h)
  case (Cons e es)
  show ?case
  proof (cases "b < credit (snd e)")
    case True
    with Cons.IH [of "credit (snd e)" "take_hit e h"] show ?thesis
      by (fastforce split: if_splits)
  next
    case False
    with Cons.IH [of b h] show ?thesis by (fastforce split: if_splits)
  qed
qed simp

lemma instances_distinct:
  "distinct (map fst res) \<Longrightarrow> distinct (map fst (instances_with bs hs active res))"
  unfolding instances_with_def by (induction active arbitrary: res) (simp_all add: distinct_update)

lemma query_from_distinct:
  "distinct (map fst (qr_instances res)) \<Longrightarrow> distinct (map fst (qr_instances (query_from ix bs active res rks)))"
  by (induction rks arbitrary: active res) (simp_all add: Let_def instances_distinct)

lemma query_distinct: "distinct (map fst (qr_instances (Query ix rks bs)))"
  unfolding Query_def Let_def by (cases rks) (simp_all add: query_from_distinct del: query_from.simps)

text \<open>What the query says of an engine in its result.\<close>

lemma query_credit:
  assumes "0 \<le> bs" "(e, ih) \<in> set (qr_instances (Query ix rks bs))"
  obtains n where "0 < n" "n \<le> length rks" "\<forall>i < n. hasEngine (holders_of ix (rks ! i)) e"
    "n < length rks \<longrightarrow> \<not> hasEngine (holders_of ix (rks ! n)) e" "ih_longest ih = bs * int n"
    "bs * int n \<le> credit ih" "credit ih \<le> 4 * (bs * int n)"
proof -
  have "map_of (qr_instances (Query ix rks bs)) e = Some ih" using query_distinct assms(2) by simp
  then have run: "cached_run ix e rks \<noteq> []" "ih = tally ix bs e (cached_run ix e rks) no_instance"
    by (auto simp: query_instances split: if_splits)
  let ?run = "cached_run ix e rks"
  have "blocks_in ix e {''gpu''} ?run \<le> blocks_in ix e {''gpu'', ''cpu''} ?run" "blocks_in ix e {''gpu'', ''cpu''} ?run \<le> length ?run"
    unfolding blocks_in_def by (rule length_filter_mono, auto)
  then have "0 \<le> ih_gpu ih" "ih_gpu ih \<le> ih_cpu ih" "ih_cpu ih \<le> ih_disk ih"
    using assms(1) by (simp_all add: run(2) tally_counts no_instance_def mult_left_mono)
  moreover have longest: "ih_longest ih = bs * int (length ?run)" "ih_disk ih = bs * int (length ?run)"
    by (simp_all add: run(2) tally_counts no_instance_def)
  ultimately have "bs * int (length ?run) \<le> credit ih" "credit ih \<le> 4 * (bs * int (length ?run))"
    by (simp_all add: credit_def Let_def)
  moreover have "i < length ?run \<Longrightarrow> hasEngine (holders_of ix (rks ! i)) e" for i
    unfolding cached_run_def using set_takeWhileD [OF nth_mem] takeWhile_nth by metis
  moreover have "length ?run < length rks \<Longrightarrow> \<not> hasEngine (holders_of ix (rks ! length ?run)) e"
    unfolding cached_run_def by (rule nth_length_takeWhile)
  ultimately show thesis using that [of "length ?run"] run(1) longest
    by (simp add: cached_run_def length_takeWhile_le)
qed

lemma hit_ratio_share:
  assumes "0 \<le> hi_effective h" "0 \<le> n" "n < 2 ^ 53" "hi_hit_ratio h = Fin (0, 1)"
  shows "\<exists>x. hi_hit_ratio (with_ratio n h) = Fin x \<and> 0 \<le> fst x \<and> fst x \<le> snd x \<and> 0 < snd x"
proof (cases "0 < n")
  case True
  let ?m = "min (hi_effective h) n"
  obtain p q where p: "to_double (?m, 1) = (p, q)" by fastforce
  obtain r t where r: "to_double (n, 1) = (r, t)" by fastforce
  from int_to_double [of ?m] assms p have m: "p = ?m * q" "0 < q" by simp_all
  from int_to_double [of n] assms r have n: "r = n * t" "0 < t" by simp_all
  have "0 \<le> p * t" using m n assms True by simp
  moreover have "p * t \<le> q * r"
  proof -
    have "?m * (q * t) \<le> n * (q * t)" using m(2) n(2) by (intro mult_right_mono) simp_all
    then show ?thesis using m n by (simp add: algebra_simps)
  qed
  moreover have "0 < q * r" using m n True by simp
  ultimately show ?thesis using True share_to_double [of "p * t" "q * r"] by (simp add: with_ratio_def div_double_def p r)
qed (simp add: with_ratio_def assms)

lemma with_ratio_simps [simp]:
  "hi_instance_id (with_ratio n h) = hi_instance_id h" "hi_effective (with_ratio n h) = hi_effective h"
  "hi_best_hit_tokens (with_ratio n h) = hi_best_hit_tokens h"
  by (simp_all add: with_ratio_def)

text \<open>
  C20: the best hit is the best of the index, in whatever order the engines are visited.  It
  names no engine just when none holds the first block; otherwise it names one with the largest
  credit, whose tokens are its longest cached prefix and whose credit is a quarter of them at
  least (all in the last tier) and all of them at most (all on the device).  The share of the
  request it covers is between nothing and one.
\<close>

theorem best_hit_is_best:
  assumes "0 < bs" "in_override inp = None"
    and "in_query inp = Some es" "mset es = mset (qr_instances (Query ix rks bs))"
    and "0 \<le> in_input_tokens inp" "in_input_tokens inp < 2 ^ 53"
  shows "let h = bestHit inp in
    (es = [] \<longrightarrow> hi_instance_id h = [] \<and> hi_effective h = 0)
    \<and> (es \<noteq> [] \<longrightarrow> (\<exists>n ih. (hi_instance_id h, ih) \<in> set es \<and> 0 < n \<and> n \<le> length rks
         \<and> (\<forall>i < n. hasEngine (holders_of ix (rks ! i)) (hi_instance_id h))
         \<and> (n < length rks \<longrightarrow> \<not> hasEngine (holders_of ix (rks ! n)) (hi_instance_id h))
         \<and> hi_best_hit_tokens h = bs * int n
         \<and> bs * int n div 4 \<le> hi_effective h \<and> hi_effective h \<le> bs * int n
         \<and> hi_effective h = credit ih div 4 \<and> (\<forall>(e', ih') \<in> set es. credit ih' \<le> credit ih)))
    \<and> (\<exists>x. hi_hit_ratio h = Fin x \<and> 0 \<le> fst x \<and> fst x \<le> snd x \<and> 0 < snd x)"
proof -
  let ?n = "in_input_tokens inp"
  have members: "set es = set (qr_instances (Query ix rks bs))" using assms(4) by (metis set_mset_mset)
  define h0 where "h0 = best_from (- 4) (no_hit ?n) es"
  have h: "bestHit inp = with_ratio ?n h0" using assms(2,3) by (simp add: bestHit_def h0_def)
  have nonneg: "0 \<le> credit (snd e)" if "e \<in> set es" for e
  proof -
    obtain f ih where e: "e = (f, ih)" by fastforce
    from that members e have "(f, ih) \<in> set (qr_instances (Query ix rks bs))" by simp
    from query_credit [OF less_imp_le [OF assms(1)] this] obtain n where "bs * int n \<le> credit ih" by metis
    moreover have "0 \<le> bs * int n" using assms(1) by simp
    ultimately show ?thesis using e by (metis order_trans snd_conv)
  qed
  show ?thesis
  proof (cases "es = []")
    case True
    then have "h0 = no_hit ?n" by (simp add: h0_def)
    with True hit_ratio_share [of h0 ?n] assms(5,6) show ?thesis by (simp add: h no_hit_def)
  next
    case False
    with nonneg have "\<not> (\<forall>e \<in> set es. credit (snd e) \<le> - 4)" by (metis last_in_set neg_0_le_iff_le not_numeral_le_zero order_trans)
    with best_from [of es "- 4" "no_hit ?n"] obtain e ih where e: "(e, ih) \<in> set es" "h0 = take_hit (e, ih) (no_hit ?n)"
      "\<forall>e' \<in> set es. credit (snd e') \<le> credit ih" by (auto simp: h0_def)
    from e(1) members have "(e, ih) \<in> set (qr_instances (Query ix rks bs))" by simp
    from query_credit [OF less_imp_le [OF assms(1)] this] obtain n where n: "0 < n" "n \<le> length rks"
      "\<forall>i < n. hasEngine (holders_of ix (rks ! i)) e" "n < length rks \<longrightarrow> \<not> hasEngine (holders_of ix (rks ! n)) e"
      "ih_longest ih = bs * int n" "bs * int n \<le> credit ih" "credit ih \<le> 4 * (bs * int n)" by metis
    have h0: "hi_instance_id h0 = e" "hi_best_hit_tokens h0 = bs * int n" "hi_effective h0 = credit ih div 4" "hi_hit_ratio h0 = Fin (0, 1)"
      using n by (simp_all add: e(2) take_hit_def no_hit_def)
    have credit: "bs * int n div 4 \<le> credit ih div 4" "credit ih div 4 \<le> bs * int n"
      using zdiv_mono1 [OF n(6), of 4] zdiv_mono1 [OF n(7), of 4] by simp_all
    have "0 \<le> hi_effective h0" using nonneg [OF e(1)] by (simp add: h0)
    from hit_ratio_share [OF this assms(5,6) h0(4)] have share:
      "\<exists>x. hi_hit_ratio (bestHit inp) = Fin x \<and> 0 \<le> fst x \<and> fst x \<le> snd x \<and> 0 < snd x" unfolding h .
    have best: "\<forall>(e', ih') \<in> set es. credit ih' \<le> credit ih" using e(3) by auto
    have "\<exists>n' ih'. (e, ih') \<in> set es \<and> 0 < n' \<and> n' \<le> length rks
         \<and> (\<forall>i < n'. hasEngine (holders_of ix (rks ! i)) e)
         \<and> (n' < length rks \<longrightarrow> \<not> hasEngine (holders_of ix (rks ! n')) e)
         \<and> bs * int n = bs * int n' \<and> bs * int n' div 4 \<le> credit ih div 4 \<and> credit ih div 4 \<le> bs * int n'
         \<and> credit ih div 4 = credit ih' div 4 \<and> (\<forall>(e', ih'') \<in> set es. credit ih'' \<le> credit ih')"
      using e(1) n(1-4) credit best by blast
    with False share show ?thesis by (simp add: h h0 Let_def)
  qed
qed

theorem best_hit_is_best_witness:
  "\<exists>ih. (hi_instance_id (bestHit (long_request\<lparr>in_query := Some (qr_instances (Query two_tiers [1, 2, 3] 16))\<rparr>)), ih)
     \<in> set (qr_instances (Query two_tiers [1, 2, 3] 16))"
proof -
  have "in_input_tokens long_request = 400" "in_override long_request = None" by (simp_all add: long_request_def)
  moreover have "qr_instances (Query two_tiers [1, 2, 3] 16) \<noteq> []" by code_simp
  ultimately show ?thesis
    using best_hit_is_best [of 16 "long_request\<lparr>in_query := Some (qr_instances (Query two_tiers [1, 2, 3] 16))\<rparr>"
      "qr_instances (Query two_tiers [1, 2, 3] 16)" two_tiers "[1, 2, 3]"]
    unfolding Let_def by auto
qed

end
