(* ===== verification/Decode.thy ===== *)
theory Decode
  imports Go_Value Residency
begin

text \<open>
  The decoding of an event batch, \<open>internal/kvevents/decode.go\<close>: from the dynamic values the
  MessagePack library makes of a payload to the events the listener applies.  The values carry
  the type they were decoded to, for the conversion of a number depends on it; a value of any
  further type (a map, an instant) is its text.
\<close>

section \<open>Dynamic values\<close>

datatype mp = MNil | MBool bool | MStr string | MBytes "8 word list" | MFloat f64
  | MInt8 "8 word" | MUint8 "8 word" | MInt16 "16 word" | MUint16 "16 word" | MInt32 "32 word" | MUint32 "32 word"
  | MInt64 "64 word" | MUint64 "64 word" | MInt "64 word" | MArr "mp list" | MRest string

fun toUint64 :: "mp \<Rightarrow> 64 word option" where
  "toUint64 (MUint64 x) = Some x"
| "toUint64 (MInt64 x) = Some x"
| "toUint64 (MInt8 x) = Some (ucast x)"
| "toUint64 (MUint8 x) = Some (ucast x)"
| "toUint64 (MInt16 x) = Some (ucast x)"
| "toUint64 (MUint16 x) = Some (ucast x)"
| "toUint64 (MInt32 x) = Some (ucast x)"
| "toUint64 (MUint32 x) = Some (ucast x)"
| "toUint64 (MInt x) = Some x"
| "toUint64 (MBytes bs) = Some (foldl (\<lambda>out b. push_bit 8 out OR ucast b) 0 (drop (length bs - 8) bs))"
| "toUint64 _ = None"

definition toInt :: "mp \<Rightarrow> int option" where
  "toInt v = map_option sint (toUint64 v)"

fun is_array :: "mp \<Rightarrow> bool" where
  "is_array (MArr _) \<longleftrightarrow> True"
| "is_array _ \<longleftrightarrow> False"

fun array_of :: "mp \<Rightarrow> mp list option" where
  "array_of (MArr vs) = Some vs"
| "array_of _ = None"

fun string_of :: "mp \<Rightarrow> string option" where
  "string_of (MStr s) = Some s"
| "string_of _ = None"

definition toInt32SliceInfo :: "mp \<Rightarrow> 32 word list \<times> bool" where
  "toInt32SliceInfo v = (case array_of v of
     None \<Rightarrow> ([], False)
   | Some arr \<Rightarrow> (map word_of_int (List.map_filter toInt arr), list_ex (\<lambda>e. toInt e = None \<and> is_array e) arr))"

definition toUint64Slice :: "mp \<Rightarrow> 64 word list" where
  "toUint64Slice v = (case array_of v of None \<Rightarrow> [] | Some arr \<Rightarrow> List.map_filter toUint64 arr)"

definition fieldAt :: "mp list \<Rightarrow> nat \<Rightarrow> mp" where
  "fieldAt fs i = (if length fs \<le> i then MNil else fs ! i)"

definition go_int_text :: "int \<Rightarrow> string" where
  "go_int_text i = (if i < 0 then ''-'' else []) @ digits (nat \<bar>i\<bar>)"

text \<open>The text \<open>fmt.Sprint\<close> gives of a value.\<close>

fun sprint_mp :: "mp \<Rightarrow> string" where
  "sprint_mp MNil = ''<nil>''"
| "sprint_mp (MBool b) = (if b then ''true'' else ''false'')"
| "sprint_mp (MStr s) = s"
| "sprint_mp (MBytes bs) = ''['' @ join '' '' (map (\<lambda>b. digits (unat b)) bs) @ '']''"
| "sprint_mp (MFloat x) = Sprint_f64 x"
| "sprint_mp (MInt8 x) = go_int_text (sint x)"
| "sprint_mp (MUint8 x) = digits (unat x)"
| "sprint_mp (MInt16 x) = go_int_text (sint x)"
| "sprint_mp (MUint16 x) = digits (unat x)"
| "sprint_mp (MInt32 x) = go_int_text (sint x)"
| "sprint_mp (MUint32 x) = digits (unat x)"
| "sprint_mp (MInt64 x) = go_int_text (sint x)"
| "sprint_mp (MUint64 x) = digits (unat x)"
| "sprint_mp (MInt x) = go_int_text (sint x)"
| "sprint_mp (MArr vs) = ''['' @ join '' '' (map sprint_mp vs) @ '']''"
| "sprint_mp (MRest s) = s"

section \<open>Events\<close>

datatype kv_kind = BlockStored | BlockRemoved | AllBlocksCleared

text \<open>A pair of a value and its \<open>Has\<close> field is an option.\<close>

record stream_event =
  ke_kind :: kv_kind
  ke_hashes :: "engine_key list"
  ke_parent :: "engine_key option"
  ke_tokens :: "32 word list"
  ke_nested :: bool
  ke_block_size :: int
  ke_medium :: string
  ke_lora :: "int option"
  ke_lora_name :: string
  ke_extra_keys :: "string list"
  ke_extra_count :: nat
  ke_group :: int
  ke_spec :: string
  ke_window :: "int option"
  ke_extra :: bool

record kv_batch =
  bt_seq :: "64 word"
  bt_ts :: f64
  bt_dp :: int
  bt_events :: "stream_event list"

definition zero_event :: "kv_kind \<Rightarrow> stream_event" where
  "zero_event k = \<lparr>ke_kind = k, ke_hashes = [], ke_parent = None, ke_tokens = [], ke_nested = False, ke_block_size = 0,
     ke_medium = [], ke_lora = None, ke_lora_name = [], ke_extra_keys = [], ke_extra_count = 0, ke_group = 0,
     ke_spec = [], ke_window = None, ke_extra = False\<rparr>"

definition event_kind_text :: "kv_kind \<Rightarrow> string" where
  "event_kind_text k = (case k of BlockStored \<Rightarrow> ''BlockStored'' | BlockRemoved \<Rightarrow> ''BlockRemoved''
     | AllBlocksCleared \<Rightarrow> ''AllBlocksCleared'')"

definition event_kind :: "string \<Rightarrow> kv_kind option" where
  "event_kind tag =
     (if tag = ''BlockStored'' then Some BlockStored else if tag = ''BlockRemoved'' then Some BlockRemoved
      else if tag = ''AllBlocksCleared'' then Some AllBlocksCleared else None)"

definition hasNonNilExtraKeys :: "mp \<Rightarrow> bool" where
  "hasNonNilExtraKeys v = (case array_of v of None \<Rightarrow> False | Some arr \<Rightarrow> list_ex (\<lambda>e. e \<noteq> MNil) arr)"

definition extraKeyStrings :: "mp \<Rightarrow> string list \<times> nat" where
  "extraKeyStrings v = (case array_of v of
     None \<Rightarrow> ([], 0)
   | Some arr \<Rightarrow> (let there = filter (\<lambda>e. e \<noteq> MNil) arr in (map sprint_mp (take 16 there), length there)))"

text \<open>What the code takes from a field, or the zero of its type.\<close>

abbreviation int_at :: "mp list \<Rightarrow> nat \<Rightarrow> int" where
  "int_at fs i \<equiv> nullish (toInt (fieldAt fs i)) 0"

abbreviation text_at :: "mp list \<Rightarrow> nat \<Rightarrow> string" where
  "text_at fs i \<equiv> nullish (string_of (fieldAt fs i)) []"

definition decodeEvent :: "kv_kind option \<Rightarrow> mp list \<Rightarrow> stream_event option" where
  "decodeEvent kind fs = (case kind of
     None \<Rightarrow> None
   | Some BlockStored \<Rightarrow>
       if length fs < 5 then None
       else Some \<lparr>ke_kind = BlockStored, ke_hashes = toUint64Slice (fieldAt fs 1), ke_parent = toUint64 (fieldAt fs 2),
         ke_tokens = fst (toInt32SliceInfo (fieldAt fs 3)), ke_nested = snd (toInt32SliceInfo (fieldAt fs 3)),
         ke_block_size = int_at fs 4, ke_medium = text_at fs 6, ke_lora = toInt (fieldAt fs 5),
         ke_lora_name = text_at fs 7, ke_extra_keys = fst (extraKeyStrings (fieldAt fs 8)),
         ke_extra_count = snd (extraKeyStrings (fieldAt fs 8)), ke_group = int_at fs 9, ke_spec = text_at fs 10,
         ke_window = toInt (fieldAt fs 11), ke_extra = hasNonNilExtraKeys (fieldAt fs 8)\<rparr>
   | Some BlockRemoved \<Rightarrow>
       if length fs < 2 then None
       else Some ((zero_event BlockRemoved)\<lparr>ke_hashes := toUint64Slice (fieldAt fs 1), ke_medium := text_at fs 2,
         ke_group := int_at fs 3\<rparr>)
   | Some AllBlocksCleared \<Rightarrow> Some (zero_event AllBlocksCleared))"

definition decode_raw :: "mp \<Rightarrow> stream_event option" where
  "decode_raw re = (case array_of re of
     None \<Rightarrow> None | Some [] \<Rightarrow> None
   | Some (tag # rest) \<Rightarrow> decodeEvent (event_kind (nullish (string_of tag) [])) (tag # rest))"

definition DecodeBatch :: "64 word \<Rightarrow> mp list \<Rightarrow> string + kv_batch" where
  "DecodeBatch sn payload =
     (if length payload < 2 then Inl (''batch payload too short: '' @ digits (length payload))
      else let ts = (case hd payload of MFloat x \<Rightarrow> x | _ \<Rightarrow> Fin (0, 1)) in
        case array_of (payload ! 1) of
          None \<Rightarrow> Inl ''batch events not an array''
        | Some raws \<Rightarrow> Inr \<lparr>bt_seq = sn, bt_ts = ts, bt_dp = int_at payload 2, bt_events = List.map_filter decode_raw raws\<rparr>)"

end
