(* ===== verification/Ingest.thy ===== *)
theory Ingest
  imports Decode Residency_Query
begin

text \<open>
  How a listener applies the events of an engine to the index, \<open>internal/kvevents/listener.go\<close>,
  from the decoded event on: which stores are skipped and why, how the keys of a store chain
  from its parent, and that a prompt the engine announces piece by piece is found as a whole.
\<close>

section \<open>What the sink is told\<close>

text \<open>
  The record of an event for the sink: who it is from, what was decoded, and what became of it.
  Numbers of 64 bits are written out as texts.  A listener applies a batch at one instant,
  and has a sink, as the service gives it one.
\<close>

record kv_record =
  kr_observed_at :: int
  kr_engine :: string
  kr_model :: string
  kr_namespace :: string
  kr_seq :: string
  kr_batch_ts :: f64
  kr_dp_rank :: int
  kr_kind :: string
  kr_hashes :: "string list"
  kr_parent :: string
  kr_tokens :: "32 word list"
  kr_nested :: bool
  kr_block_size :: int
  kr_medium :: string
  kr_tier :: string
  kr_lora :: "int option"
  kr_lora_name :: string
  kr_extra_keys :: "string list"
  kr_extra_count :: nat
  kr_group :: int
  kr_spec :: string
  kr_window :: int
  kr_keys :: "string list"
  kr_indexed :: bool
  kr_reason :: string

record ingest_state =
  is_index :: index
  is_skipped :: int
  is_log :: "kv_record list"
  is_events :: int
  is_last_event :: int

text \<open>What the application of a batch knows: the instant, the listener's engine and model, and the batch.\<close>

record ingest_ctx =
  ix_now :: int
  ix_engine :: string
  ix_model :: string
  ix_batch :: kv_batch

abbreviation uint_text :: "64 word \<Rightarrow> string" where
  "uint_text x \<equiv> digits (unat x)"

definition kv_record_of ::
  "ingest_ctx \<Rightarrow> stream_event \<Rightarrow> string \<Rightarrow> string \<Rightarrow> request_key list \<Rightarrow> bool \<Rightarrow> string \<Rightarrow> kv_record" where
  "kv_record_of cx ev ns tier ks indexed reason =
     \<lparr>kr_observed_at = ix_now cx, kr_engine = ix_engine cx, kr_model = ix_model cx, kr_namespace = ns,
      kr_seq = uint_text (bt_seq (ix_batch cx)), kr_batch_ts = bt_ts (ix_batch cx), kr_dp_rank = bt_dp (ix_batch cx),
      kr_kind = event_kind_text (ke_kind ev), kr_hashes = map uint_text (ke_hashes ev),
      kr_parent = (case ke_parent ev of Some h \<Rightarrow> uint_text h | None \<Rightarrow> []), kr_tokens = ke_tokens ev,
      kr_nested = ke_nested ev, kr_block_size = ke_block_size ev, kr_medium = ke_medium ev, kr_tier = tier,
      kr_lora = ke_lora ev, kr_lora_name = ke_lora_name ev, kr_extra_keys = ke_extra_keys ev,
      kr_extra_count = ke_extra_count ev, kr_group = ke_group ev, kr_spec = ke_spec ev,
      kr_window = nullish (ke_window ev) 0, kr_keys = map uint_text ks, kr_indexed = indexed, kr_reason = reason\<rparr>"

definition ingestableSpecKind :: "string \<Rightarrow> bool" where
  "ingestableSpecKind k \<longleftrightarrow> lower k \<notin> {''mamba'', ''mamba2'', ''linear_attention'', ''short_conv''}"

definition mediumToTier :: "string \<Rightarrow> string" where
  "mediumToTier m =
     (if upper m \<in> {'''', ''GPU''} then ''gpu''
      else if upper m \<in> {''CPU'', ''CPU_PINNED''} then ''cpu''
      else if upper m \<in> {''DISK'', ''EXTERNAL''} then ''disk''
      else lower m)"

definition hasUnsupportedFeatureKeys :: "stream_event \<Rightarrow> bool" where
  "hasUnsupportedFeatureKeys ev \<longleftrightarrow> ke_extra ev \<or> ke_lora ev \<noteq> None \<or> ke_lora_name ev \<noteq> []"

definition requestKeysForEvent :: "index \<Rightarrow> string \<Rightarrow> 64 word \<Rightarrow> int \<Rightarrow> stream_event \<Rightarrow> request_key list option" where
  "requestKeysForEvent ix engine seed bs ev =
     (case ke_parent ev of
        None \<Rightarrow> Some (RequestKeysFromTokens seed (ke_tokens ev) bs)
      | Some h \<Rightarrow> map_option (\<lambda>rk. RequestKeysFromTokens rk (ke_tokens ev) bs) (LookupBridge ix engine h))"

definition recorded ::
  "ingest_ctx \<Rightarrow> stream_event \<Rightarrow> string \<Rightarrow> string \<Rightarrow> request_key list \<Rightarrow> bool \<Rightarrow> string \<Rightarrow> ingest_state \<Rightarrow> ingest_state" where
  "recorded cx ev ns tier ks indexed reason st = st\<lparr>is_log := is_log st @ [kv_record_of cx ev ns tier ks indexed reason]\<rparr>"

definition skipped :: "ingest_ctx \<Rightarrow> stream_event \<Rightarrow> string \<Rightarrow> string \<Rightarrow> string \<Rightarrow> ingest_state \<Rightarrow> ingest_state" where
  "skipped cx ev ns tier reason st = recorded cx ev ns tier [] False reason (st\<lparr>is_skipped := is_skipped st + 1\<rparr>)"

text \<open>One event, with the namespace, its seed and the profile's block size.\<close>

definition ingest_event ::
  "ingest_ctx \<Rightarrow> string \<Rightarrow> 64 word \<Rightarrow> int \<Rightarrow> ingest_state \<Rightarrow> stream_event \<Rightarrow> ingest_state" where
  "ingest_event cx ns seed blockSize st ev =
     (let ix = is_index st; tier = mediumToTier (ke_medium ev); engine = ix_engine cx;
          r = \<lparr>rs_engine = engine, rs_dp = bt_dp (ix_batch cx), rs_tier = tier\<rparr> in
      case ke_kind ev of
        BlockStored \<Rightarrow>
          if \<not> ingestableSpecKind (ke_spec ev) then recorded cx ev ns [] [] False ''non_ingestable_spec_kind'' st
          else if ke_nested ev then recorded cx ev ns [] [] False ''unsupported_nested_token_ids'' st
          else if hasUnsupportedFeatureKeys ev then recorded cx ev ns [] [] False ''unsupported_hash_extra_keys'' st
          else if ke_tokens ev = [] \<and> ke_hashes ev \<noteq> [] then
            (case StoreEventByEngineKeys (ix_now cx) r (ke_hashes ev) ix of
               None \<Rightarrow> skipped cx ev ns tier ''unresolved_engine_key'' st
             | Some (ks, ix') \<Rightarrow> recorded cx ev ns tier ks True [] (st\<lparr>is_index := ix'\<rparr>))
          else (let bs = (if ke_block_size ev \<le> 0 then blockSize else ke_block_size ev) in
            case requestKeysForEvent ix engine seed bs ev of
              None \<Rightarrow> skipped cx ev ns tier ''unresolved_parent'' st
            | Some ks \<Rightarrow> if ks = [] then skipped cx ev ns tier ''no_full_token_block'' st
                else recorded cx ev ns tier ks True [] (st\<lparr>is_index := StoreEvent (ix_now cx) r (ke_hashes ev) ks ix\<rparr>))
      | BlockRemoved \<Rightarrow> recorded cx ev ns tier [] True [] (st\<lparr>is_index := RemoveEvent r (ke_hashes ev) ix\<rparr>)
      | AllBlocksCleared \<Rightarrow> recorded cx ev ns [] [] True [] (st\<lparr>is_index := ClearEngine engine [] ix\<rparr>))"

text \<open>A batch; the profile of the model gives the namespace, the seed and the block size, or there is none.\<close>

definition ingest :: "ingest_ctx \<Rightarrow> (string \<times> 64 word \<times> int) option \<Rightarrow> ingest_state \<Rightarrow> ingest_state" where
  "ingest cx resolved st =
     (let evs = bt_events (ix_batch cx); st' = (case resolved of
        None \<Rightarrow> foldl (\<lambda>st ev. recorded cx ev [] [] [] False ''no_resolver'' st) st evs
      | Some (ns, seed, blockSize) \<Rightarrow> foldl (ingest_event cx ns seed blockSize) st evs)
      in st'\<lparr>is_events := is_events st' + int (length evs), is_last_event := ix_now cx\<rparr>)"

section \<open>Keys in pieces\<close>

lemma chain_append: "chain p (cs @ ds) = chain p cs @ chain (last (p # chain p cs)) ds"
  by (induction cs arbitrary: p) (simp_all add: Let_def)

lemma length_chain [simp]: "length (chain p cs) = length cs"
  by (induction cs arbitrary: p) (simp_all add: Let_def)

lemma chunks_append:
  assumes "0 < bs" "length ts = nat bs * k"
  shows "ChunkTokens (ts @ us) bs = ChunkTokens ts bs @ ChunkTokens us bs"
proof -
  let ?n = "nat bs" and ?f = "\<lambda>xs i. take (nat bs) (drop (i * nat bs) xs)"
  have n: "0 < ?n" using assms(1) by simp
  have div: "length (ts @ us) div ?n = k + length us div ?n" "length ts div ?n = k"
    using n assms(2) by simp_all
  have first: "?f (ts @ us) i = ?f ts i" if "i < k" for i
  proof -
    have "i * ?n + ?n \<le> length ts" unfolding assms(2) using that
      by (metis Suc_leI add.commute mult.commute mult_Suc mult_le_mono1)
    then show ?thesis by simp
  qed
  have rest: "?f (ts @ us) (k + i) = ?f us i" for i
    using assms(2) by (simp add: algebra_simps)
  have "map (?f (ts @ us)) [0..<k + length us div ?n]
      = map (?f (ts @ us)) [0..<k] @ map (\<lambda>i. ?f (ts @ us) (k + i)) [0..<length us div ?n]"
    by (rule nth_equalityI) (auto simp: nth_append)
  also have "\<dots> = map (?f ts) [0..<k] @ map (?f us) [0..<length us div ?n]"
    using first by (simp add: rest del: take_append drop_append)
  finally show ?thesis
    unfolding ChunkTokens_def Let_def div using assms(1) by (simp del: take_append drop_append)
qed

lemma keys_append:
  assumes "0 < bs" "length ts = nat bs * k"
  shows "RequestKeysFromTokens seed (ts @ us) bs = RequestKeysFromTokens seed ts bs
    @ RequestKeysFromTokens (last (seed # RequestKeysFromTokens seed ts bs)) us bs"
  unfolding RequestKeysFromTokens_def chunks_append [OF assms] by (rule chain_append)

lemma length_keys: "0 < bs \<Longrightarrow> length (RequestKeysFromTokens seed ts bs) = length ts div nat bs"
  by (simp add: RequestKeysFromTokens_def ChunkTokens_def Let_def)

section \<open>A prompt in pieces\<close>

lemma bridge_last:
  assumes "eks \<noteq> []" "rks \<noteq> []"
  shows "LookupBridge (StoreEvent ts r eks rks ix) (rs_engine r) (last eks) = Some (last rks)"
proof -
  let ?ps = "tail_pairs eks rks"
  let ?es = "drop (length eks - min (length eks) (length rks)) eks" and ?rs = "drop (length rks - min (length eks) (length rks)) rks"
  from assms have last: "?es \<noteq> []" "last ?es = last eks" "?rs \<noteq> []" "last ?rs = last rks" "length ?es = length ?rs"
    by (simp_all add: Suc_le_eq not_le)
  then have ps: "?ps \<noteq> []" "last ?ps = (last eks, last rks)"
    by (simp_all add: tail_pairs_def Let_def last_conv_nth [of "zip _ _"] del: length_drop last_drop) (simp_all add: last_conv_nth)
  have "map_of (foldl (\<lambda>b (ek, rk). AList.update (rs_engine r, ek) rk b) b (qs @ [(last eks, last rks)])) (rs_engine r, last eks)
      = Some (last rks)" for b qs
    by (simp add: update_conv')
  with ps append_butlast_last_id [OF ps(1)] have
    "map_of (foldl (\<lambda>b (ek, rk). AList.update (rs_engine r, ek) rk b) b ?ps) (rs_engine r, last eks) = Some (last rks)" for b
    by metis
  with assms(2) show ?thesis by (simp add: LookupBridge_def StoreEvent_def Let_def)
qed

text \<open>A prompt announced piece by piece: each piece has whole blocks and names the last hash before it.\<close>

fun announces :: "int \<Rightarrow> engine_key option \<Rightarrow> stream_event list \<Rightarrow> bool" where
  "announces bs p [] \<longleftrightarrow> True"
| "announces bs p (ev # evs) \<longleftrightarrow> ke_kind ev = BlockStored \<and> ke_parent ev = p
     \<and> ingestableSpecKind (ke_spec ev) \<and> \<not> ke_nested ev \<and> \<not> hasUnsupportedFeatureKeys ev
     \<and> (ke_block_size ev \<le> 0 \<or> ke_block_size ev = bs)
     \<and> ke_hashes ev \<noteq> [] \<and> ke_tokens ev \<noteq> [] \<and> length (ke_tokens ev) mod nat bs = 0
     \<and> announces bs (Some (last (ke_hashes ev))) evs"

lemma announced_event:
  assumes "0 < bs" "announces bs p (ev # evs)"
    and "case p of None \<Rightarrow> parent = seed | Some h \<Rightarrow> LookupBridge (is_index st) (ix_engine cx) h = Some parent"
  defines "ks \<equiv> RequestKeysFromTokens parent (ke_tokens ev) bs"
    and "r \<equiv> \<lparr>rs_engine = ix_engine cx, rs_dp = bt_dp (ix_batch cx), rs_tier = mediumToTier (ke_medium ev)\<rparr>"
  shows "ks \<noteq> []" "ingest_event cx ns seed bs st ev
    = recorded cx ev ns (mediumToTier (ke_medium ev)) ks True [] (st\<lparr>is_index := StoreEvent (ix_now cx) r (ke_hashes ev) ks (is_index st)\<rparr>)"
proof -
  from assms(2) have "nat bs \<le> length (ke_tokens ev)" by (auto intro!: dvd_imp_le simp: dvd_eq_mod_eq_0)
  then have "0 < length ks" using assms(1) by (simp add: ks_def length_keys div_greater_zero_iff)
  then show "ks \<noteq> []" by simp
  moreover have "requestKeysForEvent (is_index st) (ix_engine cx) seed bs ev = Some ks"
    using assms(2,3) by (auto simp: requestKeysForEvent_def ks_def split: option.splits)
  ultimately show "ingest_event cx ns seed bs st ev
      = recorded cx ev ns (mediumToTier (ke_medium ev)) ks True [] (st\<lparr>is_index := StoreEvent (ix_now cx) r (ke_hashes ev) ks (is_index st)\<rparr>)"
    using assms(1,2) by (auto simp: ingest_event_def Let_def r_def)
qed

lemma announced_pieces:
  "0 < bs \<Longrightarrow> announces bs p evs \<Longrightarrow>
   (case p of None \<Rightarrow> parent = seed | Some h \<Rightarrow> LookupBridge (is_index st) (ix_engine cx) h = Some parent) \<Longrightarrow>
   let st' = foldl (ingest_event cx ns seed bs) st evs in
     holds (is_index st) \<subseteq> holds (is_index st')
     \<and> (\<forall>rk \<in> set (RequestKeysFromTokens parent (concat (map ke_tokens evs)) bs).
          \<exists>tier. (\<lparr>rs_engine = ix_engine cx, rs_dp = bt_dp (ix_batch cx), rs_tier = tier\<rparr>, rk) \<in> holds (is_index st'))
     \<and> is_skipped st' = is_skipped st"
proof (induction evs arbitrary: p parent st)
  case Nil
  then show ?case by (simp add: RequestKeysFromTokens_def ChunkTokens_def Let_def)
next
  case (Cons ev evs)
  let ?ks = "RequestKeysFromTokens parent (ke_tokens ev) bs"
  let ?r = "\<lparr>rs_engine = ix_engine cx, rs_dp = bt_dp (ix_batch cx), rs_tier = mediumToTier (ke_medium ev)\<rparr>"
  define st1 where "st1 = recorded cx ev ns (mediumToTier (ke_medium ev)) ?ks True [] (st\<lparr>is_index := StoreEvent (ix_now cx) ?r (ke_hashes ev) ?ks (is_index st)\<rparr>)"
  note ev = announced_event [OF Cons.prems]
  then have step: "foldl (ingest_event cx ns seed bs) st (ev # evs) = foldl (ingest_event cx ns seed bs) st1 evs"
    by (simp add: st1_def)
  have ix1: "is_index st1 = StoreEvent (ix_now cx) ?r (ke_hashes ev) ?ks (is_index st)" "is_skipped st1 = is_skipped st"
    by (simp_all add: st1_def recorded_def)
  from Cons.prems(2) obtain k where k: "length (ke_tokens ev) = nat bs * k" by (auto simp: dvd_def simp flip: dvd_eq_mod_eq_0)
  have "LookupBridge (is_index st1) (ix_engine cx) (last (ke_hashes ev)) = Some (last ?ks)"
    unfolding ix1 using bridge_last [of "ke_hashes ev" ?ks "ix_now cx" ?r] Cons.prems(2) ev(1) by simp
  with Cons.IH [OF Cons.prems(1), of "Some (last (ke_hashes ev))" "last ?ks" st1] Cons.prems(2)
  have rest: "let st' = foldl (ingest_event cx ns seed bs) st1 evs in
     holds (is_index st1) \<subseteq> holds (is_index st')
     \<and> (\<forall>rk \<in> set (RequestKeysFromTokens (last ?ks) (concat (map ke_tokens evs)) bs).
          \<exists>tier. (\<lparr>rs_engine = ix_engine cx, rs_dp = bt_dp (ix_batch cx), rs_tier = tier\<rparr>, rk) \<in> holds (is_index st'))
     \<and> is_skipped st' = is_skipped st1" by simp
  have "RequestKeysFromTokens parent (concat (map ke_tokens (ev # evs))) bs
      = ?ks @ RequestKeysFromTokens (last ?ks) (concat (map ke_tokens evs)) bs"
    using keys_append [OF Cons.prems(1) k] ev(1) by simp
  moreover have "holds (is_index st1) = holds (is_index st) \<union> {?r} \<times> set ?ks" by (simp add: ix1 store_event)
  ultimately show ?case using rest unfolding step Let_def ix1(2) by (auto 4 3)
qed

lemma announced_found:
  assumes "0 < bs" "announces bs None (bt_events (ix_batch cx))" "bt_events (ix_batch cx) \<noteq> []"
  shows "\<exists>ih. map_of (qr_instances (Query (is_index (ingest cx (Some (ns, seed, bs)) st))
        (RequestKeysFromTokens seed (concat (map ke_tokens (bt_events (ix_batch cx))) @ after) bs) bs)) (ix_engine cx) = Some ih
      \<and> int (length (concat (map ke_tokens (bt_events (ix_batch cx))))) \<le> ih_longest ih"
proof -
  define evs where "evs = bt_events (ix_batch cx)"
  define engine where "engine = ix_engine cx"
  define prompt where "prompt = concat (map ke_tokens evs)"
  note assms = assms [folded evs_def]
  define ix where "ix = is_index (ingest cx (Some (ns, seed, bs)) st)"
  let ?ks = "RequestKeysFromTokens seed prompt bs"
  note pieces = announced_pieces [OF assms(1,2), of seed seed st cx ns]
  have held: "\<forall>rk \<in> set ?ks. hasEngine (holders_of ix rk) engine"
  proof
    fix rk assume "rk \<in> set ?ks"
    with pieces obtain tier where "(\<lparr>rs_engine = ix_engine cx, rs_dp = bt_dp (ix_batch cx), rs_tier = tier\<rparr>, rk) \<in> holds ix"
      by (auto simp: ix_def ingest_def evs_def Let_def prompt_def)
    then show "hasEngine (holders_of ix rk) engine" by (force simp: hasEngine_iff holds_def engine_def)
  qed
  have whole: "announces bs p evs \<Longrightarrow> nat bs dvd length (concat (map ke_tokens evs))" for p evs
    by (induction evs arbitrary: p) (auto simp: dvd_eq_mod_eq_0 mod_add_eq [symmetric] simp flip: dvd_eq_mod_eq_0)
  from whole [OF assms(2)] obtain k where k: "length prompt = nat bs * k" by (auto simp: prompt_def)
  have "length prompt \<noteq> 0" using assms(2,3) by (cases evs) (auto simp: prompt_def)
  then have "0 < k" using k by simp
  have n: "length ?ks = k" using assms(1) by (simp add: length_keys k)
  let ?all = "RequestKeysFromTokens seed (prompt @ after) bs"
  from keys_append [OF assms(1) k] obtain rest where all: "?all = ?ks @ rest" by blast
  have run: "cached_run ix engine ?all = ?ks @ cached_run ix engine rest"
    unfolding all cached_run_def using held by (simp add: takeWhile_append2)
  have "?ks \<noteq> []" using n \<open>0 < k\<close> by auto
  then have "map_of (qr_instances (Query ix ?all bs)) engine = Some (tally ix bs engine (cached_run ix engine ?all) no_instance)"
    by (simp add: query_instances run)
  moreover have "int (length prompt) \<le> ih_longest (tally ix bs engine (cached_run ix engine ?all) no_instance)"
    using assms(1) by (simp add: tally_counts run no_instance_def n k algebra_simps)
  ultimately show ?thesis unfolding ix_def prompt_def engine_def evs_def by blast
qed

text \<open>
  C5: a prompt that an engine announces piece by piece is found as a whole.  Whatever the index
  held before, after the announcements of whole blocks, each naming the last hash of the one
  before it, the query for the prompt, or for any longer one, gives the engine at least the
  length of what it announced, no announcement is skipped and no residency is lost.
\<close>

theorem announced_prompt_found:
  fixes cx :: ingest_ctx
  defines "evs \<equiv> bt_events (ix_batch cx)" and "engine \<equiv> ix_engine cx"
  assumes "0 < bs" "announces bs None evs" "evs \<noteq> []"
  defines "prompt \<equiv> concat (map ke_tokens evs)"
  shows "let st' = ingest cx (Some (ns, seed, bs)) st in
    (\<exists>ih. map_of (qr_instances (Query (is_index st') (RequestKeysFromTokens seed (prompt @ after) bs) bs)) engine = Some ih
        \<and> int (length prompt) \<le> ih_longest ih)
    \<and> holds (is_index st) \<subseteq> holds (is_index st') \<and> is_skipped st' = is_skipped st"
  using announced_found [OF assms(3-5) [unfolded evs_def], of ns seed st after]
    announced_pieces [OF assms(3,4), of seed seed st cx ns]
  by (simp add: ingest_def evs_def engine_def prompt_def Let_def)

definition piece :: "engine_key option \<Rightarrow> engine_key list \<Rightarrow> 32 word list \<Rightarrow> stream_event" where
  "piece parent hashes tokens = (zero_event BlockStored)\<lparr>ke_hashes := hashes, ke_parent := parent, ke_tokens := tokens,
     ke_block_size := 2, ke_medium := ''GPU'', ke_spec := ''full_attention''\<rparr>"

definition idle :: ingest_state where
  "idle = \<lparr>is_index = NewIndex, is_skipped = 0, is_log = [], is_events = 0, is_last_event = 0\<rparr>"

definition from_vllm :: "stream_event list \<Rightarrow> ingest_ctx" where
  "from_vllm evs = \<lparr>ix_now = 9, ix_engine = ''vllm-0'', ix_model = ''qwen'',
     ix_batch = \<lparr>bt_seq = 7, bt_ts = Fin (0, 1), bt_dp = 0, bt_events = evs\<rparr>\<rparr>"

theorem announced_prompt_found_witness:
  "let st' = ingest (from_vllm [piece None [501, 502] [1, 2, 3, 4], piece (Some 502) [503] [5, 6]])
      (Some (''qwen/v1'', SeedNamespace ''seed|qwen/v1'', 2)) idle in
    \<exists>ih. map_of (qr_instances (Query (is_index st')
        (RequestKeysFromTokens (SeedNamespace ''seed|qwen/v1'') [1, 2, 3, 4, 5, 6, 7, 8] 2) 2)) ''vllm-0'' = Some ih
      \<and> 6 \<le> ih_longest ih"
proof -
  let ?cx = "from_vllm [piece None [501, 502] [1, 2, 3, 4], piece (Some 502) [503] [5, 6]]"
  have "announces 2 None (bt_events (ix_batch ?cx))"
    by (simp add: from_vllm_def piece_def zero_event_def hasUnsupportedFeatureKeys_def) code_simp
  from announced_prompt_found [OF _ this, of "''qwen/v1''" "SeedNamespace ''seed|qwen/v1''" idle "[7, 8]"]
  show ?thesis by (simp add: from_vllm_def piece_def Let_def)
qed

section \<open>What is skipped\<close>

text \<open>
  C33: an event that is not indexed leaves the index as it was, and each event is told to the
  sink just once.  A store is indexed only if its kind can be cached by prefix, it has no nested
  tokens and no feature the hash leaves out, and its keys are known: from the bridge when it has
  hashes without tokens, or from its parent and at least one full block.  Keys of an unknown
  parent are never made up from the namespace.
\<close>

theorem ingest_skips_safely:
  "let st' = ingest_event cx ns seed blockSize st ev in
    \<exists>entry. is_log st' = is_log st @ [entry]
      \<and> kr_engine entry = ix_engine cx \<and> kr_seq entry = uint_text (bt_seq (ix_batch cx)) \<and> kr_kind entry = event_kind_text (ke_kind ev)
      \<and> (\<not> kr_indexed entry \<longrightarrow> is_index st' = is_index st \<and> kr_reason entry \<noteq> [])
      \<and> (kr_indexed entry \<longleftrightarrow> ke_kind ev \<noteq> BlockStored
          \<or> ingestableSpecKind (ke_spec ev) \<and> \<not> ke_nested ev \<and> \<not> hasUnsupportedFeatureKeys ev
            \<and> (if ke_tokens ev = [] \<and> ke_hashes ev \<noteq> []
               then \<forall>h \<in> set (ke_hashes ev). LookupBridge (is_index st) (ix_engine cx) h \<noteq> None
               else (\<forall>h. ke_parent ev = Some h \<longrightarrow> LookupBridge (is_index st) (ix_engine cx) h \<noteq> None)
                 \<and> ChunkTokens (ke_tokens ev) (if ke_block_size ev \<le> 0 then blockSize else ke_block_size ev) \<noteq> []))
      \<and> is_skipped st \<le> is_skipped st' \<and> is_skipped st' \<le> is_skipped st + 1
      \<and> (is_skipped st' = is_skipped st + 1 \<longleftrightarrow>
           kr_reason entry \<in> {''unresolved_engine_key'', ''unresolved_parent'', ''no_full_token_block''})"
proof -
  have chain: "chain p cs = [] \<longleftrightarrow> cs = []" for p cs by (cases cs) (simp_all add: Let_def)
  have those: "those xs = None \<longleftrightarrow> None \<in> set xs" for xs :: "request_key option list"
    by (induction xs) (auto split: option.splits)
  have bridge: "StoreEventByEngineKeys (ix_now cx) r eks ix = None \<longleftrightarrow> eks = [] \<or> (\<exists>h \<in> set eks. LookupBridge ix (rs_engine r) h = None)" for r eks ix
  proof -
    have "StoreEventByEngineKeys (ix_now cx) r eks ix = None \<longleftrightarrow> eks = [] \<or> those (map (LookupBridge ix (rs_engine r)) eks) = None"
      by (simp add: StoreEventByEngineKeys_def split: option.split)
    also have "\<dots> \<longleftrightarrow> eks = [] \<or> None \<in> LookupBridge ix (rs_engine r) ` set eks" by (simp only: those set_map)
    finally show ?thesis by (auto simp: image_iff eq_commute)
  qed
  have known: "LookupBridge ix (rs_engine r) h \<noteq> None"
    if "StoreEventByEngineKeys (ix_now cx) r eks ix = Some x" "h \<in> set eks" for r eks ix x h
    using bridge [of r eks ix] that by fastforce
  let ?r = "\<lparr>rs_engine = ix_engine cx, rs_dp = bt_dp (ix_batch cx), rs_tier = mediumToTier (ke_medium ev)\<rparr>"
  show ?thesis
  proof (cases "ke_kind ev = BlockStored \<and> ke_tokens ev = [] \<and> ke_hashes ev \<noteq> []")
    case True
    then show ?thesis
    proof (cases "StoreEventByEngineKeys (ix_now cx) ?r (ke_hashes ev) (is_index st)")
      case None
      with True bridge [of ?r "ke_hashes ev" "is_index st"] show ?thesis
        by (auto simp: ingest_event_def recorded_def kv_record_of_def skipped_def Let_def)
    next
      case (Some x)
      with True known [OF Some] show ?thesis
        by (auto simp: ingest_event_def recorded_def kv_record_of_def skipped_def Let_def split: prod.splits)
    qed
  next
    case False
    then have "ke_kind ev \<noteq> BlockStored \<or> (ke_tokens ev = [] \<longrightarrow> ke_hashes ev = [])" by blast
    then show ?thesis
      by (cases "ke_kind ev"; cases "ke_parent ev")
        (auto simp: ingest_event_def recorded_def kv_record_of_def skipped_def Let_def requestKeysForEvent_def RequestKeysFromTokens_def chain
          split: option.splits)
  qed
qed

theorem ingest_skips_safely_witness:
  "is_index (ingest_event (from_vllm []) ''qwen/v1'' 1 2 idle (piece (Some 77) [78] [1, 2])) = NewIndex"
proof -
  have "LookupBridge (is_index idle) (ix_engine (from_vllm [])) 77 = None" by (simp add: idle_def NewIndex_def LookupBridge_def)
  moreover have "ke_kind (piece (Some 77) [78] [1, 2]) = BlockStored" "ke_parent (piece (Some 77) [78] [1, 2]) = Some 77"
    "ke_tokens (piece (Some 77) [78] [1, 2]) \<noteq> []" "is_index idle = NewIndex"
    by (simp_all add: piece_def idle_def zero_event_def)
  ultimately show ?thesis
    using ingest_skips_safely [of "from_vllm []" "''qwen/v1''" 1 2 idle "piece (Some 77) [78] [1, 2]"]
    unfolding Let_def by metis
qed

end
