(* ===== verification/Listener.thy ===== *)
theory Listener
  imports Ingest
begin

text \<open>
  The listener of one engine, \<open>internal/kvevents/listener.go\<close>: its state, the numbers of the
  messages, the messages of the stream and of a replay, and the goroutines that receive and
  apply them, as a step relation.  The library that decodes MessagePack is an argument, and so
  is what the sockets answer; a panic is the result \<open>None\<close>.  Counters are unbounded numbers.
\<close>

section \<open>The state\<close>

type_synonym frame = "8 word list"

record listener =
  l_engineID :: string
  l_model :: string
  l_endpoint :: string
  l_replayEndpoint :: string
  l_topic :: string
  l_connected :: bool
  l_lastSeq :: "64 word"
  l_hasSeq :: bool
  l_gaps :: int
  l_decErrs :: int
  l_queueLen :: int
  l_lastErr :: string
  l_ingest :: ingest_state

record StreamHealth =
  lh_engine_id :: string
  lh_endpoint :: string
  lh_replay_endpoint :: string
  lh_topic :: string
  lh_connected :: bool
  lh_last_seq :: int
  lh_last_event_unix :: int
  lh_events :: int
  lh_gaps :: int
  lh_skipped :: int
  lh_decode_errors :: int
  lh_queue_depth :: int
  lh_queue_cap :: nat
  lh_last_error :: string

definition applyQueueSize :: nat where
  "applyQueueSize = 8192"

definition NewListener :: "string \<Rightarrow> string \<Rightarrow> string \<Rightarrow> string \<Rightarrow> listener" where
  "NewListener engineID model endpoint topic =
     \<lparr>l_engineID = engineID, l_model = model, l_endpoint = endpoint, l_replayEndpoint = [], l_topic = topic,
      l_connected = False, l_lastSeq = 0, l_hasSeq = False, l_gaps = 0, l_decErrs = 0, l_queueLen = 0, l_lastErr = [],
      l_ingest = \<lparr>is_index = NewIndex, is_skipped = 0, is_log = [], is_events = 0, is_last_event = 0\<rparr>\<rparr>"

definition SetReplayEndpoint :: "string \<Rightarrow> listener \<Rightarrow> listener" where
  "SetReplayEndpoint endpoint l = l\<lparr>l_replayEndpoint := endpoint\<rparr>"

text \<open>Go divides towards zero; instants are nanoseconds.\<close>

definition Health :: "listener \<Rightarrow> StreamHealth" where
  "Health l = \<lparr>lh_engine_id = l_engineID l, lh_endpoint = l_endpoint l, lh_replay_endpoint = l_replayEndpoint l,
     lh_topic = l_topic l, lh_connected = l_connected l, lh_last_seq = sint (l_lastSeq l),
     lh_last_event_unix = sgn (is_last_event (l_ingest l)) * (\<bar>is_last_event (l_ingest l)\<bar> div 1000000000),
     lh_events = is_events (l_ingest l), lh_gaps = l_gaps l, lh_skipped = is_skipped (l_ingest l),
     lh_decode_errors = l_decErrs l, lh_queue_depth = l_queueLen l, lh_queue_cap = applyQueueSize,
     lh_last_error = l_lastErr l\<rparr>"

definition setErr :: "string \<Rightarrow> listener \<Rightarrow> listener" where
  "setErr e l = l\<lparr>l_lastErr := e\<rparr>"

section \<open>Numbers\<close>

definition trackSeq :: "64 word \<Rightarrow> listener \<Rightarrow> listener" where
  "trackSeq sn l =
     (if l_hasSeq l \<and> sint sn \<le> sint (l_lastSeq l) then l
      else (if l_hasSeq l \<and> sint (l_lastSeq l + 1) < sint sn then l\<lparr>l_gaps := l_gaps l + 1\<rparr> else l)
        \<lparr>l_lastSeq := sn, l_hasSeq := True\<rparr>)"

definition nextReplaySeq :: "listener \<Rightarrow> 64 word" where
  "nextReplaySeq l = (if \<not> l_hasSeq l then 0 else l_lastSeq l + 1)"

text \<open>\<open>binary.BigEndian\<close>: reading takes the first eight bytes, and panics when there are fewer.\<close>

definition be_uint64 :: "frame \<Rightarrow> 64 word" where
  "be_uint64 bs = foldl (\<lambda>w b. push_bit 8 w OR ucast b) 0 (take 8 bs)"

definition be_bytes :: "64 word \<Rightarrow> frame" where
  "be_bytes w = map (\<lambda>i. ucast (drop_bit (8 * (7 - i)) w)) [0..<8]"

definition isReplayEnd :: "frame \<Rightarrow> bool" where
  "isReplayEnd f \<longleftrightarrow> length f = 8 \<and> sint (be_uint64 f) = - 1"

section \<open>Messages\<close>

text \<open>
  A message with the instant it is applied at and what the resolver then answers: the index with
  its namespace, the seed and the block size.  Other listeners may write the same index between
  two messages; the state keeps the index as this listener left it.
\<close>

record message =
  ms_frames :: "frame list"
  ms_now :: int
  ms_resolved :: "(index \<times> string \<times> 64 word \<times> int) option"

type_synonym unmarshal = "frame \<Rightarrow> string + mp list"

definition bad_message :: "string option \<Rightarrow> listener \<Rightarrow> listener" where
  "bad_message e l = (let l = l\<lparr>l_decErrs := l_decErrs l + 1\<rparr> in case e of None \<Rightarrow> l | Some e \<Rightarrow> setErr e l)"

definition apply_batch :: "message \<Rightarrow> kv_batch \<Rightarrow> listener \<Rightarrow> listener" where
  "apply_batch m b l = (let l = trackSeq (bt_seq b) l;
       cx = \<lparr>ix_now = ms_now m, ix_engine = l_engineID l, ix_model = l_model l, ix_batch = b\<rparr> in
     l\<lparr>l_ingest := (case ms_resolved m of
        None \<Rightarrow> ingest cx None (l_ingest l)
      | Some (ix, profile) \<Rightarrow> ingest cx (Some profile) ((l_ingest l)\<lparr>is_index := ix\<rparr>))\<rparr>)"

text \<open>From the payload on, the live stream and the replay do the same.\<close>

definition handle_payload :: "unmarshal \<Rightarrow> message \<Rightarrow> 64 word \<Rightarrow> frame \<Rightarrow> listener \<Rightarrow> listener" where
  "handle_payload unmarshal m sn payload l = (case unmarshal payload of
     Inl e \<Rightarrow> bad_message (Some e) l
   | Inr vs \<Rightarrow> (case DecodeBatch sn vs of Inl e \<Rightarrow> bad_message (Some e) l | Inr b \<Rightarrow> apply_batch m b l))"

definition handleFrames :: "unmarshal \<Rightarrow> message \<Rightarrow> listener \<Rightarrow> listener option" where
  "handleFrames unmarshal m l = (case ms_frames m of
     [_, number, payload] \<Rightarrow>
       if length number < 8 then None else Some (handle_payload unmarshal m (be_uint64 number) payload l)
   | _ \<Rightarrow> Some (bad_message None l))"

section \<open>Replay\<close>

text \<open>
  What the replay socket does: the errors of dialing and of sending, and else the messages that
  arrive for the start frame until receiving fails (at the latest when the time is up).
\<close>

record replay_answer =
  ra_dial :: "string option"
  ra_send :: "string option"
  ra_msgs :: "frame \<Rightarrow> message list"
  ra_err :: string

fun replay_loop :: "unmarshal \<Rightarrow> string \<Rightarrow> message list \<Rightarrow> listener \<Rightarrow> listener" where
  "replay_loop unmarshal e [] l = setErr (''replay recv: '' @ e) l"
| "replay_loop unmarshal e (m # ms) l = (case ms_frames m of
     [] \<Rightarrow> replay_loop unmarshal e ms (bad_message None l)
   | number # rest \<Rightarrow>
       if isReplayEnd number then l
       else if length number \<noteq> 8 \<or> rest = [] then replay_loop unmarshal e ms (bad_message None l)
       else replay_loop unmarshal e ms (handle_payload unmarshal m (be_uint64 number) (hd rest) l))"

definition replayBuffered :: "unmarshal \<Rightarrow> replay_answer \<Rightarrow> listener \<Rightarrow> listener" where
  "replayBuffered unmarshal ra l =
     (if l_replayEndpoint l = [] then l
      else case (ra_dial ra, ra_send ra) of
        (Some e, _) \<Rightarrow> setErr (''replay dial: '' @ e) l
      | (None, Some e) \<Rightarrow> setErr (''replay request: '' @ e) l
      | (None, None) \<Rightarrow> replay_loop unmarshal (ra_err ra) (ra_msgs ra (be_bytes (nextReplaySeq l))) l)"

section \<open>The goroutines\<close>

text \<open>
  The receiver dials, receives, hands a message over to the queue (and blocks while it is full),
  closes the queue with the error of the receive or without one, waits before it dials again, or
  has stopped.  The applier takes a message off the queue, counts it down and applies it.  The
  last two fields of the state are its history: the messages received, but for one that is
  dropped when the listener is stopped, and what was applied.
\<close>

datatype receiver = Dialing | Receiving | Handing message | Closing "string option" | Waiting | Stopped

datatype applier = Idle | Taken message | Working message

datatype 'm applied = Live 'm | Replay replay_answer

record process =
  ps_listener :: listener
  ps_receiver :: receiver
  ps_applier :: applier
  ps_queue :: "message list"
  ps_backoff :: nat
  ps_cancelled :: bool
  ps_crashed :: bool
  ps_received :: "message list"
  ps_history :: "message applied list"

definition start_process :: "listener \<Rightarrow> process" where
  "start_process l = \<lparr>ps_listener = l, ps_receiver = Dialing, ps_applier = Idle, ps_queue = [], ps_backoff = 500,
     ps_cancelled = False, ps_crashed = False, ps_received = [], ps_history = []\<rparr>"

definition count_queue :: "int \<Rightarrow> listener \<Rightarrow> listener" where
  "count_queue d l = l\<lparr>l_queueLen := l_queueLen l + d\<rparr>"

text \<open>\<open>run\<close> after an error of \<open>subscribeLoop\<close>: the wait doubles as long as it is below five seconds.\<close>

definition lost :: "string \<Rightarrow> process \<Rightarrow> process" where
  "lost e p = p\<lparr>ps_listener := (setErr e (ps_listener p))\<lparr>l_connected := False\<rparr>, ps_receiver := Waiting\<rparr>"

definition waited :: "process \<Rightarrow> process" where
  "waited p = p\<lparr>ps_receiver := Dialing, ps_backoff := (if ps_backoff p < 5000 then 2 * ps_backoff p else ps_backoff p)\<rparr>"

definition subscribed :: "unmarshal \<Rightarrow> replay_answer \<Rightarrow> process \<Rightarrow> process" where
  "subscribed unmarshal ra p = p\<lparr>ps_listener := replayBuffered unmarshal ra
       ((ps_listener p)\<lparr>l_connected := True, l_lastErr := []\<rparr>),
     ps_receiver := Receiving, ps_queue := [], ps_history := ps_history p @ [Replay ra]\<rparr>"

definition got_message :: "message \<Rightarrow> process \<Rightarrow> process" where
  "got_message m p = p\<lparr>ps_listener := count_queue 1 (ps_listener p), ps_receiver := Handing m, ps_received := ps_received p @ [m]\<rparr>"

definition handed :: "message \<Rightarrow> process \<Rightarrow> process" where
  "handed m p = p\<lparr>ps_receiver := Receiving, ps_queue := ps_queue p @ [m]\<rparr>"

definition counted :: "message \<Rightarrow> process \<Rightarrow> process" where
  "counted m p = p\<lparr>ps_listener := count_queue (- 1) (ps_listener p), ps_applier := Working m\<rparr>"

definition worked :: "unmarshal \<Rightarrow> message \<Rightarrow> process \<Rightarrow> process" where
  "worked unmarshal m p = (case handleFrames unmarshal m (ps_listener p) of
     None \<Rightarrow> p\<lparr>ps_crashed := True\<rparr>
   | Some l \<Rightarrow> p\<lparr>ps_listener := l, ps_applier := Idle, ps_history := ps_history p @ [Live m]\<rparr>)"

text \<open>The queue is closed and drained; \<open>run\<close> goes on with the error, or ends without one.\<close>

definition drained :: "string option \<Rightarrow> process \<Rightarrow> process" where
  "drained e p = (let p = p\<lparr>ps_listener := (ps_listener p)\<lparr>l_queueLen := 0\<rparr>\<rparr> in
     case e of None \<Rightarrow> p\<lparr>ps_receiver := Stopped\<rparr> | Some e \<Rightarrow> lost e p)"

inductive listener_step :: "unmarshal \<Rightarrow> process \<Rightarrow> process \<Rightarrow> bool" for unmarshal where
  cancel: "\<not> ps_crashed p \<Longrightarrow> listener_step unmarshal p (p\<lparr>ps_cancelled := True\<rparr>)"
| dial_fails: "\<not> ps_crashed p \<Longrightarrow> ps_receiver p = Dialing \<Longrightarrow> listener_step unmarshal p (lost e p)"
| dial: "\<not> ps_crashed p \<Longrightarrow> ps_receiver p = Dialing \<Longrightarrow> listener_step unmarshal p (subscribed unmarshal ra p)"
| recv: "\<not> ps_crashed p \<Longrightarrow> ps_receiver p = Receiving \<Longrightarrow> listener_step unmarshal p (got_message m p)"
| recv_fails: "\<not> ps_crashed p \<Longrightarrow> ps_receiver p = Receiving \<Longrightarrow>
    listener_step unmarshal p (p\<lparr>ps_receiver := Closing (Some e)\<rparr>)"
| leave: "\<not> ps_crashed p \<Longrightarrow> ps_receiver p = Receiving \<Longrightarrow> ps_cancelled p \<Longrightarrow>
    listener_step unmarshal p (p\<lparr>ps_receiver := Closing None\<rparr>)"
| hand: "\<not> ps_crashed p \<Longrightarrow> ps_receiver p = Handing m \<Longrightarrow> length (ps_queue p) < applyQueueSize \<Longrightarrow>
    listener_step unmarshal p (handed m p)"
| drop_hand: "\<not> ps_crashed p \<Longrightarrow> ps_receiver p = Handing m \<Longrightarrow> ps_cancelled p \<Longrightarrow>
    listener_step unmarshal p (p\<lparr>ps_listener := count_queue (- 1) (ps_listener p), ps_receiver := Closing None,
      ps_received := butlast (ps_received p)\<rparr>)"
| take_off: "\<not> ps_crashed p \<Longrightarrow> ps_applier p = Idle \<Longrightarrow> ps_queue p = m # q \<Longrightarrow>
    listener_step unmarshal p (p\<lparr>ps_queue := q, ps_applier := Taken m\<rparr>)"
| count: "\<not> ps_crashed p \<Longrightarrow> ps_applier p = Taken m \<Longrightarrow> listener_step unmarshal p (counted m p)"
| work: "\<not> ps_crashed p \<Longrightarrow> ps_applier p = Working m \<Longrightarrow> listener_step unmarshal p (worked unmarshal m p)"
| drain: "\<not> ps_crashed p \<Longrightarrow> ps_receiver p = Closing e \<Longrightarrow> ps_queue p = [] \<Longrightarrow> ps_applier p = Idle \<Longrightarrow>
    listener_step unmarshal p (drained e p)"
| wait: "\<not> ps_crashed p \<Longrightarrow> ps_receiver p = Waiting \<Longrightarrow> listener_step unmarshal p (waited p)"
| stop: "\<not> ps_crashed p \<Longrightarrow> ps_receiver p \<in> {Dialing, Waiting} \<Longrightarrow> ps_cancelled p \<Longrightarrow>
    listener_step unmarshal p (p\<lparr>ps_receiver := Stopped\<rparr>)"

end
