(* ===== verification/Routing.thy ===== *)
theory Routing
  imports Best_Hit Listener Profile_Store
begin

text \<open>
  The judgement of a request by an indexer, \<open>internal/httpapi/route.go\<close> with the parts of
  \<open>service.go\<close> and \<open>internal/config/store.go\<close> it uses: the engines that may serve a model, the
  freshness of their streams, the query of the index of the profile's namespace, the verdict and
  the target.  The tokenizer of the engines is an argument: the tokens of a request and their
  count, or nothing when the call fails.
\<close>

section \<open>The configuration\<close>

record go_engine =
  ge_engine_id :: string
  ge_cluster_id :: string
  ge_framework :: string
  ge_api_endpoint :: string
  ge_tokenizer_endpoint :: string
  ge_kv_event_endpoint :: string
  ge_replay_endpoint :: string
  ge_topic :: string
  ge_served_models :: "string list"
  ge_dp_ranks :: int
  ge_max_num_seqs :: int
  ge_max_model_len :: int
  ge_queue_depth :: int
  ge_healthy :: bool
  ge_draining :: bool
  ge_enabled :: bool
  ge_labels :: "(string \<times> string) list option"

record store_entry =
  sa_version :: int
  sa_action :: string
  sa_entity :: string
  sa_entity_id :: string

record store =
  so_version :: int
  so_audit :: "store_entry list"
  so_clusters :: "(string \<times> go_cluster) list"
  so_engines :: "(string \<times> go_engine) list"
  so_profiles :: "(string \<times> go_profile) list"
  so_policies :: "(string \<times> go_rule) list"

definition serves :: "store \<Rightarrow> string \<Rightarrow> go_engine \<Rightarrow> bool" where
  "serves st model e \<longleftrightarrow> ge_enabled e \<and> \<not> ge_draining e
     \<and> (case map_of (so_clusters st) (ge_cluster_id e) of None \<Rightarrow> True
        | Some c \<Rightarrow> gk_enabled c \<and> \<not> gk_maintenance c)
     \<and> model \<in> set (ge_served_models e)"

definition EnginesForModel :: "store \<Rightarrow> string \<Rightarrow> go_engine list" where
  "EnginesForModel st model = sort_key ge_engine_id (filter (serves st model) (map snd (so_engines st)))"

definition ResolveProfile :: "store \<Rightarrow> string \<Rightarrow> go_profile option" where
  "ResolveProfile st model = (case map_of (so_profiles st) model of
     Some p \<Rightarrow> Some p
   | None \<Rightarrow> List.find (\<lambda>p. model \<in> set (gp_aliases p)) (map snd (so_profiles st)))"

definition ListPolicies :: "store \<Rightarrow> go_rule list" where
  "ListPolicies st = sort_key rule_rank (filter (\<lambda>r. gr_rule_id r \<noteq> []) (map snd (so_policies st)))"

definition Namespace :: "go_profile \<Rightarrow> string" where
  "Namespace p = gp_model_id p @ ''/v'' @ int_text (gp_version p) @ ''/'' @ gp_hash_profile p
     @ ''/'' @ int_text (gp_block_size p)"

definition profileTokenizerEndpoint :: "go_profile \<Rightarrow> go_engine list \<Rightarrow> string" where
  "profileTokenizerEndpoint p es =
     (if gp_tokenizer_endpoint p \<noteq> [] then gp_tokenizer_endpoint p
      else case List.find (\<lambda>e. ge_tokenizer_endpoint e \<noteq> []) es of
        Some e \<Rightarrow> ge_tokenizer_endpoint e | None \<Rightarrow> [])"

section \<open>The service\<close>

record RouteTarget =
  tg_cluster_id :: string
  tg_engine_id :: string
  tg_endpoint :: string
  tg_dp_rank :: int

record route_request =
  rq_protocol :: string
  rq_model :: string
  rq_tenant_id :: string
  rq_multimodal :: bool

record reject_error =
  er_type :: string
  er_input_tokens :: int
  er_best_hit_tokens :: int
  er_hit_ratio :: f64
  er_min_ratio :: f64

text \<open>
  A response and a record carry the verdict, from which the source copies its fields; the instant
  of a record is left out.
\<close>

record RouteResponse =
  rp_result :: adm_result
  rp_profile_version :: int
  rp_namespace :: string
  rp_config_version :: int
  rp_target :: "RouteTarget option"
  rp_error :: "reject_error option"
  rp_protocol :: string

record RouteRecord =
  rd_protocol :: string
  rd_model :: string
  rd_tenant_id :: string
  rd_result :: adm_result
  rd_status :: int
  rd_target_engine :: string
  rd_config_version :: int
  rd_namespace :: string

record service =
  sv_store :: store
  sv_indexes :: "(string \<times> index) list"
  sv_listeners :: "(string \<times> listener) list"
  sv_decisions :: "RouteRecord list"

text \<open>\<open>Manager.Index\<close>: the index of a namespace, made when it is asked for.\<close>

definition Manager_Index :: "service \<Rightarrow> string \<Rightarrow> index \<times> service" where
  "Manager_Index sv ns = (case map_of (sv_indexes sv) ns of
     Some ix \<Rightarrow> (ix, sv) | None \<Rightarrow> (NewIndex, sv\<lparr>sv_indexes := (ns, NewIndex) # sv_indexes sv\<rparr>))"

definition StreamFreshForEngines :: "service \<Rightarrow> go_engine list \<Rightarrow> bool" where
  "StreamFreshForEngines sv es \<longleftrightarrow> list_ex (\<lambda>e. case map_of (sv_listeners sv) (ge_engine_id e) of
     None \<Rightarrow> False | Some l \<Rightarrow> lh_connected (Health l) \<and> lh_gaps (Health l) = 0) es"

definition target_of :: "go_engine \<Rightarrow> RouteTarget" where
  "target_of e = \<lparr>tg_cluster_id = ge_cluster_id e, tg_engine_id = ge_engine_id e, tg_endpoint = ge_api_endpoint e, tg_dp_rank = 0\<rparr>"

definition pickTarget :: "string \<Rightarrow> go_engine list \<Rightarrow> RouteTarget option" where
  "pickTarget instance_id es = (case es of [] \<Rightarrow> None
   | e # _ \<Rightarrow> (case List.find (\<lambda>e. ge_engine_id e = instance_id) es of
       Some e' \<Rightarrow> Some (target_of e') | None \<Rightarrow> Some (target_of e)))"

definition toHTTPStatus :: "adm_result \<Rightarrow> int" where
  "toHTTPStatus res = (if 0 < re_http_status res then re_http_status res else 200)"

definition finish :: "route_request \<Rightarrow> adm_result \<Rightarrow> int \<Rightarrow> string \<Rightarrow> go_engine list \<Rightarrow> service \<Rightarrow> RouteResponse \<times> service" where
  "finish rr res profileVersion ns es sv =
     (let h = re_hit res; rejected = (re_decision res = ''reject'');
          tgt = (if rejected then None else pickTarget (hi_instance_id h) es);
          err = (if rejected then Some \<lparr>er_type = re_reason res, er_input_tokens = hi_input_tokens h,
                   er_best_hit_tokens = hi_best_hit_tokens h, er_hit_ratio = hi_hit_ratio h, er_min_ratio = re_min_ratio res\<rparr>
                 else None);
          entry = \<lparr>rd_protocol = rq_protocol rr, rd_model = rq_model rr, rd_tenant_id = rq_tenant_id rr, rd_result = res,
            rd_status = toHTTPStatus res, rd_target_engine = (case tgt of None \<Rightarrow> [] | Some t \<Rightarrow> tg_engine_id t),
            rd_config_version = so_version (sv_store sv), rd_namespace = ns\<rparr>
      in (\<lparr>rp_result = res, rp_profile_version = profileVersion, rp_namespace = ns,
           rp_config_version = so_version (sv_store sv), rp_target = tgt, rp_error = err, rp_protocol = rq_protocol rr\<rparr>,
          sv\<lparr>sv_decisions := slice_last 200 (sv_decisions sv @ [entry])\<rparr>))"

type_synonym tokenizer = "go_profile \<Rightarrow> string \<Rightarrow> route_request \<Rightarrow> (32 word list \<times> int) option"

definition block_size_of :: "go_profile \<Rightarrow> int" where
  "block_size_of p = (if gp_block_size p \<le> 0 then 16 else gp_block_size p)"

definition profile_seed :: "go_profile \<Rightarrow> 64 word" where
  "profile_seed p = SeedNamespace (gp_hash_seed p @ ''|'' @ Namespace p)"

text \<open>The tokens of a request, when an engine gives some.\<close>

definition tokens_of :: "tokenizer \<Rightarrow> go_profile \<Rightarrow> go_engine list \<Rightarrow> route_request \<Rightarrow> (32 word list \<times> int) option" where
  "tokens_of tokenize p es rr = (let ep = profileTokenizerEndpoint p es in
     if ep = [] then None
     else case tokenize p ep rr of Some (toks, n) \<Rightarrow> if toks = [] then None else Some (toks, n) | None \<Rightarrow> None)"

definition base_input :: "service \<Rightarrow> route_request \<Rightarrow> go_engine list \<Rightarrow> adm_input" where
  "base_input sv rr es =
     \<lparr>in_cluster_id = (case es of [] \<Rightarrow> [] | e # _ \<Rightarrow> ge_cluster_id e), in_model_id = rq_model rr,
      in_tenant_id = (if rq_tenant_id rr = [] then ''default'' else rq_tenant_id rr), in_input_tokens = 0,
      in_rules = ListPolicies (sv_store sv), in_query = None, in_override = None, in_fresh = False,
      in_tokenized = False, in_hash_supported = True, in_has_candidates = es \<noteq> []\<rparr>"

definition evaluate_route :: "tokenizer \<Rightarrow> route_request \<Rightarrow> service \<Rightarrow> RouteResponse \<times> service" where
  "evaluate_route tokenize rr sv =
     (let es = EnginesForModel (sv_store sv) (rq_model rr); inp = base_input sv rr es in
      case ResolveProfile (sv_store sv) (rq_model rr) of
        None \<Rightarrow> finish rr (Evaluate inp) 0 [] es sv
      | Some p \<Rightarrow>
        (let ns = Namespace p; bs = block_size_of p;
             inp = inp\<lparr>in_fresh := StreamFreshForEngines sv es,
                       in_hash_supported := gp_multimodal p \<or> \<not> rq_multimodal rr\<rparr> in
         case tokens_of tokenize p es rr of
           None \<Rightarrow> finish rr (Evaluate inp) (gp_version p) ns es sv
         | Some (toks, n) \<Rightarrow>
           (let (ix, sv) = Manager_Index sv ns;
                query = qr_instances (Query ix (RequestKeysFromTokens (profile_seed p) toks bs) bs)
            in finish rr (Evaluate (inp\<lparr>in_tokenized := True, in_input_tokens := n, in_query := Some query\<rparr>))
                 (gp_version p) ns es sv)))"

end
