(* ===== verification/Policy_Store.thy ===== *)
theory Policy_Store
  imports Routing Policy_Form
begin

text \<open>
  The rules at the indexer: how a body of the console is decoded (\<open>internal/config/model.go\<close>), the
  operations of the store (\<open>internal/config/store.go\<close>) and the handlers
  (\<open>internal/httpapi/config_handlers.go\<close>).  The members of an object are found by their exact
  names, which is how the console writes them.
\<close>

section \<open>Decoding\<close>

definition go_pointer :: "(json option \<Rightarrow> 'a option) \<Rightarrow> json option \<Rightarrow> 'a option option" where
  "go_pointer read v = (if v = None \<or> v = Some JNull then Some None else map_option Some (read v))"

definition go_f64 :: "json option \<Rightarrow> f64 option" where
  "go_f64 v = (case v of Some (JNum (Dec m e)) \<Rightarrow> f64_of (frac_of m e) | _ \<Rightarrow> None)"

definition go_list :: "(json \<Rightarrow> 'a option) \<Rightarrow> json option \<Rightarrow> 'a list option" where
  "go_list read v = (case v of None \<Rightarrow> Some [] | Some JNull \<Rightarrow> Some []
     | Some (JArr vs) \<Rightarrow> those (map read vs) | _ \<Rightarrow> None)"

definition is_object :: "json \<Rightarrow> bool" where
  "is_object j \<longleftrightarrow> (case j of JObj _ \<Rightarrow> True | JNull \<Rightarrow> True | _ \<Rightarrow> False)"

definition decode_condition :: "json \<Rightarrow> go_condition option" where
  "decode_condition j = (if \<not> is_object j then None else
     case (go_str (get_prop j ''field''), go_str (get_prop j ''op''), go_of_json (nullish (get_prop j ''value'') JNull)) of
       (Some f, Some opn, Some v) \<Rightarrow> Some \<lparr>gn_field = f, gn_op = opn, gn_value = v\<rparr>
     | _ \<Rightarrow> None)"

definition decode_action :: "json \<Rightarrow> go_action option" where
  "decode_action j = (if \<not> is_object j then None else
     case (go_str (get_prop j ''type''), go_pointer go_f64 (get_prop j ''min_hit_ratio''),
           go_str (get_prop j ''on_low_hit''), go_str (get_prop j ''on_uncertain''), go_int (get_prop j ''reject_status'')) of
       (Some ty, Some ratio, Some low, Some unc, Some status) \<Rightarrow> Some
         \<lparr>ga_type = ty, ga_min_hit_ratio = ratio, ga_on_low_hit = low, ga_on_uncertain = unc, ga_reject_status = status\<rparr>
     | _ \<Rightarrow> None)"

definition decode_policy :: "json \<Rightarrow> go_rule option" where
  "decode_policy j = (if \<not> is_object j then None else
     case (go_str (get_prop j ''rule_id''), go_str (get_prop j ''name''), go_int (get_prop j ''priority''),
           go_list decode_condition (get_prop j ''conditions''), decode_action (nullish (get_prop j ''action'') JNull),
           go_pointer go_bool (get_prop j ''enabled'')) of
       (Some i, Some n, Some prio, Some cs, Some a, Some en) \<Rightarrow> Some
         \<lparr>gr_rule_id = i, gr_name = n, gr_priority = prio, gr_conditions = cs, gr_action = a, gr_enabled = en\<rparr>
     | _ \<Rightarrow> None)"

section \<open>The store\<close>

definition bump :: "string \<Rightarrow> string \<Rightarrow> string \<Rightarrow> store \<Rightarrow> store" where
  "bump action entity i st = (let v = so_version st + 1 in st\<lparr>so_version := v,
     so_audit := so_audit st @ [\<lparr>sa_version = v, sa_action = action, sa_entity = entity, sa_entity_id = i\<rparr>]\<rparr>)"

definition UpsertPolicy :: "go_rule \<Rightarrow> store \<Rightarrow> store" where
  "UpsertPolicy r st = bump ''upsert'' ''policy'' (gr_rule_id r) (st\<lparr>so_policies := AList.update (gr_rule_id r) r (so_policies st)\<rparr>)"

definition RemovePolicy :: "string \<Rightarrow> store \<Rightarrow> bool \<times> store" where
  "RemovePolicy i st = (case map_of (so_policies st) i of
     None \<Rightarrow> (False, st)
   | Some _ \<Rightarrow> (True, bump ''remove'' ''policy'' i (st\<lparr>so_policies := AList.delete i (so_policies st)\<rparr>)))"

definition PatchPolicy :: "string \<Rightarrow> (go_rule \<Rightarrow> go_rule) \<Rightarrow> store \<Rightarrow> bool \<times> store" where
  "PatchPolicy i fn st = (case map_of (so_policies st) i of
     None \<Rightarrow> (False, st)
   | Some r \<Rightarrow> (True, bump ''patch'' ''policy'' i (st\<lparr>so_policies := AList.update i (fn r) (so_policies st)\<rparr>)))"

section \<open>The handlers\<close>

text \<open>The status of the answer and the store after it; a body that cannot be read is refused.\<close>

definition read_policy :: "string \<Rightarrow> go_rule option" where
  "read_policy body = Option.bind (json_parse body) decode_policy"

definition handleCreatePolicy :: "string \<Rightarrow> store \<Rightarrow> int \<times> store" where
  "handleCreatePolicy body st = (case read_policy body of
     None \<Rightarrow> (400, st)
   | Some p \<Rightarrow> if gr_rule_id p = [] then (400, st) else (200, UpsertPolicy p st))"

definition replace_rule :: "go_rule \<Rightarrow> go_rule \<Rightarrow> go_rule" where
  "replace_rule p dst = dst\<lparr>gr_name := gr_name p, gr_priority := gr_priority p, gr_conditions := gr_conditions p,
     gr_action := gr_action p, gr_enabled := gr_enabled p\<rparr>"

definition handlePatchPolicy :: "string \<Rightarrow> string \<Rightarrow> store \<Rightarrow> int \<times> store" where
  "handlePatchPolicy i body st = (case read_policy body of
     None \<Rightarrow> (400, st)
   | Some p \<Rightarrow> (case PatchPolicy i (replace_rule p) st of (ok, st') \<Rightarrow> (if ok then 200 else 404, st')))"

definition handleDeletePolicy :: "string \<Rightarrow> store \<Rightarrow> int \<times> store" where
  "handleDeletePolicy i st = (case RemovePolicy i st of (ok, st') \<Rightarrow> (if ok then 200 else 404, st'))"

definition handleListPolicies :: "store \<Rightarrow> go_rule list" where
  "handleListPolicies = ListPolicies"

end
