(* ===== verification/Routing_Props.thy ===== *)
theory Routing_Props
  imports Routing
begin

text \<open>
  What the judgement of a request promises: the target may serve the model, a request is turned
  away only for a reason that the rules and the signals give, and what happens to a cached
  prefix whose engine may not serve.
\<close>

section \<open>The rules of the store\<close>

text \<open>The rules are kept by their identities.\<close>

definition policies_ok :: "store \<Rightarrow> bool" where
  "policies_ok st \<longleftrightarrow> distinct (map fst (so_policies st)) \<and> (\<forall>(k, r) \<in> set (so_policies st). gr_rule_id r = k)"

lemma listed_rules:
  assumes "policies_ok st"
  shows "distinct (map gr_rule_id (ListPolicies st))"
proof -
  have ids: "map gr_rule_id (map snd (so_policies st)) = map fst (so_policies st)"
    using assms by (auto simp: policies_ok_def)
  then have "distinct (map gr_rule_id (map snd (so_policies st)))" using assms by (simp only: policies_ok_def)
  then have "distinct (map gr_rule_id (filter (\<lambda>r. gr_rule_id r \<noteq> []) (map snd (so_policies st))))"
    by (rule distinct_map_filter)
  moreover have "mset (map gr_rule_id (ListPolicies st))
      = mset (map gr_rule_id (filter (\<lambda>r. gr_rule_id r \<noteq> []) (map snd (so_policies st))))"
    by (simp add: ListPolicies_def)
  ultimately show ?thesis by (metis mset_eq_imp_distinct_iff)
qed

section \<open>Rejections\<close>

lemma matched_action [simp]: "re_matched_id (applyAction inp res a) = re_matched_id res"
  by (simp add: applyAction_def applyOutcome_def accept_def reject_def Let_def split: option.split)

lemma rejection_rule:
  assumes "distinct (map gr_rule_id (in_rules inp))" "re_decision (Evaluate inp) = ''reject''"
  obtains r where "decides inp r" "re_matched_id (Evaluate inp) = gr_rule_id r"
    "TypeOrDefault (gr_action r) \<noteq> ''accept''"
    "TypeOrDefault (gr_action r) = ''require_cache_hit'' \<Longrightarrow>
       if uncertaintyReason inp = None then f64_less (hi_hit_ratio (bestHit inp)) (MinHitRatioOrDefault (gr_action r))
       else ga_on_uncertain (gr_action r) = ''reject''"
  using assms(1)
proof (cases rule: evaluate_cases)
  case none
  with assms(2) show thesis by (simp add: accept_def)
next
  case (rule r before after)
  have "re_matched_id (Evaluate inp) = gr_rule_id r" by (simp add: rule(4) matched_def)
  moreover have "TypeOrDefault (gr_action r) \<noteq> ''accept''"
    using assms(2) by (auto simp: rule(4) applyAction_def accept_def)
  moreover have "if uncertaintyReason inp = None then f64_less (hi_hit_ratio (bestHit inp)) (MinHitRatioOrDefault (gr_action r))
       else ga_on_uncertain (gr_action r) = ''reject''" if "TypeOrDefault (gr_action r) = ''require_cache_hit''"
    using cache_rule [OF assms(1) rule(2) that] assms(2) by (simp split: if_splits)
  ultimately show thesis using that rule(2) by blast
qed

section \<open>The judgement\<close>

text \<open>The input that the judgement gives to the rules.\<close>

definition route_input :: "tokenizer \<Rightarrow> route_request \<Rightarrow> service \<Rightarrow> adm_input" where
  "route_input tokenize rr sv =
     (let es = EnginesForModel (sv_store sv) (rq_model rr); inp = base_input sv rr es in
      case ResolveProfile (sv_store sv) (rq_model rr) of None \<Rightarrow> inp
      | Some p \<Rightarrow>
        (let inp = inp\<lparr>in_fresh := StreamFreshForEngines sv es, in_hash_supported := gp_multimodal p \<or> \<not> rq_multimodal rr\<rparr> in
         case tokens_of tokenize p es rr of None \<Rightarrow> inp
         | Some (toks, n) \<Rightarrow> inp\<lparr>in_tokenized := True, in_input_tokens := n, in_query := Some (qr_instances
             (Query (fst (Manager_Index sv (Namespace p))) (RequestKeysFromTokens (profile_seed p) toks (block_size_of p)) (block_size_of p)))\<rparr>))"

lemma evaluate_route:
  "\<exists>version ns sv'. evaluate_route tokenize rr sv
     = finish rr (Evaluate (route_input tokenize rr sv)) version ns (EnginesForModel (sv_store sv) (rq_model rr)) sv'
     \<and> sv_store sv' = sv_store sv \<and> sv_decisions sv' = sv_decisions sv"
proof (cases "ResolveProfile (sv_store sv) (rq_model rr)")
  case None
  then show ?thesis unfolding evaluate_route_def route_input_def Let_def by auto
next
  case (Some p)
  have keeps: "sv_store (snd (Manager_Index sv ns)) = sv_store sv" "sv_decisions (snd (Manager_Index sv ns)) = sv_decisions sv" for ns
    by (simp_all add: Manager_Index_def split: option.split)
  show ?thesis
  proof (cases "tokens_of tokenize p (EnginesForModel (sv_store sv) (rq_model rr)) rr")
    case None
    with Some show ?thesis unfolding evaluate_route_def route_input_def Let_def by auto
  next
    case toks: (Some x)
    obtain toks n where x: "x = (toks, n)" by fastforce
    obtain ix sv' where m: "Manager_Index sv (Namespace p) = (ix, sv')" by fastforce
    from Some toks x m keeps [of "Namespace p"] show ?thesis
      unfolding evaluate_route_def route_input_def Let_def by auto
  qed
qed

lemma route_result [simp]: "rp_result (fst (evaluate_route tokenize rr sv)) = Evaluate (route_input tokenize rr sv)"
proof -
  have "rp_result (fst (finish rr res v ns es sv)) = res" for res v ns es sv by (simp add: finish_def Let_def)
  then show ?thesis using evaluate_route [of tokenize rr sv] by auto
qed

lemma route_input_simps:
  "in_rules (route_input tokenize rr sv) = ListPolicies (sv_store sv)"
  "in_has_candidates (route_input tokenize rr sv) \<longleftrightarrow> EnginesForModel (sv_store sv) (rq_model rr) \<noteq> []"
  by (auto simp: route_input_def base_input_def Let_def split: option.split)

lemma route_certain:
  assumes "uncertaintyReason (route_input tokenize rr sv) = None"
  defines "es \<equiv> EnginesForModel (sv_store sv) (rq_model rr)"
  shows "es \<noteq> [] \<and> StreamFreshForEngines sv es \<and> (\<exists>p. ResolveProfile (sv_store sv) (rq_model rr) = Some p
    \<and> tokens_of tokenize p es rr \<noteq> None \<and> (rq_multimodal rr \<longrightarrow> gp_multimodal p))"
  using assms(1) unfolding es_def uncertaintyReason_def
  by (auto simp: route_input_def base_input_def Let_def split: option.splits if_splits)

text \<open>
  C8: a request is turned away only for a reason.  Some enabled rule of the store matches it,
  and that rule either rejects what it matches, or asks for a cache hit and says to reject when
  a signal is missing, or asks for a cache hit while every signal is there: an engine serves the
  model, its event stream is connected without gaps, the model has a profile, the engine gave
  tokens, the content can be hashed, and the share found is below the one the rule asks for.
  Without such a rule no request is ever turned away.
\<close>

theorem rejection_explained:
  assumes "policies_ok (sv_store sv)"
    and "re_decision (rp_result (fst (evaluate_route tokenize rr sv))) = ''reject''"
  defines "inp \<equiv> route_input tokenize rr sv" and "es \<equiv> EnginesForModel (sv_store sv) (rq_model rr)"
  shows "\<exists>r \<in> set (ListPolicies (sv_store sv)). applies inp r
    \<and> re_matched_id (rp_result (fst (evaluate_route tokenize rr sv))) = gr_rule_id r
    \<and> (TypeOrDefault (gr_action r) \<notin> {''accept'', ''require_cache_hit''}
      \<or> TypeOrDefault (gr_action r) = ''require_cache_hit'' \<and> ga_on_uncertain (gr_action r) = ''reject''
      \<or> TypeOrDefault (gr_action r) = ''require_cache_hit''
        \<and> f64_less (hi_hit_ratio (bestHit inp)) (MinHitRatioOrDefault (gr_action r))
        \<and> es \<noteq> [] \<and> StreamFreshForEngines sv es
        \<and> (\<exists>p. ResolveProfile (sv_store sv) (rq_model rr) = Some p \<and> tokens_of tokenize p es rr \<noteq> None
             \<and> (rq_multimodal rr \<longrightarrow> gp_multimodal p)))"
proof -
  have "distinct (map gr_rule_id (in_rules inp))"
    using listed_rules [OF assms(1)] by (simp add: inp_def route_input_simps)
  from rejection_rule [OF this] assms(2) obtain r where r: "decides inp r" "re_matched_id (Evaluate inp) = gr_rule_id r"
    "TypeOrDefault (gr_action r) \<noteq> ''accept''"
    "TypeOrDefault (gr_action r) = ''require_cache_hit'' \<Longrightarrow>
       if uncertaintyReason inp = None then f64_less (hi_hit_ratio (bestHit inp)) (MinHitRatioOrDefault (gr_action r))
       else ga_on_uncertain (gr_action r) = ''reject''"
    unfolding inp_def by (metis route_result)
  have "r \<in> set (ListPolicies (sv_store sv))" "applies inp r"
    using r(1) by (simp_all add: decides_def inp_def route_input_simps)
  moreover have "re_matched_id (rp_result (fst (evaluate_route tokenize rr sv))) = gr_rule_id r"
    using r(2) by (simp add: inp_def)
  moreover have "uncertaintyReason inp = None \<Longrightarrow> es \<noteq> [] \<and> StreamFreshForEngines sv es
      \<and> (\<exists>p. ResolveProfile (sv_store sv) (rq_model rr) = Some p \<and> tokens_of tokenize p es rr \<noteq> None
           \<and> (rq_multimodal rr \<longrightarrow> gp_multimodal p))"
    unfolding inp_def es_def by (rule route_certain)
  ultimately show ?thesis using r(3,4) by (auto split: if_splits)
qed

section \<open>The target\<close>

text \<open>
  C21: the target may serve the request: it is an enabled engine that is not draining, whose
  cluster is enabled and not in maintenance, and that serves the model.  An accepted request has
  a target just when there is such an engine, and it is the engine of the best hit when that one
  may serve; a rejected request has none and is told why.  Each judgement adds one entry to the
  list of decisions, which keeps the last two hundred.
\<close>

theorem target_may_serve:
  defines "es sv rr \<equiv> EnginesForModel (sv_store sv) (rq_model rr)"
  shows "let resp = fst (evaluate_route tokenize rr sv); sv' = snd (evaluate_route tokenize rr sv);
      res = rp_result resp in
    (\<forall>t. rp_target resp = Some t \<longrightarrow> (\<exists>e \<in> snd ` set (so_engines (sv_store sv)).
        t = target_of e \<and> ge_enabled e \<and> \<not> ge_draining e \<and> rq_model rr \<in> set (ge_served_models e)
        \<and> (\<forall>c. map_of (so_clusters (sv_store sv)) (ge_cluster_id e) = Some c \<longrightarrow> gk_enabled c \<and> \<not> gk_maintenance c)))
    \<and> (rp_target resp = None \<longleftrightarrow> re_decision res = ''reject'' \<or> es sv rr = [])
    \<and> (re_decision res \<noteq> ''reject'' \<and> hi_instance_id (re_hit res) \<in> ge_engine_id ` set (es sv rr)
        \<longrightarrow> map_option tg_engine_id (rp_target resp) = Some (hi_instance_id (re_hit res)))
    \<and> (rp_error resp = None \<longleftrightarrow> re_decision res \<noteq> ''reject'')
    \<and> (\<exists>d. sv_decisions sv' = slice_last 200 (sv_decisions sv @ [d]) \<and> rd_result d = res)
    \<and> sv_store sv' = sv_store sv"
proof -
  from evaluate_route [of tokenize rr sv] obtain version ns sv1 where route:
    "evaluate_route tokenize rr sv = finish rr (Evaluate (route_input tokenize rr sv)) version ns (es sv rr) sv1"
    "sv_store sv1 = sv_store sv" "sv_decisions sv1 = sv_decisions sv" by (auto simp: es_def)
  define res where "res = Evaluate (route_input tokenize rr sv)"
  have engines: "set (es sv rr) = {e \<in> snd ` set (so_engines (sv_store sv)). serves (sv_store sv) (rq_model rr) e}"
    by (auto simp: es_def EnginesForModel_def)
  have picked: "\<exists>e \<in> set es'. pickTarget i es' = Some (target_of e)
      \<and> (i \<in> ge_engine_id ` set es' \<longrightarrow> ge_engine_id e = i)" if "es' \<noteq> []" for i es'
  proof (cases "List.find (\<lambda>e. ge_engine_id e = i) es'")
    case None
    then have "i \<notin> ge_engine_id ` set es'" by (auto simp: find_None_iff)
    with None that show ?thesis by (cases es') (auto simp: pickTarget_def simp del: find.simps)
  next
    case (Some e)
    then have "e \<in> set es'" "ge_engine_id e = i" by (auto simp: find_Some_iff)
    with that Some show ?thesis by (cases es') (auto simp: pickTarget_def simp del: find.simps)
  qed
  have none: "pickTarget i [] = None" for i by (simp add: pickTarget_def)
  have target: "rp_target (fst (evaluate_route tokenize rr sv))
      = (if re_decision res = ''reject'' then None else pickTarget (hi_instance_id (re_hit res)) (es sv rr))"
    by (simp add: route(1) finish_def Let_def res_def)
  have others: "(rp_error (fst (evaluate_route tokenize rr sv)) = None \<longleftrightarrow> re_decision res \<noteq> ''reject'')
      \<and> (\<exists>d. sv_decisions (snd (evaluate_route tokenize rr sv)) = slice_last 200 (sv_decisions sv @ [d]) \<and> rd_result d = res)
      \<and> sv_store (snd (evaluate_route tokenize rr sv)) = sv_store sv"
    by (auto simp: route finish_def Let_def res_def)
  show ?thesis
  proof (cases "es sv rr = []")
    case True
    then show ?thesis using others by (simp add: Let_def target none res_def)
  next
    case False
    from picked [OF False, of "hi_instance_id (re_hit res)"] obtain e where e: "e \<in> set (es sv rr)"
      "pickTarget (hi_instance_id (re_hit res)) (es sv rr) = Some (target_of e)"
      "hi_instance_id (re_hit res) \<in> ge_engine_id ` set (es sv rr) \<longrightarrow> ge_engine_id e = hi_instance_id (re_hit res)" by blast
    from e(1) have "e \<in> snd ` set (so_engines (sv_store sv))" "serves (sv_store sv) (rq_model rr) e" by (simp_all add: engines)
    with False e(2,3) others show ?thesis
      unfolding Let_def target route_result res_def [symmetric]
      by (intro conjI allI impI) (auto simp: serves_def target_of_def split: if_splits option.splits)
  qed
qed

section \<open>A drained engine\<close>

text \<open>
  Two engines serve a model; the first holds a prompt and is drained.  A rule asks for a cached
  share of one half.
\<close>

definition small_profile :: go_profile where
  "small_profile = \<lparr>gp_model_id = ''m'', gp_aliases = [], gp_framework = ''vllm'', gp_version = 1,
     gp_tokenizer_endpoint = ''http://t'', gp_tokenizer_mode = ''remote'', gp_sha = [], gp_hash_profile = ''h'',
     gp_block_size = 2, gp_hash_seed = ''s'', gp_lora = False, gp_multimodal = False, gp_salt = False\<rparr>"

definition worker :: "string \<Rightarrow> bool \<Rightarrow> go_engine" where
  "worker i draining = \<lparr>ge_engine_id = i, ge_cluster_id = ''c'', ge_framework = ''vllm'', ge_api_endpoint = ''http://'' @ i,
     ge_tokenizer_endpoint = [], ge_kv_event_endpoint = ''tcp://'' @ i, ge_replay_endpoint = [], ge_topic = [],
     ge_served_models = [''m''], ge_dp_ranks = 1, ge_max_num_seqs = 0, ge_max_model_len = 0, ge_queue_depth = 0,
     ge_healthy = True, ge_draining = draining, ge_enabled = True, ge_labels = None\<rparr>"

definition half_rule :: go_rule where
  "half_rule = \<lparr>gr_rule_id = ''half'', gr_name = [], gr_priority = 1, gr_conditions = [], gr_action = hit_action,
     gr_enabled = None\<rparr>"

definition two_workers :: "index \<Rightarrow> service" where
  "two_workers ix = \<lparr>sv_store = \<lparr>so_version = 4, so_audit = [], so_clusters = [],
       so_engines = [(''w0'', worker ''w0'' True), (''w1'', worker ''w1'' False)],
       so_profiles = [(''m'', small_profile)], so_policies = [(''half'', half_rule)]\<rparr>,
     sv_indexes = [(''m/v1/h/2'', ix)], sv_listeners = [(''w1'', (NewListener ''w1'' ''m'' ''tcp://w1'' [])\<lparr>l_connected := True\<rparr>)], sv_decisions = []\<rparr>"

definition two_tokens :: tokenizer where
  "two_tokens p ep rr = Some ([7, 9], 2)"

definition ask :: route_request where
  "ask = \<lparr>rq_protocol = ''openai.chat'', rq_model = ''m'', rq_tenant_id = [], rq_multimodal = False\<rparr>"

definition drained_index :: index where
  "drained_index = index_step (Stored 5 \<lparr>rs_engine = ''w0'', rs_dp = 0, rs_tier = ''gpu''\<rparr> [50]
     (RequestKeysFromTokens (profile_seed small_profile) [7, 9] 2)) NewIndex"

text \<open>
  The cache of an engine that may not serve lets a request in.  The query is not limited to
  the engines that may serve the model: the request meets the rule with the prefix of the
  drained engine, and is sent to the other one, which holds no block of it.
\<close>

theorem drained_cache_admits:
  "let resp = fst (evaluate_route two_tokens ask (two_workers drained_index)) in
    re_reason (rp_result resp) = ''kv_cache_hit_requirement_met''
    \<and> hi_instance_id (re_hit (rp_result resp)) = ''w0''
    \<and> map_option tg_engine_id (rp_target resp) = Some ''w1''
    \<and> (\<forall>(r, rk) \<in> holds drained_index. rs_engine r \<noteq> ''w1'')"
proof -
  have "(let resp = fst (evaluate_route two_tokens ask (two_workers drained_index)) in
    (re_reason (rp_result resp), hi_instance_id (re_hit (rp_result resp)), map_option tg_engine_id (rp_target resp)))
    = (''kv_cache_hit_requirement_met'', ''w0'', Some ''w1'')"
    by code_simp
  moreover have "\<forall>(r, rk) \<in> holds drained_index. rs_engine r \<noteq> ''w1''"
    by (auto simp: drained_index_def store_event new_index)
  ultimately show ?thesis by (simp add: Let_def)
qed

theorem rejection_explained_witness:
  "\<exists>r \<in> set (ListPolicies (sv_store (two_workers NewIndex))).
     applies (route_input two_tokens ask (two_workers NewIndex)) r
     \<and> re_matched_id (rp_result (fst (evaluate_route two_tokens ask (two_workers NewIndex)))) = gr_rule_id r"
proof -
  have "policies_ok (sv_store (two_workers NewIndex))" by (simp add: policies_ok_def two_workers_def half_rule_def)
  moreover have "re_decision (rp_result (fst (evaluate_route two_tokens ask (two_workers NewIndex)))) = ''reject''"
    by code_simp
  ultimately show ?thesis using rejection_explained [of "two_workers NewIndex" two_tokens ask] by blast
qed

theorem target_may_serve_witness:
  "\<exists>e \<in> snd ` set (so_engines (sv_store (two_workers drained_index))).
     \<not> ge_draining e \<and> rp_target (fst (evaluate_route two_tokens ask (two_workers drained_index))) = Some (target_of e)"
proof -
  have "rp_target (fst (evaluate_route two_tokens ask (two_workers drained_index))) \<noteq> None" by code_simp
  then obtain t where "rp_target (fst (evaluate_route two_tokens ask (two_workers drained_index))) = Some t" by blast
  with target_may_serve [where tokenize = two_tokens and rr = ask and sv = "two_workers drained_index"] show ?thesis
    unfolding Let_def by metis
qed

end
