(* ===== verification/Policy_Store_Props.thy ===== *)
theory Policy_Store_Props
  imports Policy_Store Routing_Props
begin

text \<open>
  The store of rules is a map of rules by identity, and a rule that the console's form makes
  means to the judgement what the form says.
\<close>

section \<open>The map of rules\<close>

definition rules_of :: "store \<Rightarrow> string \<Rightarrow> go_rule option" where
  "rules_of st = map_of (so_policies st)"

lemma bump_simps [simp]: "so_policies (bump a n i st) = so_policies st" "so_version (bump a n i st) = so_version st + 1"
  by (simp_all add: bump_def Let_def)

lemma rules_ids: "policies_ok st \<Longrightarrow> rules_of st i = Some r \<Longrightarrow> gr_rule_id r = i"
  by (auto simp: policies_ok_def rules_of_def dest!: map_of_SomeD)

lemma in_update: "(k, v) \<in> set (AList.update i r xs) \<Longrightarrow> k = i \<and> v = r \<or> (k, v) \<in> set xs"
  by (induction xs) (auto split: if_splits)

lemma policies_ok_update:
  "policies_ok st \<Longrightarrow> gr_rule_id r = i \<Longrightarrow> policies_ok (bump a n j (st\<lparr>so_policies := AList.update i r (so_policies st)\<rparr>))"
  by (auto simp: policies_ok_def distinct_update dest!: in_update)

lemma policies_ok_delete:
  "policies_ok st \<Longrightarrow> policies_ok (bump a n j (st\<lparr>so_policies := AList.delete i (so_policies st)\<rparr>))"
  by (auto simp: policies_ok_def AList.delete_eq distinct_map_filter)

text \<open>What each request of the console does to the map of the rules.\<close>

definition map_create :: "go_rule option \<Rightarrow> (string \<rightharpoonup> go_rule) \<Rightarrow> int \<times> (string \<rightharpoonup> go_rule)" where
  "map_create p m = (case p of None \<Rightarrow> (400, m)
     | Some r \<Rightarrow> if gr_rule_id r = [] then (400, m) else (200, m(gr_rule_id r \<mapsto> r)))"

definition map_patch :: "string \<Rightarrow> go_rule option \<Rightarrow> (string \<rightharpoonup> go_rule) \<Rightarrow> int \<times> (string \<rightharpoonup> go_rule)" where
  "map_patch i p m = (case p of None \<Rightarrow> (400, m)
     | Some r \<Rightarrow> (case m i of None \<Rightarrow> (404, m) | Some _ \<Rightarrow> (200, m(i \<mapsto> r\<lparr>gr_rule_id := i\<rparr>))))"

definition map_delete :: "string \<Rightarrow> (string \<rightharpoonup> go_rule) \<Rightarrow> int \<times> (string \<rightharpoonup> go_rule)" where
  "map_delete i m = (case m i of None \<Rightarrow> (404, m) | Some _ \<Rightarrow> (200, m(i := None)))"

definition does :: "int \<times> store \<Rightarrow> store \<Rightarrow> int \<times> (string \<rightharpoonup> go_rule) \<Rightarrow> bool" where
  "does res st spec \<longleftrightarrow> fst res = fst spec \<and> rules_of (snd res) = snd spec \<and> policies_ok (snd res)
     \<and> so_version (snd res) = so_version st + (if fst res = 200 then 1 else 0)
     \<and> (fst res \<noteq> 200 \<longrightarrow> snd res = st)"

text \<open>
  C19: the store of rules is a map of rules by identity.  Creating a rule puts it there, or
  replaces the one of its identity; changing a rule replaces all but its identity, whatever
  identity the body says; an unknown rule is not found and a body that cannot be read is refused,
  without any change.  Each success makes one new version of the configuration, and the list
  shows just the rules with an identity, in the order they are judged in.
\<close>

theorem policy_store_refines_map:
  assumes "policies_ok st"
  shows "does (handleCreatePolicy body st) st (map_create (read_policy body) (rules_of st))
    \<and> does (handlePatchPolicy i body st) st (map_patch i (read_policy body) (rules_of st))
    \<and> does (handleDeletePolicy i st) st (map_delete i (rules_of st))
    \<and> (set (handleListPolicies st) = {r. rules_of st (gr_rule_id r) = Some r \<and> gr_rule_id r \<noteq> []}
      \<and> distinct (map gr_rule_id (handleListPolicies st)) \<and> sorted (map rule_rank (handleListPolicies st)))"
proof (intro conjI)
  show "does (handleCreatePolicy body st) st (map_create (read_policy body) (rules_of st))"
    using assms policies_ok_update [OF assms]
    by (auto simp: does_def handleCreatePolicy_def map_create_def UpsertPolicy_def rules_of_def update_conv' split: option.split)
  have same: "replace_rule p r = p\<lparr>gr_rule_id := i\<rparr>" if "rules_of st i = Some r" for p r
    using rules_ids [OF assms that] by (simp add: replace_rule_def)
  show "does (handlePatchPolicy i body st) st (map_patch i (read_policy body) (rules_of st))"
  proof (cases "read_policy body")
    case None
    then show ?thesis using assms by (simp add: does_def handlePatchPolicy_def map_patch_def)
  next
    case (Some p)
    then show ?thesis
      using assms same policies_ok_update [OF assms, of "p\<lparr>gr_rule_id := i\<rparr>" i]
      by (auto simp: does_def handlePatchPolicy_def map_patch_def PatchPolicy_def rules_of_def update_conv' split: option.splits)
  qed
  show "does (handleDeletePolicy i st) st (map_delete i (rules_of st))"
    using assms policies_ok_delete [OF assms]
    by (auto simp: does_def handleDeletePolicy_def map_delete_def RemovePolicy_def rules_of_def delete_conv' split: option.splits)
  show "distinct (map gr_rule_id (handleListPolicies st))" "sorted (map rule_rank (handleListPolicies st))"
    using listed_rules [OF assms] by (simp_all add: handleListPolicies_def) (simp add: ListPolicies_def)
  have "r \<in> snd ` set (so_policies st) \<longleftrightarrow> map_of (so_policies st) (gr_rule_id r) = Some r" for r
    using assms by (force simp: policies_ok_def dest: map_of_SomeD)
  then show "set (handleListPolicies st) = {r. rules_of st (gr_rule_id r) = Some r \<and> gr_rule_id r \<noteq> []}"
    by (auto simp: handleListPolicies_def ListPolicies_def rules_of_def)
qed

theorem policy_store_refines_map_witness:
  "does (handleDeletePolicy ''half'' (sv_store (two_workers NewIndex))) (sv_store (two_workers NewIndex)) (200, Map.empty)"
proof -
  have "policies_ok (sv_store (two_workers NewIndex))" by (simp add: policies_ok_def two_workers_def half_rule_def)
  from policy_store_refines_map [OF this, of "[]" "''half''"]
  have "does (handleDeletePolicy ''half'' (sv_store (two_workers NewIndex))) (sv_store (two_workers NewIndex))
      (map_delete ''half'' (rules_of (sv_store (two_workers NewIndex))))" by blast
  moreover have "map_delete ''half'' (rules_of (sv_store (two_workers NewIndex))) = (200, Map.empty)"
    by (simp add: map_delete_def rules_of_def two_workers_def)
  ultimately show ?thesis by simp
qed

end
