(* ===== verification/Policy_Meaning.thy ===== *)
theory Policy_Meaning
  imports Policy_Store_Props Policy_Props
begin

text \<open>
  From the console to the judgement: a rule made in the form, sent by the page, decoded and kept
  by an indexer, matches the requests the form describes; and the texts for which it does not.
\<close>

section \<open>What a condition of the form says\<close>

definition token_field :: "string \<Rightarrow> bool" where
  "token_field f \<longleftrightarrow> f \<in> {''input_tokens'', ''best_hit_tokens'', ''effective_cached_tokens''}"

definition text_field :: "string \<Rightarrow> bool" where
  "text_field f \<longleftrightarrow> f \<in> {''cluster_id'', ''model_id'', ''tenant_id'', ''kv_event_state''}"

definition tokens_at :: "adm_input \<Rightarrow> hit_info \<Rightarrow> string \<Rightarrow> int" where
  "tokens_at inp h f = (if f = ''input_tokens'' then in_input_tokens inp
     else if f = ''best_hit_tokens'' then hi_best_hit_tokens h else hi_effective h)"

definition text_at :: "adm_input \<Rightarrow> string \<Rightarrow> string" where
  "text_at inp f = (if f = ''cluster_id'' then in_cluster_id inp else if f = ''model_id'' then in_model_id inp
     else if f = ''tenant_id'' then in_tenant_id inp else if in_fresh inp then ''available'' else ''stale'')"

definition flag_at :: "adm_input \<Rightarrow> string \<Rightarrow> bool" where
  "flag_at inp f = (if f = ''tokenized'' then in_tokenized inp
     else if f = ''hash_supported'' then in_hash_supported inp else in_has_candidates inp)"

definition compares :: "string \<Rightarrow> int \<Rightarrow> int \<Rightarrow> bool" where
  "compares opn a b = (if opn = ''eq'' then a = b else if opn = ''neq'' then a \<noteq> b else if opn = ''gt'' then b < a
     else if opn = ''gte'' then b \<le> a else if opn = ''lt'' then a < b else a \<le> b)"

definition parts :: "string \<Rightarrow> string list" where
  "parts raw = filter (\<lambda>p. p \<noteq> []) (map trim (split_on (CHR '','') raw))"

definition means :: "adm_input \<Rightarrow> hit_info \<Rightarrow> condition_draft \<Rightarrow> bool" where
  "means inp h d = (let f = cd_field d; opn = cd_op d; v = cd_value d in
     if token_field f then compares opn (tokens_at inp h f) (int (nat_of v))
     else if booleanField f then (flag_at inp f = (v = ''true'')) = (opn = ''eq'')
     else if opn = ''eq'' then text_at inp f = v else if opn = ''neq'' then text_at inp f \<noteq> v
     else if opn = ''in'' then text_at inp f \<in> set (parts v)
     else if opn = ''not_in'' then text_at inp f \<notin> set (parts v)
     else str_includes (text_at inp f) v)"

text \<open>
  The conditions a rule is about: counts of tokens, flags, and names that no one could take for a
  number or a truth value.
\<close>

definition name_like :: "string \<Rightarrow> bool" where
  "name_like s \<longleftrightarrow> ParseFloat s = None \<and> ParseBool s = None"

definition plain_draft :: "condition_draft \<Rightarrow> bool" where
  "plain_draft d \<longleftrightarrow> (let f = cd_field d; opn = cd_op d; v = cd_value d in
     if token_field f then opn \<in> {''eq'', ''neq'', ''gt'', ''gte'', ''lt'', ''lte''}
       \<and> v = digits (nat_of v) \<and> int (nat_of v) < 2 ^ 53
     else if booleanField f then opn \<in> {''eq'', ''neq''} \<and> v \<in> {''true'', ''false''}
     else text_field f \<and> (opn \<in> {''eq'', ''neq''} \<and> name_like v
       \<or> opn \<in> {''in'', ''not_in''} \<and> list_all name_like (parts v) \<or> opn = ''contains''))"

section \<open>Numbers on the way\<close>

lemma digits_to_number: "to_number (digits n) = of_int_num (int n)"
proof -
  have "parse_udec (digits n @ []) = Some (nat_of (digits n), 0)"
    by (rule parse_udec_plain) (simp_all add: digits_all_digit parse_exp_def)
  moreover have "digits n \<noteq> ''Infinity''" using digits_all_digit [of n] by auto
  moreover have "to_number ((if False then ''-'' else []) @ digits n) = signed_dec False (digits n)"
    by (rule to_number_signed) (auto intro: digits_digit digits_digit [OF hd_in_set] digits_digit [OF last_in_set])
  ultimately show ?thesis by (simp add: signed_dec_def of_int_num_def)
qed

lemma of_int_num_frac:
  obtains m e where "of_int_num i = Dec m (int e)" "frac_of m (int e) = (i, 1)"
proof -
  obtain m e where "of_int_num i = Dec m (int e)" "m * 10 ^ e = i"
    using mk_dec_int [of i 0] by (auto simp: of_int_num_def)
  then show thesis using that by (simp add: frac_of_def)
qed

lemma small_f64: "\<bar>i\<bar> < 2 ^ 53 \<Longrightarrow> f64_of (i, 1) = Some (Fin (to_double (i, 1)))"
  by (simp add: f64_of_def f64_limit_def)

lemma go_of_int: "\<bar>i\<bar> < 2 ^ 53 \<Longrightarrow> go_of_json (JNum (of_int_num i)) = Some (GFloat (Fin (to_double (i, 1))))"
  by (rule of_int_num_frac [of i]) (simp add: small_f64)

lemma of_int_num_json_ok: "json_ok (JNum (of_int_num i))"
  using mk_dec_canonical [of i 0] by (rule_tac of_int_num_frac [of i]) (auto simp: of_int_num_def)

text \<open>Below \<open>2 ^ 53\<close> the doubles compare as the integers.\<close>

lemma double_ints:
  assumes "0 \<le> a" "a < 2 ^ 53" "0 \<le> b" "b < 2 ^ 53"
  shows "f64_less (Fin (to_double (a, 1))) (Fin (to_double (b, 1))) \<longleftrightarrow> a < b"
    "f64_eq (Fin (to_double (a, 1))) (Fin (to_double (b, 1))) \<longleftrightarrow> a = b"
    "f64_le (Fin (to_double (a, 1))) (Fin (to_double (b, 1))) \<longleftrightarrow> a \<le> b"
proof -
  obtain p q where p: "to_double (a, 1) = (p, q)" by fastforce
  obtain r t where r: "to_double (b, 1) = (r, t)" by fastforce
  from int_to_double [of a] int_to_double [of b] assms p r
  have "p = a * q" "0 < q" "r = b * t" "0 < t" by simp_all
  moreover from this have "0 < q * t" by simp
  then have "a * (q * t) < b * (q * t) \<longleftrightarrow> a < b" by (simp add: mult_less_cancel_right)
  ultimately show "f64_less (Fin (to_double (a, 1))) (Fin (to_double (b, 1))) \<longleftrightarrow> a < b"
    "f64_eq (Fin (to_double (a, 1))) (Fin (to_double (b, 1))) \<longleftrightarrow> a = b"
    by (simp_all add: p r mult.assoc mult.commute [of t q] del: mult_less_cancel_right)
  then show "f64_le (Fin (to_double (a, 1))) (Fin (to_double (b, 1))) \<longleftrightarrow> a \<le> b" by (auto simp: f64_le_def)
qed

section \<open>One condition\<close>

definition holds_condition :: "adm_input \<Rightarrow> hit_info \<Rightarrow> go_condition \<Rightarrow> bool" where
  "holds_condition inp h c = (case conditionValue inp h (gn_field c) of None \<Rightarrow> False | Some a \<Rightarrow> matchesCondition a c)"

lemma decode_condition_json:
  "go_of_json (value_json v) = Some x \<Longrightarrow>
   decode_condition (condition_json \<lparr>rc_field = f, rc_op = opn, rc_value = Some v\<rparr>)
     = Some \<lparr>gn_field = f, gn_op = opn, gn_value = x\<rparr>"
  by (simp add: decode_condition_def condition_json_def opt_field_def is_object_def)

lemma name_equal: "name_like v \<Longrightarrow> valuesEqual (GStr s) (GStr v) \<longleftrightarrow> s = v"
  by (auto simp: valuesEqual_def name_like_def split: option.splits)

lemma names_listed: "list_all name_like vs \<Longrightarrow> list_ex (valuesEqual (GStr s)) (map GStr vs) \<longleftrightarrow> s \<in> set vs"
  by (induction vs) (auto simp: name_equal)

definition in_range :: "adm_input \<Rightarrow> hit_info \<Rightarrow> bool" where
  "in_range inp h \<longleftrightarrow> (\<forall>f. 0 \<le> tokens_at inp h f \<and> tokens_at inp h f < 2 ^ 53)"

lemma token_condition:
  assumes "token_field f" "opn \<in> {''eq'', ''neq'', ''gt'', ''gte'', ''lt'', ''lte''}" "int n < 2 ^ 53" "in_range inp h"
  shows "holds_condition inp h \<lparr>gn_field = f, gn_op = opn, gn_value = GFloat (Fin (to_double (int n, 1)))\<rparr>
    \<longleftrightarrow> compares opn (tokens_at inp h f) (int n)"
proof -
  have "conditionValue inp h f = Some (GInt (tokens_at inp h f))"
    using assms(1) unfolding token_field_def by (elim insertE emptyE) (simp_all add: conditionValue_def tokens_at_def)
  moreover have "0 \<le> tokens_at inp h f" "tokens_at inp h f < 2 ^ 53" using assms(4) by (simp_all add: in_range_def)
  note double_ints [OF this, of "int n"] double_ints(1,3) [OF _ _ this, of "int n"]
  ultimately show ?thesis
    using assms(2,3)
    by (elim insertE emptyE) (simp_all add: holds_condition_def matchesCondition_def valuesEqual_def compareNumeric_def compares_def)
qed

lemma flag_condition:
  assumes "booleanField f" "opn \<in> {''eq'', ''neq''}"
  shows "holds_condition inp h \<lparr>gn_field = f, gn_op = opn, gn_value = GBool b\<rparr> \<longleftrightarrow> (flag_at inp f = b) = (opn = ''eq'')"
proof -
  have "f \<in> {''tokenized'', ''hash_supported'', ''has_candidates''}" using assms(1) by (auto simp: booleanField_def)
  then have "conditionValue inp h f = Some (GBool (flag_at inp f))"
    by (elim insertE emptyE) (simp_all add: conditionValue_def flag_at_def)
  with assms(2) show ?thesis
    by (elim insertE emptyE) (simp_all add: holds_condition_def matchesCondition_def valuesEqual_def)
qed

lemma text_value: "text_field f \<Longrightarrow> conditionValue inp h f = Some (GStr (text_at inp f))"
  unfolding text_field_def by (elim insertE emptyE) (simp_all add: conditionValue_def text_at_def)

lemma text_condition:
  assumes "text_field f" "opn \<in> {''eq'', ''neq''} \<and> name_like v \<or> opn = ''contains''"
  shows "holds_condition inp h \<lparr>gn_field = f, gn_op = opn, gn_value = GStr v\<rparr>
    \<longleftrightarrow> (if opn = ''eq'' then text_at inp f = v else if opn = ''neq'' then text_at inp f \<noteq> v else str_includes (text_at inp f) v)"
  using assms(2) text_value [OF assms(1)]
  by (elim disjE conjE insertE emptyE) (simp_all add: holds_condition_def matchesCondition_def name_equal)

lemma list_condition:
  assumes "text_field f" "opn \<in> {''in'', ''not_in''}" "list_all name_like vs"
  shows "holds_condition inp h \<lparr>gn_field = f, gn_op = opn, gn_value = GList (map GStr vs)\<rparr>
    \<longleftrightarrow> (text_at inp f \<in> set vs) = (opn = ''in'')"
  using assms(2) text_value [OF assms(1)] names_listed [OF assms(3)]
  by (elim insertE emptyE) (simp_all add: holds_condition_def matchesCondition_def listContains_def)

lemma those_strings: "those (map go_of_json (map scalar_json (map SStr vs))) = Some (map GStr vs)"
  by (induction vs) auto

lemma parse_text_list:
  assumes "text_field f"
  shows "filter (\<lambda>p. p \<noteq> SStr []) (map (\<lambda>p. parseSingleValue f (trim p)) ws) = map SStr (filter (\<lambda>p. p \<noteq> []) (map trim ws))"
proof -
  have "parseSingleValue f raw = SStr raw" for raw
    using assms by (auto simp: text_field_def parseSingleValue_def numericField_def booleanField_def)
  then show ?thesis by (induction ws) auto
qed

text \<open>A condition of the form, decoded by the indexer, holds just when the form says so.\<close>

lemma condition_means:
  assumes "plain_draft d"
  obtains c where "decode_condition (condition_json (condition_of d)) = Some c" "json_ok (condition_json (condition_of d))"
    "\<And>inp h. in_range inp h \<Longrightarrow> holds_condition inp h c \<longleftrightarrow> means inp h d"
proof -
  let ?f = "cd_field d" and ?op = "cd_op d" and ?v = "cd_value d"
  have ok: "json_ok (value_json v) \<Longrightarrow> json_ok (condition_json \<lparr>rc_field = ?f, rc_op = ?op, rc_value = Some v\<rparr>)" for v
    by (simp add: condition_json_def opt_field_def)
  consider (tokens) "token_field ?f" | (flag) "\<not> token_field ?f" "booleanField ?f"
    | (words) "\<not> token_field ?f" "\<not> booleanField ?f" "text_field ?f"
    using assms by (auto simp: plain_draft_def Let_def split: if_splits)
  then show thesis
  proof cases
    case tokens
    let ?n = "nat_of ?v"
    from assms tokens have d: "?op \<in> {''eq'', ''neq'', ''gt'', ''gte'', ''lt'', ''lte''}" "?v = digits ?n" "int ?n < 2 ^ 53"
      by (auto simp: plain_draft_def Let_def)
    have "numericField ?f" using tokens by (auto simp: token_field_def numericField_def)
    then have "parseConditionValue ?f ?op ?v = One (SNum (of_int_num (int ?n)))"
      using d(1) digits_to_number [of ?n] d(2) by (auto simp: parseConditionValue_def parseSingleValue_def)
    then have c: "condition_of d = \<lparr>rc_field = ?f, rc_op = ?op, rc_value = Some (One (SNum (of_int_num (int ?n))))\<rparr>"
      by (simp add: condition_of_def)
    show thesis
    proof (rule that)
      show "decode_condition (condition_json (condition_of d))
          = Some \<lparr>gn_field = ?f, gn_op = ?op, gn_value = GFloat (Fin (to_double (int ?n, 1)))\<rparr>"
        unfolding c using d(3) go_of_int [of "int ?n"] by (intro decode_condition_json) (simp only: value_json.simps scalar_json.simps abs_of_nat)
      show "json_ok (condition_json (condition_of d))"
        unfolding c using of_int_num_json_ok by (intro ok) simp
      show "holds_condition inp h \<lparr>gn_field = ?f, gn_op = ?op, gn_value = GFloat (Fin (to_double (int ?n, 1)))\<rparr> \<longleftrightarrow> means inp h d"
        if "in_range inp h" for inp h
        using token_condition [OF tokens d(1,3) that] tokens by (simp add: means_def Let_def)
    qed
  next
    case flag
    from assms flag have d: "?op \<in> {''eq'', ''neq''}" "?v \<in> {''true'', ''false''}"
      by (auto simp: plain_draft_def Let_def)
    have "\<not> numericField ?f" using flag by (auto simp: numericField_def booleanField_def)
    then have c: "condition_of d = \<lparr>rc_field = ?f, rc_op = ?op, rc_value = Some (One (SBool (?v = ''true'')))\<rparr>"
      using d(1) flag by (auto simp: condition_of_def parseConditionValue_def parseSingleValue_def)
    show thesis
    proof (rule that)
      show "decode_condition (condition_json (condition_of d)) = Some \<lparr>gn_field = ?f, gn_op = ?op, gn_value = GBool (?v = ''true'')\<rparr>"
        unfolding c by (intro decode_condition_json) simp
      show "json_ok (condition_json (condition_of d))" unfolding c by (intro ok) simp
      show "holds_condition inp h \<lparr>gn_field = ?f, gn_op = ?op, gn_value = GBool (?v = ''true'')\<rparr> \<longleftrightarrow> means inp h d" for inp h
        using flag_condition [OF flag(2) d(1)] flag by (simp add: means_def Let_def)
    qed
  next
    case words
    from assms words have d: "?op \<in> {''eq'', ''neq''} \<and> name_like ?v \<or> ?op \<in> {''in'', ''not_in''} \<and> list_all name_like (parts ?v) \<or> ?op = ''contains''"
      by (simp add: plain_draft_def Let_def)
    have single: "\<not> numericField ?f" "\<not> booleanField ?f" using words by (auto simp: text_field_def numericField_def)
    show thesis
    proof (cases "?op \<in> {''in'', ''not_in''}")
      case True
      with d have names: "list_all name_like (parts ?v)" by auto
      have c: "condition_of d = \<lparr>rc_field = ?f, rc_op = ?op, rc_value = Some (Many (map SStr (parts ?v)))\<rparr>"
        using True parse_text_list [OF words(3)] by (auto simp: condition_of_def parseConditionValue_def parts_def)
      show thesis
      proof (rule that)
        show "decode_condition (condition_json (condition_of d)) = Some \<lparr>gn_field = ?f, gn_op = ?op, gn_value = GList (map GStr (parts ?v))\<rparr>"
          unfolding c using those_strings [of "parts ?v"] by (intro decode_condition_json) simp
        show "json_ok (condition_json (condition_of d))" unfolding c by (intro ok) auto
        show "holds_condition inp h \<lparr>gn_field = ?f, gn_op = ?op, gn_value = GList (map GStr (parts ?v))\<rparr> \<longleftrightarrow> means inp h d" for inp h
          using list_condition [OF words(3) True names] words True by (auto simp: means_def Let_def)
      qed
    next
      case False
      with d have e: "?op \<in> {''eq'', ''neq''} \<and> name_like ?v \<or> ?op = ''contains''" by auto
      have c: "condition_of d = \<lparr>rc_field = ?f, rc_op = ?op, rc_value = Some (One (SStr ?v))\<rparr>"
        using False single by (auto simp: condition_of_def parseConditionValue_def parseSingleValue_def)
      show thesis
      proof (rule that)
        show "decode_condition (condition_json (condition_of d)) = Some \<lparr>gn_field = ?f, gn_op = ?op, gn_value = GStr ?v\<rparr>"
          unfolding c by (intro decode_condition_json) simp
        show "json_ok (condition_json (condition_of d))" unfolding c by (intro ok) simp
        show "holds_condition inp h \<lparr>gn_field = ?f, gn_op = ?op, gn_value = GStr ?v\<rparr> \<longleftrightarrow> means inp h d" for inp h
          using text_condition [OF words(3) e] words e by (auto simp: means_def Let_def)
      qed
    qed
  qed
qed

section \<open>A rule of the form\<close>

lemma conditions_mean:
  "\<forall>d \<in> set ds. plain_draft d \<Longrightarrow> \<exists>cs. those (map decode_condition (map condition_json (map condition_of ds))) = Some cs
     \<and> (\<forall>d \<in> set ds. json_ok (condition_json (condition_of d)))
     \<and> (\<forall>inp h. in_range inp h \<longrightarrow> (list_all (holds_condition inp h) cs \<longleftrightarrow> (\<forall>d \<in> set ds. means inp h d)))"
proof (induction ds)
  case (Cons d ds)
  then obtain cs where cs: "those (map decode_condition (map condition_json (map condition_of ds))) = Some cs"
    "\<forall>d \<in> set ds. json_ok (condition_json (condition_of d))"
    "\<forall>inp h. in_range inp h \<longrightarrow> (list_all (holds_condition inp h) cs \<longleftrightarrow> (\<forall>d \<in> set ds. means inp h d))" by auto
  from Cons.prems condition_means [of d] obtain c where c: "decode_condition (condition_json (condition_of d)) = Some c"
    "json_ok (condition_json (condition_of d))" "\<And>inp h. in_range inp h \<Longrightarrow> holds_condition inp h c \<longleftrightarrow> means inp h d" by auto
  show ?case by (rule exI [of _ "c # cs"]) (use cs c in auto)
qed simp

lemma matches_conditions: "matchesRule inp h r \<longleftrightarrow> list_all (holds_condition inp h) (gr_conditions r)"
  by (simp add: matchesRule_def holds_condition_def [abs_def])

text \<open>The scope of the form is a condition like the others.\<close>

definition scope_condition :: "string \<Rightarrow> condition_draft" where
  "scope_condition c = \<lparr>cd_field = ''cluster_id'', cd_op = ''eq'', cd_value = c\<rparr>"

definition all_drafts :: "policy_form \<Rightarrow> condition_draft list" where
  "all_drafts f = (let c = trim (pf_scope_cluster f) in if c = [] then pf_conditions f else scope_condition c # pf_conditions f)"

lemma payload_drafts:
  assumes "\<forall>d \<in> set (pf_conditions f). plain_draft d \<and> cd_field d \<noteq> []"
  shows "po_conditions (payloadFromForm f) = Some (map condition_of (all_drafts f))"
proof -
  have "cd_op d \<noteq> []" if "plain_draft d" for d
    using that by (auto simp: plain_draft_def Let_def split: if_splits)
  with assms have "filter (\<lambda>c. cd_field c \<noteq> [] \<and> cd_op c \<noteq> []) (pf_conditions f) = pf_conditions f" by simp
  moreover have "condition_of (scope_condition c) = \<lparr>rc_field = ''cluster_id'', rc_op = ''eq'', rc_value = Some (One (SStr c))\<rparr>" for c
    by (simp add: condition_of_def scope_condition_def parseConditionValue_def parseSingleValue_def numericField_def booleanField_def)
  ultimately show ?thesis by (simp add: payloadFromForm_def all_drafts_def Let_def)
qed

text \<open>The action the form says.\<close>

definition action_says :: "policy_form \<Rightarrow> int \<Rightarrow> f64 \<Rightarrow> go_action \<Rightarrow> bool" where
  "action_says f status ratio a \<longleftrightarrow> TypeOrDefault a = pf_action_type f
     \<and> (pf_action_type f \<noteq> ''accept'' \<longrightarrow> RejectStatusOrDefault a = status)
     \<and> (pf_action_type f = ''require_cache_hit'' \<longrightarrow> MinHitRatioOrDefault a = ratio
         \<and> OnLowHitOrDefault a = pf_on_low_hit f \<and> OnUncertainOrDefault a = pf_on_uncertain f)"

lemma form_action_says:
  assumes "pf_action_type f \<in> set actionTypes" "pf_on_low_hit f \<in> set outcomes" "pf_on_uncertain f \<in> set outcomes"
    and "pf_min_hit_ratio f = Dec m e" "f64_of (frac_of m e) = Some ratio"
    and "pf_reject_status f = of_int_num status" "0 < status" "status < 10 ^ 18"
  shows "\<exists>a. decode_action (action_json (form_action f)) = Some a \<and> action_says f status ratio a"
proof -
  have int: "go_int (Some (JNum (pf_reject_status f))) = Some status" "go_int None = Some 0"
    using assms by (simp_all add: go_int_def [of None])
  have f64: "go_pointer go_f64 (Some (JNum (pf_min_hit_ratio f))) = Some (Some ratio)" "go_pointer go_f64 None = Some None"
    using assms by (simp_all add: go_pointer_def go_f64_def)
  have strs: "go_str None = Some []" by (simp add: go_str_def)
  have out: "pf_on_low_hit f \<noteq> []" "pf_on_uncertain f \<noteq> []" using assms(2,3) by (auto simp: outcomes_def)
  from assms(1) consider (accept) "pf_action_type f = ''accept''" | (reject) "pf_action_type f = ''reject''"
    | (cache) "pf_action_type f = ''require_cache_hit''" by (auto simp: actionTypes_def)
  then show ?thesis
  proof cases
    case accept
    then show ?thesis
      by (simp add: form_action_def action_json_def decode_action_def opt_field_def is_object_def int f64 strs
          action_says_def TypeOrDefault_def)
  next
    case reject
    then show ?thesis using assms(7)
      by (simp add: form_action_def action_json_def decode_action_def opt_field_def is_object_def int f64 strs
          action_says_def TypeOrDefault_def RejectStatusOrDefault_def)
  next
    case cache
    then show ?thesis using assms(7) out
      by (simp add: form_action_def action_json_def decode_action_def opt_field_def is_object_def int f64 strs
          action_says_def TypeOrDefault_def RejectStatusOrDefault_def MinHitRatioOrDefault_def OnLowHitOrDefault_def
          OnUncertainOrDefault_def)
  qed
qed

lemma plain_field: "plain_draft d \<Longrightarrow> cd_field d \<noteq> []"
  by (auto simp: plain_draft_def Let_def token_field_def booleanField_def text_field_def split: if_splits)

lemma action_json_ok:
  assumes "canonical (pf_min_hit_ratio f)" "pf_min_hit_ratio f = Dec m e" "pf_reject_status f = of_int_num status"
  shows "json_ok (action_json (form_action f))"
  using assms of_int_num_json_ok [of status]
  by (auto simp: action_json_def form_action_def opt_field_def Let_def)


text \<open>The form as the page opens it, for one cluster.\<close>

definition new_form :: policy_form where
  "new_form = (formStateFromPolicy None ''hkg'')\<lparr>pf_rule_id := ''r''\<rparr>"

lemma new_form_simps:
  "pf_rule_id new_form = ''r''" "pf_scope_cluster new_form = ''hkg''" "pf_conditions new_form = [defaultCondition]"
  "pf_priority new_form = of_int_num 100" "pf_action_type new_form = ''require_cache_hit''"
  "pf_on_low_hit new_form = ''reject''" "pf_on_uncertain new_form = ''fallback_accept''"
  "pf_min_hit_ratio new_form = Dec 5 (- 1)" "pf_reject_status new_form = of_int_num 429" "pf_enabled new_form"
  by code_simp+


section \<open>Names like numbers\<close>

definition tenant_draft :: "string \<Rightarrow> condition_draft" where
  "tenant_draft v = \<lparr>cd_field = ''tenant_id'', cd_op = ''eq'', cd_value = v\<rparr>"

definition tenant_matches :: "string \<Rightarrow> string \<Rightarrow> bool" where
  "tenant_matches v tenant = (case decode_condition (condition_json (condition_of (tenant_draft v))) of
     None \<Rightarrow> False | Some c \<Rightarrow> holds_condition (long_request\<lparr>in_tenant_id := tenant\<rparr>) (no_hit 400) c)"

lemma tenant_matches: "tenant_matches v tenant \<longleftrightarrow> valuesEqual (GStr tenant) (GStr v)"
proof -
  have "condition_of (tenant_draft v) = \<lparr>rc_field = ''tenant_id'', rc_op = ''eq'', rc_value = Some (One (SStr v))\<rparr>"
    by (simp add: condition_of_def tenant_draft_def parseConditionValue_def parseSingleValue_def numericField_def booleanField_def)
  then have "decode_condition (condition_json (condition_of (tenant_draft v)))
      = Some \<lparr>gn_field = ''tenant_id'', gn_op = ''eq'', gn_value = GStr v\<rparr>" by (simp add: decode_condition_json)
  then show ?thesis by (simp add: tenant_matches_def holds_condition_def conditionValue_def matchesCondition_def)
qed

text \<open>
  Names that can be read as numbers or truth values are compared by what they read as, not
  as the texts the form shows: a rule for the tenant \<open>10\<close> matches the tenant \<open>1e1\<close>, one for the
  tenant \<open>t\<close> matches the tenant \<open>1\<close>, and one for the tenant \<open>nan\<close> matches no request, not even one
  of that tenant.
\<close>

theorem names_read_as_numbers:
  "tenant_matches ''10'' ''1e1'' \<and> tenant_matches ''t'' ''1'' \<and> tenant_matches ''007'' ''7''
    \<and> \<not> tenant_matches ''nan'' ''nan''"
  unfolding tenant_matches by (intro conjI) code_simp+

end
