(* ===== verification/Decode_Props.thy ===== *)
theory Decode_Props
  imports Decode
begin

text \<open>
  What the decoding of a batch gives: numbers of every width, and the batches an engine writes.
\<close>

section \<open>Numbers\<close>

text \<open>The number a value stands for, and the width it was written in.\<close>

fun num_value :: "mp \<Rightarrow> int option" where
  "num_value (MInt8 x) = Some (sint x)"
| "num_value (MUint8 x) = Some (uint x)"
| "num_value (MInt16 x) = Some (sint x)"
| "num_value (MUint16 x) = Some (uint x)"
| "num_value (MInt32 x) = Some (sint x)"
| "num_value (MUint32 x) = Some (uint x)"
| "num_value (MInt64 x) = Some (sint x)"
| "num_value (MUint64 x) = Some (uint x)"
| "num_value (MInt x) = Some (sint x)"
| "num_value _ = None"

fun num_width :: "mp \<Rightarrow> nat" where
  "num_width (MInt8 _) = 8"
| "num_width (MUint8 _) = 8"
| "num_width (MInt16 _) = 16"
| "num_width (MUint16 _) = 16"
| "num_width (MInt32 _) = 32"
| "num_width (MUint32 _) = 32"
| "num_width _ = 64"

lemma uint_signed: "uint (x :: 'a :: len word) = (if sint x < 0 then sint x + 2 ^ LENGTH('a) else sint x)"
proof -
  have lt: "sint x < 2 ^ LENGTH('a)" using sint_lt [of x] by (rule less_le_trans) (simp add: power_increasing)
  have "- (2 ^ LENGTH('a)) \<le> sint x" using sint_ge [of x] by (rule order_trans [rotated]) (simp add: power_increasing)
  then have "(sint x + 2 ^ LENGTH('a)) mod 2 ^ LENGTH('a) = sint x + 2 ^ LENGTH('a)" if "sint x < 0"
    using that by (intro mod_pos_pos_trivial) simp_all
  then have "sint x mod 2 ^ LENGTH('a) = sint x + 2 ^ LENGTH('a)" if "sint x < 0" using that by simp
  moreover have "sint x mod 2 ^ LENGTH('a) = sint x" if "\<not> sint x < 0" using that lt by (intro mod_pos_pos_trivial) simp_all
  ultimately show ?thesis by (simp add: uint_sint take_bit_eq_mod)
qed

lemma sint_uint64: "sint (x :: 64 word) = (if uint x < 2 ^ 63 then uint x else uint x - 2 ^ 64)"
  using sint_lt [of x] sint_ge [of x] by (auto simp: uint_signed)

lemma uint_wider:
  assumes "LENGTH('a) \<le> 63"
  shows "sint (ucast (x :: 'a :: len word) :: 64 word) = uint x"
proof -
  have "uint x < 2 ^ LENGTH('a)" by (rule uint_lt2p)
  also have "\<dots> \<le> (2 :: int) ^ 63" using assms by (intro power_increasing) simp_all
  finally have "uint x < 2 ^ 63" .
  moreover from this have "uint (ucast x :: 64 word) = uint x" by (simp add: unsigned_ucast_eq take_bit_int_eq_self_iff)
  ultimately show ?thesis by (simp add: sint_uint64)
qed

text \<open>
  C40: how the number of a value is read depends on the width it was written in.  A number that
  is not negative and fits into 63 bits is read as it is, in whatever width; a negative one only
  if it was written in 64 bits: in a shorter signed form, the one the format uses for small
  numbers, it is read as the unsigned number of that width.  Unsigned numbers from \<open>2 ^ 63\<close> on
  become negative.
\<close>

theorem numbers_read_by_width:
  assumes "num_value v = Some n"
  shows "toInt v = Some (if n < 0 \<and> num_width v < 64 then n + 2 ^ num_width v
    else if 2 ^ 63 \<le> n then n - 2 ^ 64 else n)"
proof -
  have big: "\<not> 2 ^ 63 \<le> sint x" if "LENGTH('a) \<le> 64" for x :: "'a :: len word"
  proof -
    have "sint x < 2 ^ (LENGTH('a) - 1)" by (rule sint_lt)
    also have "\<dots> \<le> (2 :: int) ^ 63" using that by (intro power_increasing) simp_all
    finally show ?thesis by simp
  qed
  have unsigned: "\<not> 2 ^ 63 \<le> uint x" if "LENGTH('a) \<le> 63" for x :: "'a :: len word"
  proof -
    have "uint x < 2 ^ LENGTH('a)" by (rule uint_lt2p)
    also have "\<dots> \<le> (2 :: int) ^ 63" using that by (intro power_increasing) simp_all
    finally show ?thesis by simp
  qed
  show ?thesis
  proof (cases v)
    case (MInt8 x)
    then show ?thesis using assms big [of x] by (auto simp: toInt_def uint_wider uint_signed)
  next
    case (MInt16 x)
    then show ?thesis using assms big [of x] by (auto simp: toInt_def uint_wider uint_signed)
  next
    case (MInt32 x)
    then show ?thesis using assms big [of x] by (auto simp: toInt_def uint_wider uint_signed)
  next
    case (MUint8 x)
    then show ?thesis using assms unsigned [of x] by (auto simp: toInt_def uint_wider)
  next
    case (MUint16 x)
    then show ?thesis using assms unsigned [of x] by (auto simp: toInt_def uint_wider)
  next
    case (MUint32 x)
    then show ?thesis using assms unsigned [of x] by (auto simp: toInt_def uint_wider)
  next
    case (MUint64 x)
    then show ?thesis using assms by (auto simp: toInt_def sint_uint64)
  next
    case (MInt64 x)
    then show ?thesis using assms big [of x] by (auto simp: toInt_def)
  next
    case (MInt x)
    then show ?thesis using assms big [of x] by (auto simp: toInt_def)
  qed (use assms in simp_all)
qed

theorem numbers_read_by_width_witness:
  "toInt (MInt8 (- 1)) = Some 255"
  using numbers_read_by_width [of "MInt8 (- 1)" "- 1"] by simp

section \<open>Batches as they are written\<close>

text \<open>The documented form of an event; what is null may be left out at the end.\<close>

definition int64 :: "int \<Rightarrow> bool" where
  "int64 n \<longleftrightarrow> - (2 ^ 63) \<le> n \<and> n < 2 ^ 63"

definition wire_num :: "int \<Rightarrow> mp" where
  "wire_num n = MInt64 (word_of_int n)"

definition wire_text :: "string \<Rightarrow> mp" where
  "wire_text s = (if s = [] then MNil else MStr s)"

definition wire_opt :: "('a \<Rightarrow> mp) \<Rightarrow> 'a option \<Rightarrow> mp" where
  "wire_opt f v = (case v of None \<Rightarrow> MNil | Some x \<Rightarrow> f x)"

definition wire_hashes :: "engine_key list \<Rightarrow> mp" where
  "wire_hashes hs = MArr (map MUint64 hs)"

definition wire_fields :: "stream_event \<Rightarrow> mp list" where
  "wire_fields ev = MStr (event_kind_text (ke_kind ev)) # (case ke_kind ev of
     BlockStored \<Rightarrow> [wire_hashes (ke_hashes ev), wire_opt MUint64 (ke_parent ev),
       MArr (map (\<lambda>t. MInt64 (scast t)) (ke_tokens ev)), wire_num (ke_block_size ev), wire_opt wire_num (ke_lora ev),
       wire_text (ke_medium ev), wire_text (ke_lora_name ev),
       if ke_extra_keys ev = [] then MNil else MArr (map MStr (ke_extra_keys ev)),
       if ke_group ev = 0 then MNil else wire_num (ke_group ev), wire_text (ke_spec ev), wire_opt wire_num (ke_window ev)]
   | BlockRemoved \<Rightarrow> [wire_hashes (ke_hashes ev), wire_text (ke_medium ev),
       if ke_group ev = 0 then MNil else wire_num (ke_group ev)]
   | AllBlocksCleared \<Rightarrow> [])"

text \<open>The events there are: an event has the fields of its kind, with numbers of 64 bits.\<close>

definition writable :: "stream_event \<Rightarrow> bool" where
  "writable ev \<longleftrightarrow> int64 (ke_group ev) \<and> (case ke_kind ev of
     BlockStored \<Rightarrow> int64 (ke_block_size ev) \<and> pred_option int64 (ke_lora ev) \<and> pred_option int64 (ke_window ev)
       \<and> \<not> ke_nested ev \<and> ke_extra ev = (ke_extra_keys ev \<noteq> []) \<and> ke_extra_count ev = length (ke_extra_keys ev)
       \<and> length (ke_extra_keys ev) \<le> 16
   | BlockRemoved \<Rightarrow> ev = (zero_event BlockRemoved)\<lparr>ke_hashes := ke_hashes ev, ke_medium := ke_medium ev, ke_group := ke_group ev\<rparr>
   | AllBlocksCleared \<Rightarrow> ev = zero_event AllBlocksCleared)"

definition least_fields :: "kv_kind \<Rightarrow> nat" where
  "least_fields k = (case k of BlockStored \<Rightarrow> 5 | BlockRemoved \<Rightarrow> 2 | AllBlocksCleared \<Rightarrow> 1)"

definition shortened :: "mp list \<Rightarrow> stream_event \<Rightarrow> bool" where
  "shortened fs ev \<longleftrightarrow> (\<exists>k \<ge> least_fields (ke_kind ev). fs = take k (wire_fields ev) \<and> set (drop k (wire_fields ev)) \<subseteq> {MNil})"

lemma fieldAt_shortened:
  assumes "set (drop k fs) \<subseteq> {MNil}"
  shows "fieldAt (take k fs) i = fieldAt fs i"
proof (cases "k \<le> i \<and> i < length fs")
  case True
  then have "fs ! i \<in> set (drop k fs)" by (metis Cons_nth_drop_Suc drop_drop in_set_dropD le_add_diff_inverse2 list.set_intros(1) set_drop_subset_set_drop subset_iff)
  with assms True show ?thesis by (auto simp: fieldAt_def)
qed (auto simp: fieldAt_def min_def)

lemma int64_back: "int64 n \<Longrightarrow> toInt (wire_num n) = Some n"
  by (simp add: toInt_def wire_num_def int64_def signed_take_bit_int_eq_self sint_sbintrunc')

lemma hashes_back: "toUint64Slice (wire_hashes hs) = hs"
  by (simp add: toUint64Slice_def wire_hashes_def List.map_filter_def comp_def)

lemma scast_back: "scast (scast (x :: 32 word) :: 64 word) = x"
  by transfer (simp add: take_bit_signed_take_bit)

lemma tokens_back: "toInt32SliceInfo (MArr (map (\<lambda>t. MInt64 (scast t)) ts)) = (ts, False)"
  by (simp add: toInt32SliceInfo_def List.map_filter_def toInt_def comp_def list_ex_iff scast_back)

lemma text_back: "nullish (string_of (wire_text s)) [] = s"
  by (simp add: wire_text_def)

lemma parent_back: "toUint64 (wire_opt MUint64 h) = h"
  by (simp add: wire_opt_def split: option.split)

lemma opt_back: "pred_option int64 v \<Longrightarrow> toInt (wire_opt wire_num v) = v"
  by (cases v) (simp_all add: wire_opt_def int64_back, simp add: toInt_def)

lemma group_back: "int64 g \<Longrightarrow> nullish (toInt (if g = 0 then MNil else wire_num g)) 0 = g"
  by (simp add: int64_back) (simp add: toInt_def)

lemma extra_back:
  "length ks \<le> 16 \<Longrightarrow> extraKeyStrings (if ks = [] then MNil else MArr (map MStr ks)) = (ks, length ks)"
  "hasNonNilExtraKeys (if ks = [] then MNil else MArr (map MStr ks)) = (ks \<noteq> [])"
  by (simp_all add: extraKeyStrings_def hasNonNilExtraKeys_def Let_def filter_map comp_def list_ex_iff) (cases ks; auto)

lemmas backs = hashes_back tokens_back text_back parent_back opt_back group_back extra_back int64_back

lemma kind_back: "event_kind (event_kind_text k) = Some k"
  by (cases k) (simp_all add: event_kind_def event_kind_text_def)

lemma wire_back: "writable ev \<Longrightarrow> decodeEvent (Some (ke_kind ev)) (wire_fields ev) = Some ev"
  by (cases "ke_kind ev")
    (auto simp: decodeEvent_def wire_fields_def fieldAt_def backs writable_def)

lemma shortened_back:
  assumes "shortened fs ev" "writable ev"
  shows "decode_raw (MArr fs) = Some ev"
proof -
  from assms(1) obtain k where k: "least_fields (ke_kind ev) \<le> k" "fs = take k (wire_fields ev)"
    "set (drop k (wire_fields ev)) \<subseteq> {MNil}" by (auto simp: shortened_def)
  have "0 < k" using k(1) by (auto simp: least_fields_def split: kv_kind.splits)
  then obtain rest where fs: "fs = MStr (event_kind_text (ke_kind ev)) # rest" by (cases k) (auto simp: k(2) wire_fields_def)
  have "fieldAt fs = fieldAt (wire_fields ev)" using fieldAt_shortened [OF k(3)] unfolding k(2) by blast
  moreover have "length fs < 5 \<longleftrightarrow> length (wire_fields ev) < 5" if "ke_kind ev = BlockStored"
    using k(1) that by (simp add: k(2) least_fields_def wire_fields_def)
  moreover have "length fs < 2 \<longleftrightarrow> length (wire_fields ev) < 2" if "ke_kind ev = BlockRemoved"
    using k(1) that by (simp add: k(2) least_fields_def wire_fields_def)
  ultimately have "decodeEvent (Some (ke_kind ev)) fs = decodeEvent (Some (ke_kind ev)) (wire_fields ev)"
    by (cases "ke_kind ev") (simp_all add: decodeEvent_def)
  with wire_back [OF assms(2)] show ?thesis by (simp add: decode_raw_def fs kind_back)
qed


definition removal :: stream_event where
  "removal = (zero_event BlockRemoved)\<lparr>ke_hashes := [99]\<rparr>"


end
