(* ===== verification/Engine_Store.thy ===== *)
theory Engine_Store
  imports Policy_Store
begin

text \<open>
  Clusters and engines at the indexer: the operations of the store
  (\<open>internal/config/store.go\<close>), the handlers (\<open>internal/httpapi/config_handlers.go\<close>), and what
  \<open>internal/httpapi/service.go\<close> does with them: a listener for every engine with an event
  endpoint, and the messages of its stream, which go to the index of the profile's namespace.
\<close>

section \<open>Clusters\<close>

definition UpsertCluster :: "go_cluster \<Rightarrow> store \<Rightarrow> store" where
  "UpsertCluster c st = bump ''upsert'' ''cluster'' (gk_cluster_id c)
     (st\<lparr>so_clusters := AList.update (gk_cluster_id c) c (so_clusters st)\<rparr>)"

definition ListClusters :: "store \<Rightarrow> go_cluster list" where
  "ListClusters st = sort_key gk_cluster_id (map snd (so_clusters st))"

definition PatchCluster :: "string \<Rightarrow> (go_cluster \<Rightarrow> go_cluster) \<Rightarrow> store \<Rightarrow> bool \<times> store" where
  "PatchCluster i fn st = (case map_of (so_clusters st) i of
     None \<Rightarrow> (False, st)
   | Some c \<Rightarrow> (True, bump ''patch'' ''cluster'' i (st\<lparr>so_clusters := AList.update i (fn c) (so_clusters st)\<rparr>)))"

section \<open>Engines\<close>

definition UpsertEngine :: "go_engine \<Rightarrow> store \<Rightarrow> store" where
  "UpsertEngine e st = bump ''upsert'' ''engine'' (ge_engine_id e)
     (st\<lparr>so_engines := AList.update (ge_engine_id e) e (so_engines st)\<rparr>)"

definition RemoveEngine :: "string \<Rightarrow> store \<Rightarrow> bool \<times> store" where
  "RemoveEngine i st = (case map_of (so_engines st) i of
     None \<Rightarrow> (False, st)
   | Some _ \<Rightarrow> (True, bump ''remove'' ''engine'' i (st\<lparr>so_engines := AList.delete i (so_engines st)\<rparr>)))"

definition ListEngines :: "store \<Rightarrow> go_engine list" where
  "ListEngines st = sort_key ge_engine_id (map snd (so_engines st))"

definition PatchEngine :: "string \<Rightarrow> (go_engine \<Rightarrow> go_engine) \<Rightarrow> store \<Rightarrow> bool \<times> store" where
  "PatchEngine i fn st = (case map_of (so_engines st) i of
     None \<Rightarrow> (False, st)
   | Some e \<Rightarrow> (True, bump ''patch'' ''engine'' i (st\<lparr>so_engines := AList.update i (fn e) (so_engines st)\<rparr>)))"

section \<open>Bodies\<close>

definition decode_cluster :: "json \<Rightarrow> go_cluster option" where
  "decode_cluster j = (if \<not> is_object j then None else
     case (go_str (get_prop j ''cluster_id''), go_str (get_prop j ''display_name''), go_str (get_prop j ''region''),
           go_str (get_prop j ''environment''), go_bool (get_prop j ''enabled''), go_bool (get_prop j ''maintenance_mode''),
           go_labels (get_prop j ''labels'')) of
       (Some i, Some dn, Some rg, Some env, Some en, Some mt, Some lb) \<Rightarrow> Some
         \<lparr>gk_cluster_id = i, gk_display_name = dn, gk_region = rg, gk_environment = env, gk_enabled = en,
          gk_maintenance = mt, gk_labels = lb\<rparr>
     | _ \<Rightarrow> None)"

definition decode_engine :: "json \<Rightarrow> go_engine option" where
  "decode_engine j = (if \<not> is_object j then None else
     case (go_str (get_prop j ''engine_id''), go_str (get_prop j ''cluster_id''), go_str (get_prop j ''framework''),
           go_str (get_prop j ''api_endpoint''), go_str (get_prop j ''tokenizer_endpoint''),
           go_str (get_prop j ''kv_event_endpoint''), go_str (get_prop j ''replay_endpoint''), go_str (get_prop j ''topic'')) of
       (Some i, Some cl, Some fw, Some api, Some tok, Some kv, Some rep, Some topic) \<Rightarrow>
      (case (go_strs (get_prop j ''served_models''), go_int (get_prop j ''dp_ranks''), go_int (get_prop j ''max_num_seqs''),
             go_int (get_prop j ''max_model_len''), go_int (get_prop j ''queue_depth'')) of
         (Some models, Some dp, Some seqs, Some len, Some depth) \<Rightarrow>
        (case (go_bool (get_prop j ''healthy''), go_bool (get_prop j ''draining''), go_bool (get_prop j ''enabled''),
               go_labels (get_prop j ''labels'')) of
           (Some hl, Some dr, Some en, Some lb) \<Rightarrow> Some
             \<lparr>ge_engine_id = i, ge_cluster_id = cl, ge_framework = fw, ge_api_endpoint = api, ge_tokenizer_endpoint = tok,
              ge_kv_event_endpoint = kv, ge_replay_endpoint = rep, ge_topic = topic, ge_served_models = models,
              ge_dp_ranks = dp, ge_max_num_seqs = seqs, ge_max_model_len = len, ge_queue_depth = depth,
              ge_healthy = hl, ge_draining = dr, ge_enabled = en, ge_labels = lb\<rparr>
         | _ \<Rightarrow> None)
       | _ \<Rightarrow> None)
     | _ \<Rightarrow> None)"

record clusterPatch =
  kp_display_name :: "string option"
  kp_enabled :: "bool option"
  kp_maintenance_mode :: "bool option"
  kp_labels :: "string obj option"

record enginePatch =
  ep_healthy :: "bool option"
  ep_draining :: "bool option"
  ep_enabled :: "bool option"
  ep_queue_depth :: "int option"
  ep_max_num_seqs :: "int option"
  ep_labels :: "string obj option"

definition decode_cluster_patch :: "json \<Rightarrow> clusterPatch option" where
  "decode_cluster_patch j = (if \<not> is_object j then None else
     case (go_pointer go_str (get_prop j ''display_name''), go_pointer go_bool (get_prop j ''enabled''),
           go_pointer go_bool (get_prop j ''maintenance_mode''), go_labels (get_prop j ''labels'')) of
       (Some dn, Some en, Some mt, Some lb) \<Rightarrow>
         Some \<lparr>kp_display_name = dn, kp_enabled = en, kp_maintenance_mode = mt, kp_labels = lb\<rparr>
     | _ \<Rightarrow> None)"

definition decode_engine_patch :: "json \<Rightarrow> enginePatch option" where
  "decode_engine_patch j = (if \<not> is_object j then None else
     case (go_pointer go_bool (get_prop j ''healthy''), go_pointer go_bool (get_prop j ''draining''),
           go_pointer go_bool (get_prop j ''enabled''), go_pointer go_int (get_prop j ''queue_depth''),
           go_pointer go_int (get_prop j ''max_num_seqs''), go_labels (get_prop j ''labels'')) of
       (Some hl, Some dr, Some en, Some depth, Some seqs, Some lb) \<Rightarrow> Some
         \<lparr>ep_healthy = hl, ep_draining = dr, ep_enabled = en, ep_queue_depth = depth, ep_max_num_seqs = seqs, ep_labels = lb\<rparr>
     | _ \<Rightarrow> None)"

definition patch_cluster :: "clusterPatch \<Rightarrow> go_cluster \<Rightarrow> go_cluster" where
  "patch_cluster p c = c\<lparr>gk_display_name := nullish (kp_display_name p) (gk_display_name c),
     gk_enabled := nullish (kp_enabled p) (gk_enabled c), gk_maintenance := nullish (kp_maintenance_mode p) (gk_maintenance c),
     gk_labels := (if kp_labels p = None then gk_labels c else kp_labels p)\<rparr>"

definition patch_engine :: "enginePatch \<Rightarrow> go_engine \<Rightarrow> go_engine" where
  "patch_engine p e = e\<lparr>ge_healthy := nullish (ep_healthy p) (ge_healthy e), ge_draining := nullish (ep_draining p) (ge_draining e),
     ge_enabled := nullish (ep_enabled p) (ge_enabled e), ge_queue_depth := nullish (ep_queue_depth p) (ge_queue_depth e),
     ge_max_num_seqs := nullish (ep_max_num_seqs p) (ge_max_num_seqs e),
     ge_labels := (if ep_labels p = None then ge_labels e else ep_labels p)\<rparr>"

section \<open>Listeners\<close>

definition listener_for :: "go_engine \<Rightarrow> listener" where
  "listener_for e = SetReplayEndpoint (ge_replay_endpoint e)
     (NewListener (ge_engine_id e) (case ge_served_models e of [] \<Rightarrow> [] | m # _ \<Rightarrow> m) (ge_kv_event_endpoint e) (ge_topic e))"

definition SyncListeners :: "service \<Rightarrow> service" where
  "SyncListeners sv =
     (let want = filter (\<lambda>e. ge_kv_event_endpoint e \<noteq> []) (ListEngines (sv_store sv));
          kept = filter (\<lambda>(i, _). i \<in> ge_engine_id ` set want) (sv_listeners sv);
          started = map (\<lambda>e. (ge_engine_id e, listener_for e)) (filter (\<lambda>e. ge_engine_id e \<notin> fst ` set kept) want)
      in sv\<lparr>sv_listeners := kept @ started\<rparr>)"

definition all_streams :: "service \<Rightarrow> StreamHealth list" where
  "all_streams sv = map (Health \<circ> snd) (sv_listeners sv)"

definition ResolveIngest :: "service \<Rightarrow> string \<Rightarrow> (index \<times> string \<times> 64 word \<times> int) option \<times> service" where
  "ResolveIngest sv model = (case ResolveProfile (sv_store sv) model of
     None \<Rightarrow> (None, sv)
   | Some p \<Rightarrow> (let (ix, sv) = Manager_Index sv (Namespace p) in (Some (ix, Namespace p, profile_seed p, gp_block_size p), sv)))"

text \<open>
  A message of an engine's stream, applied by its listener: the resolver is asked when the
  payload has been decoded, and the index it answered is written.
\<close>

definition deliver :: "unmarshal \<Rightarrow> int \<Rightarrow> string \<Rightarrow> frame list \<Rightarrow> service \<Rightarrow> service option" where
  "deliver unmarshal now engine frs sv = (case map_of (sv_listeners sv) engine of
     None \<Rightarrow> Some sv
   | Some l \<Rightarrow>
      (let (answer, sv') = ResolveIngest sv (l_model l) in
       case handleFrames unmarshal \<lparr>ms_frames = frs, ms_now = now, ms_resolved = answer\<rparr> l of
         None \<Rightarrow> None
       | Some l' \<Rightarrow>
          (let put = (\<lambda>sv. sv\<lparr>sv_listeners := AList.update engine l' (sv_listeners sv)\<rparr>) in
           Some (if l_decErrs l' \<noteq> l_decErrs l then put sv
                 else case answer of None \<Rightarrow> put sv
                   | Some (_, ns, _) \<Rightarrow> put (sv'\<lparr>sv_indexes := AList.update ns (is_index (l_ingest l')) (sv_indexes sv')\<rparr>)))))"

section \<open>The handlers\<close>

text \<open>The status and the service after it; a body that cannot be read, or has no identity, is refused.\<close>

definition handleCreateCluster :: "string \<Rightarrow> service \<Rightarrow> int \<times> service" where
  "handleCreateCluster body sv = (case Option.bind (json_parse body) decode_cluster of
     None \<Rightarrow> (400, sv)
   | Some c \<Rightarrow> if gk_cluster_id c = [] then (400, sv) else (200, sv\<lparr>sv_store := UpsertCluster c (sv_store sv)\<rparr>))"

definition handlePatchCluster :: "string \<Rightarrow> string \<Rightarrow> service \<Rightarrow> int \<times> service" where
  "handlePatchCluster i body sv = (case Option.bind (json_parse body) decode_cluster_patch of
     None \<Rightarrow> (400, sv)
   | Some p \<Rightarrow> (case PatchCluster i (patch_cluster p) (sv_store sv) of (ok, st) \<Rightarrow> (if ok then 200 else 404, sv\<lparr>sv_store := st\<rparr>)))"

definition handleRegisterEngine :: "string \<Rightarrow> service \<Rightarrow> int \<times> service" where
  "handleRegisterEngine body sv = (case Option.bind (json_parse body) decode_engine of
     None \<Rightarrow> (400, sv)
   | Some e \<Rightarrow>
      if ge_engine_id e = [] then (400, sv)
      else (let e = (if ge_topic e = [] then e\<lparr>ge_topic := ''kv-events''\<rparr> else e) in
        (200, SyncListeners (sv\<lparr>sv_store := UpsertEngine e (sv_store sv)\<rparr>))))"

definition handleUnregisterEngine :: "string \<Rightarrow> service \<Rightarrow> int \<times> service" where
  "handleUnregisterEngine body sv =
     (case Option.bind (json_parse body) (\<lambda>j. if is_object j then go_str (get_prop j ''engine_id'') else None) of
        None \<Rightarrow> (400, sv)
      | Some i \<Rightarrow> (case RemoveEngine i (sv_store sv) of (ok, st) \<Rightarrow>
          if ok then (200, SyncListeners (sv\<lparr>sv_store := st\<rparr>)) else (404, sv)))"

definition handlePatchEngine :: "string \<Rightarrow> string \<Rightarrow> service \<Rightarrow> int \<times> service" where
  "handlePatchEngine i body sv = (case Option.bind (json_parse body) decode_engine_patch of
     None \<Rightarrow> (400, sv)
   | Some p \<Rightarrow> (case PatchEngine i (patch_engine p) (sv_store sv) of (ok, st) \<Rightarrow> (if ok then 200 else 404, sv\<lparr>sv_store := st\<rparr>)))"

end
