(* ===== verification/Listener_Props.thy ===== *)
theory Listener_Props
  imports Listener
begin

text \<open>
  What the listener keeps: the numbers tell what is missing, the goroutines do what one loop
  would do, and what the numbers cannot tell.
\<close>

section \<open>Numbers\<close>

abbreviation track :: "64 word list \<Rightarrow> listener \<Rightarrow> listener" where
  "track ss l \<equiv> foldl (\<lambda>l s. trackSeq s l) l ss"

text \<open>Each number comes after all the numbers between the first one and itself.\<close>

definition unbroken :: "int list \<Rightarrow> bool" where
  "unbroken ns \<longleftrightarrow> (\<forall>i < length ns. {hd ns..<ns ! i} \<subseteq> set (take i ns))"

lemma sint_Suc:
  assumes "sint (a :: 64 word) < sint (b :: 64 word)"
  shows "sint (a + 1) = sint a + 1"
proof -
  have "sint a + 1 \<le> sint b" "sint b < 2 ^ 63" "- (2 ^ 63) \<le> sint a"
    using assms sint_lt [of b] sint_ge [of a] by simp_all
  then have "signed_take_bit 63 (sint a + 1) = sint a + 1" by (intro signed_take_bit_int_eq_self) simp_all
  then show ?thesis by (simp add: signed_take_bit_int_eq_self_iff sint_word_ariths)
qed

lemma unbroken_snoc:
  assumes "ns \<noteq> []"
  shows "unbroken (ns @ [n]) \<longleftrightarrow> unbroken ns \<and> n \<le> Max (set ns) + 1"
proof -
  have Max: "hd ns \<le> Max (set ns)" using assms by simp
  have last: "{hd ns..<Max (set ns)} \<subseteq> set ns" if "unbroken ns"
  proof -
    have "Max (set ns) \<in> set ns" using assms by simp
    then obtain i where "i < length ns" "ns ! i = Max (set ns)" by (metis in_set_conv_nth)
    with that have "{hd ns..<Max (set ns)} \<subseteq> set (take i ns)" by (force simp: unbroken_def)
    then show ?thesis by (meson set_take_subset subset_trans)
  qed
  have "unbroken (ns @ [n]) \<longleftrightarrow> unbroken ns \<and> {hd ns..<n} \<subseteq> set ns"
    using assms by (simp add: unbroken_def nth_append less_Suc_eq all_conj_distrib conj_commute)
  moreover have "{hd ns..<n} \<subseteq> set ns \<longleftrightarrow> n \<le> Max (set ns) + 1" if "unbroken ns"
  proof
    assume sub: "{hd ns..<n} \<subseteq> set ns"
    show "n \<le> Max (set ns) + 1"
    proof (rule ccontr)
      assume "\<not> n \<le> Max (set ns) + 1"
      then have "Max (set ns) + 1 \<in> {hd ns..<n}" using Max by simp
      with sub have "Max (set ns) + 1 \<in> set ns" by blast
      then have "Max (set ns) + 1 \<le> Max (set ns)" by (intro Max_ge) simp_all
      then show False by simp
    qed
  next
    assume "n \<le> Max (set ns) + 1"
    then have "{hd ns..<n} \<subseteq> insert (Max (set ns)) {hd ns..<Max (set ns)}" by auto
    with last [OF that] Max_in [of "set ns"] assms show "{hd ns..<n} \<subseteq> set ns" by auto
  qed
  ultimately show ?thesis by blast
qed

text \<open>From a listener without numbers: the last number is the greatest, and no gap means unbroken.\<close>

lemma track_numbers:
  assumes "\<not> l_hasSeq l" "l_gaps l = 0"
  shows "(l_hasSeq (track ss l) \<longleftrightarrow> ss \<noteq> []) \<and> (ss \<noteq> [] \<longrightarrow> sint (l_lastSeq (track ss l)) = Max (set (map sint ss)))
    \<and> 0 \<le> l_gaps (track ss l) \<and> (l_gaps (track ss l) = 0 \<longleftrightarrow> unbroken (map sint ss))"
proof (induction ss rule: rev_induct)
  case Nil
  then show ?case using assms by (simp add: unbroken_def)
next
  case (snoc s ss)
  let ?l = "track ss l"
  show ?case
  proof (cases "ss = []")
    case True
    then show ?thesis using assms by (simp add: trackSeq_def unbroken_def)
  next
    case False
    then have IH: "l_hasSeq ?l" "sint (l_lastSeq ?l) = Max (set (map sint ss))" "0 \<le> l_gaps ?l"
      "l_gaps ?l = 0 \<longleftrightarrow> unbroken (map sint ss)" using snoc by blast+
    have max: "Max (set (map sint (ss @ [s]))) = max (Max (set (map sint ss))) (sint s)"
      using False by (simp add: max.commute)
    have unb: "unbroken (map sint (ss @ [s])) \<longleftrightarrow> unbroken (map sint ss) \<and> sint s \<le> Max (set (map sint ss)) + 1"
      using False unbroken_snoc [of "map sint ss" "sint s"] by simp
    show ?thesis
    proof (cases "sint s \<le> sint (l_lastSeq ?l)")
      case True
      then have "track (ss @ [s]) l = ?l" using IH(1) by (simp add: trackSeq_def)
      with True IH max unb show ?thesis by simp
    next
      case False
      then have "sint (l_lastSeq ?l + 1) = sint (l_lastSeq ?l) + 1" by (intro sint_Suc [of _ s]) simp
      with False IH max unb show ?thesis by (simp add: trackSeq_def)
    qed
  qed
qed

section \<open>What is accepted\<close>

definition batch_of :: "unmarshal \<Rightarrow> 64 word \<Rightarrow> frame \<Rightarrow> kv_batch option" where
  "batch_of u sn payload = (case u payload of Inl _ \<Rightarrow> None
     | Inr vs \<Rightarrow> (case DecodeBatch sn vs of Inl _ \<Rightarrow> None | Inr b \<Rightarrow> Some b))"

definition accepted_payload :: "unmarshal \<Rightarrow> 64 word \<Rightarrow> frame \<Rightarrow> 64 word list" where
  "accepted_payload u sn payload = (if batch_of u sn payload = None then [] else [sn])"

definition accepted_message :: "unmarshal \<Rightarrow> message \<Rightarrow> 64 word list" where
  "accepted_message u m = (case ms_frames m of
     [_, number, payload] \<Rightarrow> if length number < 8 then [] else accepted_payload u (be_uint64 number) payload
   | _ \<Rightarrow> [])"

fun accepted_replay :: "unmarshal \<Rightarrow> message list \<Rightarrow> 64 word list" where
  "accepted_replay u [] = []"
| "accepted_replay u (m # ms) = (case ms_frames m of
     [] \<Rightarrow> accepted_replay u ms
   | number # rest \<Rightarrow>
       if isReplayEnd number then []
       else if length number \<noteq> 8 \<or> rest = [] then accepted_replay u ms
       else accepted_payload u (be_uint64 number) (hd rest) @ accepted_replay u ms)"

text \<open>One loop that does what the goroutines do, in the order of the history.\<close>

definition one_loop :: "unmarshal \<Rightarrow> listener \<Rightarrow> message applied \<Rightarrow> listener" where
  "one_loop u l h = (case h of Live m \<Rightarrow> nullish (handleFrames u m l) l | Replay ra \<Rightarrow> replayBuffered u ra l)"

definition accepted_by :: "unmarshal \<Rightarrow> listener \<Rightarrow> message applied \<Rightarrow> 64 word list" where
  "accepted_by u l h = (case h of
     Live m \<Rightarrow> accepted_message u m
   | Replay ra \<Rightarrow> if l_replayEndpoint l = [] \<or> ra_dial ra \<noteq> None \<or> ra_send ra \<noteq> None then []
       else accepted_replay u (ra_msgs ra (be_bytes (nextReplaySeq l))))"

fun accepted_run :: "unmarshal \<Rightarrow> listener \<Rightarrow> message applied list \<Rightarrow> 64 word list" where
  "accepted_run u l [] = []"
| "accepted_run u l (h # hs) = accepted_by u l h @ accepted_run u (one_loop u l h) hs"

section \<open>The fields that goroutines share\<close>

text \<open>What is left of a listener without its connection, its queue and its last error.\<close>

definition core :: "listener \<Rightarrow> listener" where
  "core l = l\<lparr>l_connected := False, l_queueLen := 0, l_lastErr := []\<rparr>"

lemma core_simps [simp]:
  "core (core l) = core l" "core (setErr e l) = core l" "core (count_queue d l) = core l"
  "core (l\<lparr>l_connected := b\<rparr>) = core l" "core (l\<lparr>l_queueLen := q\<rparr>) = core l" "core (l\<lparr>l_lastErr := e\<rparr>) = core l"
  "l_decErrs (core l) = l_decErrs l" "l_hasSeq (core l) = l_hasSeq l" "l_lastSeq (core l) = l_lastSeq l" "l_gaps (core l) = l_gaps l"
  "l_replayEndpoint (core l) = l_replayEndpoint l" "nextReplaySeq (core l) = nextReplaySeq l"
  by (simp_all add: core_def setErr_def count_queue_def nextReplaySeq_def)

lemma core_bad [simp]: "core (bad_message e l) = (core l)\<lparr>l_decErrs := l_decErrs l + 1\<rparr>"
  by (simp add: bad_message_def core_def setErr_def Let_def split: option.split)

lemma core_batch: "core (apply_batch m b (core l)) = core (apply_batch m b l)"
  by (simp add: apply_batch_def trackSeq_def core_def Let_def split: option.split)

lemma core_payload: "core (handle_payload u m sn pl (core l)) = core (handle_payload u m sn pl l)"
  by (simp add: handle_payload_def core_batch split: sum.split)

lemma core_frames: "map_option core (handleFrames u m (core l)) = map_option core (handleFrames u m l)"
  by (simp add: handleFrames_def core_payload split: list.split)

lemma core_replay_loop: "core (replay_loop u e ms (core l)) = core (replay_loop u e ms l)"
proof (induction ms arbitrary: l)
  case (Cons m ms)
  have step: "core (replay_loop u e ms (f (core l))) = core (replay_loop u e ms (f l))" if "core (f (core l)) = core (f l)" for f
    using that Cons.IH [of "f l"] Cons.IH [of "f (core l)"] by simp
  have "core (bad_message None (core l)) = core (bad_message None l)" by simp
  from step [of "bad_message None", OF this] step [of "handle_payload u m sn pl" for sn pl, OF core_payload]
  show ?case by (simp split: list.split)
qed simp

lemma core_loop: "core l = core l' \<Longrightarrow> core (one_loop u l h) = core (one_loop u l' h)"
proof -
  have live: "core (nullish (handleFrames u m (core l)) (core l)) = core (nullish (handleFrames u m l) l)" for m l
    using core_frames [of u m l] by (cases "handleFrames u m l"; cases "handleFrames u m (core l)") auto
  have "core (replayBuffered u ra (core l)) = core (replayBuffered u ra l)" for ra l
    by (simp add: replayBuffered_def core_replay_loop split: option.split)
  with live have "core (one_loop u (core l) h) = core (one_loop u l h)" for l by (simp add: one_loop_def split: applied.split)
  then show "core l = core l' \<Longrightarrow> core (one_loop u l h) = core (one_loop u l' h)" by metis
qed

section \<open>The numbers of a run\<close>

definition numbers :: "listener \<Rightarrow> bool \<times> 64 word \<times> int" where
  "numbers l = (l_hasSeq l, l_lastSeq l, l_gaps l)"

lemma numbers_simps [simp]:
  "numbers (setErr e l) = numbers l" "numbers (bad_message oe l) = numbers l" "numbers (core l) = numbers l"
  "numbers (count_queue d l) = numbers l" "numbers (l\<lparr>l_ingest := i\<rparr>) = numbers l"
  by (simp_all add: numbers_def setErr_def bad_message_def core_def count_queue_def Let_def split: option.split)

definition next_numbers :: "64 word \<Rightarrow> bool \<times> 64 word \<times> int \<Rightarrow> bool \<times> 64 word \<times> int" where
  "next_numbers s n = (case n of (seen, high, g) \<Rightarrow>
     if seen \<and> sint s \<le> sint high then n else (True, s, if seen \<and> sint (high + 1) < sint s then g + 1 else g))"

lemma numbers_trackSeq: "numbers (trackSeq s l) = next_numbers s (numbers l)"
  by (simp add: numbers_def trackSeq_def next_numbers_def)

lemma numbers_track: "numbers l = numbers l' \<Longrightarrow> numbers (track ss l) = numbers (track ss l')"
proof (induction ss arbitrary: l l')
  case (Cons s ss)
  then have "numbers (trackSeq s l) = numbers (trackSeq s l')" by (simp add: numbers_trackSeq)
  from Cons.IH [OF this] show ?case by simp
qed simp

lemma DecodeBatch_seq: "DecodeBatch sn vs = Inr b \<Longrightarrow> bt_seq b = sn"
  by (auto simp: DecodeBatch_def Let_def split: if_splits option.splits)

lemma numbers_payload: "numbers (handle_payload u m sn pl l) = numbers (track (accepted_payload u sn pl) l)"
  by (simp add: handle_payload_def accepted_payload_def batch_of_def apply_batch_def Let_def DecodeBatch_seq
      split: sum.split)

lemma numbers_frames: "numbers (nullish (handleFrames u m l) l) = numbers (track (accepted_message u m) l)"
  by (simp add: handleFrames_def accepted_message_def numbers_payload split: list.split)

lemma numbers_replay_loop: "numbers (replay_loop u e ms l) = numbers (track (accepted_replay u ms) l)"
proof (induction ms arbitrary: l)
  case (Cons m ms)
  have "numbers (track (accepted_replay u ms) (f l)) = numbers (track (accepted_replay u ms) (track ss l))"
    if "numbers (f l) = numbers (track ss l)" for f ss
    using that by (rule numbers_track)
  from this [of "bad_message None" "[]"] this [of "handle_payload u m sn pl" "accepted_payload u sn pl" for sn pl, OF numbers_payload]
  show ?case by (simp add: Cons.IH split: list.split)
qed simp

lemma numbers_loop: "numbers (one_loop u l h) = numbers (track (accepted_by u l h) l)"
  using numbers_frames
  by (simp add: one_loop_def accepted_by_def replayBuffered_def numbers_replay_loop split: applied.split option.split)

lemma numbers_run: "numbers (foldl (one_loop u) l hs) = numbers (track (accepted_run u l hs) l)"
proof (induction hs arbitrary: l)
  case (Cons h hs)
  then show ?case using numbers_track [OF numbers_loop [of u l h], of "accepted_run u (one_loop u l h) hs"] by simp
qed simp

section \<open>The goroutines\<close>

definition lives :: "message applied list \<Rightarrow> message list" where
  "lives hs = concat (map (\<lambda>h. case h of Live m \<Rightarrow> [m] | Replay _ \<Rightarrow> []) hs)"

definition being_applied :: "process \<Rightarrow> message list" where
  "being_applied p = (case ps_applier p of Idle \<Rightarrow> [] | Taken m \<Rightarrow> [m] | Working m \<Rightarrow> [m])"

definition in_hand :: "process \<Rightarrow> message list" where
  "in_hand p = (case ps_receiver p of Handing m \<Rightarrow> [m] | _ \<Rightarrow> [])"

definition uncounted :: "process \<Rightarrow> int" where
  "uncounted p = (case ps_applier p of Taken _ \<Rightarrow> 1 | _ \<Rightarrow> 0)"

definition process_ok :: "unmarshal \<Rightarrow> listener \<Rightarrow> process \<Rightarrow> bool" where
  "process_ok u l p \<longleftrightarrow>
     core (ps_listener p) = core (foldl (one_loop u) l (ps_history p))
     \<and> ps_received p = lives (ps_history p) @ being_applied p @ ps_queue p @ in_hand p
     \<and> length (ps_queue p) \<le> applyQueueSize
     \<and> l_queueLen (ps_listener p) = int (length (ps_queue p)) + int (length (in_hand p)) + uncounted p
     \<and> (ps_receiver p \<in> {Dialing, Waiting, Stopped} \<longrightarrow> ps_queue p = [] \<and> ps_applier p = Idle)"

lemma queueLen_payload [simp]: "l_queueLen (handle_payload u m sn pl l) = l_queueLen l"
  by (simp add: handle_payload_def apply_batch_def trackSeq_def bad_message_def setErr_def Let_def
      split: sum.split option.split)

lemma queueLen_frames: "handleFrames u m l = Some l' \<Longrightarrow> l_queueLen l' = l_queueLen l"
  by (auto simp: handleFrames_def bad_message_def Let_def split: list.splits if_splits)

lemma queueLen_replay [simp]: "l_queueLen (replayBuffered u ra l) = l_queueLen l"
proof -
  have "l_queueLen (replay_loop u e ms l) = l_queueLen l" for e ms l
    by (induction ms arbitrary: l) (simp_all add: setErr_def bad_message_def Let_def split: list.split)
  then show ?thesis by (simp add: replayBuffered_def setErr_def split: option.split)
qed

lemma process_ok_start: "l_queueLen l = 0 \<Longrightarrow> process_ok u l (start_process l)"
  by (simp add: process_ok_def start_process_def lives_def being_applied_def in_hand_def uncounted_def)

lemma process_ok_dial:
  assumes "process_ok u l p" "ps_receiver p = Dialing"
  shows "process_ok u l (subscribed u ra p)"
proof -
  from assms have idle: "ps_queue p = []" "ps_applier p = Idle" by (simp_all add: process_ok_def)
  have "core (ps_listener p) = core (foldl (one_loop u) l (ps_history p))" using assms(1) by (simp add: process_ok_def)
  then have "core ((ps_listener p)\<lparr>l_connected := True, l_lastErr := []\<rparr>) = core (foldl (one_loop u) l (ps_history p))"
    by (simp add: core_def)
  from core_loop [OF this, of u "Replay ra"]
  have "core (replayBuffered u ra ((ps_listener p)\<lparr>l_connected := True, l_lastErr := []\<rparr>))
      = core (foldl (one_loop u) l (ps_history p @ [Replay ra]))" by (simp add: one_loop_def)
  with assms idle show ?thesis
    by (simp add: process_ok_def subscribed_def lives_def being_applied_def in_hand_def uncounted_def)
qed

lemma process_ok_work:
  assumes "process_ok u l p" "ps_applier p = Working m"
  shows "process_ok u l (worked u m p)"
proof (cases "handleFrames u m (ps_listener p)")
  case None
  with assms show ?thesis
    by (simp add: process_ok_def worked_def being_applied_def in_hand_def uncounted_def)
next
  case (Some l')
  have "core (ps_listener p) = core (foldl (one_loop u) l (ps_history p))" using assms(1) by (simp add: process_ok_def)
  from core_loop [OF this, of u "Live m"] Some
  have "core l' = core (foldl (one_loop u) l (ps_history p @ [Live m]))" by (simp add: one_loop_def)
  moreover have "ps_receiver p \<notin> {Dialing, Waiting, Stopped}" using assms by (auto simp: process_ok_def)
  ultimately show ?thesis using assms Some queueLen_frames [OF Some]
    by (simp add: process_ok_def worked_def lives_def being_applied_def in_hand_def uncounted_def)
qed

lemma process_ok_step: "listener_step u p p' \<Longrightarrow> process_ok u l p \<Longrightarrow> process_ok u l p'"
proof (induction rule: listener_step.induct)
  case (dial p ra)
  then show ?case by (intro process_ok_dial)
next
  case (work p m)
  then show ?case by (intro process_ok_work)
next
  case (drain p e)
  then show ?case
    by (cases e) (auto simp: process_ok_def drained_def lost_def being_applied_def in_hand_def uncounted_def count_queue_def
        setErr_def core_def)
qed (auto simp: process_ok_def lost_def got_message_def handed_def counted_def waited_def count_queue_def setErr_def core_def
    being_applied_def in_hand_def uncounted_def butlast_append split: applier.splits)

lemma process_ok_reached:
  "rtranclp (listener_step u) (start_process l) p \<Longrightarrow> l_queueLen l = 0 \<Longrightarrow> process_ok u l p"
  by (induction rule: rtranclp_induct) (auto intro: process_ok_start process_ok_step)

text \<open>
  C6: the goroutines of a listener refine one loop.  In every state they lead to, the listener
  is, but for its connection, its queue and its last error, what one loop makes of the same
  replays and messages in order; the messages received are those applied, the one being applied,
  the queue and the one in hand, in this order, so that none is lost, doubled or overtaken; and
  the depth the console shows is never negative and at most two beyond the capacity.
\<close>

theorem listener_refines_loop:
  assumes "rtranclp (listener_step u) (start_process l) p" "l = SetReplayEndpoint r (NewListener engine model endpoint topic)"
  shows "core (ps_listener p) = core (foldl (one_loop u) l (ps_history p))
    \<and> ps_received p = lives (ps_history p) @ being_applied p @ ps_queue p @ in_hand p
    \<and> lh_queue_depth (Health (ps_listener p)) \<in> {0..int applyQueueSize + 2}"
proof -
  have "process_ok u l p" using assms(1) by (rule process_ok_reached) (simp add: assms(2) SetReplayEndpoint_def NewListener_def)
  moreover have "int (length (in_hand p)) \<le> 1" "uncounted p \<in> {0..1}"
    by (simp_all add: in_hand_def uncounted_def split: receiver.split applier.split)
  ultimately show ?thesis by (auto simp: process_ok_def Health_def)
qed

definition quiet :: unmarshal where
  "quiet payload = Inr [MFloat (Fin (0, 1)), MArr []]"

definition numbered :: "64 word \<Rightarrow> message" where
  "numbered n = \<lparr>ms_frames = [[], be_bytes n, []], ms_now = 0, ms_resolved = None\<rparr>"

definition fresh_listener :: listener where
  "fresh_listener = SetReplayEndpoint [] (NewListener ''vllm-0'' ''qwen'' ''tcp://vllm-0:5557'' [])"

definition silent :: replay_answer where
  "silent = \<lparr>ra_dial = None, ra_send = None, ra_msgs = (\<lambda>_. []), ra_err = ''timeout''\<rparr>"

text \<open>The states of a listener that receives one message and applies it.\<close>

definition dialed :: process where
  "dialed = subscribed quiet silent (start_process fresh_listener)"

definition applied_one :: "message \<Rightarrow> process" where
  "applied_one m = worked quiet m (counted m ((handed m (got_message m dialed))\<lparr>ps_queue := [], ps_applier := Taken m\<rparr>))"

lemma dialed_reached: "rtranclp (listener_step quiet) (start_process fresh_listener) dialed"
  unfolding dialed_def by (intro r_into_rtranclp listener_step.dial) (simp_all add: start_process_def)

lemma dialed_simps [simp]:
  "ps_crashed dialed = False" "ps_receiver dialed = Receiving" "ps_applier dialed = Idle" "ps_queue dialed = []"
  by (simp_all add: dialed_def subscribed_def start_process_def)

lemma applied_one_reached: "rtranclp (listener_step quiet) (start_process fresh_listener) (applied_one m)"
proof -
  let ?q = "(handed m (got_message m dialed))\<lparr>ps_queue := [], ps_applier := Taken m\<rparr>"
  note dialed_reached
  also have "listener_step quiet dialed (got_message m dialed)" by (intro listener_step.recv) simp_all
  also have "listener_step quiet (got_message m dialed) (handed m (got_message m dialed))"
    by (intro listener_step.hand) (simp_all add: got_message_def applyQueueSize_def)
  also have "listener_step quiet (handed m (got_message m dialed)) ?q"
    by (intro listener_step.take_off) (simp_all add: got_message_def handed_def)
  also have "listener_step quiet ?q (counted m ?q)" by (intro listener_step.count) (simp_all add: got_message_def handed_def)
  also have "listener_step quiet (counted m ?q) (worked quiet m (counted m ?q))"
    by (intro listener_step.work) (simp_all add: got_message_def handed_def counted_def)
  finally show ?thesis by (simp add: applied_one_def)
qed

theorem listener_refines_loop_witness:
  "core (ps_listener (applied_one (numbered 5))) = core (foldl (one_loop quiet) fresh_listener (ps_history (applied_one (numbered 5))))"
  using listener_refines_loop [OF applied_one_reached] unfolding fresh_listener_def by blast

section \<open>What the numbers tell\<close>

lemma gaps_grow: "numbers l' = numbers (track ss l) \<Longrightarrow> l_gaps l \<le> l_gaps l'"
proof -
  have "l_gaps l \<le> l_gaps (trackSeq s l)" for s l by (simp add: trackSeq_def)
  then have "l_gaps l \<le> l_gaps (track ss l)" by (induction ss arbitrary: l) (auto intro: order_trans)
  then show "numbers l' = numbers (track ss l) \<Longrightarrow> l_gaps l \<le> l_gaps l'" by (simp add: numbers_def)
qed

lemma gaps_step: "listener_step u p p' \<Longrightarrow> l_gaps (ps_listener p) \<le> l_gaps (ps_listener p')"
proof (induction rule: listener_step.induct)
  case (dial p ra)
  have "l_gaps l \<le> l_gaps (replayBuffered u ra l)" for l using gaps_grow [OF numbers_loop [of u l "Replay ra"]] by (simp add: one_loop_def)
  from this [of "(ps_listener p)\<lparr>l_connected := True, l_lastErr := []\<rparr>"] show ?case by (simp add: subscribed_def)
next
  case (work p m)
  have "l_gaps (ps_listener p) \<le> l_gaps (nullish (handleFrames u m (ps_listener p)) (ps_listener p))"
    using gaps_grow [OF numbers_frames] .
  then show ?case by (cases "handleFrames u m (ps_listener p)") (simp_all add: worked_def)
next
  case (drain p e)
  then show ?case by (simp add: drained_def lost_def setErr_def Let_def split: option.split)
qed (simp_all add: lost_def got_message_def handed_def counted_def waited_def count_queue_def setErr_def)

lemma gaps_run: "rtranclp (listener_step u) p p' \<Longrightarrow> l_gaps (ps_listener p) \<le> l_gaps (ps_listener p')"
  by (induction rule: rtranclp_induct) (auto dest: gaps_step)

text \<open>
  C3: the gaps of a stream tell what was lost as long as the engine keeps counting.  In every
  state of a listener, with the numbers of the messages it accepted so far, replayed or live:
  the last number shown is the greatest of them; no gap is counted just when each number came
  after all the numbers between the first one and itself, so that none of them is missing; and a
  gap that was counted stays, over reconnections and replays, so that an engine whose stream had
  a gap is never trusted again by this listener.
\<close>

theorem gaps_tell_losses:
  assumes "rtranclp (listener_step u) (start_process l) p" "l = SetReplayEndpoint r (NewListener engine model endpoint topic)"
  shows "let h = Health (ps_listener p); ns = map sint (accepted_run u l (ps_history p)) in
    lh_last_seq h = (if ns = [] then 0 else Max (set ns))
    \<and> (lh_gaps h = 0 \<longleftrightarrow> unbroken ns)
    \<and> (ns \<noteq> [] \<and> lh_gaps h = 0 \<longrightarrow> {hd ns..lh_last_seq h} \<subseteq> set ns)
    \<and> 0 \<le> lh_gaps h
    \<and> (\<forall>p'. rtranclp (listener_step u) p p' \<longrightarrow> lh_gaps h \<le> lh_gaps (Health (ps_listener p')))"
proof -
  let ?ss = "accepted_run u l (ps_history p)" and ?l = "ps_listener p"
  let ?ns = "map sint ?ss"
  have "process_ok u l p" using assms(1) by (rule process_ok_reached) (simp add: assms(2) SetReplayEndpoint_def NewListener_def)
  then have "numbers ?l = numbers (foldl (one_loop u) l (ps_history p))" unfolding process_ok_def by (metis numbers_simps(3))
  then have same: "l_lastSeq ?l = l_lastSeq (track ?ss l)" "l_gaps ?l = l_gaps (track ?ss l)"
    unfolding numbers_run by (simp_all add: numbers_def)
  have fresh: "\<not> l_hasSeq l" "l_gaps l = 0" "l_lastSeq l = 0" by (simp_all add: assms(2) SetReplayEndpoint_def NewListener_def)
  note told = track_numbers [OF fresh(1,2), of ?ss]
  have last: "sint (l_lastSeq ?l) = (if ?ns = [] then 0 else Max (set ?ns))" using told fresh(3) by (simp add: same)
  have unb: "l_gaps ?l = 0 \<longleftrightarrow> unbroken ?ns" "0 \<le> l_gaps ?l" using told by (simp_all add: same)
  have "{hd ?ns..Max (set ?ns)} \<subseteq> set ?ns" if "?ns \<noteq> []" "unbroken ?ns"
  proof -
    have "Max (set ?ns) \<in> set ?ns" using that(1) by (intro Max_in) simp_all
    moreover from this obtain i where "i < length ?ns" "?ns ! i = Max (set ?ns)" by (metis in_set_conv_nth)
    with that(2) have "{hd ?ns..<Max (set ?ns)} \<subseteq> set (take i ?ns)" unfolding unbroken_def by metis
    then have "{hd ?ns..<Max (set ?ns)} \<subseteq> set ?ns" by (meson set_take_subset subset_trans)
    moreover have "{hd ?ns..Max (set ?ns)} \<subseteq> insert (Max (set ?ns)) {hd ?ns..<Max (set ?ns)}" by auto
    ultimately show ?thesis by blast
  qed
  with last unb gaps_run [of u p] show ?thesis by (simp add: Health_def Let_def)
qed

theorem gaps_tell_losses_witness:
  "lh_gaps (Health (ps_listener (applied_one (numbered 5)))) = 0"
proof -
  have ns: "accepted_run quiet fresh_listener (ps_history (applied_one (numbered 5))) = [5]" by code_simp
  have "unbroken (map sint [5 :: 64 word])" by (simp add: unbroken_def)
  then show ?thesis
    using gaps_tell_losses [OF applied_one_reached [of "numbered 5"] fresh_listener_def]
    unfolding Let_def ns by blast
qed

section \<open>What the numbers do not tell\<close>

text \<open>Messages one after the other; a panic ends them.\<close>

fun handle_all :: "unmarshal \<Rightarrow> message list \<Rightarrow> listener \<Rightarrow> listener option" where
  "handle_all u [] l = Some l"
| "handle_all u (m # ms) l = Option.bind (handleFrames u m l) (handle_all u ms)"

definition batch_in :: "unmarshal \<Rightarrow> message \<Rightarrow> kv_batch option" where
  "batch_in u m = (case ms_frames m of
     [_, number, payload] \<Rightarrow> if length number < 8 then None else batch_of u (be_uint64 number) payload | _ \<Rightarrow> None)"

lemma old_number: "l_hasSeq l \<Longrightarrow> sint s \<le> sint (l_lastSeq l) \<Longrightarrow> trackSeq s l = l"
  by (simp add: trackSeq_def)

lemma ingest_events: "is_events (ingest cx o_resolved st) = is_events st + int (length (bt_events (ix_batch cx)))"
proof -
  have "is_events (foldl (ingest_event cx ns seed bs) st evs) = is_events st" for ns seed bs st evs
    by (induction evs arbitrary: st)
      (simp_all add: ingest_event_def recorded_def skipped_def Let_def split: kv_kind.split option.split prod.split)
  moreover have "is_events (foldl (\<lambda>st ev. recorded cx ev [] [] [] False r st) st evs) = is_events st" for st evs r
    by (induction evs arbitrary: st) (simp_all add: recorded_def)
  ultimately show ?thesis by (simp add: ingest_def Let_def split: option.split)
qed

lemma old_message:
  assumes "batch_in u m = Some b" "l_hasSeq l" "sint (bt_seq b) \<le> sint (l_lastSeq l)"
  shows "handleFrames u m l = Some (apply_batch m b l)" "numbers (apply_batch m b l) = numbers l"
    "l_connected (apply_batch m b l) = l_connected l" "l_decErrs (apply_batch m b l) = l_decErrs l"
    "is_events (l_ingest (apply_batch m b l)) = is_events (l_ingest l) + int (length (bt_events b))"
proof -
  show "handleFrames u m l = Some (apply_batch m b l)"
    using assms(1) by (auto simp: batch_in_def batch_of_def handleFrames_def handle_payload_def split: list.splits if_splits sum.splits)
  show "numbers (apply_batch m b l) = numbers l" "l_connected (apply_batch m b l) = l_connected l"
    "l_decErrs (apply_batch m b l) = l_decErrs l"
    using assms(2,3) by (simp_all add: apply_batch_def old_number Let_def)
  show "is_events (l_ingest (apply_batch m b l)) = is_events (l_ingest l) + int (length (bt_events b))"
    using assms(2,3) by (simp add: apply_batch_def old_number ingest_events Let_def split: option.split)
qed

text \<open>
  C23: a restart of the engine goes unnoticed.  An engine that starts to count anew sends numbers
  that are not above the last one; whatever part of such messages arrives, each of them is
  applied, and the listener stays connected with the same last number and the same gaps: what is
  lost among them is not counted, so the stream is still trusted.  The next replay asks for the
  numbers after the old last one.
\<close>

theorem restart_goes_unnoticed:
  assumes "l_hasSeq l" "\<forall>m \<in> set ms. \<exists>b. batch_in u m = Some b \<and> sint (bt_seq b) \<le> sint (l_lastSeq l)"
  shows "\<exists>l'. handle_all u ms l = Some l' \<and> lh_gaps (Health l') = lh_gaps (Health l)
    \<and> lh_connected (Health l') = lh_connected (Health l) \<and> lh_last_seq (Health l') = lh_last_seq (Health l)
    \<and> lh_decode_errors (Health l') = lh_decode_errors (Health l) \<and> nextReplaySeq l' = nextReplaySeq l
    \<and> lh_events (Health l') = lh_events (Health l) + (\<Sum>m\<leftarrow>ms. int (length (bt_events (the (batch_in u m)))))"
  using assms
proof (induction ms arbitrary: l)
  case (Cons m ms)
  from Cons.prems(2) obtain b where b: "batch_in u m = Some b" "sint (bt_seq b) \<le> sint (l_lastSeq l)" by auto
  note m = old_message [OF b(1) Cons.prems(1) b(2)]
  let ?l = "apply_batch m b l"
  from m(2) have n: "l_hasSeq ?l = l_hasSeq l" "l_lastSeq ?l = l_lastSeq l" "l_gaps ?l = l_gaps l" by (simp_all add: numbers_def)
  from Cons.IH [of ?l] Cons.prems obtain l' where "handle_all u ms ?l = Some l'"
    "lh_gaps (Health l') = lh_gaps (Health ?l) \<and> lh_connected (Health l') = lh_connected (Health ?l)
      \<and> lh_last_seq (Health l') = lh_last_seq (Health ?l) \<and> lh_decode_errors (Health l') = lh_decode_errors (Health ?l)
      \<and> nextReplaySeq l' = nextReplaySeq ?l
      \<and> lh_events (Health l') = lh_events (Health ?l) + (\<Sum>m\<leftarrow>ms. int (length (bt_events (the (batch_in u m)))))"
    by (auto simp: n)
  with m n b(1) show ?case by (auto simp: Health_def nextReplaySeq_def)
qed simp

theorem restart_goes_unnoticed_witness:
  "\<exists>l'. handle_all quiet [numbered 0, numbered 3] (trackSeq 9 fresh_listener) = Some l' \<and> lh_gaps (Health l') = 0"
proof -
  have "batch_in quiet (numbered 0) = Some \<lparr>bt_seq = 0, bt_ts = Fin (0, 1), bt_dp = 0, bt_events = []\<rparr>"
    "batch_in quiet (numbered 3) = Some \<lparr>bt_seq = 3, bt_ts = Fin (0, 1), bt_dp = 0, bt_events = []\<rparr>" by code_simp+
  moreover have "l_hasSeq (trackSeq 9 fresh_listener)" "l_lastSeq (trackSeq 9 fresh_listener) = 9" "l_gaps (trackSeq 9 fresh_listener) = 0"
    by (simp_all add: trackSeq_def fresh_listener_def SetReplayEndpoint_def NewListener_def)
  ultimately show ?thesis
    using restart_goes_unnoticed [of "trackSeq 9 fresh_listener" "[numbered 0, numbered 3]" quiet] by (auto simp: Health_def)
qed

section \<open>Malformed messages\<close>

definition before_end :: "message list \<Rightarrow> message list" where
  "before_end ms = takeWhile (\<lambda>m. case ms_frames m of [] \<Rightarrow> True | f # _ \<Rightarrow> \<not> isReplayEnd f) ms"

lemma payload_counts: "l_decErrs (handle_payload u m sn pl l) + int (length (accepted_payload u sn pl)) = l_decErrs l + 1"
  by (simp add: handle_payload_def accepted_payload_def batch_of_def apply_batch_def bad_message_def trackSeq_def setErr_def Let_def
      split: sum.split)

lemma replay_counts:
  "l_decErrs (replay_loop u e ms l) + int (length (accepted_replay u ms)) = l_decErrs l + int (length (before_end ms))"
proof (induction ms arbitrary: l)
  case (Cons m ms)
  have bad: "l_decErrs (replay_loop u e ms (bad_message None l)) + int (length (accepted_replay u ms))
      = l_decErrs l + 1 + int (length (before_end ms))"
    unfolding Cons.IH by (simp add: bad_message_def)
  have good: "l_decErrs (replay_loop u e ms (handle_payload u m sn pl l)) + int (length (accepted_payload u sn pl @ accepted_replay u ms))
      = l_decErrs l + 1 + int (length (before_end ms))" for sn pl
    using Cons.IH [of "handle_payload u m sn pl l"] payload_counts [of u m sn pl l] by simp
  show ?case
  proof (cases "ms_frames m")
    case Nil
    then show ?thesis using bad by (simp add: before_end_def)
  next
    case (Cons number rest)
    then show ?thesis using bad good [of "be_uint64 number" "hd rest"] by (simp add: before_end_def)
  qed
qed (simp add: before_end_def setErr_def)

lemma bad_message_keeps: "l_ingest (bad_message e l) = l_ingest l" "l_connected (bad_message e l) = l_connected l"
    "l_decErrs (bad_message e l) = l_decErrs l + 1"
  by (simp_all add: bad_message_def setErr_def Let_def split: option.split)

text \<open>
  C27: what becomes of a malformed message.  A live message with three frames whose number is
  shorter than eight bytes stops the process; nothing else does.  Every other message is applied
  when its payload decodes, and counted as an error when not, with the index, the log and the
  numbers as they were.  Of a replay every message before the end mark is applied or counted, and
  none stops the process, whatever its number.
\<close>

theorem malformed_message_fate:
  "(handleFrames u m l = None \<longleftrightarrow> (\<exists>t n pl. ms_frames m = [t, n, pl] \<and> length n < 8))
    \<and> (\<forall>l'. handleFrames u m l = Some l' \<longrightarrow> (case batch_in u m of
        Some b \<Rightarrow> l' = apply_batch m b l \<and> l_decErrs l' = l_decErrs l
      | None \<Rightarrow> l_decErrs l' = l_decErrs l + 1 \<and> l_ingest l' = l_ingest l \<and> numbers l' = numbers l \<and> l_connected l' = l_connected l))
    \<and> l_decErrs (replay_loop u e ms l) = l_decErrs l + int (length (before_end ms)) - int (length (accepted_replay u ms))"
proof -
  have "handleFrames u m l = None \<longleftrightarrow> (\<exists>t n pl. ms_frames m = [t, n, pl] \<and> length n < 8)"
    by (auto simp: handleFrames_def split: list.splits)
  moreover have "case batch_in u m of
        Some b \<Rightarrow> l' = apply_batch m b l \<and> l_decErrs l' = l_decErrs l
      | None \<Rightarrow> l_decErrs l' = l_decErrs l + 1 \<and> l_ingest l' = l_ingest l \<and> numbers l' = numbers l \<and> l_connected l' = l_connected l"
    if "handleFrames u m l = Some l'" for l'
  proof -
    have "l_decErrs (apply_batch m b l) = l_decErrs l" for b by (simp add: apply_batch_def trackSeq_def Let_def)
    with that show ?thesis
      by (auto simp: handleFrames_def batch_in_def batch_of_def handle_payload_def bad_message_keeps
          split: list.splits if_splits sum.splits)
  qed
  ultimately show ?thesis using replay_counts [of u e ms l] by simp
qed

text \<open>Such a message does stop it: a process that is sent one has crashed.\<close>

definition short_message :: message where
  "short_message = \<lparr>ms_frames = [[], [7], []], ms_now = 0, ms_resolved = None\<rparr>"

theorem malformed_message_fate_witness:
  "rtranclp (listener_step quiet) (start_process fresh_listener) (applied_one short_message)
    \<and> ps_crashed (applied_one short_message)"
proof -
  have "handleFrames quiet short_message l = None" for l
    using malformed_message_fate [of quiet short_message l] by (simp add: short_message_def)
  then have "ps_crashed (applied_one short_message)" by (simp add: applied_one_def worked_def)
  with applied_one_reached show ?thesis by blast
qed

end
