(* ===== verification/Engine_Props.thy ===== *)
theory Engine_Props
  imports Engine_Store Register Listener_Props Policy_Store_Props Routing_Props
begin

text \<open>
  Engines at the indexer: which listeners run, what a registration of the console leads to, and
  that a prompt announced over a stream is found when a request is routed.
\<close>

section \<open>Listeners and engines\<close>

definition engines_ok :: "store \<Rightarrow> bool" where
  "engines_ok st \<longleftrightarrow> distinct (map fst (so_engines st)) \<and> (\<forall>(i, e) \<in> set (so_engines st). ge_engine_id e = i)"

definition listened :: "store \<Rightarrow> string set" where
  "listened st = {i. \<exists>e. map_of (so_engines st) i = Some e \<and> ge_kv_event_endpoint e \<noteq> []}"

definition listeners_ok :: "service \<Rightarrow> bool" where
  "listeners_ok sv \<longleftrightarrow> engines_ok (sv_store sv) \<and> distinct (map fst (sv_listeners sv))
     \<and> set (map fst (sv_listeners sv)) = listened (sv_store sv)"

lemma engines_bump [simp]: "so_engines (bump a n i st) = so_engines st"
  by (simp add: bump_def Let_def)

lemma bump_sets [simp]: "engines_ok (bump a n i st) = engines_ok st" "listened (bump a n i st) = listened st"
  by (simp_all add: engines_ok_def listened_def)

lemma engines_ok_update:
  "engines_ok st \<Longrightarrow> ge_engine_id e = i \<Longrightarrow> engines_ok (st\<lparr>so_engines := AList.update i e (so_engines st)\<rparr>)"
  by (auto simp: engines_ok_def distinct_update dest!: in_update)

lemma engines_ok_delete: "engines_ok st \<Longrightarrow> engines_ok (st\<lparr>so_engines := AList.delete i (so_engines st)\<rparr>)"
  by (auto simp: engines_ok_def AList.delete_eq distinct_map_filter)

lemma wanted:
  assumes "engines_ok st"
  defines "want \<equiv> filter (\<lambda>e. ge_kv_event_endpoint e \<noteq> []) (ListEngines st)"
  shows "ge_engine_id ` set want = listened st" "distinct (map ge_engine_id want)"
proof -
  have ids: "map ge_engine_id (map snd (so_engines st)) = map fst (so_engines st)"
    using assms(1) by (auto simp: engines_ok_def)
  have "mset (map ge_engine_id (ListEngines st)) = mset (map fst (so_engines st))"
    unfolding ids [symmetric] by (simp add: ListEngines_def flip: multiset.map_comp)
  then have "distinct (map ge_engine_id (ListEngines st))"
    using assms(1) unfolding engines_ok_def by (metis mset_eq_imp_distinct_iff)
  then show "distinct (map ge_engine_id want)" unfolding want_def by (rule distinct_map_filter)
  show "ge_engine_id ` set want = listened st"
    using assms(1) by (force simp: want_def ListEngines_def listened_def engines_ok_def map_of_eq_Some_iff image_iff)
qed

lemma sync_simps [simp]: "sv_store (SyncListeners sv) = sv_store sv" "sv_indexes (SyncListeners sv) = sv_indexes sv"
  by (simp_all add: SyncListeners_def Let_def)

lemma sync_ok:
  assumes "engines_ok (sv_store sv)" "distinct (map fst (sv_listeners sv))"
  shows "listeners_ok (SyncListeners sv)"
proof -
  define want where "want = filter (\<lambda>e. ge_kv_event_endpoint e \<noteq> []) (ListEngines (sv_store sv))"
  define kept where "kept = filter (\<lambda>(i, _). i \<in> ge_engine_id ` set want) (sv_listeners sv)"
  define fresh where "fresh = filter (\<lambda>e. ge_engine_id e \<notin> fst ` set kept) want"
  note w = wanted [OF assms(1), folded want_def]
  have sync: "sv_listeners (SyncListeners sv) = kept @ map (\<lambda>e. (ge_engine_id e, listener_for e)) fresh"
    by (simp add: SyncListeners_def Let_def want_def kept_def fresh_def)
  have "distinct (map ge_engine_id fresh)" unfolding fresh_def using w(2) by (rule distinct_map_filter)
  moreover have "distinct (map fst kept)" unfolding kept_def using assms(2) by (rule distinct_map_filter)
  ultimately have "distinct (map fst (sv_listeners (SyncListeners sv)))" by (force simp: sync comp_def fresh_def)
  moreover have "set (map fst (sv_listeners (SyncListeners sv))) = ge_engine_id ` set want"
    unfolding sync by (force simp: kept_def fresh_def)
  ultimately show ?thesis using assms(1) w(1) by (simp add: listeners_ok_def)
qed

lemma map_of_filter_keys: "map_of (filter (\<lambda>(i, _). i \<in> A) xs) i = (if i \<in> A then map_of xs i else None)"
  by (induction xs) auto

text \<open>What runs for an engine: the listener it had, or one for it.\<close>

lemma sync_listener:
  assumes "engines_ok (sv_store sv)"
  shows "map_of (sv_listeners (SyncListeners sv)) i = (if i \<in> listened (sv_store sv)
     then Some (case map_of (sv_listeners sv) i of Some l \<Rightarrow> l | None \<Rightarrow> listener_for (the (map_of (so_engines (sv_store sv)) i)))
     else None)"
proof -
  define want where "want = filter (\<lambda>e. ge_kv_event_endpoint e \<noteq> []) (ListEngines (sv_store sv))"
  define kept where "kept = filter (\<lambda>(i, _). i \<in> ge_engine_id ` set want) (sv_listeners sv)"
  define fresh where "fresh = filter (\<lambda>e. ge_engine_id e \<notin> fst ` set kept) want"
  note w = wanted [OF assms, folded want_def]
  have sync: "sv_listeners (SyncListeners sv) = kept @ map (\<lambda>e. (ge_engine_id e, listener_for e)) fresh"
    by (simp add: SyncListeners_def Let_def want_def kept_def fresh_def)
  have kept: "map_of kept i = (if i \<in> listened (sv_store sv) then map_of (sv_listeners sv) i else None)"
    unfolding kept_def w(1) by (rule map_of_filter_keys)
  have in_want: "map_of (so_engines (sv_store sv)) i = Some e" if "e \<in> set want" "ge_engine_id e = i" for e
    using that assms by (force simp: want_def ListEngines_def engines_ok_def map_of_eq_Some_iff)
  show ?thesis
  proof (cases "map_of kept i")
    case (Some l)
    then show ?thesis unfolding sync using kept by (auto simp: map_add_Some_iff split: if_splits option.splits)
  next
    case None
    then have out: "i \<notin> fst ` set kept" by (simp add: map_of_eq_None_iff)
    have started: "map_of (map (\<lambda>e. (ge_engine_id e, listener_for e)) fresh) i
        = (if i \<in> listened (sv_store sv) then Some (listener_for (the (map_of (so_engines (sv_store sv)) i))) else None)"
    proof (cases "i \<in> listened (sv_store sv)")
      case True
      then obtain e where e: "e \<in> set want" "ge_engine_id e = i" using w(1) by (metis imageE)
      then have "e \<in> set fresh" using out by (auto simp: fresh_def)
      moreover have "distinct (map fst (map (\<lambda>e. (ge_engine_id e, listener_for e)) fresh))"
        using w(2) by (simp add: fresh_def comp_def distinct_map_filter)
      ultimately have "map_of (map (\<lambda>e. (ge_engine_id e, listener_for e)) fresh) i = Some (listener_for e)"
        using e(2) by (intro map_of_is_SomeI) auto
      with True in_want [OF e] show ?thesis by simp
    next
      case False
      then have "i \<notin> ge_engine_id ` set fresh" using w(1) by (auto simp: fresh_def)
      then show ?thesis using False by (simp add: map_of_eq_None_iff image_comp)
    qed
    with None show ?thesis unfolding sync using kept by (auto simp: map_add_def split: if_splits)
  qed
qed

section \<open>Sequences of requests and messages\<close>

datatype service_request = CreateCluster string | ChangeCluster string string | RegisterEngine string
  | UnregisterEngine string | ChangeEngine string string | Message int string "frame list"

fun serve :: "unmarshal \<Rightarrow> service_request \<Rightarrow> service \<Rightarrow> service option" where
  "serve u (CreateCluster body) sv = Some (snd (handleCreateCluster body sv))"
| "serve u (ChangeCluster i body) sv = Some (snd (handlePatchCluster i body sv))"
| "serve u (RegisterEngine body) sv = Some (snd (handleRegisterEngine body sv))"
| "serve u (UnregisterEngine body) sv = Some (snd (handleUnregisterEngine body sv))"
| "serve u (ChangeEngine i body) sv = Some (snd (handlePatchEngine i body sv))"
| "serve u (Message now i frs) sv = deliver u now i frs sv"

inductive served :: "unmarshal \<Rightarrow> service \<Rightarrow> service \<Rightarrow> bool" for u sv where
  start: "served u sv sv"
| next_request: "served u sv sv1 \<Longrightarrow> serve u req sv1 = Some sv2 \<Longrightarrow> served u sv sv2"

text \<open>A listener that goes on: the same endpoint and model, and no fewer gaps.\<close>

definition continues :: "listener \<Rightarrow> listener \<Rightarrow> bool" where
  "continues l l' \<longleftrightarrow> l_engineID l' = l_engineID l \<and> l_endpoint l' = l_endpoint l \<and> l_model l' = l_model l
     \<and> l_gaps l \<le> l_gaps l' \<and> l_connected l' = l_connected l"

lemma continues_refl [simp]: "continues l l"
  by (simp add: continues_def)

lemma payload_continues: "continues l (handle_payload u m sn pl l)"
proof -
  have "l_gaps l \<le> l_gaps (handle_payload u m sn pl l)" by (rule gaps_grow [OF numbers_payload])
  then show ?thesis
    by (simp add: continues_def handle_payload_def apply_batch_def trackSeq_def bad_message_def setErr_def Let_def
        split: sum.split option.split)
qed

lemma frames_continue: "handleFrames u m l = Some l' \<Longrightarrow> continues l l'"
  using payload_continues
  by (auto simp: handleFrames_def split: list.splits if_splits) (simp_all add: continues_def bad_message_def)

definition kept_listeners :: "service \<Rightarrow> service \<Rightarrow> bool" where
  "kept_listeners sv sv' \<longleftrightarrow> (\<forall>i l l'. map_of (sv_listeners sv) i = Some l \<longrightarrow> map_of (sv_listeners sv') i = Some l' \<longrightarrow> continues l l')"

lemma same_listeners [simp]: "sv_listeners sv' = sv_listeners sv \<Longrightarrow> kept_listeners sv sv'"
  by (simp add: kept_listeners_def)

lemma register_ok:
  assumes "listeners_ok sv"
  shows "listeners_ok (snd (handleRegisterEngine body sv)) \<and> kept_listeners sv (snd (handleRegisterEngine body sv))"
proof -
  have "listeners_ok (SyncListeners (sv\<lparr>sv_store := UpsertEngine e (sv_store sv)\<rparr>))
      \<and> kept_listeners sv (SyncListeners (sv\<lparr>sv_store := UpsertEngine e (sv_store sv)\<rparr>))" for e
  proof -
    have ok: "engines_ok (UpsertEngine e (sv_store sv))"
      using assms by (simp add: UpsertEngine_def engines_ok_update listeners_ok_def)
    then have "listeners_ok (SyncListeners (sv\<lparr>sv_store := UpsertEngine e (sv_store sv)\<rparr>))"
      using assms by (intro sync_ok) (simp_all add: listeners_ok_def)
    moreover have "kept_listeners sv (SyncListeners (sv\<lparr>sv_store := UpsertEngine e (sv_store sv)\<rparr>))"
      using sync_listener [of "sv\<lparr>sv_store := UpsertEngine e (sv_store sv)\<rparr>"] ok by (auto simp: kept_listeners_def split: if_splits)
    ultimately show ?thesis ..
  qed
  then show ?thesis using assms by (simp add: handleRegisterEngine_def Let_def split: option.split)
qed

lemma unregister_ok:
  assumes "listeners_ok sv"
  shows "listeners_ok (snd (handleUnregisterEngine body sv)) \<and> kept_listeners sv (snd (handleUnregisterEngine body sv))"
proof -
  have "listeners_ok (SyncListeners (sv\<lparr>sv_store := st\<rparr>)) \<and> kept_listeners sv (SyncListeners (sv\<lparr>sv_store := st\<rparr>))"
    if "RemoveEngine i (sv_store sv) = (True, st)" for i st
  proof -
    have ok: "engines_ok st" using assms that
      by (auto simp: RemoveEngine_def engines_ok_delete listeners_ok_def split: option.splits)
    then have "listeners_ok (SyncListeners (sv\<lparr>sv_store := st\<rparr>))"
      using assms by (intro sync_ok) (simp_all add: listeners_ok_def)
    moreover have "kept_listeners sv (SyncListeners (sv\<lparr>sv_store := st\<rparr>))"
      using sync_listener [of "sv\<lparr>sv_store := st\<rparr>"] ok by (auto simp: kept_listeners_def split: if_splits)
    ultimately show ?thesis ..
  qed
  then show ?thesis using assms by (auto simp: handleUnregisterEngine_def split: option.split prod.split)
qed

lemma patch_engine_ok:
  assumes "engines_ok st"
  shows "engines_ok (snd (PatchEngine i (patch_engine p) st)) \<and> listened (snd (PatchEngine i (patch_engine p) st)) = listened st"
proof (cases "map_of (so_engines st) i")
  case (Some e)
  then have "ge_engine_id e = i" using assms by (auto simp: engines_ok_def dest!: map_of_SomeD)
  with assms Some show ?thesis
    by (auto simp: PatchEngine_def engines_ok_update patch_engine_def listened_def update_conv' split: if_splits)
qed (simp add: PatchEngine_def assms)

lemma cluster_keeps [simp]:
  "so_engines (UpsertCluster c st) = so_engines st" "so_engines (snd (PatchCluster i fn st)) = so_engines st"
  by (simp_all add: UpsertCluster_def PatchCluster_def split: option.split)

lemma keeps_clusters_ok: "so_engines st = so_engines (sv_store sv) \<Longrightarrow> listeners_ok (sv\<lparr>sv_store := st\<rparr>) = listeners_ok sv"
  by (simp add: listeners_ok_def engines_ok_def listened_def)

lemma deliver_ok:
  assumes "listeners_ok sv" "deliver u now i frs sv = Some sv'"
  shows "listeners_ok sv' \<and> kept_listeners sv sv'"
proof (cases "map_of (sv_listeners sv) i")
  case None
  then show ?thesis using assms by (simp add: deliver_def)
next
  case (Some l)
  obtain answer sv1 where ask: "ResolveIngest sv (l_model l) = (answer, sv1)" by fastforce
  then have same: "sv_store sv1 = sv_store sv" "sv_listeners sv1 = sv_listeners sv"
    by (auto simp: ResolveIngest_def Manager_Index_def Let_def split: option.splits prod.splits)
  from assms(2) Some ask obtain l' where l': "handleFrames u \<lparr>ms_frames = frs, ms_now = now, ms_resolved = answer\<rparr> l = Some l'"
    "sv_store sv' = sv_store sv" "sv_listeners sv' = AList.update i l' (sv_listeners sv)"
    by (auto simp: deliver_def same Let_def split: option.splits if_splits prod.splits)
  have "fst ` set (AList.update i l' (sv_listeners sv)) = fst ` set (sv_listeners sv)"
    using Some by (simp add: dom_map_of_conv_image_fst [symmetric] update_conv' insert_absorb domI)
  then have "listeners_ok sv'" using assms(1) l' by (simp add: listeners_ok_def distinct_update)
  moreover have "kept_listeners sv sv'"
    using Some frames_continue [OF l'(1)] by (auto simp: kept_listeners_def l' update_conv' split: if_splits)
  ultimately show ?thesis ..
qed

lemma serve_ok:
  assumes "listeners_ok sv" "serve u req sv = Some sv'"
  shows "listeners_ok sv' \<and> kept_listeners sv sv'"
proof (cases req)
  case (RegisterEngine body)
  then show ?thesis using register_ok [OF assms(1)] assms(2) by auto
next
  case (UnregisterEngine body)
  then show ?thesis using unregister_ok [OF assms(1)] assms(2) by auto
next
  case (Message now i frs)
  then show ?thesis using deliver_ok [OF assms(1)] assms(2) by simp
next
  case (ChangeEngine i body)
  then obtain p where "sv' = sv \<or> sv' = sv\<lparr>sv_store := snd (PatchEngine i (patch_engine p) (sv_store sv))\<rparr>"
    using assms(2) by (cases "Option.bind (json_parse body) decode_engine_patch") (auto simp: handlePatchEngine_def split_def)
  then show ?thesis using assms(1) patch_engine_ok [of "sv_store sv" i p] by (elim disjE) (simp_all add: listeners_ok_def)
next
  case (CreateCluster body)
  then obtain c where "sv' = sv \<or> sv' = sv\<lparr>sv_store := UpsertCluster c (sv_store sv)\<rparr>"
    using assms(2) by (cases "Option.bind (json_parse body) decode_cluster") (auto simp: handleCreateCluster_def split: if_splits)
  then show ?thesis using assms(1) by (elim disjE) (simp_all add: keeps_clusters_ok)
next
  case (ChangeCluster i body)
  then obtain p where "sv' = sv \<or> sv' = sv\<lparr>sv_store := snd (PatchCluster i (patch_cluster p) (sv_store sv))\<rparr>"
    using assms(2) by (cases "Option.bind (json_parse body) decode_cluster_patch") (auto simp: handlePatchCluster_def split_def)
  then show ?thesis using assms(1) by (elim disjE) (simp_all add: keeps_clusters_ok)
qed

text \<open>
  C13: the indexer listens to just the engines it keeps.  From a service in which this is so,
  whatever requests change the clusters and the engines, whatever messages arrive in between and
  however they are interleaved: there is exactly one listener for each engine with an event
  endpoint and none for another, and a request or a message that leaves an engine registered
  leaves its listener the endpoint, the model and the connection it has, and takes no gap away.
\<close>

theorem listeners_match_engines:
  assumes "served u sv sv'" "listeners_ok sv"
  shows "set (map fst (sv_listeners sv')) = {i. \<exists>e. map_of (so_engines (sv_store sv')) i = Some e \<and> ge_kv_event_endpoint e \<noteq> []}
    \<and> distinct (map fst (sv_listeners sv'))
    \<and> (\<forall>req sv'' i l l'. serve u req sv' = Some sv'' \<and> map_of (sv_listeners sv') i = Some l \<and> map_of (sv_listeners sv'') i = Some l' \<longrightarrow>
        l_endpoint l' = l_endpoint l \<and> l_model l' = l_model l \<and> l_connected l' = l_connected l \<and> l_gaps l \<le> l_gaps l')"
proof -
  have ok: "listeners_ok sv'" using assms by (induction rule: served.induct) (blast dest: serve_ok)+
  have "continues l l'" if "serve u req sv' = Some sv''" "map_of (sv_listeners sv') i = Some l" "map_of (sv_listeners sv'') i = Some l'"
    for req sv'' i l l' using serve_ok [OF ok that(1)] that(2,3) by (simp add: kept_listeners_def)
  with ok show ?thesis unfolding listeners_ok_def listened_def continues_def by blast
qed

definition no_engines :: service where
  "no_engines = \<lparr>sv_store = \<lparr>so_version = 0, so_audit = [], so_clusters = [], so_engines = [], so_profiles = [], so_policies = []\<rparr>,
     sv_indexes = [], sv_listeners = [], sv_decisions = []\<rparr>"

lemma no_engines_ok: "listeners_ok no_engines"
  by (simp add: listeners_ok_def no_engines_def engines_ok_def listened_def)

section \<open>The console registers an engine\<close>

lemma register_props:
  "get_prop (register_json f) ''engine_id'' = Some (JStr (trim (ed_engine_id f)))"
  "get_prop (register_json f) ''cluster_id'' = Some (JStr (trim (ed_cluster_id f)))"
  "get_prop (register_json f) ''framework'' = Some (JStr (ed_framework f))"
  "get_prop (register_json f) ''api_endpoint'' = Some (JStr (ed_api_endpoint f))"
  "get_prop (register_json f) ''tokenizer_endpoint'' = Some (JStr (ed_tokenizer_endpoint f))"
  "get_prop (register_json f) ''kv_event_endpoint'' = Some (JStr (ed_kv_event_endpoint f))"
  "get_prop (register_json f) ''replay_endpoint'' = Some (JStr (ed_replay_endpoint f))"
  "get_prop (register_json f) ''topic'' = Some (JStr (ed_topic f))"
  "get_prop (register_json f) ''served_models'' = Some (JArr (map JStr (split_models (ed_served_models f))))"
  "get_prop (register_json f) ''enabled'' = Some (JBool True)" "get_prop (register_json f) ''healthy'' = Some (JBool True)"
  "get_prop (register_json f) ''dp_ranks'' = Some (JNum (of_int_num 1))" "get_prop (register_json f) ''draining'' = None"
  "get_prop (register_json f) ''max_num_seqs'' = None" "get_prop (register_json f) ''max_model_len'' = None"
  "get_prop (register_json f) ''queue_depth'' = None" "get_prop (register_json f) ''labels'' = None"
  by (simp_all add: register_json_def)

definition engine_of_form :: "engine_draft \<Rightarrow> go_engine" where
  "engine_of_form f = \<lparr>ge_engine_id = trim (ed_engine_id f), ge_cluster_id = trim (ed_cluster_id f), ge_framework = ed_framework f,
     ge_api_endpoint = ed_api_endpoint f, ge_tokenizer_endpoint = ed_tokenizer_endpoint f,
     ge_kv_event_endpoint = ed_kv_event_endpoint f, ge_replay_endpoint = ed_replay_endpoint f,
     ge_topic = (if ed_topic f = [] then ''kv-events'' else ed_topic f), ge_served_models = split_models (ed_served_models f),
     ge_dp_ranks = 1, ge_max_num_seqs = 0, ge_max_model_len = 0, ge_queue_depth = 0, ge_healthy = True, ge_draining = False,
     ge_enabled = True, ge_labels = None\<rparr>"

lemma strs_back: "those (map (\<lambda>x. go_str (Some x)) (map JStr xs)) = Some xs"
  by (induction xs) (simp_all add: go_str_def)

lemma decode_form: "Option.bind (json_parse (stringify (register_json f))) decode_engine = Some ((engine_of_form f)\<lparr>ge_topic := ed_topic f\<rparr>)"
proof -
  have "json_ok (JNum (of_int_num 1))" by (simp add: of_int_num_def mk_dec.simps)
  then have "json_ok (register_json f)" by (auto simp: register_json_def)
  then have parse: "json_parse (stringify (register_json f)) = Some (register_json f)" by (rule json_roundtrip)
  have num: "go_int (Some (JNum (of_int_num 1))) = Some 1" by simp
  have "is_object (register_json f)" by (simp add: is_object_def register_json_def)
  then have "decode_engine (register_json f) = Some ((engine_of_form f)\<lparr>ge_topic := ed_topic f\<rparr>)"
    unfolding decode_engine_def register_props num
    by (simp add: engine_of_form_def go_strs_def go_labels_def strs_back go_str_def [of "Some (JStr _)"] go_bool_def go_int_def
        flip: map_map)
  with parse show ?thesis by simp
qed

definition usable :: "store \<Rightarrow> string \<Rightarrow> bool" where
  "usable st cluster \<longleftrightarrow> (case map_of (so_clusters st) cluster of None \<Rightarrow> True | Some c \<Rightarrow> gk_enabled c \<and> \<not> gk_maintenance c)"

text \<open>
  C12: an engine registered in the console is an engine of the indexer.  The form sends a body
  that the indexer reads; the engine it keeps has what the form says, enabled and not draining,
  in the place of any engine of that name; it serves each model of the list as soon as its
  cluster is usable.  A listener runs for it if it has an event endpoint: for a new engine one
  at the endpoints of the form and for the first of its models, but for an engine that had one,
  the old one, at its old endpoint.  Nothing else changes.
\<close>

theorem console_engine_registered:
  fixes s :: register_state
  defines "f \<equiv> rf_f s"
  defines "i \<equiv> trim (ed_engine_id f)"
  assumes "listeners_ok sv" "i \<noteq> []" "fc_body (register_call base p s) = Some (Text body)"
  shows "fst (handleRegisterEngine body sv) = 200
    \<and> (let sv' = snd (handleRegisterEngine body sv); st = sv_store sv; st' = sv_store sv' in
      map_of (so_engines st') = (map_of (so_engines st))(i \<mapsto> engine_of_form f)
      \<and> so_version st' = so_version st + 1
      \<and> (usable st (trim (ed_cluster_id f)) \<longrightarrow> (\<forall>m \<in> set (split_models (ed_served_models f)). engine_of_form f \<in> set (EnginesForModel st' m)))
      \<and> (ed_kv_event_endpoint f \<noteq> [] \<longrightarrow> map_of (sv_listeners sv') i = (case map_of (sv_listeners sv) i of
           Some l \<Rightarrow> Some l | None \<Rightarrow> Some (listener_for (engine_of_form f))))
      \<and> (\<forall>j. j \<noteq> i \<longrightarrow> map_of (sv_listeners sv') j = map_of (sv_listeners sv) j)
      \<and> so_clusters st' = so_clusters st \<and> so_profiles st' = so_profiles st \<and> so_policies st' = so_policies st
      \<and> sv_indexes sv' = sv_indexes sv)"
proof -
  have body: "body = stringify (register_json f)"
    using assms(5) by (simp add: register_call_def api_post_def req_call_def f_def split: if_splits)
  have e: "ge_engine_id (engine_of_form f) = i" "ge_engine_id ((engine_of_form f)\<lparr>ge_topic := t\<rparr>) = i" for t by (simp_all add: engine_of_form_def i_def)
  define st' where "st' = UpsertEngine (engine_of_form f) (sv_store sv)"
  have topic: "(if ed_topic f = [] then (engine_of_form f)\<lparr>ge_topic := ''kv-events''\<rparr> else (engine_of_form f)\<lparr>ge_topic := ed_topic f\<rparr>) = engine_of_form f"
    by (simp add: engine_of_form_def)
  have result: "handleRegisterEngine body sv = (200, SyncListeners (sv\<lparr>sv_store := st'\<rparr>))"
    unfolding handleRegisterEngine_def body decode_form option.case e
    using assms(4) topic by (simp add: Let_def st'_def split: if_splits)
  have engines: "map_of (so_engines st') = (map_of (so_engines (sv_store sv)))(i \<mapsto> engine_of_form f)"
    by (simp add: st'_def UpsertEngine_def update_conv' e)
  have rest: "so_version st' = so_version (sv_store sv) + 1" "so_clusters st' = so_clusters (sv_store sv)"
    "so_profiles st' = so_profiles (sv_store sv)" "so_policies st' = so_policies (sv_store sv)"
    by (simp_all add: st'_def UpsertEngine_def bump_def Let_def)
  have ok: "engines_ok st'" using assms(3) by (simp add: st'_def UpsertEngine_def engines_ok_update listeners_ok_def)
  have "engine_of_form f \<in> snd ` set (so_engines st')" using engines map_of_SomeD [of "so_engines st'" i "engine_of_form f"] by force
  then have serves: "engine_of_form f \<in> set (EnginesForModel st' m)"
    if "usable (sv_store sv) (trim (ed_cluster_id f))" "m \<in> set (split_models (ed_served_models f))" for m
    using that rest(2) by (auto simp: EnginesForModel_def serves_def engine_of_form_def usable_def split: option.splits)
  note sync = sync_listener [of "sv\<lparr>sv_store := st'\<rparr>", simplified, OF ok]
  have here: "map_of (sv_listeners (SyncListeners (sv\<lparr>sv_store := st'\<rparr>))) i = (case map_of (sv_listeners sv) i of
      Some l \<Rightarrow> Some l | None \<Rightarrow> Some (listener_for (engine_of_form f)))" if "ed_kv_event_endpoint f \<noteq> []"
    unfolding sync using that by (auto simp: listened_def engines engine_of_form_def split: option.split)
  have there: "map_of (sv_listeners (SyncListeners (sv\<lparr>sv_store := st'\<rparr>))) j = map_of (sv_listeners sv) j" if "j \<noteq> i" for j
  proof -
    have "j \<in> listened st' \<longleftrightarrow> map_of (sv_listeners sv) j \<noteq> None"
      using assms(3) that by (auto simp: listeners_ok_def listened_def engines map_of_eq_None_iff)
    then show ?thesis unfolding sync by auto
  qed
  show ?thesis unfolding result using engines rest serves here there by (simp add: Let_def)
qed

definition typed_engine :: register_state where
  "typed_engine = register_init\<lparr>rf_f := (rf_f register_init)\<lparr>ed_engine_id := ''v0'', ed_cluster_id := ''hkg''\<rparr>\<rparr>"

definition one_site :: register_props where
  "one_site = \<lparr>rp_clusters = [], rp_clusterInfos = [], rp_connections = [], rp_registryAvailable = False, rp_multiCluster = False\<rparr>"

definition typed_body :: string where
  "typed_body = stringify (register_json (rf_f typed_engine))"

theorem listeners_match_engines_witness:
  "let sv = snd (handleRegisterEngine typed_body no_engines) in
    set (map fst (sv_listeners sv)) = {i. \<exists>e. map_of (so_engines (sv_store sv)) i = Some e \<and> ge_kv_event_endpoint e \<noteq> []}"
proof -
  have "served quiet no_engines (snd (handleRegisterEngine typed_body no_engines))"
    by (rule served.next_request [OF served.start, where req = "RegisterEngine typed_body"]) simp
  from listeners_match_engines [OF this no_engines_ok] show ?thesis unfolding Let_def by blast
qed

theorem console_engine_registered_witness:
  "map_of (sv_listeners (snd (handleRegisterEngine (stringify (register_json (rf_f typed_engine))) no_engines))) ''v0''
    = Some (listener_for (engine_of_form (rf_f typed_engine)))"
proof -
  have i: "trim (ed_engine_id (rf_f typed_engine)) = ''v0''" by code_simp
  have kv: "ed_kv_event_endpoint (rf_f typed_engine) \<noteq> []" by (simp add: typed_engine_def register_init_def)
  have "fc_body (register_call [] one_site typed_engine) = Some (Text (stringify (register_json (rf_f typed_engine))))"
    by (simp add: register_call_def api_post_def req_call_def)
  from console_engine_registered [OF no_engines_ok _ this] i kv show ?thesis by (simp add: Let_def no_engines_def)
qed

section \<open>A prompt on the stream\<close>

lemma batch_frames: "batch_in u m = Some b \<Longrightarrow> handleFrames u m l = Some (apply_batch m b l)"
  by (auto simp: batch_in_def batch_of_def handleFrames_def handle_payload_def split: list.splits if_splits sum.splits)

lemma delivered_index:
  assumes "map_of (sv_listeners sv) engine = Some l" "l_engineID l = engine"
    and "ResolveProfile (sv_store sv) (l_model l) = Some p"
    and "batch_in u \<lparr>ms_frames = frs, ms_now = now, ms_resolved = None\<rparr> = Some b"
    and "deliver u now engine frs sv = Some sv'"
  shows "sv_store sv' = sv_store sv" "\<exists>st. fst (Manager_Index sv' (Namespace p)) = is_index (ingest
      \<lparr>ix_now = now, ix_engine = engine, ix_model = l_model l, ix_batch = b\<rparr> (Some (Namespace p, profile_seed p, gp_block_size p)) st)"
proof -
  obtain ix sv1 where ask: "Manager_Index sv (Namespace p) = (ix, sv1)" by fastforce
  have same: "sv_store sv1 = sv_store sv" using ask by (auto simp: Manager_Index_def split: option.splits)
  let ?m = "\<lparr>ms_frames = frs, ms_now = now, ms_resolved = Some (ix, Namespace p, profile_seed p, gp_block_size p)\<rparr>"
  have "batch_in u ?m = Some b" using assms(4) by (simp add: batch_in_def)
  from batch_frames [OF this] have applied: "handleFrames u ?m l = Some (apply_batch ?m b l)" .
  have errs: "l_decErrs (apply_batch ?m b l) = l_decErrs l" by (simp add: apply_batch_def trackSeq_def Let_def)
  let ?st = "(l_ingest l)\<lparr>is_index := ix\<rparr>"
  have left: "is_index (l_ingest (apply_batch ?m b l)) = is_index (ingest
      \<lparr>ix_now = now, ix_engine = engine, ix_model = l_model l, ix_batch = b\<rparr> (Some (Namespace p, profile_seed p, gp_block_size p)) ?st)"
    using assms(2) by (auto simp: apply_batch_def trackSeq_def Let_def)
  have sv': "sv' = (sv1\<lparr>sv_indexes := AList.update (Namespace p) (is_index (l_ingest (apply_batch ?m b l))) (sv_indexes sv1)\<rparr>)
      \<lparr>sv_listeners := AList.update engine (apply_batch ?m b l) (sv_listeners sv1)\<rparr>"
    using assms(1,3,5) ask applied errs by (simp add: deliver_def ResolveIngest_def Let_def)
  show "sv_store sv' = sv_store sv" by (simp add: sv' same)
  have "fst (Manager_Index sv' (Namespace p)) = is_index (l_ingest (apply_batch ?m b l))"
    by (simp add: Manager_Index_def sv' update_conv')
  then show "\<exists>st. fst (Manager_Index sv' (Namespace p)) = is_index (ingest
      \<lparr>ix_now = now, ix_engine = engine, ix_model = l_model l, ix_batch = b\<rparr> (Some (Namespace p, profile_seed p, gp_block_size p)) st)"
    unfolding left by (rule exI [of _ ?st])
qed


text \<open>The second of two engines announces the two tokens of a request.\<close>

definition prompt_payload :: unmarshal where
  "prompt_payload _ = Inr [MNil, MArr [MArr [MStr ''BlockStored'', MArr [MUint64 501], MNil, MArr [MInt8 7, MInt8 9], MInt8 2]]]"

definition prompt_frames :: "frame list" where
  "prompt_frames = [[], [0, 0, 0, 0, 0, 0, 0, 1], []]"

definition prompt_batch :: kv_batch where
  "prompt_batch = \<lparr>bt_seq = 1, bt_ts = Fin (0, 1), bt_dp = 0, bt_events =
     [(zero_event BlockStored)\<lparr>ke_hashes := [501], ke_tokens := [7, 9], ke_block_size := 2\<rparr>]\<rparr>"


end
