(* ===== verification/Spec2Isabelle.thy ===== *)
theory Spec2Isabelle
  imports Proxy Stream_Runs Policy_Runs Engine_Runs Profile_Runs Registry_Runs Simulator_Runs
    Records_Props Chart_Props Api_Docs Layout Labels Policy_Meaning Decode_Props Engine_Props
begin

text \<open>
  A verification library for ucloud-kv-indexer, a fleet of KV-cache indexers behind a gateway:
  the web console (\<open>src/web\<close>, TypeScript), which is modelled in full, and those parts of the Go
  services (\<open>src/internal\<close>) that are the other end of what the console does.

  \<^bold>\<open>The program.\<close>  Indexers admit requests to inference engines by the share of a prompt that
  an engine has cached; a gateway keeps a registry of indexers and speaks for all of them.  The
  console runs in a browser.  Its pages fetch from \<open>/api/kvi\<close>, a route of its own server that
  relays to the gateway, so that every request goes page, \<open>lib/api.ts\<close>, proxy, gateway, indexer.
  A selected cluster (\<open>lib/cluster.tsx\<close>) scopes the paths; \<open>lib/i18n.tsx\<close> gives the texts.

  \<^bold>\<open>The language.\<close>  \<open>Prelude\<close> (strings, lists and optional values of JavaScript), \<open>Js_Number\<close>
  (numbers as the decimals they print), \<open>Js_Float\<close> (doubles), \<open>Js_Json\<close> (\<open>JSON.stringify\<close> and
  \<open>JSON.parse\<close>), \<open>Js_Date\<close> (\<open>Date.parse\<close>), \<open>Uri\<close> (\<open>encodeURIComponent\<close>, paths with parameters;
  the locale \<open>query_appender\<close> is the contract of a function that adds a parameter) and \<open>React\<close>
  (state cells as records, effects that run until they come to rest, the locale \<open>settling\<close>,
  rendered trees and the events they offer a user).

  \<^bold>\<open>The console.\<close>
  \<^item> \<open>Api_Types\<close>, \<open>Api\<close>: \<open>lib/api.ts\<close>.  When a request resolves, which message a failed one has,
    that a posted value arrives, when a stream changes its status.
  \<^item> \<open>Proxy\<close>: \<open>app/api/kvi/[...path]/route.ts\<close>.  Which headers pass in each direction, although
    they are deleted while they are iterated, and which URL is called.
  \<^item> \<open>Cluster\<close>: \<open>lib/cluster.tsx\<close>, \<open>components/cluster-switcher.tsx\<close>.  The selection as a step
    relation with the invariant that it is \<open>all\<close> or listed; what a scoped path means.
  \<^item> \<open>I18n_En\<close>, \<open>I18n_Zh\<close>, \<open>Placeholders\<close>, \<open>I18n\<close>, \<open>Labels\<close>: \<open>lib/i18n.tsx\<close> and
    \<open>components/locale-toggle.tsx\<close>.  Both dictionaries, the lookup, placeholders as a
    simultaneous substitution, and the keys that are put together at run time.
  \<^item> \<open>Chrome\<close>, \<open>Sidebar\<close>, \<open>Layout\<close>: \<open>app/layout.tsx\<close>, \<open>components/providers.tsx\<close>, \<open>app-sidebar\<close>,
    \<open>nav-user\<close>, \<open>site-header\<close>, \<open>theme-toggle\<close>, \<open>page\<close>, \<open>ui/sidebar\<close> and \<open>hooks/use-mobile.ts\<close>.  The
    frame of every page as one state with its steps.
  \<^item> \<open>Stream_Status\<close>, \<open>Event_Log\<close>, \<open>Streams\<close>, \<open>Stream_Runs\<close>: \<open>components/stream-status.tsx\<close> and
    \<open>app/streams/page.tsx\<close>.  The live log and the pager have contracts (\<open>bounded_log\<close>,
    \<open>paging\<close>); the page is a step relation of the user, the event source and the queries.
  \<^item> \<open>Policy_Form\<close>, \<open>Policy_View\<close>, \<open>Policy_Page\<close>, \<open>Policy_Props\<close>, \<open>Policy_Runs\<close>:
    \<open>app/policies/page.tsx\<close>.  The form of a rule, its way to a request and back, the preview, the
    list, and the runs of the page.
  \<^item> \<open>Connections\<close>, \<open>Connection_Runs\<close>, \<open>Register\<close>, \<open>Engines\<close>, \<open>Engine_Runs\<close>:
    \<open>app/engines/page.tsx\<close>.  The panel of the connections, the registration with its two effects
    that feed each other, and the engines.
  \<^item> \<open>Profiles\<close>, \<open>Profile_Page\<close>, \<open>Profile_Runs\<close>: \<open>app/profiles/page.tsx\<close>.  The editor, the
    announcement of a new version, the save as a plan of calls.
  \<^item> \<open>Simulator\<close>, \<open>Simulator_Runs\<close>: \<open>app/simulator/page.tsx\<close>.  A run as a state machine whose
    answers may come in any state of the fields.
  \<^item> \<open>Records\<close>, \<open>Records_Props\<close>: \<open>app/page.tsx\<close>, \<open>app/decisions/page.tsx\<close>, \<open>app/audit/page.tsx\<close>.
  \<^item> \<open>Chart\<close>, \<open>Chart_Props\<close>: \<open>components/ui/chart.tsx\<close> and the chart of \<open>app/page.tsx\<close>.  The style
    sheet with the colours of the series, tooltips and legends; what the overview's chart tells.
  \<^item> \<open>Api_Docs\<close>: \<open>app/api-docs/page.tsx\<close>.

  \<^bold>\<open>The services.\<close>
  \<^item> \<open>Registry\<close>, \<open>Registry_Runs\<close>: the connections of the gateway (\<open>internal/gateway/store.go\<close>,
    \<open>gateway.go\<close>).  The locale \<open>connection_store\<close> is the contract of the registry; the panel's
    toggle and save refine one update of it.
  \<^item> \<open>Profile_Store\<close>: the profiles (\<open>internal/config/store.go\<close>, \<open>model.go\<close> and the forms of
    \<open>gateway/local_tokenizer.go\<close>), which the version announcement is compared with.
  \<^item> \<open>Residency\<close>, \<open>Residency_Props\<close>, \<open>Residency_Query\<close>: the index of cached blocks
    (\<open>internal/residency\<close>), its keys as hashes of 64 bits.  The index refines a relation of
    residents and blocks, with the invariant that an engine lists what it holds; the query finds
    the longest cached prefix.
  \<^item> \<open>Decode\<close>, \<open>Decode_Props\<close>: the decoding of event batches (\<open>internal/kvevents/decode.go\<close>).  A
    batch written as documented is read back; how a number is read depends on its width.
  \<^item> \<open>Ingest\<close>: the application of decoded events (\<open>internal/kvevents/listener.go\<close>).
    A prompt announced in pieces is found as a whole; what is skipped changes nothing.
  \<^item> \<open>Listener\<close>, \<open>Listener_Props\<close>: the rest of \<open>listener.go\<close>, the numbers of the messages, the
    live stream and the replay, and the two goroutines with their queue as the step relation
    \<open>listener_step\<close>, which refines one loop.  What the numbers tell of lost messages, and what not.
  \<^item> \<open>Go_Value\<close>, \<open>Admission\<close>, \<open>Admission_Props\<close>, \<open>Best_Hit\<close>: the admission judgement
    (\<open>internal/admission\<close>) on the dynamic values of Go.  The first match decides whatever the
    sorting algorithm (the locale \<open>rule_sort\<close>); the best hit is the best of the index, and the
    share it gives is rounded to a double that stays between nothing and one.
  \<^item> \<open>Routing\<close>, \<open>Routing_Props\<close>: the judgement of a request (\<open>internal/httpapi/route.go\<close>,
    \<open>service.go\<close>) over the configuration, the streams, the index and the rules: why a request
    may be turned away, and where an accepted one goes.
  \<^item> \<open>Policy_Store\<close>, \<open>Policy_Store_Props\<close>, \<open>Policy_Meaning\<close>: the rules at an indexer
    (\<open>internal/config\<close>, \<open>httpapi/config_handlers.go\<close>).  The store refines a map; a rule made in
    the console's form means to the judgement what the form says.
  \<^item> \<open>Engine_Store\<close>, \<open>Engine_Props\<close>: clusters and engines in the same files, and the listeners of
    \<open>httpapi/service.go\<close>.  There is one listener for each engine with an event endpoint in every
    state; an engine of the console's form is kept and listened to; a prompt that arrives on a
    stream is found when a request is routed.

  \<^bold>\<open>How the theorems are stated.\<close>  A handler is a function from an event and a state to the new
  state and the requests it makes; a request is a \<open>fetch_call\<close> that \<open>Api\<close> relates to what
  arrives.  A theorem about a page quantifies over the events the rendered page offers, over the
  order in which answers come, and over everything the user may have typed.  Where the code
  does not do what it means to, the theorem says what it does.

  \<^bold>\<open>Bounds.\<close>  The JSON parser has fuel, the length of its text, which is proved to be enough for
  every printed value.  Effects come to rest after one or two rounds (the second argument of each
  interpretation of \<open>settling\<close>).  A run of the simulator is driven for three answers, the most it
  takes.  The queue of a listener holds 8192 messages; its counters are unbounded numbers, and its
  sequence numbers words of 64 bits.  Integers that pass through JSON are below \<open>10 ^ 18\<close> where a theorem says so, which
  keeps a whole number printed without an exponent; counts of tokens are below \<open>2 ^ 53\<close> where they
  are compared as doubles.  The keys of blocks are words of 64 bits, tokens of 32.

  \<^bold>\<open>Not modelled.\<close>  Class names, icons and focus; notices (toasts); the cache of the query
  library, whose results are inputs of the model that change at any time, and its invalidation;
  what third-party providers and primitives do; the generated components under
  \<open>components/ui\<close> other than the sidebar and the chart, which are styling over such primitives
  (their contract is the meaning of the elements in \<open>React\<close>); the order that
  JavaScript gives to integer-like keys of an object; literals of more digits than a double
  holds; the browser's own formatting of dates.  Of the services the model holds what the list
  above names: the transport, the sockets, the MessagePack library, the normalization of the
  protocols, the tokenizers, the buffers of recent events, the handlers of profiles, the
  persistence and the deployment are other programs, seen through their interfaces.
\<close>

end
